(* ===== verification/Prelude.thy ===== *)
theory Prelude
  imports Main "HOL-Library.Word" "HOL-Library.Log_Nat" "HOL-Library.Sublist"
begin

text \<open>
  What the Go sources use of their language and standard library, and the generic lemmas every
  component shares: byte slices and strings, little-endian integers, UTF-8, letter case, IEEE
  doubles, and the reader/writer a connection is. Nothing here models a file of the repository;
  each definition says which Go function it stands for.

  A Go string is a sequence of bytes, here an Isabelle string (a \<open>char\<close> is one byte); a Go
  byte slice is a list of 8-bit words. The conversions \<open>[]byte(s)\<close> and \<open>string(b)\<close> are
  \<open>bytes_of\<close> and \<open>string_of\<close>.
\<close>

unbundle bit_operations_syntax

named_theorems wire_simps \<comment> \<open>reading back what was written\<close>
named_theorems io_defs \<comment> \<open>the primitives of the reader and writer\<close>

section \<open>Bytes and strings\<close>

type_synonym byte = "8 word"
type_synonym bytes = "byte list"
type_synonym u16 = "16 word"
type_synonym u32 = "32 word"

definition bytes_of :: "string \<Rightarrow> bytes" where
  "bytes_of s = map (\<lambda>c. of_nat (of_char c)) s"

definition string_of :: "bytes \<Rightarrow> string" where
  "string_of b = map (\<lambda>x. char_of (unat x)) b"

lemma length_bytes_of [simp]: "length (bytes_of s) = length s"
  by (simp add: bytes_of_def)

lemma length_string_of [simp]: "length (string_of b) = length b"
  by (simp add: string_of_def)

lemma bytes_of_Nil [simp]: "bytes_of [] = []"
  by (simp add: bytes_of_def)

lemma bytes_of_eq_Nil [simp]: "bytes_of s = [] \<longleftrightarrow> s = []"
  by (simp add: bytes_of_def)

lemma bytes_of_append [simp]: "bytes_of (s @ t) = bytes_of s @ bytes_of t"
  by (simp add: bytes_of_def)

lemma of_char_lt_256 [simp]: "(of_char c :: nat) < 256"
  by simp

lemma unat_byte [simp]: "unat (b :: byte) < 256"
proof -
  have "unat b < 2 ^ LENGTH(8)" by (rule unsigned_less)
  then show ?thesis by simp
qed

lemma unat_u16 [simp]: "unat (w :: u16) < 65536"
proof -
  have "unat w < 2 ^ LENGTH(16)" by (rule unsigned_less)
  then show ?thesis by simp
qed

lemma unat_u32 [simp]: "unat (w :: u32) < 4294967296"
proof -
  have "unat w < 2 ^ LENGTH(32)" by (rule unsigned_less)
  then show ?thesis by simp
qed

lemma unat_u64 [simp]: "unat (w :: 64 word) < 18446744073709551616"
proof -
  have "unat w < 2 ^ LENGTH(64)" by (rule unsigned_less)
  then show ?thesis by simp
qed

lemma string_of_bytes_of [simp]: "string_of (bytes_of s) = s"
  by (induction s) (simp_all add: string_of_def bytes_of_def unat_of_nat)

lemma bytes_of_string_of [simp]: "bytes_of (string_of b) = b"
proof (induction b)
  case (Cons x b)
  have "unat x < 256" by simp
  with Cons show ?case by (simp add: string_of_def bytes_of_def of_char_mod_256)
qed (simp add: string_of_def bytes_of_def)

lemma bytes_of_inject [simp]: "bytes_of s = bytes_of t \<longleftrightarrow> s = t"
  by (metis string_of_bytes_of)

section \<open>Little-endian integers\<close>

text \<open>\<open>binary.LittleEndian\<close>: the low byte first.\<close>

definition le_bytes :: "nat \<Rightarrow> int \<Rightarrow> bytes" where
  "le_bytes n v = map (\<lambda>i. of_int (v div 256 ^ i)) [0..<n]"

fun le_int :: "bytes \<Rightarrow> int" where
  "le_int [] = 0"
| "le_int (b # bs) = uint b + 256 * le_int bs"

lemma length_le_bytes [simp]: "length (le_bytes n v) = n"
  by (simp add: le_bytes_def)

lemma le_bytes_Suc: "le_bytes (Suc n) v = of_int v # le_bytes n (v div 256)"
proof -
  have "map (\<lambda>i. (of_int (v div 256 ^ i) :: byte)) [Suc 0..<Suc n]
      = map (\<lambda>i. of_int (v div 256 div 256 ^ i)) [0..<n]"
    by (simp add: map_Suc_upt [symmetric] comp_def zdiv_zmult2_eq del: upt_Suc)
  then show ?thesis
    by (simp add: le_bytes_def upt_conv_Cons del: upt_Suc)
qed

lemma uint_byte [simp]: "uint (b :: byte) < 256" "0 \<le> uint b"
  using uint_lt2p [of b] by simp_all

lemma uint_of_int_byte: "uint (of_int v :: byte) = v mod 256"
  by (simp add: uint_word_of_int)

lemma le_int_le_bytes: "0 \<le> v \<Longrightarrow> v < 256 ^ n \<Longrightarrow> le_int (le_bytes n v) = v"
proof (induction n arbitrary: v)
  case (Suc n)
  then have "v div 256 < 256 ^ n" by (simp add: int_div_less_self div_less_iff_less_mult mult.commute)
  moreover have "0 \<le> v div 256" using Suc.prems by simp
  ultimately have "le_int (le_bytes n (v div 256)) = v div 256" using Suc.IH by blast
  then show ?case by (simp add: le_bytes_Suc uint_of_int_byte)
qed (simp add: le_bytes_def)

lemma le_int_bounds: "0 \<le> le_int bs \<and> le_int bs < 256 ^ length bs"
proof (induction bs)
  case (Cons b bs)
  have "uint b + 256 * le_int bs < 256 * 256 ^ length bs"
    using uint_byte(1) [of b] Cons.IH by linarith
  with Cons show ?case by simp
qed simp

lemma le_bytes_le_int: "le_bytes (length bs) (le_int bs) = bs"
proof (induction bs)
  case (Cons b bs)
  have d: "(uint b + 256 * le_int bs) div 256 = le_int bs" by simp
  have z: "(of_int 256 :: byte) = 0" by simp
  have "(of_int (uint b + 256 * le_int bs) :: byte) = b"
    by (simp only: of_int_add of_int_mult z) simp
  with Cons show ?case by (simp add: le_bytes_Suc d)
qed (simp add: le_bytes_def)

definition le16 :: "u16 \<Rightarrow> bytes" where "le16 w = le_bytes 2 (uint w)"
definition le32 :: "u32 \<Rightarrow> bytes" where "le32 w = le_bytes 4 (uint w)"
definition le64 :: "64 word \<Rightarrow> bytes" where "le64 w = le_bytes 8 (uint w)"

lemma length_le [simp]: "length (le16 a) = 2" "length (le32 b) = 4" "length (le64 c) = 8"
  by (simp_all add: le16_def le32_def le64_def)

lemma of_int_le_int_le16 [simp]: "of_int (le_int (le16 w)) = w"
  using uint_lt2p [of w] by (simp add: le16_def le_int_le_bytes)

lemma of_int_le_int_le32 [simp]: "of_int (le_int (le32 w)) = w"
  using uint_lt2p [of w] by (simp add: le32_def le_int_le_bytes)

lemma of_int_le_int_le64 [simp]: "of_int (le_int (le64 w)) = w"
  using uint_lt2p [of w] by (simp add: le64_def le_int_le_bytes)

section \<open>Strings: searching and splitting\<close>

text \<open>\<open>strings.LastIndex\<close> for a one-byte separator; \<open>None\<close> is Go's \<open>-1\<close>.\<close>

fun LastIndex :: "string \<Rightarrow> char \<Rightarrow> nat option" where
  "LastIndex [] c = None"
| "LastIndex (x # xs) c =
     (case LastIndex xs c of
        Some i \<Rightarrow> Some (Suc i)
      | None \<Rightarrow> if x = c then Some 0 else None)"

lemma LastIndex_None [simp]: "LastIndex s c = None \<longleftrightarrow> c \<notin> set s"
  by (induction s) (auto split: option.splits)

lemma LastIndex_append: "c \<notin> set v \<Longrightarrow> LastIndex (u @ c # v) c = Some (length u)"
  by (induction u) (auto split: option.splits)

lemma LastIndex_Some:
  "LastIndex s c = Some i \<Longrightarrow> i < length s \<and> s ! i = c \<and> c \<notin> set (drop (Suc i) s)"
  by (induction s arbitrary: i) (auto split: option.splits if_splits)

text \<open>\<open>strings.Split\<close> for a one-byte separator: always at least one piece.\<close>

fun Split :: "string \<Rightarrow> char \<Rightarrow> string list" where
  "Split [] c = [[]]"
| "Split (x # xs) c =
     (if x = c then [] # Split xs c
      else case Split xs c of [] \<Rightarrow> [[x]] | p # ps \<Rightarrow> (x # p) # ps)"

lemma Split_nonempty [simp]: "Split s c \<noteq> []"
  by (induction s) (auto split: list.splits)

lemma set_Split_subset: "p \<in> set (Split s c) \<Longrightarrow> set p \<subseteq> set s - {c}"
  by (induction s arbitrary: p) (fastforce split: list.splits if_splits)+

section \<open>Unicode\<close>

text \<open>
  \<open>utf8.DecodeRune\<close>: the rune at the front of a byte sequence and how many further bytes it
  takes, or \<open>None\<close> for an invalid sequence (Go yields U+FFFD and skips one byte).
\<close>

type_synonym rune = int

definition cont :: "int \<Rightarrow> bool" where "cont b \<longleftrightarrow> 128 \<le> b \<and> b < 192"

definition decode_rune :: "rune \<Rightarrow> int list \<Rightarrow> (rune \<times> nat) option" where
  "decode_rune b0 bs =
     (if b0 < 128 then Some (b0, 0)
      else if 194 \<le> b0 \<and> b0 < 224 then
        (case bs of b1 # _ \<Rightarrow>
           if cont b1 then Some ((b0 - 192) * 64 + (b1 - 128), 1) else None | _ \<Rightarrow> None)
      else if 224 \<le> b0 \<and> b0 < 240 then
        (case bs of b1 # b2 # _ \<Rightarrow>
           if (if b0 = 224 then 160 else 128) \<le> b1 \<and> b1 < (if b0 = 237 then 160 else 192) \<and> cont b2
           then Some ((b0 - 224) * 4096 + (b1 - 128) * 64 + (b2 - 128), 2) else None | _ \<Rightarrow> None)
      else if 240 \<le> b0 \<and> b0 < 245 then
        (case bs of b1 # b2 # b3 # _ \<Rightarrow>
           if (if b0 = 240 then 144 else 128) \<le> b1 \<and> b1 < (if b0 = 244 then 144 else 192)
              \<and> cont b2 \<and> cont b3
           then Some ((b0 - 240) * 262144 + (b1 - 128) * 4096 + (b2 - 128) * 64 + (b3 - 128), 3)
           else None | _ \<Rightarrow> None)
      else None)"

function decode_runes :: "int list \<Rightarrow> rune option list" where
  "decode_runes [] = []"
| "decode_runes (b0 # bs) =
     (case decode_rune b0 bs of
        Some (r, k) \<Rightarrow> Some r # decode_runes (drop k bs)
      | None \<Rightarrow> None # decode_runes bs)"
  by pat_completeness auto
termination
  by (relation "measure length") auto

definition RuneError :: rune where "RuneError = 65533"

definition char_codes :: "string \<Rightarrow> int list" where "char_codes s = map of_char s"

text \<open>\<open>[]rune(s)\<close> and \<open>utf8.ValidString\<close>.\<close>

definition runes :: "string \<Rightarrow> rune list" where
  "runes s = map (\<lambda>r. case r of Some x \<Rightarrow> x | None \<Rightarrow> RuneError) (decode_runes (char_codes s))"

definition ValidString :: "string \<Rightarrow> bool" where
  "ValidString s \<longleftrightarrow> None \<notin> set (decode_runes (char_codes s))"

text \<open>\<open>utf8.AppendRune\<close> for a rune in range.\<close>

definition encode_rune :: "rune \<Rightarrow> string" where
  "encode_rune r =
     map char_of
       (if r < 128 then [r]
        else if r < 2048 then [192 + r div 64, 128 + r mod 64]
        else if r < 65536 then [224 + r div 4096, 128 + r div 64 mod 64, 128 + r mod 64]
        else [240 + r div 262144, 128 + r div 4096 mod 64, 128 + r div 64 mod 64, 128 + r mod 64])"

definition is_ascii :: "string \<Rightarrow> bool" where
  "is_ascii s \<longleftrightarrow> (\<forall>c \<in> set s. (of_char c :: int) < 128)"

lemma of_char_nonneg [simp]: "(0 :: int) \<le> of_char c" "\<not> of_char c < (0 :: int)"
  by (simp_all add: of_char_def horner_sum_nonnegative)

lemma decode_runes_ascii: "(\<forall>b \<in> set bs. b < 128) \<Longrightarrow> decode_runes bs = map Some bs"
  by (induction bs) (simp_all add: decode_rune_def)

lemma runes_ascii: "is_ascii s \<Longrightarrow> runes s = char_codes s"
  by (simp add: runes_def is_ascii_def decode_runes_ascii comp_def char_codes_def)

lemma ValidString_ascii: "is_ascii s \<Longrightarrow> ValidString s"
  by (auto simp: ValidString_def is_ascii_def decode_runes_ascii char_codes_def)

lemma runes_nonempty [simp]: "runes s = [] \<longleftrightarrow> s = []"
  by (cases s) (auto simp: runes_def char_codes_def split: option.splits)

lemma length_decode_runes: "length (decode_runes bs) \<le> length bs"
proof (induction bs rule: decode_runes.induct)
  case (2 b0 bs)
  show ?case
  proof (cases "decode_rune b0 bs")
    case None
    with 2 show ?thesis by simp
  next
    case (Some p)
    obtain r k where p: "p = (r, k)" by (cases p)
    with Some 2(2) have "length (decode_runes (drop k bs)) \<le> length (drop k bs)" by blast
    with Some p show ?thesis by simp
  qed
qed simp

lemma length_runes: "length (runes s) \<le> length s"
  using length_decode_runes [of "char_codes s"] by (simp add: runes_def char_codes_def)

text \<open>
  The character tables of package \<open>unicode\<close> beyond Latin-1 (\<open>unicode.Letter\<close>,
  \<open>unicode.Number\<close>, the case mapping and \<open>unicode.SimpleFold\<close>'s orbits) are a parameter; the
  Latin-1 and ASCII parts, which package \<open>unicode\<close> tests first, are written out.
\<close>

record unicode =
  letterTab :: "rune \<Rightarrow> bool"
  numberTab :: "rune \<Rightarrow> bool"
  lowerTab :: "rune \<Rightarrow> rune"
  foldTab :: "rune \<Rightarrow> rune \<Rightarrow> bool"

definition IsLetter :: "unicode \<Rightarrow> rune \<Rightarrow> bool" where
  "IsLetter U r \<longleftrightarrow>
     (if r \<le> 255 then
        (65 \<le> r \<and> r \<le> 90) \<or> (97 \<le> r \<and> r \<le> 122) \<or> r \<in> {170, 181, 186}
        \<or> (192 \<le> r \<and> r \<le> 214) \<or> (216 \<le> r \<and> r \<le> 246) \<or> 248 \<le> r
      else letterTab U r)"

definition IsNumber :: "unicode \<Rightarrow> rune \<Rightarrow> bool" where
  "IsNumber U r \<longleftrightarrow>
     (if r \<le> 255 then (48 \<le> r \<and> r \<le> 57) \<or> r \<in> {178, 179, 185, 188, 189, 190}
      else numberTab U r)"

definition toLowerRune :: "unicode \<Rightarrow> rune \<Rightarrow> rune" where
  "toLowerRune U r =
     (if r < 128 then (if 65 \<le> r \<and> r \<le> 90 then r + 32 else r) else lowerTab U r)"

text \<open>\<open>strings.ToLower\<close>: a byte loop on ASCII, \<open>strings.Map(unicode.ToLower, s)\<close> otherwise.\<close>

definition ToLower :: "unicode \<Rightarrow> string \<Rightarrow> string" where
  "ToLower U s =
     (if is_ascii s then map (\<lambda>c. char_of (toLowerRune U (of_char c))) s
      else concat (map (\<lambda>r. encode_rune (toLowerRune U r)) (runes s)))"

text \<open>\<open>strings.EqualFold\<close>: rune by rune, ASCII letters by case, others by the fold table.\<close>

definition foldEq :: "unicode \<Rightarrow> rune \<Rightarrow> rune \<Rightarrow> bool" where
  "foldEq U a b \<longleftrightarrow>
     a = b \<or> (if a < 128 \<and> b < 128 then
                let lo = min a b; hi = max a b in 65 \<le> lo \<and> lo \<le> 90 \<and> hi = lo + 32
              else foldTab U (min a b) (max a b))"

definition EqualFold :: "unicode \<Rightarrow> string \<Rightarrow> string \<Rightarrow> bool" where
  "EqualFold U s t \<longleftrightarrow> list_all2 (foldEq U) (runes s) (runes t)"

lemma foldEq_sym: "foldEq U a b \<longleftrightarrow> foldEq U b a"
  by (auto simp: foldEq_def min.commute max.commute Let_def)

lemma EqualFold_refl [simp]: "EqualFold U s s"
  by (simp add: EqualFold_def foldEq_def list_all2_refl)

lemma EqualFold_sym: "EqualFold U s t \<longleftrightarrow> EqualFold U t s"
  unfolding EqualFold_def
  by (metis (mono_tags, lifting) foldEq_sym list_all2_conv_all_nth)

text \<open>On ASCII strings the two ways the code compares case-insensitively agree.\<close>

lemma foldEq_ascii:
  "a < 128 \<Longrightarrow> b < 128 \<Longrightarrow> foldEq U a b \<longleftrightarrow> toLowerRune U a = toLowerRune U b"
  by (auto simp: foldEq_def toLowerRune_def Let_def min_def max_def)

lemma toLowerRune_ascii: "0 \<le> a \<Longrightarrow> a < 128 \<Longrightarrow> 0 \<le> toLowerRune U a \<and> toLowerRune U a < 128"
  by (simp add: toLowerRune_def)

lemma toLowerRune_mod: "0 \<le> a \<Longrightarrow> a < 128 \<Longrightarrow> toLowerRune U a mod 256 = toLowerRune U a"
  using toLowerRune_ascii [of a U] by simp

lemma EqualFold_ascii:
  assumes "is_ascii s" "is_ascii t"
  shows "EqualFold U s t \<longleftrightarrow> ToLower U s = ToLower U t"
  using assms
  by (auto simp: EqualFold_def runes_ascii char_codes_def ToLower_def list_all2_conv_all_nth is_ascii_def
      foldEq_ascii toLowerRune_mod list_eq_iff_nth_eq)

section \<open>IEEE doubles\<close>

text \<open>
  A \<open>float64\<close> travels as its 64 bits. The code compares timestamps and subtracts them, so the
  value of a bit pattern is NaN, an infinity (negative when the flag is set) or \<open>m * 2 ^ e\<close>, and
  a difference is the exact one rounded to 53 bits, ties to even. Both operands are multiples of
  \<open>2 ^ -1074\<close>, hence so is their difference and no gradual underflow occurs. Signed zeros compare
  equal and are not told apart.
\<close>

type_synonym float64 = "64 word"

datatype f64 = NaN | Inf bool | Fin int int

definition f64_of_bits :: "float64 \<Rightarrow> f64" where
  "f64_of_bits w =
     (let n = uint w; neg = 9223372036854775808 \<le> n;
          ex = n div 4503599627370496 mod 2048; man = n mod 4503599627370496
      in if ex = 2047 then (if man = 0 then Inf neg else NaN)
         else let m = (if ex = 0 then man else man + 4503599627370496);
                  e = (if ex = 0 then - 1074 else ex - 1075)
              in Fin (if neg then - m else m) e)"

definition f64_round :: "int \<Rightarrow> int \<Rightarrow> f64" where
  "f64_round m e =
     (let a = \<bar>m\<bar>; n = bitlen a
      in if n \<le> 53 then Fin m e
         else let k = n - 53; p = 2 ^ nat k; q = a div p; r = a mod p;
                  q' = (if p < 2 * r \<or> (2 * r = p \<and> odd q) then q + 1 else q)
              in if 1024 < e + k + bitlen q' then Inf (m < 0)
                 else Fin (sgn m * q') (e + k))"

fun f64_sub :: "f64 \<Rightarrow> f64 \<Rightarrow> f64" where
  "f64_sub (Fin m1 e1) (Fin m2 e2) =
     (let e = min e1 e2
      in f64_round (m1 * 2 ^ nat (e1 - e) - m2 * 2 ^ nat (e2 - e)) e)"
| "f64_sub NaN _ = NaN"
| "f64_sub _ NaN = NaN"
| "f64_sub (Inf a) (Inf b) = (if a = b then NaN else Inf a)"
| "f64_sub (Inf a) (Fin _ _) = Inf a"
| "f64_sub (Fin _ _) (Inf b) = Inf (\<not> b)"

fun f64_less :: "f64 \<Rightarrow> f64 \<Rightarrow> bool" where
  "f64_less (Fin m1 e1) (Fin m2 e2) =
     (let e = min e1 e2 in m1 * 2 ^ nat (e1 - e) < m2 * 2 ^ nat (e2 - e))"
| "f64_less NaN _ = False"
| "f64_less _ NaN = False"
| "f64_less (Inf a) (Inf b) = (a \<and> \<not> b)"
| "f64_less (Inf a) (Fin _ _) = a"
| "f64_less (Fin _ _) (Inf b) = (\<not> b)"

fun f64_abs :: "f64 \<Rightarrow> f64" where
  "f64_abs NaN = NaN"
| "f64_abs (Inf _) = Inf False"
| "f64_abs (Fin m e) = Fin \<bar>m\<bar> e"

definition f64_int :: "int \<Rightarrow> f64" where
  "f64_int n = Fin n 0"

lemma f64_sub_int:
  "\<bar>a - b\<bar> < 2 ^ 53 \<Longrightarrow> f64_sub (f64_int a) (f64_int b) = f64_int (a - b)"
proof -
  assume "\<bar>a - b\<bar> < 2 ^ 53"
  then have "bitlen \<bar>a - b\<bar> \<le> 53" by (simp add: bitlen_le_iff_power)
  then show ?thesis by (simp add: f64_int_def f64_round_def)
qed

lemma f64_less_int [simp]: "f64_less (f64_int a) (f64_int b) \<longleftrightarrow> a < b"
  by (simp add: f64_int_def)

section \<open>Encoding what was decoded\<close>

lemma digits64:
  assumes "0 \<le> (x::int)" "x < 64"
  shows "(a * 64 + x) div 64 = a" "(a * 64 + x) mod 64 = x"
  using assms by (simp_all add: div_add1_eq)

lemma enc2:
  assumes x: "0 \<le> x" "x < 64" and "2 \<le> p" "p < 32"
  shows "encode_rune (p * 64 + x) = map char_of [192 + p, 128 + x]"
proof -
  define r where "r = p * 64 + x"
  have d: "r div 64 = p" "r mod 64 = x" unfolding r_def by (rule digits64 [OF x])+
  have "\<not> r < 128" "r < 2048" using assms unfolding r_def by simp_all
  then show ?thesis unfolding r_def [symmetric] by (simp add: encode_rune_def d)
qed

lemma enc3:
  assumes x: "0 \<le> x" "x < 64" and y: "0 \<le> y" "y < 64" and p: "0 \<le> p" "p < 16" "32 \<le> p * 64 + y"
  shows "encode_rune (p * 4096 + y * 64 + x) = map char_of [224 + p, 128 + y, 128 + x]"
proof -
  define q where "q = p * 64 + y"
  define r where "r = q * 64 + x"
  have r: "p * 4096 + y * 64 + x = r" by (simp add: r_def q_def)
  have d: "r div 64 = q" "r mod 64 = x" unfolding r_def by (rule digits64 [OF x])+
  have e: "q div 64 = p" "q mod 64 = y" unfolding q_def by (rule digits64 [OF y])+
  have f: "r div 4096 = p" using zdiv_zmult2_eq [of 64 r 64] d(1) e(1) by simp
  have "\<not> r < 128" "\<not> r < 2048" "r < 65536" using assms unfolding r [symmetric] by simp_all
  then show ?thesis unfolding r by (simp add: encode_rune_def d e f)
qed

lemma enc4:
  assumes x: "0 \<le> x" "x < 64" and y: "0 \<le> y" "y < 64" and z: "0 \<le> z" "z < 64" and p: "0 \<le> p" "16 \<le> p * 64 + z"
  shows "encode_rune (p * 262144 + z * 4096 + y * 64 + x) = map char_of [240 + p, 128 + z, 128 + y, 128 + x]"
proof -
  define q where "q = p * 64 + z"
  define s where "s = q * 64 + y"
  define r where "r = s * 64 + x"
  have r: "p * 262144 + z * 4096 + y * 64 + x = r" by (simp add: r_def q_def s_def)
  have d: "r div 64 = s" "r mod 64 = x" unfolding r_def by (rule digits64 [OF x])+
  have e: "s div 64 = q" "s mod 64 = y" unfolding s_def by (rule digits64 [OF y])+
  have g: "q div 64 = p" "q mod 64 = z" unfolding q_def by (rule digits64 [OF z])+
  have f: "r div 4096 = q" using zdiv_zmult2_eq [of 64 r 64] d(1) e(1) by simp
  have h: "r div 262144 = p" using zdiv_zmult2_eq [of 64 r 4096] f g(1) by simp
  have "\<not> r < 128" "\<not> r < 2048" "\<not> r < 65536" using assms unfolding r [symmetric] by simp_all
  then show ?thesis unfolding r by (simp add: encode_rune_def d e f g h)
qed

lemma encode_decode_rune:
  assumes "decode_rune b0 bs = Some (r, k)"
  shows "encode_rune r = map char_of (b0 # take k bs) \<and> k \<le> length bs"
proof -
  consider "b0 < 128" | "194 \<le> b0" "b0 < 224" | "224 \<le> b0" "b0 < 240" | "240 \<le> b0" "b0 < 245" 
    using assms by (fastforce simp: decode_rune_def split: if_splits)
  then show ?thesis
  proof cases
    case 1 then show ?thesis using assms by (auto simp: decode_rune_def encode_rune_def)
  next
    case 2 with assms obtain b1 t where "bs = b1 # t" "cont b1" "r = (b0 - 192) * 64 + (b1 - 128)" "k = 1"
      by (auto simp: decode_rune_def split: list.splits if_splits)
    with enc2 [of "b1 - 128" "b0 - 192"] 2 show ?thesis by (simp add: cont_def)
  next
    case 3 with assms obtain b1 b2 t where b: "bs = b1 # b2 # t" "(if b0 = 224 then 160 else 128) \<le> b1" "b1 < 192" "cont b2"
       "r = (b0 - 224) * 4096 + (b1 - 128) * 64 + (b2 - 128)" "k = 2"
      by (auto simp: decode_rune_def split: list.splits if_splits)
    with enc3 [of "b2 - 128" "b1 - 128" "b0 - 224"] 3 show ?thesis
      by (auto simp: numeral_2_eq_2 cont_def split: if_splits)
  next
    case 4 with assms obtain b1 b2 b3 t where b: "bs = b1 # b2 # b3 # t" "(if b0 = 240 then 144 else 128) \<le> b1" "b1 < 192" "cont b2" "cont b3"
       "r = (b0 - 240) * 262144 + (b1 - 128) * 4096 + (b2 - 128) * 64 + (b3 - 128)" "k = 3"
      by (auto simp: decode_rune_def split: list.splits if_splits)
    with enc4 [of "b3 - 128" "b2 - 128" "b1 - 128" "b0 - 240"] 4 show ?thesis
      by (auto simp: numeral_3_eq_3 cont_def split: if_splits)
  qed
qed

lemma encode_decode_runes:
  "None \<notin> set (decode_runes bs) \<Longrightarrow> concat (map (\<lambda>r. encode_rune (the r)) (decode_runes bs)) = map char_of bs"
proof (induction bs rule: decode_runes.induct)
  case (2 b0 bs)
  then obtain r k where r: "decode_rune b0 bs = Some (r, k)" by (cases "decode_rune b0 bs") auto
  with 2 have "concat (map (\<lambda>r. encode_rune (the r)) (decode_runes (drop k bs))) = map char_of (drop k bs)" by auto
  with r encode_decode_rune [OF r] show ?case
    by simp (metis append_take_drop_id map_append)
qed simp

text \<open>Decoding the encoding of Unicode scalar values.\<close>

lemma of_char_char_of: "(of_char (char_of (i :: int) :: char) :: int) = i mod 256"
  by (simp add: of_char_of take_bit_eq_mod)

definition scalar :: "rune \<Rightarrow> bool" where
  "scalar r \<longleftrightarrow> (0 \<le> r \<and> r < 0xD800) \<or> (0xE000 \<le> r \<and> r < 0x110000)"

lemma decode_encode_rune:
  assumes "scalar r"
  shows "decode_runes (char_codes (encode_rune r @ s)) = Some r # decode_runes (char_codes s)"
proof -
  consider "0 \<le> r" "r < 128" | "128 \<le> r" "r < 2048" | "2048 \<le> r" "r < 65536" "\<not> (0xD800 \<le> r \<and> r < 0xE000)" | "65536 \<le> r" "r < 0x110000"
    using assms unfolding scalar_def by linarith
  then show ?thesis
  proof cases
    case 1
    then show ?thesis by (simp add: encode_rune_def char_codes_def of_char_char_of decode_rune_def)
  next
    case 2
    have "2 \<le> r div 64" "r div 64 < 32" using 2 by linarith+
    then have "(192 + r div 64) mod 256 = 192 + r div 64" "(128 + r mod 64) mod 256 = 128 + r mod 64"
      by (simp_all add: mod_pos_pos_trivial)
    with 2 \<open>2 \<le> r div 64\<close> \<open>r div 64 < 32\<close> show ?thesis
      by (simp add: encode_rune_def char_codes_def of_char_char_of decode_rune_def cont_def)
  next
    case 3
    define a where "a = r div 4096" define b where "b = r div 64 mod 64" define c where "c = r mod 64"
    have "r div 4096 = r div 64 div 64" using zdiv_zmult2_eq [of 64 r 64] by simp
    then have ab: "r = a * 4096 + b * 64 + c" unfolding a_def b_def c_def
      using div_mult_mod_eq [of r 64] div_mult_mod_eq [of "r div 64" 64] by linarith
    have bounds: "0 \<le> a" "a < 16" "0 \<le> b" "b < 64" "0 \<le> c" "c < 64" using 3 by (auto simp: a_def b_def c_def)
    have m: "(224 + a) mod 256 = 224 + a" "(128 + b) mod 256 = 128 + b" "(128 + c) mod 256 = 128 + c"
      using bounds by (simp_all add: mod_pos_pos_trivial)
    have "encode_rune r = map char_of [224 + a, 128 + b, 128 + c]" using 3 by (simp add: encode_rune_def a_def b_def c_def)
    moreover have "decode_rune (224 + a) ((128 + b) # (128 + c) # map of_char s) = Some (r, 2)"
      using bounds 3 ab by (auto simp: decode_rune_def cont_def)
    ultimately show ?thesis by (simp add: char_codes_def of_char_char_of m)
  next
    case 4
    define a where "a = r div 262144" define b where "b = r div 4096 mod 64" define c where "c = r div 64 mod 64" define d where "d = r mod 64"
    have "r div 4096 = r div 64 div 64" "r div 262144 = r div 4096 div 64"
      using zdiv_zmult2_eq [of 64 r 64] zdiv_zmult2_eq [of 64 r 4096] by simp_all
    then have ab: "r = a * 262144 + b * 4096 + c * 64 + d" unfolding a_def b_def c_def d_def
      using div_mult_mod_eq [of r 64] div_mult_mod_eq [of "r div 64" 64] div_mult_mod_eq [of "r div 4096" 64] by linarith
    have bounds: "0 \<le> a" "a < 5" "0 \<le> b" "b < 64" "0 \<le> c" "c < 64" "0 \<le> d" "d < 64" using 4 by (auto simp: a_def b_def c_def d_def)
    have m: "(240 + a) mod 256 = 240 + a" "(128 + b) mod 256 = 128 + b" "(128 + c) mod 256 = 128 + c" "(128 + d) mod 256 = 128 + d"
      using bounds by (simp_all add: mod_pos_pos_trivial)
    have "encode_rune r = map char_of [240 + a, 128 + b, 128 + c, 128 + d]" using 4 by (simp add: encode_rune_def a_def b_def c_def d_def)
    moreover have "decode_rune (240 + a) ((128 + b) # (128 + c) # (128 + d) # map of_char s) = Some (r, 3)"
      using bounds 4 ab by (simp add: decode_rune_def cont_def)
    ultimately show ?thesis by (simp add: char_codes_def of_char_char_of m)
  qed
qed

lemma decode_encode:
  "list_all scalar rs \<Longrightarrow> decode_runes (char_codes (concat (map encode_rune rs))) = map Some rs"
  by (induction rs) (simp_all add: decode_encode_rune, simp add: char_codes_def)

lemma runes_encode:
  assumes "list_all scalar rs"
  shows "runes (concat (map encode_rune rs)) = rs" "ValidString (concat (map encode_rune rs))"
  using decode_encode [OF assms] by (auto simp: runes_def ValidString_def comp_def)

lemma length_encode: "length (concat (map encode_rune rs)) \<le> 4 * length rs"
  by (induction rs) (auto simp: encode_rune_def)

end
