(* ===== verification/Conn.thy ===== *)
theory Conn
  imports Prelude
begin

text \<open>
  Results, errors and connections. A Go function that returns an error returns a \<open>res\<close>: the
  value, the error, a panic, or \<open>Diverge\<close> for a call that never returns. A function that reads
  from or writes to a connection is a state transformer over \<open>conn\<close>, which holds the bytes the
  peer will still deliver, the error that follows them, the bytes written so far and the outcome
  of each coming \<open>Write\<close>; an expired deadline is a \<open>NetErr\<close> after the last byte that arrived.
\<close>

section \<open>Results\<close>

datatype err =
    EOF | ErrUnexpectedEOF | ECONNRESET | NetErr | FsErr | StoreErr
  | ErrProtocolViolation string | Errorf string

datatype 'a res = Ok 'a | Err err | Panic | Diverge

primrec bindR :: "'a res \<Rightarrow> ('a \<Rightarrow> 'b res) \<Rightarrow> 'b res" where
  "bindR (Ok x) k = k x"
| "bindR (Err e) k = Err e"
| "bindR Panic k = Panic"
| "bindR Diverge k = Diverge"

lemma bindR_Ok [simp]: "bindR m k = Ok y \<longleftrightarrow> (\<exists>x. m = Ok x \<and> k x = Ok y)"
  by (cases m) auto

lemma bindR_cong [fundef_cong]:
  "m = m' \<Longrightarrow> (\<And>x. m' = Ok x \<Longrightarrow> k x = k' x) \<Longrightarrow> bindR m k = bindR m' k'"
  by (cases m') auto

section \<open>Steps on a state\<close>

type_synonym ('s, 'a) st = "'s \<Rightarrow> 'a res \<times> 's"

definition retIO :: "'a \<Rightarrow> ('s, 'a) st" where
  "retIO x c = (Ok x, c)"

definition failIO :: "err \<Rightarrow> ('s, 'a) st" where
  "failIO e c = (Err e, c)"

definition liftIO :: "'a res \<Rightarrow> ('s, 'a) st" where
  "liftIO r c = (r, c)"

definition bindIO :: "('s, 'a) st \<Rightarrow> ('a \<Rightarrow> ('s, 'b) st) \<Rightarrow> ('s, 'b) st" where
  "bindIO m k c =
     (case m c of
        (Ok x, c') \<Rightarrow> k x c'
      | (Err e, c') \<Rightarrow> (Err e, c')
      | (Panic, c') \<Rightarrow> (Panic, c')
      | (Diverge, c') \<Rightarrow> (Diverge, c'))"

section \<open>Connections\<close>

text \<open>
  \<open>wfaults\<close> lists the outcome of the coming \<open>Write\<close> calls: \<open>None\<close> writes everything,
  \<open>Some k\<close> writes the first \<open>k\<close> bytes and then fails; past the end of the list writes succeed.
  \<open>nread\<close> counts the bytes taken off the connection (\<open>responseTrackingConn.bytesRead\<close>) and
  \<open>wroteResponse\<close> is that wrapper's flag; \<open>remoteHost\<close> is the host part of the peer's
  address (\<open>net.SplitHostPort\<close>), \<open>None\<close> when that fails.
\<close>

type_synonym ip = bytes

record conn =
  inp :: bytes
  inp_end :: err
  out :: bytes
  wfaults :: "nat option list"
  nread :: nat
  wroteResponse :: bool
  remoteHost :: "string option"

type_synonym 'a io = "(conn, 'a) st"

definition consume :: "nat \<Rightarrow> conn \<Rightarrow> conn" where
  "consume n c = c\<lparr>inp := drop n (inp c), nread := nread c + n\<rparr>"

subsection \<open>Reading\<close>

text \<open>\<open>bufio.Reader.ReadByte\<close>.\<close>

definition ReadByte :: "byte io" where
  "ReadByte c = (case inp c of [] \<Rightarrow> (Err (inp_end c), c) | b # _ \<Rightarrow> (Ok b, consume 1 c))"

text \<open>\<open>io.ReadFull\<close>, which \<open>binary.Read\<close> uses: end of file inside the value is its own error.\<close>

definition ReadFull :: "nat \<Rightarrow> bytes io" where
  "ReadFull n c =
     (if n \<le> length (inp c) then (Ok (take n (inp c)), consume n c)
      else (Err (if inp_end c = EOF \<and> inp c \<noteq> [] then ErrUnexpectedEOF else inp_end c),
            consume (length (inp c)) c))"

text \<open>\<open>io.ReadAll(io.LimitReader(r, n))\<close>: end of file yields what arrived, without an error.\<close>

definition ReadAllLimit :: "nat \<Rightarrow> bytes io" where
  "ReadAllLimit n c =
     (if n \<le> length (inp c) then (Ok (take n (inp c)), consume n c)
      else if inp_end c = EOF then (Ok (inp c), consume (length (inp c)) c)
      else (Err (inp_end c), consume (length (inp c)) c))"

text \<open>\<open>binary.Read\<close> of a \<open>uint32\<close> and of a \<open>float64\<close>, little-endian.\<close>

definition ReadUint32 :: "u32 io" where
  "ReadUint32 = bindIO (ReadFull 4) (\<lambda>b. retIO (of_int (le_int b)))"

definition ReadFloat64 :: "float64 io" where
  "ReadFloat64 = bindIO (ReadFull 8) (\<lambda>b. retIO (of_int (le_int b)))"

subsection \<open>Writing\<close>

definition Write :: "bytes \<Rightarrow> unit io" where
  "Write b c =
     (case wfaults c of
        Some k # fs \<Rightarrow>
          (Err NetErr, c\<lparr>out := out c @ take k b, wfaults := fs,
                         wroteResponse := (wroteResponse c \<or> take k b \<noteq> [])\<rparr>)
      | fs \<Rightarrow>
          (Ok (), c\<lparr>out := out c @ b, wfaults := drop 1 fs,
                     wroteResponse := (wroteResponse c \<or> b \<noteq> [])\<rparr>))"

subsection \<open>Laws\<close>

lemma consume_fields [simp]:
  "inp (consume n c) = drop n (inp c)" "inp_end (consume n c) = inp_end c"
  "out (consume n c) = out c" "wfaults (consume n c) = wfaults c"
  "nread (consume n c) = nread c + n" "wroteResponse (consume n c) = wroteResponse c"
  "remoteHost (consume n c) = remoteHost c"
  by (simp_all add: consume_def)

lemma consume_consume [simp]: "consume m (consume n c) = consume (n + m) c"
  by (simp add: consume_def add_ac)

lemma consume_0 [simp]: "consume 0 c = c"
  by (simp add: consume_def)

lemma bindIO_simps [simp]:
  "bindIO (retIO x) k = k x" "bindIO (failIO e) k = failIO e"
  "bindIO (liftIO (Ok x)) k = k x" "bindIO (liftIO (Err e)) k = failIO e"
  by (simp_all add: fun_eq_iff bindIO_def retIO_def failIO_def liftIO_def)

lemma bindIO_assoc: "bindIO (bindIO m f) g = bindIO m (\<lambda>x. bindIO (f x) g)"
  by (simp add: fun_eq_iff bindIO_def split: prod.splits res.splits)

lemma bindIO_run [wire_simps]: "m c = (Ok x, c') \<Longrightarrow> bindIO m k c = k x c'"
  by (simp add: bindIO_def)

lemma bindIO_eq_Ok:
  "bindIO m k c = (Ok y, d) \<longleftrightarrow> (\<exists>x c'. m c = (Ok x, c') \<and> k x c' = (Ok y, d))"
  by (auto simp: bindIO_def split: prod.splits res.splits)

lemma bindIO_OkE:
  assumes "bindIO m k c = (Ok y, d)"
  obtains x c' where "m c = (Ok x, c')" "k x c' = (Ok y, d)"
  using assms unfolding bindIO_eq_Ok by blast

lemma bindIO_cong [fundef_cong]:
  "m = m' \<Longrightarrow> c = c' \<Longrightarrow> (\<And>x d. m' c' = (Ok x, d) \<Longrightarrow> k x d = k' x d) \<Longrightarrow>
   bindIO m k c = bindIO m' k' c'"
  by (auto simp: bindIO_def split: prod.splits res.splits)

lemma retIO_eq [simp]: "retIO x c = (r, d) \<longleftrightarrow> r = Ok x \<and> d = c"
  by (auto simp: retIO_def)

lemma failIO_eq [simp]: "failIO e c = (r, d) \<longleftrightarrow> r = Err e \<and> d = c"
  by (auto simp: failIO_def)

lemma liftIO_eq [simp]: "liftIO x c = (r, d) \<longleftrightarrow> r = x \<and> d = c"
  by (auto simp: liftIO_def)

text \<open>Reading back what is at the front of the input.\<close>

lemma ReadByte_run [wire_simps]: "inp c = b # r \<Longrightarrow> ReadByte c = (Ok b, consume 1 c)"
  by (simp add: ReadByte_def)

lemma ReadFull_run [wire_simps]:
  "inp c = b @ r \<Longrightarrow> length b = n \<Longrightarrow> ReadFull n c = (Ok b, consume n c)"
  by (simp add: ReadFull_def)

lemma ReadAllLimit_run [wire_simps]:
  "inp c = b @ r \<Longrightarrow> length b = n \<Longrightarrow> ReadAllLimit n c = (Ok b, consume n c)"
  by (simp add: ReadAllLimit_def)

lemma ReadUint32_run [wire_simps]:
  "inp c = le32 w @ r \<Longrightarrow> ReadUint32 c = (Ok w, consume 4 c)"
  by (simp add: ReadUint32_def bindIO_run [OF ReadFull_run])

lemma ReadFloat64_run [wire_simps]:
  "inp c = le64 w @ r \<Longrightarrow> ReadFloat64 c = (Ok w, consume 8 c)"
  by (simp add: ReadFloat64_def bindIO_run [OF ReadFull_run])

subsection \<open>What a step writes\<close>

text \<open>
  \<open>writes P m\<close>: whatever \<open>m\<close> does, the bytes it adds to the output together with its result
  satisfy \<open>P\<close>. It composes along \<open>bindIO\<close>, so that the response discipline of a handler is the
  composition of its parts'. \<open>quiet m\<close> writes nothing.
\<close>

definition writes :: "('a res \<Rightarrow> bytes \<Rightarrow> bool) \<Rightarrow> 'a io \<Rightarrow> bool" where
  "writes P m \<longleftrightarrow> (\<forall>c. \<exists>w. out (snd (m c)) = out c @ w \<and> P (fst (m c)) w)"

abbreviation quiet :: "'a io \<Rightarrow> bool" where
  "quiet m \<equiv> writes (\<lambda>_ w. w = []) m"

lemma writesD: "writes P m \<Longrightarrow> m c = (r, d) \<Longrightarrow> \<exists>w. out d = out c @ w \<and> P r w"
  by (auto simp: writes_def dest: spec [of _ c])

lemma writes_mono: "writes P m \<Longrightarrow> (\<And>r w. P r w \<Longrightarrow> Q r w) \<Longrightarrow> writes Q m"
  by (force simp: writes_def)

lemma writes_ret: "P (Ok x) [] \<Longrightarrow> writes P (retIO x)"
  by (simp add: writes_def retIO_def)

lemma writes_fail: "P (Err e) [] \<Longrightarrow> writes P (failIO e)"
  by (simp add: writes_def failIO_def)

lemma writes_lift: "P r [] \<Longrightarrow> writes P (liftIO r)"
  by (simp add: writes_def liftIO_def)

lemma quiet_ReadByte: "quiet ReadByte"
  by (simp add: writes_def ReadByte_def split: list.splits)

lemma quiet_ReadFull: "quiet (ReadFull n)"
  by (simp add: writes_def ReadFull_def)

lemma quiet_ReadAllLimit: "quiet (ReadAllLimit n)"
  by (simp add: writes_def ReadAllLimit_def)

text \<open>
  Binding: a first step that succeeds must have written nothing. After a quiet step only its
  failures must be allowed.
\<close>

lemma writes_bind:
  assumes "writes P m" and "\<And>x w. P (Ok x) w \<Longrightarrow> w = []"
    and "\<And>x. writes Q (k x)"
    and "\<And>e w. P (Err e) w \<Longrightarrow> Q (Err e) w"
    and "\<And>w. P Panic w \<Longrightarrow> Q Panic w" "\<And>w. P Diverge w \<Longrightarrow> Q Diverge w"
  shows "writes Q (bindIO m k)"
  unfolding writes_def
proof
  fix c
  obtain r d where rd: "m c = (r, d)" by (cases "m c")
  with assms(1) obtain w where w: "out d = out c @ w" "P r w" by (blast dest: writesD)
  show "\<exists>w. out (snd (bindIO m k c)) = out c @ w \<and> Q (fst (bindIO m k c)) w"
  proof (cases r)
    case (Ok x)
    with w assms(2) have "out d = out c" by auto
    moreover from assms(3) obtain v where "out (snd (k x d)) = out d @ v" "Q (fst (k x d)) v"
      unfolding writes_def by blast
    ultimately show ?thesis using rd Ok by (auto simp: bindIO_def)
  qed (use rd w assms(4-6) in \<open>auto simp: bindIO_def\<close>)
qed

lemma writes_bind_quiet:
  assumes "quiet m" and "\<And>x. writes P (k x)"
    and "\<And>e. P (Err e) []" "P Panic []" "P Diverge []"
  shows "writes P (bindIO m k)"
  by (rule writes_bind [OF assms(1) _ assms(2)]) (use assms(3-5) in auto)

lemma quiet_ReadUint32: "quiet ReadUint32"
  unfolding ReadUint32_def by (rule writes_bind_quiet [OF quiet_ReadFull]) (simp_all add: writes_ret)

lemma quiet_ReadFloat64: "quiet ReadFloat64"
  unfolding ReadFloat64_def by (rule writes_bind_quiet [OF quiet_ReadFull]) (simp_all add: writes_ret)

lemmas quiet_reads = quiet_ReadByte quiet_ReadFull quiet_ReadAllLimit quiet_ReadUint32 quiet_ReadFloat64


subsection \<open>Parsers: reading exactly an encoding\<close>

text \<open>
  \<open>parsed m e x\<close>: on any connection whose input starts with the bytes \<open>e\<close>, \<open>m\<close> returns \<open>x\<close>
  and takes exactly \<open>e\<close>.
\<close>

definition parsed :: "'a io \<Rightarrow> bytes \<Rightarrow> 'a \<Rightarrow> bool" where
  "parsed m e x \<longleftrightarrow> (\<forall>c r. inp c = e @ r \<longrightarrow> m c = (Ok x, consume (length e) c))"

lemma parsedI:
  "(\<And>c r. inp c = e @ r \<Longrightarrow> m c = (Ok x, consume (length e) c)) \<Longrightarrow> parsed m e x"
  by (simp add: parsed_def)

lemma parsedD: "parsed m e x \<Longrightarrow> inp c = e @ r \<Longrightarrow> m c = (Ok x, consume (length e) c)"
  by (simp add: parsed_def)

lemma parsed_bind:
  assumes "parsed m e1 x" "parsed (k x) e2 y"
  shows "parsed (bindIO m k) (e1 @ e2) y"
proof (rule parsedI)
  fix c :: conn and r assume "inp c = (e1 @ e2) @ r"
  then have i: "inp c = e1 @ (e2 @ r)" by simp
  then have j: "inp (consume (length e1) c) = e2 @ r" by simp
  show "bindIO m k c = (Ok y, consume (length (e1 @ e2)) c)"
    using parsedD [OF assms(1) i] parsedD [OF assms(2) j] by (simp add: bindIO_def)
qed

lemma parsed_bind_Cons:
  "parsed m [b] x \<Longrightarrow> parsed (k x) e y \<Longrightarrow> parsed (bindIO m k) (b # e) y"
  using parsed_bind [of m "[b]" x k e y] by simp

lemma parsed_bind_Nil:
  "parsed m [] x \<Longrightarrow> parsed (k x) e y \<Longrightarrow> parsed (bindIO m k) e y"
  using parsed_bind [of m "[]" x k e y] by simp

lemma parsed_bind_last:
  "parsed m e x \<Longrightarrow> parsed (k x) [] y \<Longrightarrow> parsed (bindIO m k) e y"
  using parsed_bind [of m e x k "[]" y] by simp

lemma parsed_ret: "parsed (retIO x) [] x"
  by (simp add: parsed_def retIO_def)

lemma parsed_lift: "r = Ok x \<Longrightarrow> parsed (liftIO r) [] x"
  by (simp add: parsed_def liftIO_def)

lemma parsed_ReadByte: "parsed ReadByte [b] b"
  by (simp add: parsed_def ReadByte_def)

lemma parsed_ReadFull: "length e = n \<Longrightarrow> parsed (ReadFull n) e e"
  by (auto simp: parsed_def ReadFull_run)

lemma parsed_ReadAllLimit: "length e = n \<Longrightarrow> parsed (ReadAllLimit n) e e"
  by (auto simp: parsed_def ReadAllLimit_run)

lemma parsed_ReadUint32: "parsed ReadUint32 (le32 w) w"
  by (auto simp: parsed_def ReadUint32_run)

lemma parsed_ReadFloat64: "parsed ReadFloat64 (le64 w) w"
  by (auto simp: parsed_def ReadFloat64_run)

text \<open>
  The converse. \<open>lax R m\<close>: whenever \<open>m\<close> succeeds it has taken a prefix related to its result by
  \<open>R\<close>, or it has run into the end of the stream (a short read that Go does not report).
  \<open>strict R m\<close>: whenever \<open>m\<close> succeeds the prefix it took is related to its result, and the stream
  had not ended before. A strict step after a lax one makes the whole strict: had the first been
  cut short, the second would have failed.
\<close>

definition dry :: "conn \<Rightarrow> bool" where
  "dry c \<longleftrightarrow> inp c = [] \<and> inp_end c = EOF"

definition lax :: "('a \<Rightarrow> bytes \<Rightarrow> bool) \<Rightarrow> 'a io \<Rightarrow> bool" where
  "lax R m \<longleftrightarrow> (\<forall>c x d. m c = (Ok x, d) \<longrightarrow>
     (\<exists>e r. inp c = e @ r \<and> d = consume (length e) c \<and> (R x e \<or> dry d)))"

definition strict :: "('a \<Rightarrow> bytes \<Rightarrow> bool) \<Rightarrow> 'a io \<Rightarrow> bool" where
  "strict R m \<longleftrightarrow> (\<forall>c x d. m c = (Ok x, d) \<longrightarrow>
     (\<exists>e r. inp c = e @ r \<and> d = consume (length e) c \<and> R x e \<and> \<not> dry c))"

lemma laxD:
  assumes "lax R m" "m c = (Ok x, d)"
  obtains e r where "inp c = e @ r" "d = consume (length e) c" "R x e \<or> dry d"
  using assms unfolding lax_def by blast

lemma strictD:
  assumes "strict R m" "m c = (Ok x, d)"
  obtains e r where "inp c = e @ r" "d = consume (length e) c" "R x e" "\<not> dry c"
  using assms unfolding strict_def by blast

lemma strict_lax: "strict R m \<Longrightarrow> lax R m"
  unfolding strict_def lax_def by meson

lemma strict_mono: "strict R m \<Longrightarrow> (\<And>x e. R x e \<Longrightarrow> S x e) \<Longrightarrow> strict S m"
  unfolding strict_def by meson

lemma lax_mono: "lax R m \<Longrightarrow> (\<And>x e. R x e \<Longrightarrow> S x e) \<Longrightarrow> lax S m"
  unfolding lax_def by meson

text \<open>The relation of a sequence of two parsers.\<close>

definition seqR :: "('a \<Rightarrow> bytes \<Rightarrow> bool) \<Rightarrow> ('a \<Rightarrow> 'b \<Rightarrow> bytes \<Rightarrow> bool) \<Rightarrow> 'b \<Rightarrow> bytes \<Rightarrow> bool" where
  "seqR R S y e \<longleftrightarrow> (\<exists>x e1 e2. e = e1 @ e2 \<and> R x e1 \<and> S x y e2)"

lemma dry_consume: "dry c \<Longrightarrow> dry (consume n c)"
  by (simp add: dry_def)

lemma lax_bind_strict:
  assumes "lax R m" "\<And>x. strict (S x) (k x)"
  shows "strict (seqR R S) (bindIO m k)"
  unfolding strict_def
proof (intro allI impI)
  fix c y d assume "bindIO m k c = (Ok y, d)"
  then obtain x c1 where 1: "m c = (Ok x, c1)" and 2: "k x c1 = (Ok y, d)"
    by (auto simp: bindIO_eq_Ok)
  from laxD [OF assms(1) 1] obtain e1 r1 where
    e1: "inp c = e1 @ r1" "c1 = consume (length e1) c" "R x e1 \<or> dry c1" .
  from strictD [OF assms(2) 2] obtain e2 r2 where
    e2: "inp c1 = e2 @ r2" "d = consume (length e2) c1" "S x y e2" "\<not> dry c1" .
  have "inp c = (e1 @ e2) @ r2" using e1(1,2) e2(1) by simp
  moreover have "d = consume (length (e1 @ e2)) c" using e1(2) e2(2) by simp
  moreover have "seqR R S y (e1 @ e2)" using e1(3) e2(3,4) by (auto simp: seqR_def)
  moreover have "\<not> dry c" using e2(4) e1(2) dry_consume by auto
  ultimately show "\<exists>e r. inp c = e @ r \<and> d = consume (length e) c \<and> seqR R S y e \<and> \<not> dry c" by blast
qed

lemma lax_bind_lax:
  assumes "lax R m" "\<And>x. lax (S x) (k x)"
  shows "lax (seqR R S) (bindIO m k)"
  unfolding lax_def
proof (intro allI impI)
  fix c y d assume "bindIO m k c = (Ok y, d)"
  then obtain x c1 where 1: "m c = (Ok x, c1)" and 2: "k x c1 = (Ok y, d)"
    by (auto simp: bindIO_eq_Ok)
  from laxD [OF assms(1) 1] obtain e1 r1 where
    e1: "inp c = e1 @ r1" "c1 = consume (length e1) c" "R x e1 \<or> dry c1" .
  from laxD [OF assms(2) 2] obtain e2 r2 where
    e2: "inp c1 = e2 @ r2" "d = consume (length e2) c1" "S x y e2 \<or> dry d" .
  have "inp c = (e1 @ e2) @ r2" using e1(1,2) e2(1) by simp
  moreover have "d = consume (length (e1 @ e2)) c" using e1(2) e2(2) by simp
  moreover have "seqR R S y (e1 @ e2) \<or> dry d"
    using e1(3) e2(2,3) dry_consume by (auto simp: seqR_def)
  ultimately show "\<exists>e r. inp c = e @ r \<and> d = consume (length e) c \<and> (seqR R S y e \<or> dry d)" by blast
qed

lemma strict_bind_lax:
  assumes "strict R m" "\<And>x. lax (S x) (k x)"
  shows "lax (seqR R S) (bindIO m k)"
  by (rule lax_bind_lax [OF strict_lax [OF assms(1)] assms(2)])

text \<open>A strict step followed by one that reads nothing stays strict.\<close>

definition still :: "('a \<Rightarrow> bool) \<Rightarrow> 'a io \<Rightarrow> bool" where
  "still Q m \<longleftrightarrow> (\<forall>c x d. m c = (Ok x, d) \<longrightarrow> d = c \<and> Q x)"

lemma still_lax: "still Q m \<Longrightarrow> lax (\<lambda>x e. Q x \<and> e = []) m"
  unfolding still_def lax_def by (metis append_Nil consume_0 list.size(3))

lemma strict_bind_still:
  assumes "strict R m" "\<And>x. still (Q x) (k x)"
  shows "strict (seqR R (\<lambda>x y e. Q x y \<and> e = [])) (bindIO m k)"
  unfolding strict_def
proof (intro allI impI)
  fix c y d assume "bindIO m k c = (Ok y, d)"
  then obtain x c1 where 1: "m c = (Ok x, c1)" and 2: "k x c1 = (Ok y, d)"
    by (auto simp: bindIO_eq_Ok)
  from strictD [OF assms(1) 1] obtain e r where
    e: "inp c = e @ r" "c1 = consume (length e) c" "R x e" "\<not> dry c" .
  from assms(2) 2 have "d = c1" "Q x y" by (auto simp: still_def)
  with e show "\<exists>e r. inp c = e @ r \<and> d = consume (length e) c
      \<and> seqR R (\<lambda>x y e. Q x y \<and> e = []) y e \<and> \<not> dry c"
    by (auto simp: seqR_def)
qed

lemma still_bind:
  "still P m \<Longrightarrow> (\<And>x. P x \<Longrightarrow> still Q (k x)) \<Longrightarrow> still Q (bindIO m k)"
  unfolding still_def bindIO_eq_Ok by blast

lemma still_ret: "Q x \<Longrightarrow> still Q (retIO x)"
  by (simp add: still_def)

lemma still_fail: "still Q (failIO e)"
  by (simp add: still_def)

lemma still_lift: "(\<And>x. r = Ok x \<Longrightarrow> Q x) \<Longrightarrow> still Q (liftIO r)"
  by (simp add: still_def)

lemma strict_ReadByte: "strict (\<lambda>b e. e = [b]) ReadByte"
  unfolding strict_def
  by (auto simp: ReadByte_def dry_def split: list.splits intro!: exI [of _ "[_]"])

lemma strict_ReadFull: "0 < n \<Longrightarrow> strict (\<lambda>b e. e = b \<and> length b = n) (ReadFull n)"
  unfolding strict_def
proof (intro allI impI)
  fix c x d assume "0 < n" "ReadFull n c = (Ok x, d)"
  then have "inp c = take n (inp c) @ drop n (inp c)" "d = consume (length (take n (inp c))) c"
    "take n (inp c) = x" "length x = n" "\<not> dry c"
    by (auto simp: ReadFull_def dry_def split: if_splits)
  then show "\<exists>e r. inp c = e @ r \<and> d = consume (length e) c \<and> (e = x \<and> length x = n) \<and> \<not> dry c"
    by blast
qed

lemma lax_ReadAllLimit: "lax (\<lambda>b e. e = b \<and> length b = n) (ReadAllLimit n)"
  unfolding lax_def
proof (intro allI impI)
  fix c x d assume m: "ReadAllLimit n c = (Ok x, d)"
  show "\<exists>e r. inp c = e @ r \<and> d = consume (length e) c \<and> (e = x \<and> length x = n \<or> dry d)"
  proof (cases "n \<le> length (inp c)")
    case True
    with m have "inp c = take n (inp c) @ drop n (inp c)" "d = consume (length (take n (inp c))) c"
      "take n (inp c) = x" "length x = n"
      by (auto simp: ReadAllLimit_def)
    then show ?thesis by blast
  next
    case False
    with m have "inp c = inp c @ []" "d = consume (length (inp c)) c" "dry d"
      by (auto simp: ReadAllLimit_def dry_def split: if_splits)
    then show ?thesis by blast
  qed
qed

lemma le_bytes_inverse: "length b = n \<Longrightarrow> le_bytes n (le_int b) = b"
  using le_bytes_le_int [of b] by auto

lemma strict_ReadUint32: "strict (\<lambda>w e. e = le32 w) ReadUint32"
  unfolding ReadUint32_def
proof (rule strict_mono [OF strict_bind_still [OF strict_ReadFull]])
  show "still (\<lambda>w. length b = 4 \<longrightarrow> le32 w = b) (retIO (of_int (le_int b)))" for b
    using le_int_bounds [of b]
    by (auto intro!: still_ret simp: le32_def uint_word_of_int le_bytes_inverse)
qed (auto simp: seqR_def)

lemma strict_ReadFloat64: "strict (\<lambda>w e. e = le64 w) ReadFloat64"
  unfolding ReadFloat64_def
proof (rule strict_mono [OF strict_bind_still [OF strict_ReadFull]])
  show "still (\<lambda>w. length b = 8 \<longrightarrow> le64 w = b) (retIO (of_int (le_int b)))" for b
    using le_int_bounds [of b]
    by (auto intro!: still_ret simp: le64_def uint_word_of_int le_bytes_inverse)
qed (auto simp: seqR_def)


lemma lax_bind_still:
  "lax R m \<Longrightarrow> (\<And>x. still (Q x) (k x)) \<Longrightarrow> lax (seqR R (\<lambda>x y e. Q x y \<and> e = [])) (bindIO m k)"
  by (rule lax_bind_lax [OF _ still_lax])

lemma lax_if: "(b \<Longrightarrow> lax R m) \<Longrightarrow> (\<not> b \<Longrightarrow> lax R n) \<Longrightarrow> lax R (if b then m else n)"
  by simp

lemma still_if: "(b \<Longrightarrow> still R m) \<Longrightarrow> (\<not> b \<Longrightarrow> still R n) \<Longrightarrow> still R (if b then m else n)"
  by simp

lemma lax_ret: "R x [] \<Longrightarrow> lax R (retIO x)"
  using still_lax [OF still_ret [of "\<lambda>y. R y []" x]] by (auto elim: lax_mono)

lemma still_fails: "(\<And>c x d. m c \<noteq> (Ok x, d)) \<Longrightarrow> still Q m"
  by (simp add: still_def)

lemma lax_fails: "(\<And>c x d. m c \<noteq> (Ok x, d)) \<Longrightarrow> lax Q m"
  by (simp add: lax_def)

text \<open>\<open>exact R m\<close>: whenever \<open>m\<close> succeeds the prefix it took is related to its result.\<close>

definition exact :: "('a \<Rightarrow> bytes \<Rightarrow> bool) \<Rightarrow> 'a io \<Rightarrow> bool" where
  "exact R m \<longleftrightarrow> (\<forall>c x d. m c = (Ok x, d) \<longrightarrow>
     (\<exists>e r. inp c = e @ r \<and> d = consume (length e) c \<and> R x e))"

lemma strict_exact: "strict R m \<Longrightarrow> exact R m"
  unfolding strict_def exact_def by meson

lemma exactD:
  assumes "exact R m" "m c = (Ok x, d)"
  obtains e r where "inp c = e @ r" "d = consume (length e) c" "R x e"
  using assms unfolding exact_def by blast

lemma exact_mono: "exact R m \<Longrightarrow> (\<And>x e. R x e \<Longrightarrow> S x e) \<Longrightarrow> exact S m"
  unfolding exact_def by meson

lemma still_exact: "still Q m \<Longrightarrow> exact (\<lambda>x e. Q x \<and> e = []) m"
  unfolding still_def exact_def by (metis append_Nil consume_0 list.size(3))

lemma exact_bind:
  assumes "exact R m" "\<And>x. exact (S x) (k x)"
  shows "exact (seqR R S) (bindIO m k)"
  unfolding exact_def
proof (intro allI impI)
  fix c y d assume "bindIO m k c = (Ok y, d)"
  then obtain x c1 where 1: "m c = (Ok x, c1)" and 2: "k x c1 = (Ok y, d)"
    by (auto simp: bindIO_eq_Ok)
  from exactD [OF assms(1) 1] obtain e1 r1 where
    e1: "inp c = e1 @ r1" "c1 = consume (length e1) c" "R x e1" .
  from exactD [OF assms(2) 2] obtain e2 r2 where
    e2: "inp c1 = e2 @ r2" "d = consume (length e2) c1" "S x y e2" .
  have "inp c = (e1 @ e2) @ r2" using e1(1,2) e2(1) by simp
  moreover have "d = consume (length (e1 @ e2)) c" using e1(2) e2(2) by simp
  moreover have "seqR R S y (e1 @ e2)" using e1(3) e2(3) by (auto simp: seqR_def)
  ultimately show "\<exists>e r. inp c = e @ r \<and> d = consume (length e) c \<and> seqR R S y e" by blast
qed

lemma strict_bind_exact:
  assumes "strict R m" "\<And>x. exact (S x) (k x)"
  shows "strict (seqR R S) (bindIO m k)"
  unfolding strict_def
proof (intro allI impI)
  fix c y d assume m: "bindIO m k c = (Ok y, d)"
  then obtain x c1 where "m c = (Ok x, c1)" by (auto simp: bindIO_eq_Ok)
  then have "\<not> dry c" by (rule strictD [OF assms(1)])
  moreover from exactD [OF exact_bind [OF strict_exact [OF assms(1)] assms(2)] m]
  obtain e r where "inp c = e @ r" "d = consume (length e) c" "seqR R S y e" .
  ultimately show "\<exists>e r. inp c = e @ r \<and> d = consume (length e) c \<and> seqR R S y e \<and> \<not> dry c" by blast
qed

lemma strict_bind_strict:
  assumes "strict R m" "\<And>x. strict (S x) (k x)"
  shows "strict (seqR R S) (bindIO m k)"
  by (rule lax_bind_strict [OF strict_lax [OF assms(1)] assms(2)])

end
