(* ===== verification/Wire.thy ===== *)
theory Wire
  imports Conn
begin

text \<open>
  Package \<open>fmsg\<close> (\<open>src/pkg/fmsg/fmsg.go\<close>): the message types, the wire encoding of a header,
  the table of common media types, and the header and message hashes.

  \<open>golib\<close> collects what the package calls and this development cannot read: SHA-256, zlib's
  inflate and deflate, \<open>net.ParseIP\<close> and the Unicode tables. Files are a map from paths to their content.
\<close>

section \<open>Libraries and files\<close>

record golib =
  uni :: unicode
  sha256 :: "bytes \<Rightarrow> bytes"
  inflate :: "bytes \<Rightarrow> bytes res"
  deflate :: "bytes \<Rightarrow> bytes"
  ParseIP :: "string \<Rightarrow> ip option"

datatype fentry = Regular bytes | Directory

type_synonym fsys = "string \<Rightarrow> fentry option"

text \<open>\<open>os.Open\<close> and reading to the end: a directory opens but does not read.\<close>

definition readFile :: "fsys \<Rightarrow> string \<Rightarrow> bytes res" where
  "readFile fs p = (case fs p of Some (Regular b) \<Rightarrow> Ok b | _ \<Rightarrow> Err FsErr)"

text \<open>\<open>io.CopyN\<close>: exactly \<open>n\<close> bytes, end of file when there are fewer.\<close>

definition copyN :: "nat \<Rightarrow> bytes \<Rightarrow> bytes res" where
  "copyN n b = (if n \<le> length b then Ok (take n b) else Err EOF)"

section \<open>Flags, addresses, headers\<close>

definition FlagHasPid :: byte where [simp]: "FlagHasPid = 1"
definition FlagHasAddTo :: byte where [simp]: "FlagHasAddTo = 2"
definition FlagCommonType :: byte where [simp]: "FlagCommonType = 4"
definition FlagImportant :: byte where [simp]: "FlagImportant = 8"
definition FlagNoReply :: byte where [simp]: "FlagNoReply = 16"
definition FlagDeflate :: byte where [simp]: "FlagDeflate = 32"
definition FlagTerminal :: byte where [simp]: "FlagTerminal = 64"

text \<open>The test \<open>flags & mask != 0\<close>.\<close>

definition hasFlag :: "byte \<Rightarrow> byte \<Rightarrow> bool" where
  "hasFlag flags m \<longleftrightarrow> flags AND m \<noteq> 0"

record Address =
  User :: string
  Domain :: string

definition ToString :: "Address \<Rightarrow> string" where
  "ToString addr = ''@'' @ User addr @ ''@'' @ Domain addr"

record AttachmentHeader =
  aFlags :: byte
  aTypeID :: byte
  aType :: string
  aFilename :: string
  aSize :: u32
  aExpandedSize :: u32
  aFilepath :: string

record Header =
  Version :: byte
  Flags :: byte
  Pid :: bytes
  From :: Address
  To :: "Address list"
  AddToFrom :: "Address option"
  AddTo :: "Address list"
  Timestamp :: float64
  TypeID :: byte
  Topic :: string
  Type :: string
  Size :: u32
  ExpandedSize :: u32
  Attachments :: "AttachmentHeader list"
  HeaderHash :: "bytes option"
  ChallengeHash :: bytes
  ChallengeCompleted :: bool
  InitialResponseCode :: byte
  Filepath :: string
  StoredWire :: bytes
  messageHash :: "bytes option"

text \<open>The zero value of \<open>Header\<close>.\<close>

definition emptyHeader :: Header where
  "emptyHeader =
     \<lparr>Version = 0, Flags = 0, Pid = [], From = \<lparr>User = [], Domain = []\<rparr>, To = [],
      AddToFrom = None, AddTo = [], Timestamp = 0, TypeID = 0, Topic = [], Type = [],
      Size = 0, ExpandedSize = 0, Attachments = [], HeaderHash = None,
      ChallengeHash = replicate 32 0, ChallengeCompleted = False, InitialResponseCode = 0,
      Filepath = [], StoredWire = [], messageHash = None\<rparr>"

section \<open>Common media types\<close>

definition commonMediaTypes :: "(byte \<times> string) list" where
  "commonMediaTypes =
    [(1, ''application/epub+zip''), (2, ''application/gzip''), (3, ''application/json''),
     (4, ''application/msword''), (5, ''application/octet-stream''), (6, ''application/pdf''),
     (7, ''application/rtf''), (8, ''application/vnd.amazon.ebook''),
     (9, ''application/vnd.ms-excel''), (10, ''application/vnd.ms-powerpoint''),
     (11, ''application/vnd.oasis.opendocument.presentation''),
     (12, ''application/vnd.oasis.opendocument.spreadsheet''),
     (13, ''application/vnd.oasis.opendocument.text''),
     (14, ''application/vnd.openxmlformats-officedocument.presentationml.presentation''),
     (15, ''application/vnd.openxmlformats-officedocument.spreadsheetml.sheet''),
     (16, ''application/vnd.openxmlformats-officedocument.wordprocessingml.document''),
     (17, ''application/x-tar''), (18, ''application/xhtml+xml''), (19, ''application/xml''),
     (20, ''application/zip''), (21, ''audio/aac''), (22, ''audio/midi''), (23, ''audio/mpeg''),
     (24, ''audio/ogg''), (25, ''audio/opus''), (26, ''audio/vnd.wave''), (27, ''audio/webm''),
     (28, ''font/otf''), (29, ''font/ttf''), (30, ''font/woff''), (31, ''font/woff2''),
     (32, ''image/apng''), (33, ''image/avif''), (34, ''image/bmp''), (35, ''image/gif''),
     (36, ''image/heic''), (37, ''image/jpeg''), (38, ''image/png''), (39, ''image/svg+xml''),
     (40, ''image/tiff''), (41, ''image/webp''), (42, ''model/3mf''),
     (43, ''model/gltf-binary''), (44, ''model/obj''), (45, ''model/step''), (46, ''model/stl''),
     (47, ''model/vnd.usdz+zip''), (48, ''text/calendar''), (49, ''text/css''),
     (50, ''text/csv''), (51, ''text/html''), (52, ''text/javascript''), (53, ''text/markdown''),
     (54, ''text/plain;charset=US-ASCII''), (55, ''text/plain;charset=UTF-16''),
     (56, ''text/plain;charset=UTF-8''), (57, ''text/vcard''), (58, ''video/H264''),
     (59, ''video/H265''), (60, ''video/H266''), (61, ''video/ogg''), (62, ''video/VP8''),
     (63, ''video/VP9''), (64, ''video/webm'')]"

definition GetCommonMediaType :: "byte \<Rightarrow> string option" where
  "GetCommonMediaType ident = map_of commonMediaTypes ident"

text \<open>The loop over the map, for one order in which the map may be visited.\<close>

definition mediaTypeIDIn :: "(byte \<times> string) list \<Rightarrow> string \<Rightarrow> byte option" where
  "mediaTypeIDIn tab mediaType = map_option fst (find (\<lambda>(ident, mime). mime = mediaType) tab)"

definition GetCommonMediaTypeID :: "string \<Rightarrow> byte option" where
  "GetCommonMediaTypeID mediaType = mediaTypeIDIn commonMediaTypes mediaType"

section \<open>Encoding\<close>

text \<open>\<open>b.WriteByte(byte(len(s))); b.WriteString(s)\<close>: the length is cut to a byte.\<close>

definition encString :: "string \<Rightarrow> bytes" where
  "encString s = of_nat (length s) # bytes_of s"

definition encAddress :: "Address \<Rightarrow> bytes" where
  "encAddress addr = encString (ToString addr)"

definition encType :: "bool \<Rightarrow> byte \<Rightarrow> string \<Rightarrow> bytes" where
  "encType common typeID typ =
     (if common then
        [if typeID = 0
         then (case GetCommonMediaTypeID typ of Some i \<Rightarrow> i | None \<Rightarrow> typeID)
         else typeID]
      else encString typ)"

definition encAttachment :: "AttachmentHeader \<Rightarrow> bytes" where
  "encAttachment att =
     aFlags att # encType (hasFlag (aFlags att) 1) (aTypeID att) (aType att)
     @ encString (aFilename att)
     @ le32 (aSize att)
     @ (if hasFlag (aFlags att) 2 then le32 (aExpandedSize att) else [])"

definition encAddTo :: "Header \<Rightarrow> bytes" where
  "encAddTo h =
     encAddress (case AddToFrom h of Some a \<Rightarrow> a | None \<Rightarrow> From h)
     @ of_nat (length (AddTo h)) # concat (map encAddress (AddTo h))"

definition Encode :: "Header \<Rightarrow> bytes" where
  "Encode h =
     Version h # Flags h
     # (if hasFlag (Flags h) FlagHasPid then Pid h else [])
     @ encAddress (From h)
     @ of_nat (length (To h)) # concat (map encAddress (To h))
     @ (if hasFlag (Flags h) FlagHasAddTo then encAddTo h else [])
     @ le64 (Timestamp h)
     @ (if \<not> hasFlag (Flags h) FlagHasPid then encString (Topic h) else [])
     @ encType (hasFlag (Flags h) FlagCommonType) (TypeID h) (Type h)
     @ le32 (Size h)
     @ (if hasFlag (Flags h) FlagDeflate then le32 (ExpandedSize h) else [])
     @ of_nat (length (Attachments h)) # concat (map encAttachment (Attachments h))"

section \<open>Hashes\<close>

text \<open>\<open>GetHeaderHash\<close> and \<open>GetMessageHash\<close> cache their result in the header they return.\<close>

definition GetHeaderHash :: "golib \<Rightarrow> Header \<Rightarrow> bytes \<times> Header" where
  "GetHeaderHash L h =
     (case HeaderHash h of
        Some b \<Rightarrow> (b, h)
      | None \<Rightarrow> let b = sha256 L (Encode h) in (b, h\<lparr>HeaderHash := Some b\<rparr>))"

definition HashPayload :: "golib \<Rightarrow> fsys \<Rightarrow> string \<Rightarrow> nat \<Rightarrow> bool \<Rightarrow> u32 \<Rightarrow> bytes res" where
  "HashPayload L fs path wireSize deflated expandedSize =
     bindR (readFile fs path) (\<lambda>f.
       if deflated then
         bindR (inflate L (take wireSize f)) (\<lambda>d.
           if of_nat (length d) \<noteq> expandedSize
           then Err (Errorf ''decompressed size does not match declared expanded size'')
           else Ok d)
       else copyN wireSize f)"

fun hashAttachments :: "golib \<Rightarrow> fsys \<Rightarrow> AttachmentHeader list \<Rightarrow> bytes res" where
  "hashAttachments L fs [] = Ok []"
| "hashAttachments L fs (att # atts) =
     bindR (HashPayload L fs (aFilepath att) (unat (aSize att)) (hasFlag (aFlags att) 2)
              (aExpandedSize att)) (\<lambda>d.
     bindR (hashAttachments L fs atts) (\<lambda>ds. Ok (d @ ds)))"

text \<open>The bytes \<open>GetMessageHash\<close> feeds to SHA-256: header, expanded body, expanded attachments.\<close>

definition messageBytes :: "golib \<Rightarrow> fsys \<Rightarrow> Header \<Rightarrow> bytes res" where
  "messageBytes L fs h =
     bindR (HashPayload L fs (Filepath h) (unat (Size h)) (hasFlag (Flags h) FlagDeflate)
              (ExpandedSize h)) (\<lambda>body.
     bindR (hashAttachments L fs (Attachments h)) (\<lambda>atts.
     Ok (Encode h @ body @ atts)))"

definition GetMessageHash :: "golib \<Rightarrow> fsys \<Rightarrow> Header \<Rightarrow> (bytes \<times> Header) res" where
  "GetMessageHash L fs h =
     (case messageHash h of
        Some b \<Rightarrow> Ok (b, h)
      | None \<Rightarrow>
          bindR (messageBytes L fs h) (\<lambda>m.
          let b = sha256 L m in Ok (b, h\<lparr>messageHash := Some b\<rparr>)))"


section \<open>Properties\<close>

subsection \<open>The media type table\<close>

lemma distinct_commonMediaTypes:
  "distinct (map fst commonMediaTypes)" "distinct (map snd commonMediaTypes)"
  by code_simp+

lemma commonMediaTypes_ids: "map fst commonMediaTypes = map of_nat [1..<65]"
  by code_simp

lemma mediaTypeIDIn_Some:
  assumes "distinct (map snd tab)"
  shows "mediaTypeIDIn tab t = Some i \<longleftrightarrow> (i, t) \<in> set tab"
  using assms by (induction tab) (force simp: mediaTypeIDIn_def)+

lemma GetCommonMediaTypeID_Some:
  "GetCommonMediaTypeID t = Some i \<longleftrightarrow> (i, t) \<in> set commonMediaTypes"
  by (simp add: GetCommonMediaTypeID_def mediaTypeIDIn_Some distinct_commonMediaTypes)

lemma GetCommonMediaType_Some:
  "GetCommonMediaType i = Some t \<longleftrightarrow> (i, t) \<in> set commonMediaTypes"
  by (simp add: GetCommonMediaType_def distinct_commonMediaTypes)

lemma mediaTypeIDIn_order:
  assumes "set tab = set commonMediaTypes" "distinct tab"
  shows "mediaTypeIDIn tab t = GetCommonMediaTypeID t"
proof -
  have inj: "inj_on snd (set commonMediaTypes)"
    using distinct_commonMediaTypes(2) by (simp add: distinct_map)
  then have "distinct (map snd tab)" using assms by (simp add: distinct_map)
  then have "mediaTypeIDIn tab t = Some i \<longleftrightarrow> GetCommonMediaTypeID t = Some i" for i
    by (simp add: mediaTypeIDIn_Some GetCommonMediaTypeID_Some assms)
  then show ?thesis by (metis not_None_eq)
qed

lemma common_type_nonzero: "(i, t) \<in> set commonMediaTypes \<Longrightarrow> i \<noteq> 0"
proof -
  have "0 \<notin> set (map fst commonMediaTypes)" by code_simp
  then show "(i, t) \<in> set commonMediaTypes \<Longrightarrow> i \<noteq> 0" by force
qed

text \<open>What \<open>Encode\<close> writes for a common type reads back as that type, whether \<open>TypeID\<close> is set.\<close>

lemma encType_common:
  assumes "GetCommonMediaType i = Some t"
  shows "encType True i t = [i]" "encType True 0 t = [i]"
proof -
  have "(i, t) \<in> set commonMediaTypes" using assms by (simp only: GetCommonMediaType_Some)
  then have "i \<noteq> 0" "GetCommonMediaTypeID t = Some i"
    by (rule common_type_nonzero, simp only: GetCommonMediaTypeID_Some)
  then show "encType True i t = [i]" "encType True 0 t = [i]"
    by (simp_all add: encType_def)
qed

subsection \<open>Hash caching\<close>

lemma GetHeaderHash_idem:
  "GetHeaderHash L (snd (GetHeaderHash L h)) = (fst (GetHeaderHash L h), snd (GetHeaderHash L h))"
  by (simp add: GetHeaderHash_def Let_def split: option.splits)

lemma GetMessageHash_cached:
  "GetMessageHash L fs h = Ok (b, h') \<Longrightarrow> messageHash h' = Some b"
  by (auto simp: GetMessageHash_def Let_def split: option.splits)

lemma GetMessageHash_Ok:
  assumes "GetMessageHash L fs h = Ok (b, h')"
  shows "h' = h\<lparr>messageHash := Some b\<rparr>"
    and "messageHash h = None \<Longrightarrow> \<exists>m. messageBytes L fs h = Ok m \<and> b = sha256 L m"
  using assms by (auto simp: GetMessageHash_def Let_def split: option.splits)

lemma encAttachment_path [simp]: "encAttachment (a\<lparr>aFilepath := p\<rparr>) = encAttachment a"
  by (simp add: encAttachment_def)

lemma HashPayload_deflated_len:
  "HashPayload L fs p n True e = Ok d \<Longrightarrow> of_nat (length d) = e"
  by (auto simp: HashPayload_def split: if_splits)

lemma HashPayload_plain_len:
  "HashPayload L fs p n False e = Ok d \<Longrightarrow> length d = n"
  by (auto simp: HashPayload_def copyN_def split: if_splits)

end
