(* ===== verification/Outgoing.thy ===== *)
theory Outgoing
  imports Wire
begin

text \<open>
  The map of messages in flight (\<open>src/cmd/fmsgd/outgoing.go\<close>), by header hash: the header and the
  addresses it is being delivered to. Deliveries run concurrently; every operation holds the
  mutex, so an execution is a sequence of operations.

  \<open>challenge_registry\<close> is the contract its clients rely on, the sender that registers a delivery
  before it connects and removes it afterwards, and the challenge handler that looks it up.
\<close>

section \<open>The map\<close>

record outgoingEntry =
  header :: Header
  ips :: "string set"

type_synonym outgoingMap = "bytes \<rightharpoonup> outgoingEntry"

definition initOutgoing :: outgoingMap where
  "initOutgoing = Map.empty"

definition registerOutgoing :: "bytes \<Rightarrow> Header \<Rightarrow> string \<Rightarrow> outgoingMap \<Rightarrow> outgoingMap" where
  "registerOutgoing hash h ip m =
     (let e = (case m hash of None \<Rightarrow> \<lparr>header = h, ips = {}\<rparr> | Some e \<Rightarrow> e)
      in m(hash \<mapsto> e\<lparr>ips := insert ip (ips e)\<rparr>))"

definition lookupOutgoingMap :: "outgoingMap \<Rightarrow> bytes \<Rightarrow> string \<Rightarrow> Header option" where
  "lookupOutgoingMap m hash ip =
     (case m hash of
        None \<Rightarrow> None
      | Some e \<Rightarrow> if ip \<notin> ips e then None else Some (header e))"

definition removeOutgoingIP :: "bytes \<Rightarrow> string \<Rightarrow> outgoingMap \<Rightarrow> outgoingMap" where
  "removeOutgoingIP hash ip m =
     (case m hash of
        None \<Rightarrow> m
      | Some e \<Rightarrow>
          let ips' = ips e - {ip}
          in if ips' = {} then m(hash := None) else m(hash \<mapsto> e\<lparr>ips := ips'\<rparr>))"

section \<open>Executions\<close>

datatype outop = Register bytes Header string | Remove bytes string

fun applyOp :: "outop \<Rightarrow> outgoingMap \<Rightarrow> outgoingMap" where
  "applyOp (Register hash h ip) m = registerOutgoing hash h ip m"
| "applyOp (Remove hash ip) m = removeOutgoingIP hash ip m"

definition runOps :: "outop list \<Rightarrow> outgoingMap" where
  "runOps ops = fold applyOp ops initOutgoing"

inductive reachable :: "outgoingMap \<Rightarrow> bool" where
  init: "reachable initOutgoing"
| step: "reachable m \<Longrightarrow> reachable (applyOp op m)"

inductive_cases reachableE: "reachable m"

text \<open>No entry without an address; the entry of a hash has a header registered under it.\<close>

definition wfOutgoing :: "outgoingMap \<Rightarrow> bool" where
  "wfOutgoing m \<longleftrightarrow> (\<forall>hash e. m hash = Some e \<longrightarrow> ips e \<noteq> {} \<and> finite (ips e))"

lemma wf_init: "wfOutgoing initOutgoing"
  by (simp add: wfOutgoing_def initOutgoing_def)

lemma wf_register: "wfOutgoing m \<Longrightarrow> wfOutgoing (registerOutgoing hash h ip m)"
  by (auto simp: wfOutgoing_def registerOutgoing_def Let_def split: option.splits)

lemma wf_remove: "wfOutgoing m \<Longrightarrow> wfOutgoing (removeOutgoingIP hash ip m)"
  by (auto simp: wfOutgoing_def removeOutgoingIP_def Let_def split: option.splits if_splits)

lemma reachable_wf: "reachable m \<Longrightarrow> wfOutgoing m"
proof (induction rule: reachable.induct)
  case (step m op)
  then show ?case by (cases op) (simp_all add: wf_register wf_remove)
qed (rule wf_init)

lemma reachable_fold: "reachable m \<Longrightarrow> reachable (fold applyOp ops m)"
  by (induction ops arbitrary: m) (auto intro: reachable.step)

lemma reachable_runOps: "reachable (runOps ops)"
  unfolding runOps_def by (rule reachable_fold) (rule reachable.init)

section \<open>The contract\<close>

text \<open>Registered in the sequence of operations, and not removed afterwards.\<close>

definition inFlight :: "bytes \<Rightarrow> string \<Rightarrow> outop list \<Rightarrow> bool" where
  "inFlight hash ip ops \<longleftrightarrow>
     (\<exists>pre h post. ops = pre @ Register hash h ip # post \<and> Remove hash ip \<notin> set post)"

lemma inFlight_snoc:
  "inFlight hash ip (ops @ [op]) \<longleftrightarrow>
     (\<exists>h. op = Register hash h ip) \<or> op \<noteq> Remove hash ip \<and> inFlight hash ip ops"
  (is "?L \<longleftrightarrow> ?R")
proof
  assume ?L
  then obtain pre h post where *: "ops @ [op] = pre @ Register hash h ip # post" "Remove hash ip \<notin> set post"
    by (auto simp: inFlight_def)
  then show ?R by (cases post rule: rev_cases) (auto simp: inFlight_def)
next
  assume ?R
  then show ?L
  proof
    assume "op \<noteq> Remove hash ip \<and> inFlight hash ip ops"
    then obtain pre h post where "ops @ [op] = pre @ Register hash h ip # (post @ [op])"
      "Remove hash ip \<notin> set (post @ [op])"
      by (auto simp: inFlight_def)
    then show ?L unfolding inFlight_def by blast
  qed (fastforce simp: inFlight_def)
qed

locale challenge_registry =
  fixes start :: 's
    and register :: "bytes \<Rightarrow> Header \<Rightarrow> string \<Rightarrow> 's \<Rightarrow> 's"
    and remove :: "bytes \<Rightarrow> string \<Rightarrow> 's \<Rightarrow> 's"
    and lookup :: "'s \<Rightarrow> bytes \<Rightarrow> string \<Rightarrow> Header option"
  assumes lookup_start: "lookup start hash ip = None"
    and lookup_register: "lookup (register hash h ip s) hash ip \<noteq> None"
    and lookup_register_other:
      "(hash', ip') \<noteq> (hash, ip) \<Longrightarrow> lookup (register hash h ip s) hash' ip' = lookup s hash' ip'"
    and lookup_remove: "lookup (remove hash ip s) hash ip = None"
    and lookup_remove_other:
      "(hash', ip') \<noteq> (hash, ip) \<Longrightarrow> lookup (remove hash ip s) hash' ip' = lookup s hash' ip'"
begin

primrec perform :: "outop \<Rightarrow> 's \<Rightarrow> 's" where
  "perform (Register hash h ip) = register hash h ip"
| "perform (Remove hash ip) = remove hash ip"

lemma perform_other:
  "\<forall>h. op \<noteq> Register hash h ip \<Longrightarrow> op \<noteq> Remove hash ip \<Longrightarrow> lookup (perform op s) hash ip = lookup s hash ip"
  by (cases op) (auto intro!: lookup_register_other lookup_remove_other)

text \<open>A delivery is known exactly when it was registered and not removed since.\<close>

lemma lookup_history: "lookup (fold perform ops start) hash ip \<noteq> None \<longleftrightarrow> inFlight hash ip ops"
proof (induction ops rule: rev_induct)
  case (snoc op ops)
  consider h where "op = Register hash h ip" | "op = Remove hash ip"
    | "\<forall>h. op \<noteq> Register hash h ip" "op \<noteq> Remove hash ip" by blast
  then show ?case
    by cases (use snoc lookup_register lookup_remove in \<open>auto simp: inFlight_snoc perform_other\<close>)
qed (simp add: lookup_start inFlight_def)

text \<open>Whatever the others do, a registered delivery is known until it is removed.\<close>

lemma lookup_stays:
  "lookup s hash ip \<noteq> None \<Longrightarrow> Remove hash ip \<notin> set ops \<Longrightarrow> lookup (fold perform ops s) hash ip \<noteq> None"
proof (induction ops arbitrary: s)
  case (Cons op ops)
  have "lookup (perform op s) hash ip \<noteq> None"
    using Cons.prems lookup_register perform_other
    by (cases "\<exists>h. op = Register hash h ip") auto
  with Cons show ?case by simp
qed simp

end

lemma lookup_register_self: "lookupOutgoingMap (registerOutgoing hash h ip m) hash ip \<noteq> None"
  by (auto simp: lookupOutgoingMap_def registerOutgoing_def Let_def split: option.splits)

lemma lookup_remove_self: "lookupOutgoingMap (removeOutgoingIP hash ip m) hash ip = None"
  by (auto simp: lookupOutgoingMap_def removeOutgoingIP_def Let_def split: option.splits)

interpretation out: challenge_registry initOutgoing registerOutgoing removeOutgoingIP lookupOutgoingMap
proof unfold_locales
  fix hash hash' ip ip' h m
  show "lookupOutgoingMap initOutgoing hash ip = None"
    by (simp add: lookupOutgoingMap_def initOutgoing_def)
  show "lookupOutgoingMap (registerOutgoing hash h ip m) hash ip \<noteq> None"
    by (rule lookup_register_self)
  show "lookupOutgoingMap (removeOutgoingIP hash ip m) hash ip = None"
    by (rule lookup_remove_self)
  assume ne: "(hash', ip') \<noteq> (hash, ip)"
  show "lookupOutgoingMap (removeOutgoingIP hash ip m) hash' ip' = lookupOutgoingMap m hash' ip'"
    using ne by (auto simp: lookupOutgoingMap_def removeOutgoingIP_def Let_def split: option.splits)
  show "lookupOutgoingMap (registerOutgoing hash h ip m) hash' ip' = lookupOutgoingMap m hash' ip'"
    using ne by (auto simp: lookupOutgoingMap_def registerOutgoing_def Let_def split: option.splits)
qed

lemma applyOp_perform: "applyOp = out.perform"
proof
  fix op show "applyOp op = out.perform op" by (cases op) (simp_all add: fun_eq_iff)
qed

lemma lookup_header:
  "lookupOutgoingMap (fold applyOp ops m) hash ip = Some h \<Longrightarrow>
     (\<forall>e. m hash = Some e \<longrightarrow> Q (header e)) \<Longrightarrow> (\<forall>g ip'. Register hash g ip' \<in> set ops \<longrightarrow> Q g) \<Longrightarrow> Q h"
proof (induction ops arbitrary: m)
  case Nil
  then show ?case by (auto simp: lookupOutgoingMap_def split: option.splits if_splits)
next
  case (Cons op ops)
  have "\<forall>e. applyOp op m hash = Some e \<longrightarrow> Q (header e)"
    using Cons.prems(2,3)
    by (cases op) (auto simp: registerOutgoing_def removeOutgoingIP_def Let_def split: option.splits if_splits)
  then show ?case by (rule Cons.IH [rotated]) (use Cons.prems in auto)
qed

section \<open>Theorems\<close>

text \<open>
  C27. What a challenge can find. After any interleaving of deliveries' operations the pair of a
  header hash and an address is known exactly when some operation registered it and none after it
  removed it.
\<close>

theorem outgoing_history:
  "lookupOutgoingMap (runOps ops) hash ip \<noteq> None \<longleftrightarrow>
     (\<exists>pre h post. ops = pre @ Register hash h ip # post \<and> Remove hash ip \<notin> set post)"
  unfolding runOps_def applyOp_perform out.lookup_history by (rule inFlight_def)

text \<open>
  What a challenge is answered from. If every delivery is registered under its own header's
  hash, then the header found for a challenge has exactly the hash that was challenged.
\<close>

theorem outgoing_header:
  assumes "\<forall>hash h ip. Register hash h ip \<in> set ops \<longrightarrow> fst (GetHeaderHash L h) = hash"
    and "lookupOutgoingMap (runOps ops) hash ip = Some h"
  shows "fst (GetHeaderHash L h) = hash"
  by (rule lookup_header [OF assms(2) [unfolded runOps_def]])
    (use assms(1) in \<open>auto simp: initOutgoing_def\<close>)

definition sampleGolib :: golib where
  "sampleGolib = \<lparr>uni = \<lparr>letterTab = (\<lambda>r. False), numberTab = (\<lambda>r. False), lowerTab = (\<lambda>r. r), foldTab = (\<lambda>r s. False)\<rparr>,
     sha256 = (\<lambda>b. take 32 (b @ replicate 32 0)), inflate = Ok, deflate = (\<lambda>b. b), ParseIP = (\<lambda>s. None)\<rparr>"

definition sampleOps :: "outop list" where
  "sampleOps = [Register (fst (GetHeaderHash sampleGolib emptyHeader)) emptyHeader ''10.0.0.1'']"

theorem outgoing_header_witness:
  "lookupOutgoingMap (runOps sampleOps) (fst (GetHeaderHash sampleGolib emptyHeader)) ''10.0.0.1'' = Some emptyHeader
   \<and> fst (GetHeaderHash sampleGolib emptyHeader) = sha256 sampleGolib (Encode emptyHeader)"
proof -
  let ?h = "fst (GetHeaderHash sampleGolib emptyHeader)"
  have l: "lookupOutgoingMap (runOps sampleOps) ?h ''10.0.0.1'' = Some emptyHeader"
    by (simp add: sampleOps_def runOps_def registerOutgoing_def initOutgoing_def lookupOutgoingMap_def Let_def)
  then have "fst (GetHeaderHash sampleGolib emptyHeader) = ?h"
    by (rule outgoing_header [rotated]) (simp add: sampleOps_def)
  with l show ?thesis by (simp add: GetHeaderHash_def emptyHeader_def Let_def)
qed

text \<open>
  Entries do not leak: in every reachable map each entry still has an address being served, so
  a header is dropped as soon as its last address is removed.
\<close>

theorem outgoing_no_empty_entry:
  assumes "reachable m" "m hash = Some e"
  shows "ips e \<noteq> {} \<and> finite (ips e) \<and> (\<forall>ip. ips e = {ip} \<longrightarrow> removeOutgoingIP hash ip m hash = None)"
  using reachable_wf [OF assms(1)] assms(2)
  by (auto simp: wfOutgoing_def removeOutgoingIP_def Let_def)

theorem outgoing_no_empty_entry_witness:
  "ips \<lparr>header = emptyHeader, ips = {''10.0.0.1''}\<rparr> \<noteq> {}"
  using outgoing_no_empty_entry [OF reachable_runOps [of sampleOps]]
  by (simp add: sampleOps_def runOps_def registerOutgoing_def initOutgoing_def Let_def)

text \<open>
  Deliveries are not counted. When the same message is delivered twice at once to the same
  address, the first delivery to finish removes the address, and a challenge from the second finds
  nothing although that delivery is still registered by its own account.
\<close>

theorem concurrent_delivery_lost:
  "lookupOutgoingMap (runOps [Register hash h ip, Register hash h ip, Remove hash ip]) hash ip = None"
  by (simp add: runOps_def lookup_remove_self)

end
