(* ===== verification/Emoji.thy ===== *)
theory Emoji
  imports EmojiTables
begin

text \<open>
  Single emoji (\<open>src/internal/emoji/emoji.go\<close>): \<open>IsRGI\<close>, the table lookup, and \<open>IsPossible\<close>, the
  grammar of UTS 51 restricted to sequences that present as emoji. \<open>zwjElement\<close> and the loop of
  \<open>IsPossible\<close> work on the runes as the source does; \<open>elements\<close> and \<open>possible_emoji\<close> are the grammar.
\<close>

section \<open>Recognition\<close>

definition zwj :: rune where [simp]: "zwj = 0x200D"
definition vs16 :: rune where [simp]: "vs16 = 0xFE0F"
definition keycap :: rune where [simp]: "keycap = 0x20E3"
definition tagBegin :: rune where [simp]: "tagBegin = 0xE0020"
definition tagEnd :: rune where [simp]: "tagEnd = 0xE007E"
definition tagTerm :: rune where [simp]: "tagTerm = 0xE007F"
definition riFirst :: rune where [simp]: "riFirst = 0x1F1E6"
definition riLast :: rune where [simp]: "riLast = 0x1F1FF"
definition blackFlag :: rune where [simp]: "blackFlag = 0x1F3F4"
definition maxReaction :: nat where [simp]: "maxReaction = 64"
definition maxSequenceR :: nat where [simp]: "maxSequenceR = 24"

text \<open>\<open>unicode.Is\<close>: the rune is in a range, on its stride.\<close>

definition Is :: "rangeTable \<Rightarrow> rune \<Rightarrow> bool" where
  "Is tab r \<longleftrightarrow> list_ex (\<lambda>(lo, hi, stride). lo \<le> r \<and> r \<le> hi \<and> (stride = 1 \<or> (r - lo) mod stride = 0)) tab"

definition isRI :: "rune \<Rightarrow> bool" where
  "isRI r \<longleftrightarrow> riFirst \<le> r \<and> r \<le> riLast"

definition isTag :: "rune \<Rightarrow> bool" where
  "isTag r \<longleftrightarrow> tagBegin \<le> r \<and> r \<le> tagEnd"

definition IsRGI :: "string \<Rightarrow> bool" where
  "IsRGI s \<longleftrightarrow> s \<in> set (map (\<lambda>rs. concat (map encode_rune rs)) rgi)"

text \<open>The element at the front: how many runes it takes and whether there is one.\<close>

definition zwjElement :: "rune list \<Rightarrow> nat \<times> bool" where
  "zwjElement rs =
     (case rs of [] \<Rightarrow> (0, False)
      | base # tl1 \<Rightarrow>
          if \<not> Is propEmoji base \<or> isRI base then (0, False)
          else let presents = Is propEmojiPresentation base in
            case tl1 of [] \<Rightarrow> (1, presents)
            | r # tl2 \<Rightarrow>
                if Is propEmojiModifier r then
                  (if \<not> Is propEmojiModifierBase base then (0, False) else (2, True))
                else if r = vs16 then
                  (if tl2 \<noteq> [] \<and> hd tl2 = keycap then (3, True) else (2, True))
                else if isTag r then
                  (if base \<noteq> blackFlag then (0, False)
                   else let i = 1 + length (takeWhile isTag tl1) in
                     if i \<ge> length rs \<or> rs ! i \<noteq> tagTerm then (0, False) else (i + 1, True))
                else (1, presents))"

lemma zwjElement_pos: "zwjElement rs = (n, True) \<Longrightarrow> 0 < n"
  by (auto simp: zwjElement_def Let_def split: list.splits if_splits)

text \<open>The loop of \<open>IsPossible\<close> over the runes that are left.\<close>

function zwjLoop :: "rune list \<Rightarrow> bool" where
  "zwjLoop rs =
     (case zwjElement rs of (n, ok) \<Rightarrow>
        if \<not> ok then False
        else case drop n rs of [] \<Rightarrow> True
          | r # rest \<Rightarrow> if r \<noteq> zwj then False else if rest = [] then False else zwjLoop rest)"
  by pat_completeness auto
termination
  by (relation "measure length") (auto dest: arg_cong [where f = length])

declare zwjLoop.simps [simp del]

definition possibleRunes :: "rune list \<Rightarrow> bool" where
  "possibleRunes rs \<longleftrightarrow>
     (if length rs > maxSequenceR then False
      else if length rs = 2 \<and> isRI (rs ! 0) \<and> isRI (rs ! 1) then True
      else zwjLoop rs)"

definition IsPossible :: "string \<Rightarrow> bool" where
  "IsPossible s \<longleftrightarrow>
     (if s = [] \<or> length s > maxReaction \<or> \<not> ValidString s then False else possibleRunes (runes s))"

definition IsSingle :: "string \<Rightarrow> bool" where
  "IsSingle s \<longleftrightarrow> IsRGI s \<or> IsPossible s"

section \<open>The grammar\<close>

text \<open>
  One \<open>zwj_element\<close> that presents as emoji, sequences of them joined by U+200D, and flags.
\<close>

inductive zwj_element :: "rune list \<Rightarrow> bool" where
  plain: "\<lbrakk>Is propEmoji e; \<not> isRI e; Is propEmojiPresentation e\<rbrakk> \<Longrightarrow> zwj_element [e]"
| modified: "\<lbrakk>Is propEmoji e; \<not> isRI e; Is propEmojiModifierBase e; Is propEmojiModifier m\<rbrakk> \<Longrightarrow> zwj_element [e, m]"
| presented: "\<lbrakk>Is propEmoji e; \<not> isRI e\<rbrakk> \<Longrightarrow> zwj_element [e, vs16]"
| keycapped: "\<lbrakk>Is propEmoji e; \<not> isRI e\<rbrakk> \<Longrightarrow> zwj_element [e, vs16, keycap]"
| tagged: "\<lbrakk>ts \<noteq> []; list_all isTag ts\<rbrakk> \<Longrightarrow> zwj_element (blackFlag # ts @ [tagTerm])"

inductive zwj_sequence :: "rune list \<Rightarrow> bool" where
  one: "zwj_element e \<Longrightarrow> zwj_sequence e"
| join: "\<lbrakk>zwj_element e; zwj_sequence s\<rbrakk> \<Longrightarrow> zwj_sequence (e @ zwj # s)"

inductive possible_emoji :: "rune list \<Rightarrow> bool" where
  flag: "\<lbrakk>isRI a; isRI b\<rbrakk> \<Longrightarrow> possible_emoji [a, b]"
| elements: "zwj_sequence rs \<Longrightarrow> possible_emoji rs"

inductive_cases zwj_elementE: "zwj_element rs"
inductive_cases zwj_sequenceE: "zwj_sequence rs"
inductive_simps possible_emoji_simps: "possible_emoji rs"

lemma modifier_range: "Is propEmojiModifier r \<longleftrightarrow> 0x1F3FB \<le> r \<and> r \<le> 0x1F3FF"
  by (simp add: Is_def propEmojiModifier_def)

lemma blackFlag_emoji: "Is propEmoji blackFlag" "\<not> isRI blackFlag"
  by code_simp+

text \<open>What follows an element ends it: nothing, or U+200D.\<close>

lemma takeWhile_tags:
  "list_all isTag ts \<Longrightarrow> takeWhile isTag (ts @ tagTerm # rest) = ts"
  by (induction ts) (auto simp: isTag_def)

lemma zwjElement_complete:
  assumes "zwj_element e" "rest = [] \<or> hd rest = zwj"
  shows "zwjElement (e @ rest) = (length e, True)"
  using assms(1)
proof cases
  case (tagged ts)
  obtain t ts' where ts: "ts = t # ts'" "isTag t" using tagged by (cases ts) auto
  have "\<not> Is propEmojiModifier t" "t \<noteq> vs16" using ts(2) by (auto simp: modifier_range isTag_def)
  moreover have "takeWhile isTag (ts @ tagTerm # rest) = ts" using tagged(3) by (rule takeWhile_tags)
  ultimately show ?thesis
    using blackFlag_emoji ts by (simp add: zwjElement_def tagged(1) Let_def nth_append)
qed (use assms(2) in \<open>cases rest; auto simp: zwjElement_def modifier_range isTag_def\<close>)+

lemma zwjElement_sound:
  assumes "zwjElement rs = (n, True)"
  shows "zwj_element (take n rs) \<and> n \<le> length rs"
proof -
  from assms obtain base tl1 where rs: "rs = base # tl1" "Is propEmoji base" "\<not> isRI base"
    by (auto simp: zwjElement_def split: list.splits if_splits)
  consider "tl1 = []" | (modifier) r m where "tl1 = r # m" "Is propEmojiModifier r"
    | (sel) m where "tl1 = vs16 # m"
    | (tag) r m where "tl1 = r # m" "\<not> Is propEmojiModifier r" "r \<noteq> vs16" "isTag r"
    | (other) r m where "tl1 = r # m" "\<not> Is propEmojiModifier r" "r \<noteq> vs16" "\<not> isTag r"
    by (cases tl1) auto
  then show ?thesis
  proof cases
    case tag
    let ?ts = "takeWhile isTag tl1" let ?i = "1 + length ?ts"
    from assms rs tag have b: "base = blackFlag" "\<not> ?i \<ge> length rs" "rs ! ?i = tagTerm" "n = ?i + 1"
      by (auto simp: zwjElement_def Let_def split: if_splits simp del: takeWhile.simps)
    have "take (length ?ts) tl1 = ?ts" by (rule takeWhile_eq_take [symmetric])
    moreover have "tl1 ! length ?ts = tagTerm" using b(3) by (simp add: rs(1))
    moreover have l: "length ?ts < length tl1" using b(2) by (simp add: rs(1))
    ultimately have t: "take n rs = base # ?ts @ [tagTerm]"
      by (simp add: b(4) rs(1) take_Suc_conv_app_nth)
    have "?ts \<noteq> []" "list_all isTag ?ts" using tag by (auto simp: list_all_iff dest: set_takeWhileD)
    then have "zwj_element (blackFlag # ?ts @ [tagTerm])" by (rule tagged)
    then show ?thesis using l t by (simp add: b(1) b(4) rs(1))
  qed (use assms rs in \<open>auto simp: zwjElement_def Let_def split: if_splits list.splits
         intro: plain modified presented [simplified] keycapped [simplified] simp: neq_Nil_conv modifier_range\<close>)
qed

lemma zwj_sequence_nonempty: "zwj_sequence rs \<Longrightarrow> rs \<noteq> []"
  by (induction rule: zwj_sequence.induct) (auto elim: zwj_elementE)

lemma zwjLoop_grammar: "zwjLoop rs \<longleftrightarrow> zwj_sequence rs"
proof
  show "zwjLoop rs \<Longrightarrow> zwj_sequence rs"
  proof (induction rs rule: zwjLoop.induct)
    case (1 rs)
    then obtain n where n: "zwjElement rs = (n, True)" by (cases "zwjElement rs") (simp add: zwjLoop.simps split: if_splits)
    have e: "zwj_element (take n rs)" using zwjElement_sound [OF n] by simp
    show ?case
    proof (cases "drop n rs")
      case Nil
      then show ?thesis using e by (simp add: one)
    next
      case (Cons r rest)
      then have "r = zwj" "rest \<noteq> []" "zwjLoop rest" using 1(2) n by (auto simp: zwjLoop.simps [of rs] split: if_splits)
      then have "zwj_sequence rest" using 1(1) n Cons by auto
      then have "zwj_sequence (take n rs @ zwj # rest)" by (rule join [OF e])
      moreover have "take n rs @ zwj # rest = rs" using Cons \<open>r = zwj\<close> by (metis append_take_drop_id)
      ultimately show ?thesis by simp
    qed
  qed
  show "zwj_sequence rs \<Longrightarrow> zwjLoop rs"
  proof (induction rule: zwj_sequence.induct)
    case (one e)
    then show ?case using zwjElement_complete [of e "[]"] by (simp add: zwjLoop.simps)
  next
    case (join e s)
    then show ?case
      using zwjElement_complete [of e "zwj # s"] zwj_sequence_nonempty [of s]
      by (subst zwjLoop.simps) simp
  qed
qed

lemma IsPossible_iff:
  "IsPossible s \<longleftrightarrow> s \<noteq> [] \<and> length s \<le> 64 \<and> ValidString s \<and> length (runes s) \<le> 24 \<and> possible_emoji (runes s)"
proof -
  have "possibleRunes rs \<longleftrightarrow> length rs \<le> 24 \<and> possible_emoji rs" if "rs \<noteq> []" for rs
    by (auto simp: possibleRunes_def possible_emoji_simps zwjLoop_grammar length_Suc_conv numeral_2_eq_2)
  then show ?thesis by (auto simp: IsPossible_def)
qed


section \<open>The RGI table against the grammar\<close>

text \<open>
  The tables as search trees, and a check of one table entry that needs few comparisons.
\<close>

datatype rtree = Lf | Nd rtree rune rune rtree

fun inorder :: "rtree \<Rightarrow> rangeTable" where
  "inorder Lf = []"
| "inorder (Nd l a b r) = inorder l @ (a, b, 1) # inorder r"

fun inTree :: "rtree \<Rightarrow> rune \<Rightarrow> bool" where
  "inTree Lf x = False"
| "inTree (Nd l a b r) x = (if x < a then inTree l x else if b < x then inTree r x else True)"

lemma inTree_Is: "inTree t x \<Longrightarrow> Is (inorder t) x"
  by (induction t) (auto simp: Is_def split: if_splits)

definition emojiTree :: rtree where
  "emojiTree =
     Nd (Nd (Nd (Nd (Nd (Nd (Nd (Nd Lf 0x23 0x23 Lf) 0x2A 0x2A Lf) 0x30 0x39 (Nd Lf 0xA9 0xA9 Lf)) 0xAE
     0xAE (Nd (Nd (Nd Lf 0x203C 0x203C Lf) 0x2049 0x2049 Lf) 0x2122 0x2122 (Nd Lf 0x2139 0x2139 Lf)))
     0x2194 0x2199 (Nd (Nd (Nd (Nd Lf 0x21A9 0x21AA Lf) 0x231A 0x231B Lf) 0x2328 0x2328 (Nd Lf 0x23CF
     0x23CF Lf)) 0x23E9 0x23F3 (Nd (Nd Lf 0x23F8 0x23FA Lf) 0x24C2 0x24C2 (Nd Lf 0x25AA 0x25AB Lf))))
     0x25B6 0x25B6 (Nd (Nd (Nd (Nd (Nd Lf 0x25C0 0x25C0 Lf) 0x25FB 0x25FE Lf) 0x2600 0x2604 (Nd Lf
     0x260E 0x260E Lf)) 0x2611 0x2611 (Nd (Nd (Nd Lf 0x2614 0x2615 Lf) 0x2618 0x2618 Lf) 0x261D 0x261D
     (Nd Lf 0x2620 0x2620 Lf))) 0x2622 0x2623 (Nd (Nd (Nd (Nd Lf 0x2626 0x2626 Lf) 0x262A 0x262A Lf)
     0x262E 0x262F (Nd Lf 0x2638 0x263A Lf)) 0x2640 0x2640 (Nd (Nd Lf 0x2642 0x2642 Lf) 0x2648 0x2653
     (Nd Lf 0x265F 0x2660 Lf))))) 0x2663 0x2663 (Nd (Nd (Nd (Nd (Nd (Nd Lf 0x2665 0x2666 Lf) 0x2668
     0x2668 Lf) 0x267B 0x267B (Nd Lf 0x267E 0x267F Lf)) 0x2692 0x2697 (Nd (Nd (Nd Lf 0x2699 0x2699 Lf)
     0x269B 0x269C Lf) 0x26A0 0x26A1 (Nd Lf 0x26A7 0x26A7 Lf))) 0x26AA 0x26AB (Nd (Nd (Nd (Nd Lf 0x26B0
     0x26B1 Lf) 0x26BD 0x26BE Lf) 0x26C4 0x26C5 (Nd Lf 0x26C8 0x26C8 Lf)) 0x26CE 0x26CF (Nd (Nd Lf
     0x26D1 0x26D1 Lf) 0x26D3 0x26D4 (Nd Lf 0x26E9 0x26EA Lf)))) 0x26F0 0x26F5 (Nd (Nd (Nd (Nd (Nd Lf
     0x26F7 0x26FA Lf) 0x26FD 0x26FD Lf) 0x2702 0x2702 (Nd Lf 0x2705 0x2705 Lf)) 0x2708 0x270D (Nd (Nd
     (Nd Lf 0x270F 0x270F Lf) 0x2712 0x2712 Lf) 0x2714 0x2714 (Nd Lf 0x2716 0x2716 Lf))) 0x271D 0x271D
     (Nd (Nd (Nd (Nd Lf 0x2721 0x2721 Lf) 0x2728 0x2728 Lf) 0x2733 0x2734 (Nd Lf 0x2744 0x2744 Lf))
     0x2747 0x2747 (Nd (Nd Lf 0x274C 0x274C Lf) 0x274E 0x274E (Nd Lf 0x2753 0x2755 Lf)))))) 0x2757
     0x2757 (Nd (Nd (Nd (Nd (Nd (Nd (Nd Lf 0x2763 0x2764 Lf) 0x2795 0x2797 Lf) 0x27A1 0x27A1 (Nd Lf
     0x27B0 0x27B0 Lf)) 0x27BF 0x27BF (Nd (Nd (Nd Lf 0x2934 0x2935 Lf) 0x2B05 0x2B07 Lf) 0x2B1B 0x2B1C
     (Nd Lf 0x2B50 0x2B50 Lf))) 0x2B55 0x2B55 (Nd (Nd (Nd (Nd Lf 0x3030 0x3030 Lf) 0x303D 0x303D Lf)
     0x3297 0x3297 (Nd Lf 0x3299 0x3299 Lf)) 0x1F004 0x1F004 (Nd (Nd Lf 0x1F0CF 0x1F0CF Lf) 0x1F170
     0x1F171 (Nd Lf 0x1F17E 0x1F17F Lf)))) 0x1F18E 0x1F18E (Nd (Nd (Nd (Nd (Nd Lf 0x1F191 0x1F19A Lf)
     0x1F1E6 0x1F1FF Lf) 0x1F201 0x1F202 (Nd Lf 0x1F21A 0x1F21A Lf)) 0x1F22F 0x1F22F (Nd (Nd (Nd Lf
     0x1F232 0x1F23A Lf) 0x1F250 0x1F251 Lf) 0x1F300 0x1F321 (Nd Lf 0x1F324 0x1F393 Lf))) 0x1F396
     0x1F397 (Nd (Nd (Nd (Nd Lf 0x1F399 0x1F39B Lf) 0x1F39E 0x1F3F0 Lf) 0x1F3F3 0x1F3F5 (Nd Lf 0x1F3F7
     0x1F4FD Lf)) 0x1F4FF 0x1F53D (Nd (Nd Lf 0x1F549 0x1F54E Lf) 0x1F550 0x1F567 (Nd Lf 0x1F56F 0x1F570
     Lf))))) 0x1F573 0x1F57A (Nd (Nd (Nd (Nd (Nd (Nd Lf 0x1F587 0x1F587 Lf) 0x1F58A 0x1F58D Lf) 0x1F590
     0x1F590 (Nd Lf 0x1F595 0x1F596 Lf)) 0x1F5A4 0x1F5A5 (Nd (Nd (Nd Lf 0x1F5A8 0x1F5A8 Lf) 0x1F5B1
     0x1F5B2 Lf) 0x1F5BC 0x1F5BC (Nd Lf 0x1F5C2 0x1F5C4 Lf))) 0x1F5D1 0x1F5D3 (Nd (Nd (Nd (Nd Lf 0x1F5DC
     0x1F5DE Lf) 0x1F5E1 0x1F5E1 Lf) 0x1F5E3 0x1F5E3 (Nd Lf 0x1F5E8 0x1F5E8 Lf)) 0x1F5EF 0x1F5EF (Nd (Nd
     Lf 0x1F5F3 0x1F5F3 Lf) 0x1F5FA 0x1F64F (Nd Lf 0x1F680 0x1F6C5 Lf)))) 0x1F6CB 0x1F6D2 (Nd (Nd (Nd
     (Nd (Nd Lf 0x1F6D5 0x1F6D8 Lf) 0x1F6DC 0x1F6E5 Lf) 0x1F6E9 0x1F6E9 (Nd Lf 0x1F6EB 0x1F6EC Lf))
     0x1F6F0 0x1F6F0 (Nd (Nd (Nd Lf 0x1F6F3 0x1F6FC Lf) 0x1F7E0 0x1F7EB Lf) 0x1F7F0 0x1F7F0 (Nd Lf
     0x1F90C 0x1F93A Lf))) 0x1F93C 0x1F945 (Nd (Nd (Nd (Nd Lf 0x1F947 0x1F9FF Lf) 0x1FA70 0x1FA7C Lf)
     0x1FA80 0x1FA8A (Nd Lf 0x1FA8E 0x1FAC6 Lf)) 0x1FAC8 0x1FAC8 (Nd (Nd Lf 0x1FACD 0x1FADC Lf) 0x1FADF
     0x1FAEA (Nd Lf 0x1FAEF 0x1FAF8 Lf))))))"

definition presentationTree :: rtree where
  "presentationTree =
     Nd (Nd (Nd (Nd (Nd (Nd (Nd Lf 0x231A 0x231B Lf) 0x23E9 0x23EC Lf) 0x23F0 0x23F0 (Nd (Nd Lf 0x23F3
     0x23F3 Lf) 0x25FD 0x25FE Lf)) 0x2614 0x2615 (Nd (Nd (Nd Lf 0x2648 0x2653 Lf) 0x267F 0x267F Lf)
     0x2693 0x2693 (Nd Lf 0x26A1 0x26A1 Lf))) 0x26AA 0x26AB (Nd (Nd (Nd (Nd Lf 0x26BD 0x26BE Lf) 0x26C4
     0x26C5 Lf) 0x26CE 0x26CE (Nd Lf 0x26D4 0x26D4 Lf)) 0x26EA 0x26EA (Nd (Nd (Nd Lf 0x26F2 0x26F3 Lf)
     0x26F5 0x26F5 Lf) 0x26FA 0x26FA (Nd Lf 0x26FD 0x26FD Lf)))) 0x2705 0x2705 (Nd (Nd (Nd (Nd (Nd Lf
     0x270A 0x270B Lf) 0x2728 0x2728 Lf) 0x274C 0x274C (Nd Lf 0x274E 0x274E Lf)) 0x2753 0x2755 (Nd (Nd
     (Nd Lf 0x2757 0x2757 Lf) 0x2795 0x2797 Lf) 0x27B0 0x27B0 (Nd Lf 0x27BF 0x27BF Lf))) 0x2B1B 0x2B1C
     (Nd (Nd (Nd (Nd Lf 0x2B50 0x2B50 Lf) 0x2B55 0x2B55 Lf) 0x1F004 0x1F004 (Nd Lf 0x1F0CF 0x1F0CF Lf))
     0x1F18E 0x1F18E (Nd (Nd (Nd Lf 0x1F191 0x1F19A Lf) 0x1F1E6 0x1F1FF Lf) 0x1F201 0x1F201 (Nd Lf
     0x1F21A 0x1F21A Lf))))) 0x1F22F 0x1F22F (Nd (Nd (Nd (Nd (Nd (Nd Lf 0x1F232 0x1F236 Lf) 0x1F238
     0x1F23A Lf) 0x1F250 0x1F251 (Nd (Nd Lf 0x1F300 0x1F320 Lf) 0x1F32D 0x1F335 Lf)) 0x1F337 0x1F37C (Nd
     (Nd (Nd Lf 0x1F37E 0x1F393 Lf) 0x1F3A0 0x1F3CA Lf) 0x1F3CF 0x1F3D3 (Nd Lf 0x1F3E0 0x1F3F0 Lf)))
     0x1F3F4 0x1F3F4 (Nd (Nd (Nd (Nd Lf 0x1F3F8 0x1F43E Lf) 0x1F440 0x1F440 Lf) 0x1F442 0x1F4FC (Nd Lf
     0x1F4FF 0x1F53D Lf)) 0x1F54B 0x1F54E (Nd (Nd (Nd Lf 0x1F550 0x1F567 Lf) 0x1F57A 0x1F57A Lf) 0x1F595
     0x1F596 (Nd Lf 0x1F5A4 0x1F5A4 Lf)))) 0x1F5FB 0x1F64F (Nd (Nd (Nd (Nd (Nd Lf 0x1F680 0x1F6C5 Lf)
     0x1F6CC 0x1F6CC Lf) 0x1F6D0 0x1F6D2 (Nd Lf 0x1F6D5 0x1F6D8 Lf)) 0x1F6DC 0x1F6DF (Nd (Nd (Nd Lf
     0x1F6EB 0x1F6EC Lf) 0x1F6F4 0x1F6FC Lf) 0x1F7E0 0x1F7EB (Nd Lf 0x1F7F0 0x1F7F0 Lf))) 0x1F90C
     0x1F93A (Nd (Nd (Nd (Nd Lf 0x1F93C 0x1F945 Lf) 0x1F947 0x1F9FF Lf) 0x1FA70 0x1FA7C (Nd Lf 0x1FA80
     0x1FA8A Lf)) 0x1FA8E 0x1FAC6 (Nd (Nd (Nd Lf 0x1FAC8 0x1FAC8 Lf) 0x1FACD 0x1FADC Lf) 0x1FADF 0x1FAEA
     (Nd Lf 0x1FAEF 0x1FAF8 Lf)))))"

definition modifierBaseTree :: rtree where
  "modifierBaseTree =
     Nd (Nd (Nd (Nd (Nd (Nd Lf 0x261D 0x261D Lf) 0x26F9 0x26F9 Lf) 0x270A 0x270D (Nd (Nd Lf 0x1F385
     0x1F385 Lf) 0x1F3C2 0x1F3C4 Lf)) 0x1F3C7 0x1F3C7 (Nd (Nd (Nd Lf 0x1F3CA 0x1F3CC Lf) 0x1F442 0x1F443
     Lf) 0x1F446 0x1F450 (Nd Lf 0x1F466 0x1F478 Lf))) 0x1F47C 0x1F47C (Nd (Nd (Nd (Nd Lf 0x1F481 0x1F483
     Lf) 0x1F485 0x1F487 Lf) 0x1F48F 0x1F48F (Nd Lf 0x1F491 0x1F491 Lf)) 0x1F4AA 0x1F4AA (Nd (Nd (Nd Lf
     0x1F574 0x1F575 Lf) 0x1F57A 0x1F57A Lf) 0x1F590 0x1F590 (Nd Lf 0x1F595 0x1F596 Lf)))) 0x1F645
     0x1F647 (Nd (Nd (Nd (Nd (Nd Lf 0x1F64B 0x1F64F Lf) 0x1F6A3 0x1F6A3 Lf) 0x1F6B4 0x1F6B6 (Nd Lf
     0x1F6C0 0x1F6C0 Lf)) 0x1F6CC 0x1F6CC (Nd (Nd (Nd Lf 0x1F90C 0x1F90C Lf) 0x1F90F 0x1F90F Lf) 0x1F918
     0x1F91F (Nd Lf 0x1F926 0x1F926 Lf))) 0x1F930 0x1F939 (Nd (Nd (Nd (Nd Lf 0x1F93C 0x1F93E Lf) 0x1F977
     0x1F977 Lf) 0x1F9B5 0x1F9B6 (Nd Lf 0x1F9B8 0x1F9B9 Lf)) 0x1F9BB 0x1F9BB (Nd (Nd (Nd Lf 0x1F9CD
     0x1F9CF Lf) 0x1F9D1 0x1F9DD Lf) 0x1FAC3 0x1FAC5 (Nd Lf 0x1FAF0 0x1FAF8 Lf))))"

lemma trees: "inorder emojiTree = propEmoji" "inorder presentationTree = propEmojiPresentation"
  "inorder modifierBaseTree = propEmojiModifierBase" by code_simp+

definition "emojiSearch x = inTree emojiTree x"
definition "presentationSearch x = inTree presentationTree x"
definition "modifierBaseSearch x = inTree modifierBaseTree x"
lemmas emojiSearch_if [code] = emojiSearch_def [unfolded emojiTree_def inTree.simps]
lemmas presentationSearch_if [code] = presentationSearch_def [unfolded presentationTree_def inTree.simps]
lemmas modifierBaseSearch_if [code] = modifierBaseSearch_def [unfolded modifierBaseTree_def inTree.simps]

fun checkSeq :: "rune list \<Rightarrow> bool" where
  "checkSeq [] = False"
| "checkSeq [b] = (emojiSearch b \<and> presentationSearch b \<and> \<not> isRI b)"
| "checkSeq (b # r # rs) = (emojiSearch b \<and> \<not> isRI b \<and>
     (if r = zwj then presentationSearch b \<and> checkSeq rs
      else if r = vs16 then
        (case rs of [] \<Rightarrow> True
         | z # rs' \<Rightarrow> if z = keycap then rs' = [] else z = zwj \<and> checkSeq rs')
      else if 0x1F3FB \<le> r \<and> r \<le> 0x1F3FF then
        modifierBaseSearch b \<and> (case rs of [] \<Rightarrow> True | z # rs' \<Rightarrow> z = zwj \<and> checkSeq rs')
      else b = blackFlag \<and> rs \<noteq> [] \<and> list_all isTag (butlast (r # rs)) \<and> last rs = tagTerm))"

definition checkEntry :: "rune list \<Rightarrow> bool" where
  "checkEntry rs \<longleftrightarrow> list_all scalar rs \<and> length rs \<le> 10 \<and>
     ((case rs of [a, b] \<Rightarrow> isRI a \<and> isRI b | _ \<Rightarrow> False) \<or> checkSeq rs)"

lemma rgi_checked0:
  "list_all checkEntry rgi0"
  "list_all checkEntry rgi1"
  "list_all checkEntry rgi2"
  "list_all checkEntry rgi3"
  "list_all checkEntry rgi4"
  "list_all checkEntry rgi5"
  "list_all checkEntry rgi6"
  "list_all checkEntry rgi7"
  "list_all checkEntry rgi8"
  by code_simp+

lemma rgi_checked1:
  "list_all checkEntry rgi9"
  "list_all checkEntry rgi10"
  "list_all checkEntry rgi11"
  "list_all checkEntry rgi12"
  "list_all checkEntry rgi13"
  "list_all checkEntry rgi14"
  "list_all checkEntry rgi15"
  "list_all checkEntry rgi16"
  "list_all checkEntry rgi17"
  by code_simp+

lemma rgi_checked2:
  "list_all checkEntry rgi18"
  "list_all checkEntry rgi19"
  "list_all checkEntry rgi20"
  "list_all checkEntry rgi21"
  "list_all checkEntry rgi22"
  "list_all checkEntry rgi23"
  "list_all checkEntry rgi24"
  "list_all checkEntry rgi25"
  "list_all checkEntry rgi26"
  by code_simp+

lemma search_sound:
  "emojiSearch x \<Longrightarrow> Is propEmoji x" "presentationSearch x \<Longrightarrow> Is propEmojiPresentation x"
  "modifierBaseSearch x \<Longrightarrow> Is propEmojiModifierBase x"
  using inTree_Is [of emojiTree x] inTree_Is [of presentationTree x] inTree_Is [of modifierBaseTree x]
  by (simp_all add: trees emojiSearch_def presentationSearch_def modifierBaseSearch_def)

lemma checkSeq_sound: "checkSeq rs \<Longrightarrow> zwj_sequence rs"
proof (induction rs rule: checkSeq.induct)
  case (2 b)
  then show ?case by (auto intro: zwj_sequence.one plain search_sound)
next
  case (3 b r rs)
  from 3(4) have b: "Is propEmoji b" "\<not> isRI b" by (simp_all add: search_sound)
  consider "r = zwj" | "r = vs16" | "r \<noteq> zwj" "r \<noteq> vs16" "Is propEmojiModifier r"
    | "r \<noteq> zwj" "r \<noteq> vs16" "\<not> Is propEmojiModifier r" by blast
  then show ?case
  proof cases
    case 1
    then have "zwj_element [b]" "zwj_sequence rs" using 3 by (auto intro: plain search_sound)
    from zwj_sequence.join [OF this] show ?thesis using 1 by simp
  next
    case 2
    have e: "zwj_element [b, vs16]" "zwj_element [b, vs16, keycap]" using b by (auto intro: presented keycapped simp del: vs16_def keycap_def)
    show ?thesis
    proof (cases rs)
      case Nil
      then show ?thesis using 2 e(1) by (auto intro: zwj_sequence.one)
    next
      case (Cons z rs')
      show ?thesis
      proof (cases "z = keycap")
        case True
        then have "rs' = []" using 3(4) 2 Cons by simp
        then show ?thesis using 2 e(2) Cons True by (auto intro: zwj_sequence.one)
      next
        case False
        then have "z = zwj" "checkSeq rs'" using 3(4) 2 Cons by auto
        then have "zwj_sequence rs'" using 3(2) 2 Cons False by simp
        from zwj_sequence.join [OF e(1) this] show ?thesis using 2 Cons \<open>z = zwj\<close> by simp
      qed
    qed
  next
    case c: 3
    then have e: "zwj_element [b, r]" using 3(4) b by (auto simp: modifier_range [symmetric] intro: modified search_sound)
    show ?thesis
    proof (cases rs)
      case Nil
      then show ?thesis using e by (auto intro: zwj_sequence.one)
    next
      case (Cons z rs')
      then have "z = zwj" "zwj_sequence rs'" using 3 c by (auto simp: modifier_range)
      from zwj_sequence.join [OF e this(2)] show ?thesis using Cons \<open>z = zwj\<close> by simp
    qed
  next
    case 4
    then have t: "b = blackFlag" "rs \<noteq> []" "list_all isTag (butlast (r # rs))" "last rs = tagTerm"
      using 3(4) by (auto simp: modifier_range)
    have "b # r # rs = blackFlag # butlast (r # rs) @ [tagTerm]"
      using t append_butlast_last_id [of "r # rs"] by simp
    moreover have "butlast (r # rs) \<noteq> []" using t(2) by simp
    ultimately show ?thesis using t(3) by (metis tagged zwj_sequence.one)
  qed
qed simp

lemma checkEntry_possible:
  assumes "checkEntry rs"
  shows "IsPossible (concat (map encode_rune rs))"
proof -
  have s: "list_all scalar rs" and l: "length rs \<le> 10" using assms by (auto simp: checkEntry_def)
  consider a b where "rs = [a, b]" "isRI a" "isRI b" | "zwj_sequence rs"
    using assms checkSeq_sound by (fastforce simp: checkEntry_def simp del: checkSeq.simps split: list.splits)
  then have "possible_emoji rs \<and> rs \<noteq> []"
    by cases (auto intro: possible_emoji.intros dest: zwj_sequence_nonempty)
  moreover have "length (concat (map encode_rune rs)) \<le> 64" using length_encode [of rs] l by linarith
  moreover have "concat (map encode_rune rs) \<noteq> []" if "rs \<noteq> []"
    using runes_encode(1) [OF s] that by (metis runes_nonempty)
  ultimately show ?thesis using IsPossible_iff runes_encode [OF s] l by simp
qed

text \<open>
  C35. The grammar accepts every one of the 3944 sequences of the RGI table, so the table lookup
  never decides: a string is a single emoji exactly when \<open>IsPossible\<close> accepts it.
\<close>

theorem IsSingle_is_possible: "IsSingle s \<longleftrightarrow> IsPossible s"
proof -
  have "list_all checkEntry rgi"
    using rgi_checked0 rgi_checked1 rgi_checked2 unfolding rgi_def list_all_append by blast
  then have "IsRGI s \<Longrightarrow> IsPossible s"
    by (auto simp: IsRGI_def list_all_iff intro: checkEntry_possible)
  then show ?thesis by (auto simp: IsSingle_def)
qed

end
