(* ===== verification/Addresses.thy ===== *)
theory Addresses
  imports Wire
begin

text \<open>
  Validation and parsing of names (\<open>src/cmd/fmsgd/host.go\<close>): user parts, attachment file names,
  domains and whole addresses, with the declarative grammar each loop implements, and the
  participant and recipient tests on headers.
\<close>

section \<open>Names\<close>

text \<open>
  The loop both \<open>isValidUser\<close> and \<open>isValidAttachmentFilename\<close> run over the runes, for their own
  set of special runes: letters and numbers are free, specials never follow each other.
\<close>

fun nameLoop :: "unicode \<Rightarrow> (rune \<Rightarrow> bool) \<Rightarrow> bool \<Rightarrow> rune list \<Rightarrow> bool" where
  "nameLoop U isSpecial lastWasSpecial [] = True"
| "nameLoop U isSpecial lastWasSpecial (c # cs) =
     (if IsLetter U c \<or> IsNumber U c then nameLoop U isSpecial False cs
      else if \<not> isSpecial c then False
      else if lastWasSpecial then False
      else nameLoop U isSpecial True cs)"

definition userSpecial :: "rune \<Rightarrow> bool" where
  "userSpecial r \<longleftrightarrow> r = 45 \<or> r = 95 \<or> r = 46"

definition isValidUser :: "unicode \<Rightarrow> string \<Rightarrow> bool" where
  "isValidUser U s =
     (if \<not> ValidString s \<or> length s = 0 \<or> length s > 64 then False
      else let rs = runes s
           in if userSpecial (hd rs) \<or> userSpecial (last rs) then False
              else nameLoop U userSpecial False rs)"

definition isASCIIBytes :: "bytes \<Rightarrow> bool" where
  "isASCIIBytes b = list_all (\<lambda>c. \<not> c > 127) b"

definition filenameSpecial :: "rune \<Rightarrow> bool" where
  "filenameSpecial r \<longleftrightarrow> r = 45 \<or> r = 95 \<or> r = 32 \<or> r = 46"

definition isValidAttachmentFilename :: "unicode \<Rightarrow> string \<Rightarrow> bool" where
  "isValidAttachmentFilename U name =
     (if \<not> ValidString name \<or> length name = 0 \<or> length name \<ge> 256 then False
      else let rs = runes name
           in if filenameSpecial (hd rs) \<or> filenameSpecial (last rs) then False
              else nameLoop U filenameSpecial False rs)"

section \<open>Domains\<close>

definition domainRune :: "rune \<Rightarrow> bool" where
  "domainRune c \<longleftrightarrow>
     (97 \<le> c \<and> c \<le> 122) \<or> (65 \<le> c \<and> c \<le> 90) \<or> (48 \<le> c \<and> c \<le> 57) \<or> c = 45"

definition isValidLabel :: "string \<Rightarrow> bool" where
  "isValidLabel label =
     (if length label = 0 \<or> length label > 63 then False
      else if hd label = CHR ''-'' \<or> last label = CHR ''-'' then False
      else list_all domainRune (runes label))"

definition isValidDomain :: "string \<Rightarrow> bool" where
  "isValidDomain s =
     (if length s = 0 \<or> length s > 253 then False
      else if s = ''localhost'' then True
      else let labels = Split s CHR ''.''
           in if length labels < 2 then False else list_all isValidLabel labels)"

section \<open>Addresses\<close>

definition parseAddress :: "unicode \<Rightarrow> bytes \<Rightarrow> Address res" where
  "parseAddress U b =
     (if length b < 4 then Err (Errorf ''invalid address: too short'')
      else let addrStr = string_of b
           in if hd addrStr \<noteq> CHR ''@'' then Err (Errorf ''invalid address, must start with @'')
              else case LastIndex addrStr CHR ''@'' of
                None \<Rightarrow> Err (Errorf ''invalid address, must start with @'')
              | Some lastAt \<Rightarrow>
                  if lastAt = 0 then Err (Errorf ''invalid address, must have second @'')
                  else let user = drop 1 (take lastAt addrStr); domain = drop (lastAt + 1) addrStr
                       in if \<not> isValidUser U user then Err (Errorf ''invalid user in address'')
                          else if \<not> isValidDomain domain then Err (Errorf ''invalid domain in address'')
                          else Ok \<lparr>User = user, Domain = domain\<rparr>)"

section \<open>Participants and recipients\<close>

text \<open>The case-insensitive key of an address, \<open>strings.ToLower(addr.ToString())\<close>.\<close>

definition addrKey :: "unicode \<Rightarrow> Address \<Rightarrow> string" where
  "addrKey U addr = ToLower U (ToString addr)"

definition isOriginalParticipant :: "unicode \<Rightarrow> Header option \<Rightarrow> Address option \<Rightarrow> bool" where
  "isOriginalParticipant U msg addr =
     (case (msg, addr) of
        (Some m, Some a) \<Rightarrow>
          let target = addrKey U a
          in if addrKey U (From m) = target then True
             else list_ex (\<lambda>t. addrKey U t = target) (To m)
      | _ \<Rightarrow> False)"

definition isParentParticipant :: "unicode \<Rightarrow> Header option \<Rightarrow> Address option \<Rightarrow> bool" where
  "isParentParticipant U parent addr =
     (case (parent, addr) of
        (Some p, Some a) \<Rightarrow>
          let target = addrKey U a
          in if addrKey U (From p) = target then True
             else if list_ex (\<lambda>t. addrKey U t = target) (To p) then True
             else if (case AddToFrom p of Some f \<Rightarrow> addrKey U f = target | None \<Rightarrow> False) then True
             else list_ex (\<lambda>t. addrKey U t = target) (AddTo p)
      | _ \<Rightarrow> False)"

definition hasDomainRecipient :: "unicode \<Rightarrow> Address list \<Rightarrow> string \<Rightarrow> bool" where
  "hasDomainRecipient U addrs domain = list_ex (\<lambda>a. EqualFold U (Domain a) domain) addrs"

definition determineSenderDomain :: "Header \<Rightarrow> string" where
  "determineSenderDomain h =
     (case AddToFrom h of
        Some f \<Rightarrow> if AddTo h \<noteq> [] then Domain f else Domain (From h)
      | None \<Rightarrow> Domain (From h))"

definition localRecipients :: "unicode \<Rightarrow> string \<Rightarrow> Header \<Rightarrow> Address list \<times> nat" where
  "localRecipients U domain h =
     (let tos = filter (\<lambda>a. EqualFold U (Domain a) domain) (To h)
      in (tos @ filter (\<lambda>a. EqualFold U (Domain a) domain) (AddTo h), length tos))"

section \<open>Properties\<close>

subsection \<open>The grammar of names\<close>

text \<open>
  A name, declaratively: every rune is a letter, a number or a special; no two specials are next
  to each other; the first and the last rune are not special.
\<close>

definition nameGrammar :: "unicode \<Rightarrow> (rune \<Rightarrow> bool) \<Rightarrow> rune list \<Rightarrow> bool" where
  "nameGrammar U sp rs \<longleftrightarrow>
     rs \<noteq> [] \<and> (\<forall>r \<in> set rs. IsLetter U r \<or> IsNumber U r \<or> sp r)
     \<and> (\<forall>i. Suc i < length rs \<longrightarrow> \<not> (sp (rs ! i) \<and> sp (rs ! Suc i)))
     \<and> \<not> sp (hd rs) \<and> \<not> sp (last rs)"

definition special_ok :: "unicode \<Rightarrow> (rune \<Rightarrow> bool) \<Rightarrow> bool" where
  "special_ok U sp \<longleftrightarrow> (\<forall>r. sp r \<longrightarrow> \<not> IsLetter U r \<and> \<not> IsNumber U r)"

lemma special_ok_user: "special_ok U userSpecial"
  by (auto simp: special_ok_def userSpecial_def IsLetter_def IsNumber_def)

lemma special_ok_filename: "special_ok U filenameSpecial"
  by (auto simp: special_ok_def filenameSpecial_def IsLetter_def IsNumber_def)

lemma adjacent_Cons:
  "(\<forall>i. Suc i < length (c # cs) \<longrightarrow> \<not> (P ((c # cs) ! i) \<and> P ((c # cs) ! Suc i))) \<longleftrightarrow>
   (cs \<noteq> [] \<longrightarrow> \<not> (P c \<and> P (hd cs))) \<and>
   (\<forall>i. Suc i < length cs \<longrightarrow> \<not> (P (cs ! i) \<and> P (cs ! Suc i)))"
  (is "?L \<longleftrightarrow> ?R")
proof
  assume L: ?L
  then have "\<not> (P (cs ! i) \<and> P (cs ! Suc i))" if "Suc i < length cs" for i
    using that L [rule_format, of "Suc i"] by simp
  moreover have "\<not> (P c \<and> P (hd cs))" if "cs \<noteq> []"
    using that L [rule_format, of 0] by (simp add: hd_conv_nth)
  ultimately show ?R by blast
next
  assume R: ?R
  show ?L
  proof (intro allI impI)
    fix i assume "Suc i < length (c # cs)"
    with R show "\<not> (P ((c # cs) ! i) \<and> P ((c # cs) ! Suc i))"
      by (cases i) (auto simp: hd_conv_nth)
  qed
qed

lemma nameLoop_iff:
  assumes "special_ok U sp"
  shows "nameLoop U sp l rs \<longleftrightarrow>
    (\<forall>r \<in> set rs. IsLetter U r \<or> IsNumber U r \<or> sp r)
    \<and> (\<forall>i. Suc i < length rs \<longrightarrow> \<not> (sp (rs ! i) \<and> sp (rs ! Suc i)))
    \<and> (l \<longrightarrow> rs \<noteq> [] \<longrightarrow> \<not> sp (hd rs))"
proof (induction rs arbitrary: l)
  case Nil
  show ?case by simp
next
  case (Cons c cs)
  have c: "sp c \<Longrightarrow> \<not> IsLetter U c \<and> \<not> IsNumber U c"
    using assms by (auto simp: special_ok_def)
  show ?case
    unfolding adjacent_Cons by (cases "IsLetter U c \<or> IsNumber U c"; cases "sp c") (use c in \<open>auto simp: Cons\<close>)
qed

lemma isValidUser_grammar:
  "isValidUser U s \<longleftrightarrow>
     ValidString s \<and> 0 < length s \<and> length s \<le> 64 \<and> nameGrammar U userSpecial (runes s)"
  by (auto simp: isValidUser_def nameGrammar_def nameLoop_iff special_ok_user Let_def)

lemma isValidAttachmentFilename_grammar:
  "isValidAttachmentFilename U s \<longleftrightarrow>
     ValidString s \<and> 0 < length s \<and> length s < 256 \<and> nameGrammar U filenameSpecial (runes s)"
  by (auto simp: isValidAttachmentFilename_def nameGrammar_def nameLoop_iff special_ok_filename Let_def)

lemma isValidUser_length: "isValidUser U s \<Longrightarrow> 0 < length s \<and> length s \<le> 64"
  by (simp add: isValidUser_grammar)


subsection \<open>Domains are ASCII\<close>

lemma set_Split: "set s \<subseteq> insert c (\<Union>p \<in> set (Split s c). set p)"
proof (induction s)
  case (Cons x s)
  then show ?case by (cases "Split s c") (auto simp: subset_iff)
qed simp

lemma decode_rune_small:
  "decode_rune b0 bs = Some (r, k) \<Longrightarrow> r < 128 \<Longrightarrow> b0 < 128 \<and> k = 0"
  by (auto simp: decode_rune_def cont_def split: if_splits list.splits)

lemma decode_runes_small:
  assumes "\<forall>r \<in> set (decode_runes bs). \<exists>x. r = Some x \<and> x < 128" and "b \<in> set bs"
  shows "b < 128"
  using assms
proof (induction bs rule: decode_runes.induct)
  case (2 b0 bs)
  show ?case
  proof (cases "decode_rune b0 bs")
    case None
    with "2.prems" show ?thesis by simp
  next
    case (Some p)
    obtain r k where p: "p = (r, k)" by (cases p)
    with Some "2.prems"(1) have "r < 128" by simp
    with Some p have "b0 < 128" "k = 0" by (auto dest: decode_rune_small)
    with Some p 2 show ?thesis by auto
  qed
qed simp

lemma runes_small_ascii:
  assumes "list_all (\<lambda>r. r < 128) (runes s)"
  shows "is_ascii s"
proof -
  have *: "\<exists>x. r = Some x \<and> x < 128" if r: "r \<in> set (decode_runes (char_codes s))" for r
  proof -
    let ?f = "\<lambda>r. case r of Some x \<Rightarrow> x | None \<Rightarrow> RuneError"
    have "?f r \<in> set (runes s)" using r by (auto simp: runes_def)
    with assms have "?f r < 128" by (simp add: list_all_iff)
    then show ?thesis by (cases r) (auto simp: RuneError_def)
  qed
  show ?thesis
    using decode_runes_small [of "char_codes s"] * by (auto simp: is_ascii_def char_codes_def)
qed

lemma isValidLabel_chars:
  assumes "isValidLabel l" "c \<in> set l"
  shows "domainRune (of_char c)"
proof -
  have d: "list_all domainRune (runes l)"
    using assms(1) by (auto simp: isValidLabel_def split: if_splits)
  then have "is_ascii l"
    by (intro runes_small_ascii) (auto simp: list_all_iff domainRune_def dest!: bspec)
  with d assms(2) show ?thesis by (auto simp: runes_ascii char_codes_def list_all_iff)
qed

lemma isValidDomain_chars:
  assumes "isValidDomain s" "c \<in> set s"
  shows "domainRune (of_char c) \<or> c = CHR ''.''"
proof (cases "s = ''localhost''")
  case True
  with assms(2) show ?thesis by (auto simp: domainRune_def)
next
  case False
  with assms(1) have labels: "list_all isValidLabel (Split s CHR ''.'')"
    by (auto simp: isValidDomain_def Let_def split: if_splits)
  from assms(2) set_Split have "c = CHR ''.'' \<or> (\<exists>p \<in> set (Split s CHR ''.''). c \<in> set p)"
    by fast
  with labels show ?thesis by (auto simp: list_all_iff dest: isValidLabel_chars)
qed

lemma isValidDomain_no_at: "isValidDomain s \<Longrightarrow> CHR ''@'' \<notin> set s"
  by (auto dest!: isValidDomain_chars simp: domainRune_def)

lemma isValidDomain_ascii: "isValidDomain s \<Longrightarrow> is_ascii s"
  by (force simp: is_ascii_def domainRune_def dest: isValidDomain_chars)

lemma isValidDomain_length: "isValidDomain s \<Longrightarrow> 0 < length s \<and> length s \<le> 253"
  by (auto simp: isValidDomain_def split: if_splits)

subsection \<open>Parsing and printing addresses\<close>

definition validAddress :: "unicode \<Rightarrow> Address \<Rightarrow> bool" where
  "validAddress U a \<longleftrightarrow> isValidUser U (User a) \<and> isValidDomain (Domain a)"

lemma ToString_length: "length (ToString a) = length (User a) + length (Domain a) + 2"
  by (simp add: ToString_def)

lemma parseAddress_ToString:
  assumes "validAddress U a"
  shows "parseAddress U (bytes_of (ToString a)) = Ok a"
proof -
  have "0 < length (User a)" "0 < length (Domain a)"
    using assms isValidUser_length isValidDomain_length by (auto simp: validAddress_def)
  then have len: "\<not> length (ToString a) < 4" by (simp only: ToString_length)
  have "LastIndex (ToString a) CHR ''@'' = Some (length (User a) + 1)"
    using LastIndex_append [of "CHR ''@''" "Domain a" "''@'' @ User a"]
      isValidDomain_no_at [of "Domain a"] assms by (simp add: ToString_def validAddress_def)
  moreover have "drop 1 (take (length (User a) + 1) (ToString a)) = User a"
    "drop (length (User a) + 1 + 1) (ToString a) = Domain a" "hd (ToString a) = CHR ''@''"
    by (simp_all add: ToString_def)
  ultimately show ?thesis
    using assms len by (simp add: parseAddress_def validAddress_def)
qed

lemma parseAddress_Ok:
  assumes "parseAddress U b = Ok a"
  shows "bytes_of (ToString a) = b" "validAddress U a"
proof -
  let ?s = "string_of b"
  from assms obtain i where i: "LastIndex ?s CHR ''@'' = Some i" "i \<noteq> 0" "hd ?s = CHR ''@''"
    and a: "a = \<lparr>User = drop 1 (take i ?s), Domain = drop (i + 1) ?s\<rparr>"
    and v: "isValidUser U (drop 1 (take i ?s))" "isValidDomain (drop (i + 1) ?s)"
    by (auto simp: parseAddress_def Let_def split: if_splits option.splits)
  from LastIndex_Some [OF i(1)] have il: "i < length ?s" "?s ! i = CHR ''@''" by auto
  then have "take i ?s = CHR ''@'' # drop 1 (take i ?s)"
    using i(2,3) by (cases ?s; cases i) auto
  moreover have "?s = take i ?s @ ?s ! i # drop (i + 1) ?s"
    using il(1) by (simp add: id_take_nth_drop)
  ultimately have "?s = (CHR ''@'' # drop 1 (take i ?s)) @ CHR ''@'' # drop (i + 1) ?s"
    using il(2) by metis
  then have "?s = ToString a" using a by (simp add: ToString_def)
  then show "bytes_of (ToString a) = b" by (metis bytes_of_string_of)
  show "validAddress U a" using v a by (simp add: validAddress_def)
qed

lemma parseAddress_iff:
  "parseAddress U b = Ok a \<longleftrightarrow> b = bytes_of (ToString a) \<and> validAddress U a"
  using parseAddress_ToString parseAddress_Ok by blast

text \<open>
  An address's length byte is enough for every address that came in on the wire, not for every
  address the validators accept: 64 + 253 + 2 bytes.
\<close>

lemma validAddress_length: "validAddress U a \<Longrightarrow> length (ToString a) \<le> 319"
  using isValidUser_length [of U "User a"] isValidDomain_length [of "Domain a"]
  by (auto simp: validAddress_def ToString_length)

subsection \<open>Participants\<close>

lemma isOriginalParticipant_iff:
  "isOriginalParticipant U (Some m) (Some a) \<longleftrightarrow>
     (\<exists>p \<in> set (From m # To m). addrKey U p = addrKey U a)"
  by (auto simp: isOriginalParticipant_def Let_def list_ex_iff)

lemma isParentParticipant_iff:
  "isParentParticipant U (Some m) (Some a) \<longleftrightarrow>
     (\<exists>p \<in> set (From m # To m @ AddTo m) \<union> set_option (AddToFrom m). addrKey U p = addrKey U a)"
  by (auto simp: isParentParticipant_def Let_def list_ex_iff split: option.splits)

lemma hasDomainRecipient_iff:
  "hasDomainRecipient U as d \<longleftrightarrow> (\<exists>a \<in> set as. EqualFold U (Domain a) d)"
  by (simp add: hasDomainRecipient_def list_ex_iff)

lemma localRecipients_props:
  assumes "localRecipients U d h = (as, n)"
  shows "n \<le> length as"
    and "set as = {a \<in> set (To h @ AddTo h). EqualFold U (Domain a) d}"
    and "as = [] \<longleftrightarrow> \<not> hasDomainRecipient U (To h) d \<and> \<not> hasDomainRecipient U (AddTo h) d"
  using assms by (auto simp: localRecipients_def Let_def hasDomainRecipient_iff filter_empty_conv)

end
