(* ===== verification/Paths.thy ===== *)
theory Paths
  imports Addresses
begin

text \<open>
  File paths: the functions of package \<open>path/filepath\<close> the code uses (on a Unix system), decimal
  formatting, the search for an unused file name (\<open>uniqueFilepath\<close> and \<open>uniqueAttachmentPath\<close> of
  \<open>src/cmd/fmsgd/host.go\<close>), and the confinement of a recipient's files to the recipient's own
  directory.
\<close>

section \<open>Package path/filepath\<close>

fun joinWith :: "string \<Rightarrow> string list \<Rightarrow> string" where
  "joinWith sep [] = []"
| "joinWith sep [e] = e"
| "joinWith sep (e # es) = e @ sep @ joinWith sep es"

text \<open>\<open>filepath.Clean\<close> works on the elements between slashes, keeping those it has output.\<close>

fun cleanElems :: "bool \<Rightarrow> string list \<Rightarrow> string list \<Rightarrow> string list" where
  "cleanElems rooted acc [] = rev acc"
| "cleanElems rooted acc (e # es) =
     (if e = [] \<or> e = ''.'' then cleanElems rooted acc es
      else if e = ''..'' then
        (case acc of
           [] \<Rightarrow> cleanElems rooted (if rooted then [] else [''..'']) es
         | a # as \<Rightarrow> if a = ''..'' then cleanElems rooted (''..'' # acc) es else cleanElems rooted as es)
      else cleanElems rooted (e # acc) es)"

definition Clean :: "string \<Rightarrow> string" where
  "Clean p =
     (if p = [] then ''.''
      else let rooted = (hd p = CHR ''/''); es = cleanElems rooted [] (Split p CHR ''/'')
           in if rooted then CHR ''/'' # joinWith ''/'' es
              else if es = [] then ''.'' else joinWith ''/'' es)"

definition Join :: "string list \<Rightarrow> string" where
  "Join es = (case dropWhile (\<lambda>e. e = []) es of [] \<Rightarrow> [] | fs \<Rightarrow> Clean (joinWith ''/'' fs))"

definition Dir :: "string \<Rightarrow> string" where
  "Dir p = Clean (case LastIndex p CHR ''/'' of None \<Rightarrow> [] | Some i \<Rightarrow> take (Suc i) p)"

definition Ext :: "string \<Rightarrow> string" where
  "Ext p =
     (let base = (case LastIndex p CHR ''/'' of None \<Rightarrow> p | Some i \<Rightarrow> drop (Suc i) p)
      in case LastIndex base CHR ''.'' of None \<Rightarrow> [] | Some i \<Rightarrow> drop i base)"

section \<open>Decimal numbers\<close>

text \<open>\<open>fmt.Sprintf("%d", n)\<close> for \<open>n\<close> not negative.\<close>

fun decimal :: "nat \<Rightarrow> string" where
  "decimal n = (if n < 10 then [char_of (48 + n)] else decimal (n div 10) @ [char_of (48 + n mod 10)])"

declare decimal.simps [simp del]

fun undecimal :: "string \<Rightarrow> nat" where
  "undecimal s = foldl (\<lambda>n c. 10 * n + (of_char c - 48)) 0 s"

lemma undecimal_decimal: "undecimal (decimal n) = n"
proof (induction n rule: decimal.induct)
  case (1 n)
  show ?case
  proof (cases "n < 10")
    case True
    then show ?thesis by (subst decimal.simps) simp
  next
    case False
    with 1 have "foldl (\<lambda>n c. 10 * n + (of_char c - 48)) 0 (decimal (n div 10)) = n div 10" by simp
    with False show ?thesis by (subst decimal.simps) simp
  qed
qed

lemma decimal_inject [simp]: "decimal m = decimal n \<longleftrightarrow> m = n"
  by (metis undecimal_decimal)

lemma decimal_digits: "c \<in> set (decimal n) \<Longrightarrow> 48 \<le> (of_char c :: nat) \<and> of_char c < (58 :: nat)"
proof (induction n rule: decimal.induct)
  case (1 n)
  have d: "m < 10 \<Longrightarrow> 48 \<le> (of_char (char_of (48 + m) :: char) :: nat) \<and> of_char (char_of (48 + m) :: char) < (58 :: nat)"
    for m :: nat by simp
  from 1 d [of n] d [of "n mod 10"] show ?case
    by (subst (asm) (2) decimal.simps) (auto split: if_splits)
qed

lemma decimal_nonempty [simp]: "decimal n \<noteq> []"
  by (subst decimal.simps) simp

section \<open>Unused names\<close>

text \<open>
  The loops try \<open>base_1ext\<close>, \<open>base_2ext\<close> and so on until \<open>os.Stat\<close> reports that nothing is there.
  Nothing bounds them, so a result is optional.
\<close>

partial_function (option) firstUnused :: "fsys \<Rightarrow> (nat \<Rightarrow> string) \<Rightarrow> nat \<Rightarrow> string option" where
  "firstUnused fs name i = (if fs (name i) = None then Some (name i) else firstUnused fs name (Suc i))"

definition uniqueFilepath :: "fsys \<Rightarrow> string \<Rightarrow> u32 \<Rightarrow> string \<Rightarrow> string option" where
  "uniqueFilepath fs dir timestamp ext =
     (let base = decimal (unat timestamp); fp = Join [dir, base @ ext]
      in if fs fp = None then Some fp
         else firstUnused fs (\<lambda>i. Join [dir, base @ ''_'' @ decimal i @ ext]) 1)"

definition uniqueAttachmentPath :: "fsys \<Rightarrow> string \<Rightarrow> u32 \<Rightarrow> nat \<Rightarrow> string \<Rightarrow> string option" where
  "uniqueAttachmentPath fs dir timestamp idx filename =
     (let ext = Ext filename; base = decimal (unat timestamp) @ ''_att_'' @ decimal idx;
          p = Join [dir, base @ ext]
      in if fs p = None then Some p
         else firstUnused fs (\<lambda>n. Join [dir, base @ ''_'' @ decimal n @ ext]) 1)"

lemma firstUnused_finds:
  assumes "fs (name (i + k)) = None"
  obtains j where "i \<le> j" "firstUnused fs name i = Some (name j)" "fs (name j) = None"
  using assms
proof (induction k arbitrary: i thesis)
  case 0
  then show ?case by (metis add_0_right firstUnused.simps le_refl)
next
  case (Suc k)
  show ?case
  proof (cases "fs (name i) = None")
    case True
    then show ?thesis by (metis Suc.prems(1) firstUnused.simps le_refl)
  next
    case False
    have "fs (name (Suc i + k)) = None" using Suc.prems(2) by simp
    then obtain j where "Suc i \<le> j" "firstUnused fs name (Suc i) = Some (name j)" "fs (name j) = None"
      using Suc.IH by blast
    with False Suc.prems(1) show ?thesis by (metis Suc_leD firstUnused.simps)
  qed
qed

lemma firstUnused_finite:
  assumes "finite (dom fs)" "inj name"
  obtains j where "i \<le> j" "firstUnused fs name i = Some (name j)" "fs (name j) = None"
proof -
  have "\<not> (name ` {i..} \<subseteq> dom fs)"
    using assms by (metis finite_subset finite_imageD infinite_Ici inj_on_subset subset_UNIV)
  then obtain n where "i \<le> n" "fs (name n) = None" by auto
  then have "fs (name (i + (n - i))) = None" by simp
  then show ?thesis by (rule firstUnused_finds) (rule that)
qed

section \<open>Plain elements stay where they are put\<close>

definition plainElem :: "string \<Rightarrow> bool" where
  "plainElem e \<longleftrightarrow> e \<noteq> [] \<and> e \<noteq> ''.'' \<and> e \<noteq> ''..'' \<and> CHR ''/'' \<notin> set e"

definition rootedPath :: "string list \<Rightarrow> string" where
  "rootedPath es = CHR ''/'' # joinWith ''/'' es"

lemma Split_no_sep: "c \<notin> set s \<Longrightarrow> Split s c = [s]"
  by (induction s) auto

lemma Split_append_sep: "c \<notin> set s \<Longrightarrow> Split (s @ c # t) c = s # Split t c"
  by (induction s) (auto split: list.splits)

lemma joinWith_Cons: "es \<noteq> [] \<Longrightarrow> joinWith sep (e # es) = e @ sep @ joinWith sep es"
  by (cases es) simp_all

lemma Split_joinWith:
  "es \<noteq> [] \<Longrightarrow> \<forall>e \<in> set es. c \<notin> set e \<Longrightarrow> Split (joinWith [c] es) c = es"
proof (induction es)
  case (Cons e es)
  then show ?case by (cases "es = []") (simp_all add: Split_no_sep joinWith_Cons Split_append_sep)
qed simp

lemma joinWith_append:
  "xs \<noteq> [] \<Longrightarrow> ys \<noteq> [] \<Longrightarrow> joinWith sep (xs @ ys) = joinWith sep xs @ sep @ joinWith sep ys"
proof (induction xs)
  case (Cons x xs)
  then show ?case by (cases "xs = []") (simp_all add: joinWith_Cons)
qed simp

lemma cleanElems_plain: "\<forall>e \<in> set es. plainElem e \<Longrightarrow> cleanElems rooted acc es = rev acc @ es"
  by (induction es arbitrary: acc) (auto simp: plainElem_def)

lemma Clean_rooted:
  assumes "es \<noteq> []" "\<forall>e \<in> set es. plainElem e"
  shows "Clean (rootedPath es) = rootedPath es"
proof -
  have "Split (rootedPath es) CHR ''/'' = [] # es"
    using assms by (simp add: rootedPath_def Split_joinWith plainElem_def)
  then show ?thesis
    using assms by (simp add: Clean_def rootedPath_def cleanElems_plain)
qed

lemma Join_rooted:
  assumes "ds \<noteq> []" "es \<noteq> []" "\<forall>e \<in> set (ds @ es). plainElem e"
  shows "Join (rootedPath ds # es) = rootedPath (ds @ es)"
proof -
  have "joinWith ''/'' (rootedPath ds # es) = rootedPath (ds @ es)"
    using assms by (simp add: joinWith_Cons rootedPath_def joinWith_append)
  then show ?thesis
    using Clean_rooted [of "ds @ es"] assms by (simp add: Join_def rootedPath_def)
qed

lemma rootedPath_inject:
  assumes "es \<noteq> []" "fs \<noteq> []" "\<forall>e \<in> set (es @ fs). plainElem e"
  shows "rootedPath es = rootedPath fs \<longleftrightarrow> es = fs"
proof
  assume "rootedPath es = rootedPath fs"
  then have "Split (joinWith ''/'' es) CHR ''/'' = Split (joinWith ''/'' fs) CHR ''/''"
    by (simp add: rootedPath_def)
  then show "es = fs" using assms by (simp add: Split_joinWith plainElem_def)
qed simp

subsection \<open>Users, domains and generated names are plain\<close>

lemma decode_rune_skips:
  assumes "decode_rune b0 bs = Some (r, k)" "b \<in> set (take k bs)" "0 \<le> b0"
  shows "128 \<le> b"
  using assms
  by (auto simp: decode_rune_def cont_def take_Cons numeral_eq_Suc split: if_splits list.splits)

lemma decode_runes_ascii_mem:
  "b \<in> set bs \<Longrightarrow> 0 \<le> b \<Longrightarrow> b < 128 \<Longrightarrow> \<forall>x \<in> set bs. 0 \<le> x \<Longrightarrow> Some b \<in> set (decode_runes bs)"
proof (induction bs rule: decode_runes.induct)
  case (2 b0 bs)
  show ?case
  proof (cases "decode_rune b0 bs")
    case None
    then have "b \<noteq> b0" using "2.prems" by (auto simp: decode_rune_def)
    with None 2 show ?thesis by auto
  next
    case (Some p)
    obtain r k where p: "p = (r, k)" by (cases p)
    have nn: "0 \<le> b0" using "2.prems"(4) by simp
    show ?thesis
    proof (cases "b = b0")
      case True
      with "2.prems" show ?thesis by (simp add: decode_rune_def)
    next
      case False
      have "b \<in> set bs" using False "2.prems"(1) by simp
      moreover have "b \<notin> set (take k bs)"
        using decode_rune_skips [OF Some [unfolded p] _ nn] "2.prems"(3) by fastforce
      ultimately have "b \<in> set (drop k bs)" by (metis append_take_drop_id set_append Un_iff)
      moreover have "\<forall>x \<in> set (drop k bs). 0 \<le> x" using "2.prems"(4) by (auto dest: in_set_dropD)
      ultimately show ?thesis using "2.IH"(2) [OF Some p [symmetric]] "2.prems"(2,3) Some p by simp
    qed
  qed
qed simp

lemma runes_ascii_mem:
  assumes "c \<in> set s" "of_char c < (128 :: int)"
  shows "of_char c \<in> set (runes s)"
proof -
  have "Some (of_char c) \<in> set (decode_runes (char_codes s))"
    using assms by (intro decode_runes_ascii_mem) (auto simp: char_codes_def)
  then show ?thesis by (force simp: runes_def)
qed

lemma plain_user:
  assumes "isValidUser U s"
  shows "plainElem s"
proof -
  have g: "nameGrammar U userSpecial (runes s)" "s \<noteq> []" using assms by (auto simp: isValidUser_grammar)
  have "runes ''.'' = [46]" "runes ''..'' = [46, 46]" by code_simp+
  then have "s \<noteq> ''.''" "s \<noteq> ''..''" using g(1) by (auto simp: nameGrammar_def userSpecial_def)
  moreover have "CHR ''/'' \<notin> set s"
  proof
    assume "CHR ''/'' \<in> set s"
    then have "47 \<in> set (runes s)" using runes_ascii_mem [of "CHR ''/''" s] by simp
    with g(1) show False by (auto simp: nameGrammar_def userSpecial_def IsLetter_def IsNumber_def)
  qed
  ultimately show ?thesis using g(2) by (simp add: plainElem_def)
qed

lemma plain_domain:
  assumes "isValidDomain s"
  shows "plainElem s"
proof -
  have "s \<noteq> []" "s \<noteq> ''.''" "s \<noteq> ''..''"
    using assms by (auto simp: isValidDomain_def isValidLabel_def Let_def)
  moreover have "CHR ''/'' \<notin> set s" using isValidDomain_chars [OF assms, of "CHR ''/''"] by (auto simp: domainRune_def)
  ultimately show ?thesis by (simp add: plainElem_def)
qed

lemma no_slash_filename:
  assumes "isValidAttachmentFilename U s"
  shows "CHR ''/'' \<notin> set s"
proof
  assume "CHR ''/'' \<in> set s"
  then have "47 \<in> set (runes s)" using runes_ascii_mem [of "CHR ''/''" s] by simp
  with assms show False
    by (auto simp: isValidAttachmentFilename_grammar nameGrammar_def filenameSpecial_def IsLetter_def IsNumber_def)
qed

lemma set_Ext: "set (Ext p) \<subseteq> set p"
  by (auto simp: Ext_def Let_def dest!: in_set_dropD split: option.splits)

lemma digit_not:
  "c \<in> set (decimal n) \<Longrightarrow> c \<noteq> CHR ''/'' \<and> c \<noteq> CHR ''.''"
  using decimal_digits by fastforce

lemma plain_decimal:
  assumes "CHR ''/'' \<notin> set t"
  shows "plainElem (decimal n @ t)"
proof -
  have "hd (decimal n @ t) \<noteq> CHR ''.''" using digit_not [of "hd (decimal n)" n] by simp
  then have "decimal n @ t \<noteq> ''.''" "decimal n @ t \<noteq> ''..''" by (metis list.sel(1))+
  moreover have "CHR ''/'' \<notin> set (decimal n)" using digit_not by blast
  ultimately show ?thesis using assms by (simp add: plainElem_def)
qed

text \<open>A numbered search below a directory stays there and finds a free name.\<close>

lemma unique_below:
  assumes fin: "finite (dom fs)" and ds: "ds \<noteq> []" "\<forall>e \<in> set ds. plainElem e"
    and ext: "CHR ''/'' \<notin> set ext" "CHR ''/'' \<notin> set mid"
  shows "\<exists>name. plainElem name
     \<and> (let base = decimal n @ mid; fp = Join [rootedPath ds, base @ ext]
        in if fs fp = None then Some fp
           else firstUnused fs (\<lambda>i. Join [rootedPath ds, base @ ''_'' @ decimal i @ ext]) 1)
        = Some (rootedPath (ds @ [name]))
     \<and> fs (rootedPath (ds @ [name])) = None"
proof -
  let ?first = "decimal n @ mid @ ext" and ?name = "\<lambda>i. decimal n @ mid @ ''_'' @ decimal i @ ext"
  have p: "plainElem ?first" "plainElem (?name i)" for i
    using ext digit_not by (intro plain_decimal; auto)+
  have j: "Join [rootedPath ds, e] = rootedPath (ds @ [e])" if "plainElem e" for e
    using Join_rooted [of ds "[e]"] ds that by simp
  show ?thesis
  proof (cases "fs (rootedPath (ds @ [?first])) = None")
    case True
    then show ?thesis using p(1) by (auto simp: j Let_def)
  next
    case False
    have "inj (\<lambda>i. rootedPath (ds @ [?name i]))"
      using p(2) ds by (auto simp: inj_def rootedPath_inject)
    then obtain k where "firstUnused fs (\<lambda>i. rootedPath (ds @ [?name i])) 1 = Some (rootedPath (ds @ [?name k]))"
      "fs (rootedPath (ds @ [?name k])) = None"
      using firstUnused_finite [OF fin] by blast
    with False p show ?thesis by (auto simp: j Let_def)
  qed
qed

section \<open>Theorems\<close>

text \<open>
  C30. Where an accepted message goes. For a valid recipient address and a data directory given as
  a clean absolute path, the search for a file name ends whenever the disk holds finitely many
  files, and yields an unused path directly inside the recipient's own inbox: no user or domain
  part, whatever it contains, leads outside of it.
\<close>

theorem inbox_file_confined:
  assumes "validAddress U a" "data \<noteq> []" "\<forall>e \<in> set data. plainElem e"
    and "finite (dom fs)" "CHR ''/'' \<notin> set ext"
  shows "\<exists>name. plainElem name
    \<and> uniqueFilepath fs (Join [rootedPath data, Domain a, User a, ''in'']) ts ext
        = Some (rootedPath (data @ [Domain a, User a, ''in'', name]))
    \<and> fs (rootedPath (data @ [Domain a, User a, ''in'', name])) = None"
proof -
  have "plainElem (Domain a)" "plainElem (User a)"
    using assms(1) by (auto simp: validAddress_def plain_user plain_domain)
  moreover have "plainElem ''in''" by (simp add: plainElem_def)
  ultimately have p: "\<forall>e \<in> set (data @ [Domain a, User a, ''in'']). plainElem e" using assms(3) by auto
  then have d: "Join [rootedPath data, Domain a, User a, ''in''] = rootedPath (data @ [Domain a, User a, ''in''])"
    using Join_rooted [of data "[Domain a, User a, ''in'']"] assms(2) by simp
  show ?thesis
    using unique_below [OF assms(4) _ p assms(5), of "[]" "unat ts"]
    by (simp add: uniqueFilepath_def d Let_def)
qed

theorem inbox_file_confined_witness:
  "\<exists>name. plainElem name
    \<and> uniqueFilepath Map.empty (Join [rootedPath [''data''], ''b.org'', ''bob'', ''in'']) 7 ''.json''
        = Some (rootedPath [''data'', ''b.org'', ''bob'', ''in'', name])"
proof -
  have "validAddress \<lparr>letterTab = (\<lambda>r. False), numberTab = (\<lambda>r. False), lowerTab = (\<lambda>r. r), foldTab = (\<lambda>r s. False)\<rparr>
      \<lparr>User = ''bob'', Domain = ''b.org''\<rparr>" by code_simp
  from inbox_file_confined [OF this, of "[''data'']" Map.empty "''.json''" 7]
  show ?thesis by (auto simp: plainElem_def)
qed

text \<open>
  Where an attachment goes: whatever valid file name the sender chose, its payload is written
  to an unused path directly inside the directory given, under a name made of the timestamp, the
  attachment's position and at most the extension of the file name.
\<close>

theorem attachment_file_confined:
  assumes "isValidAttachmentFilename U filename" "dir \<noteq> []" "\<forall>e \<in> set dir. plainElem e" "finite (dom fs)"
  shows "\<exists>name. plainElem name
    \<and> uniqueAttachmentPath fs (rootedPath dir) ts idx filename = Some (rootedPath (dir @ [name]))
    \<and> fs (rootedPath (dir @ [name])) = None"
proof -
  have "CHR ''/'' \<notin> set (Ext filename)" using no_slash_filename [OF assms(1)] set_Ext by blast
  moreover have "CHR ''/'' \<notin> set (''_att_'' @ decimal idx)" using digit_not by auto
  ultimately show ?thesis
    using unique_below [OF assms(4,2,3), of "Ext filename" "''_att_'' @ decimal idx" "unat ts"]
    by (simp add: uniqueAttachmentPath_def Let_def)
qed

theorem attachment_file_confined_witness:
  "\<exists>name. plainElem name
    \<and> uniqueAttachmentPath Map.empty (rootedPath [''data'']) 7 0 ''a.txt'' = Some (rootedPath [''data'', name])"
proof -
  have "isValidAttachmentFilename \<lparr>letterTab = (\<lambda>r. False), numberTab = (\<lambda>r. False),
      lowerTab = (\<lambda>r. r), foldTab = (\<lambda>r s. False)\<rparr> ''a.txt''" by code_simp
  from attachment_file_confined [OF this, of "[''data'']" Map.empty 7 0]
  show ?thesis by (auto simp: plainElem_def)
qed

end
