(* ===== verification/Disk.thy ===== *)
theory Disk
  imports Paths
begin

text \<open>
  The file operations of package \<open>os\<close> as steps on a \<open>disk\<close>. \<open>dfaults\<close> lists the outcome of the
  coming operations that can fail: \<open>None\<close> lets the operation go ahead, \<open>Some k\<close> makes it fail (a
  write after \<open>k\<close> bytes); past the end of the list nothing fails. Which unused path
  \<open>os.CreateTemp\<close> and \<open>os.MkdirTemp\<close> choose for a directory and a pattern is a parameter.
\<close>

record disk =
  ents :: fsys
  dfaults :: "nat option list"

type_synonym 'a dio = "(disk, 'a) st"

type_synonym tempNames = "fsys \<Rightarrow> string \<Rightarrow> string \<Rightarrow> string"

text \<open>What the documentation of \<open>os.CreateTemp\<close> promises of the name, for a disk with finitely many files.\<close>

definition freshNames :: "tempNames \<Rightarrow> bool" where
  "freshNames tmp \<longleftrightarrow> (\<forall>fs dir pat. finite (dom fs) \<longrightarrow> fs (tmp fs dir pat) = None)"

text \<open>A choice that keeps the promise: the first unused number after the pattern.\<close>

definition numberedTemp :: tempNames where
  "numberedTemp fs dir pat = (case firstUnused fs (\<lambda>i. dir @ ''/'' @ pat @ decimal i) 0 of Some p \<Rightarrow> p | None \<Rightarrow> [])"

lemma freshNames_numbered: "freshNames numberedTemp"
  unfolding freshNames_def
proof (intro allI impI)
  fix fs :: fsys and dir pat assume fin: "finite (dom fs)"
  have "inj (\<lambda>i. dir @ ''/'' @ pat @ decimal i)" by (simp add: inj_def)
  from firstUnused_finite [OF fin this] obtain j where
    "firstUnused fs (\<lambda>i. dir @ ''/'' @ pat @ decimal i) 0 = Some (dir @ ''/'' @ pat @ decimal j)"
    "fs (dir @ ''/'' @ pat @ decimal j) = None" by metis
  then show "fs (numberedTemp fs dir pat) = None" by (simp add: numberedTemp_def)
qed

section \<open>Steps\<close>

definition faultable :: "'a dio \<Rightarrow> 'a dio" where
  "faultable op d =
     (case dfaults d of
        Some k # fs \<Rightarrow> (Err FsErr, d\<lparr>dfaults := fs\<rparr>)
      | fs \<Rightarrow> op (d\<lparr>dfaults := drop 1 fs\<rparr>))"

definition getEnts :: "fsys dio" where
  "getEnts d = (Ok (ents d), d)"

definition setEnt :: "string \<Rightarrow> fentry option \<Rightarrow> unit dio" where
  "setEnt p e d = (Ok (), d\<lparr>ents := (ents d)(p := e)\<rparr>)"

definition osStat :: "string \<Rightarrow> fentry dio" where
  "osStat p = faultable (bindIO getEnts (\<lambda>fs. case fs p of None \<Rightarrow> failIO FsErr | Some e \<Rightarrow> retIO e))"

text \<open>\<open>os.Open\<close>: the handle, as the bytes a reader gets from it (a directory opens but reads fail).\<close>

definition osOpen :: "string \<Rightarrow> bytes option dio" where
  "osOpen p = faultable (bindIO getEnts (\<lambda>fs. case fs p of
       None \<Rightarrow> failIO FsErr
     | Some (Regular b) \<Rightarrow> retIO (Some b)
     | Some Directory \<Rightarrow> retIO None))"

definition readAllOf :: "bytes option \<Rightarrow> bytes dio" where
  "readAllOf src = (case src of None \<Rightarrow> failIO FsErr | Some b \<Rightarrow> retIO b)"

definition osCreate :: "string \<Rightarrow> unit dio" where
  "osCreate p = faultable (bindIO getEnts (\<lambda>fs.
     if fs p = Some Directory then failIO FsErr else setEnt p (Some (Regular []))))"

text \<open>\<open>os.OpenFile\<close> with \<open>O_CREATE|O_EXCL\<close>.\<close>

definition osCreateExcl :: "string \<Rightarrow> unit dio" where
  "osCreateExcl p = faultable (bindIO getEnts (\<lambda>fs.
     if fs p \<noteq> None then failIO FsErr else setEnt p (Some (Regular []))))"

definition createTemp :: "tempNames \<Rightarrow> string \<Rightarrow> string dio" where
  "createTemp tmp pat = faultable (bindIO getEnts (\<lambda>fs.
     bindIO (setEnt (tmp fs [] pat) (Some (Regular []))) (\<lambda>_. retIO (tmp fs [] pat))))"

definition mkdirTemp :: "tempNames \<Rightarrow> string \<Rightarrow> string \<Rightarrow> string dio" where
  "mkdirTemp tmp parent pat = faultable (bindIO getEnts (\<lambda>fs.
     bindIO (setEnt (tmp fs parent pat) (Some Directory)) (\<lambda>_. retIO (tmp fs parent pat))))"

definition mkdirAll :: "string \<Rightarrow> unit dio" where
  "mkdirAll p = faultable (bindIO getEnts (\<lambda>fs.
     case fs p of
       None \<Rightarrow> setEnt p (Some Directory)
     | Some Directory \<Rightarrow> retIO ()
     | Some (Regular _) \<Rightarrow> failIO FsErr))"

definition osRemove :: "string \<Rightarrow> unit dio" where
  "osRemove p = faultable (bindIO getEnts (\<lambda>fs.
     if fs p = None then failIO FsErr else setEnt p None))"

definition below :: "string \<Rightarrow> string \<Rightarrow> bool" where
  "below dir p \<longleftrightarrow> p = dir \<or> take (Suc (length dir)) p = dir @ ''/''"

definition removeAll :: "string \<Rightarrow> unit dio" where
  "removeAll dir = faultable (\<lambda>d. (Ok (), d\<lparr>ents := (\<lambda>p. if below dir p then None else ents d p)\<rparr>))"

text \<open>Appending to an open file.\<close>

definition appendFile :: "string \<Rightarrow> bytes \<Rightarrow> unit dio" where
  "appendFile p b d =
     (let old = (case ents d p of Some (Regular x) \<Rightarrow> x | _ \<Rightarrow> [])
      in case dfaults d of
           Some k # fs \<Rightarrow> (Err FsErr, \<lparr>ents = (ents d)(p \<mapsto> Regular (old @ take k b)), dfaults = fs\<rparr>)
         | fs \<Rightarrow> (Ok (), \<lparr>ents = (ents d)(p \<mapsto> Regular (old @ b)), dfaults = drop 1 fs\<rparr>))"

text \<open>\<open>io.CopyN(dst, src, n)\<close> between files: a short source is an error after what there was.\<close>

definition copyNTo :: "string \<Rightarrow> nat \<Rightarrow> bytes option \<Rightarrow> unit dio" where
  "copyNTo p n src =
     bindIO (readAllOf src) (\<lambda>b.
     bindIO (appendFile p (take n b)) (\<lambda>_.
     if length b < n then failIO EOF else retIO ()))"

text \<open>\<open>Close\<close>, \<open>Sync\<close> and \<open>Chmod\<close> can fail and change nothing here.\<close>

definition osFlush :: "unit dio" where
  "osFlush = faultable (retIO ())"

section \<open>Errors\<close>

text \<open>\<open>_ = f()\<close>.\<close>

definition ignoreErr :: "('s, unit) st \<Rightarrow> ('s, unit) st" where
  "ignoreErr m s = (case m s of (Err e, s') \<Rightarrow> (Ok (), s') | r \<Rightarrow> r)"

text \<open>\<open>if err != nil { cleanup; return err }\<close>.\<close>

definition onErr :: "('s, 'a) st \<Rightarrow> ('s, unit) st \<Rightarrow> ('s, 'a) st" where
  "onErr m cleanup s =
     (case m s of (Err e, s') \<Rightarrow> bindIO (ignoreErr cleanup) (\<lambda>_. failIO e) s' | r \<Rightarrow> r)"

text \<open>A deferred call, run whatever the outcome.\<close>

definition deferIO :: "('s, 'a) st \<Rightarrow> ('s, unit) st \<Rightarrow> ('s, 'a) st" where
  "deferIO m cleanup s =
     (case m s of (r, s') \<Rightarrow> (case ignoreErr cleanup s' of (Ok _, s'') \<Rightarrow> (r, s'') | (Err _, s'') \<Rightarrow> (r, s'')
        | (Panic, s'') \<Rightarrow> (Panic, s'') | (Diverge, s'') \<Rightarrow> (Diverge, s'')))"

section \<open>What a step that succeeds has done\<close>

lemma onErr_Ok [simp]: "onErr m cl s = (Ok x, t) \<longleftrightarrow> m s = (Ok x, t)"
  by (auto simp: onErr_def bindIO_def failIO_def split: prod.splits res.splits)

lemma faultable_Ok:
  "faultable op d = (Ok x, e) \<longleftrightarrow>
     (\<exists>fs. op (d\<lparr>dfaults := fs\<rparr>) = (Ok x, e)
        \<and> (dfaults d = [] \<and> fs = [] \<or> dfaults d = None # fs))"
  by (auto simp: faultable_def split: list.splits option.splits)

lemma getEnts_Ok [simp]: "getEnts d = (r, e) \<longleftrightarrow> r = Ok (ents d) \<and> e = d"
  by (auto simp: getEnts_def)

lemma setEnt_Ok [simp]: "setEnt p x d = (r, e) \<longleftrightarrow> r = Ok () \<and> e = d\<lparr>ents := (ents d)(p := x)\<rparr>"
  by (auto simp: setEnt_def)

text \<open>The effect of each operation on the files, when it succeeds.\<close>

lemma osOpen_Ok:
  "osOpen p d = (Ok h, e) \<Longrightarrow>
     ents e = ents d \<and> (\<exists>x. ents d p = Some x \<and> h = (case x of Regular b \<Rightarrow> Some b | Directory \<Rightarrow> None))"
  by (auto simp: osOpen_def faultable_Ok bindIO_eq_Ok split: option.splits fentry.splits)

lemma osStat_Ok: "osStat p d = (Ok x, e) \<Longrightarrow> ents e = ents d \<and> ents d p = Some x"
  by (auto simp: osStat_def faultable_Ok bindIO_eq_Ok split: option.splits)

lemma readAllOf_Ok [simp]: "readAllOf h d = (Ok b, e) \<longleftrightarrow> h = Some b \<and> e = d"
  by (auto simp: readAllOf_def split: option.splits)

lemma osCreateExcl_Ok:
  "osCreateExcl p d = (Ok x, e) \<Longrightarrow> ents d p = None \<and> ents e = (ents d)(p \<mapsto> Regular [])"
  by (auto simp: osCreateExcl_def faultable_Ok bindIO_eq_Ok split: if_splits)

lemma osCreate_Ok:
  "osCreate p d = (Ok x, e) \<Longrightarrow> ents d p \<noteq> Some Directory \<and> ents e = (ents d)(p \<mapsto> Regular [])"
  by (auto simp: osCreate_def faultable_Ok bindIO_eq_Ok split: if_splits)

lemma createTemp_Ok:
  "createTemp tmp pat d = (Ok p, e) \<Longrightarrow> p = tmp (ents d) [] pat \<and> ents e = (ents d)(p \<mapsto> Regular [])"
  by (auto simp: createTemp_def faultable_Ok bindIO_eq_Ok)

lemma mkdirTemp_Ok:
  "mkdirTemp tmp dir pat d = (Ok p, e) \<Longrightarrow> p = tmp (ents d) dir pat \<and> ents e = (ents d)(p \<mapsto> Directory)"
  by (auto simp: mkdirTemp_def faultable_Ok bindIO_eq_Ok)

lemma appendFile_Ok:
  "appendFile p b d = (Ok x, e) \<Longrightarrow> ents d p = Some (Regular old) \<Longrightarrow> ents e = (ents d)(p \<mapsto> Regular (old @ b))"
  by (auto simp: appendFile_def Let_def split: list.splits option.splits)

lemma copyNTo_Ok:
  assumes "copyNTo p n h d = (Ok x, e)" "ents d p = Some (Regular old)"
  shows "\<exists>b. h = Some b \<and> n \<le> length b \<and> ents e = (ents d)(p \<mapsto> Regular (old @ take n b))"
  using assms
  by (auto simp: copyNTo_def bindIO_eq_Ok not_less dest!: appendFile_Ok split: if_splits)

lemma osFlush_Ok: "osFlush d = (Ok x, e) \<Longrightarrow> ents e = ents d"
  by (auto simp: osFlush_def faultable_Ok)

lemmas disk_Ok = osOpen_Ok osStat_Ok osCreateExcl_Ok osCreate_Ok createTemp_Ok osFlush_Ok

section \<open>Nothing existing is touched\<close>

text \<open>\<open>keeps d e\<close>: every entry of \<open>d\<close> is still there, unchanged, and finitely many were added.\<close>

definition keeps :: "disk \<Rightarrow> disk \<Rightarrow> bool" where
  "keeps d e \<longleftrightarrow> (\<forall>p x. ents d p = Some x \<longrightarrow> ents e p = Some x)
     \<and> (finite (dom (ents d)) \<longrightarrow> finite (dom (ents e)))"

lemma keeps_finite: "keeps d e \<Longrightarrow> finite (dom (ents d)) \<Longrightarrow> finite (dom (ents e))"
  by (simp add: keeps_def)

lemma keeps_refl [simp]: "ents e = ents d \<Longrightarrow> keeps d e"
  by (simp add: keeps_def)

lemma keeps_trans [trans]: "keeps d e \<Longrightarrow> keeps e f \<Longrightarrow> keeps d f"
  by (simp add: keeps_def)

lemma keeps_new: "ents d p = None \<Longrightarrow> ents e = (ents d)(p \<mapsto> x) \<Longrightarrow> keeps d e"
  by (auto simp: keeps_def)

lemma keepsD: "keeps d e \<Longrightarrow> ents d p = Some x \<Longrightarrow> ents e p = Some x"
  by (simp add: keeps_def)

text \<open>Removing a file that was not there before.\<close>

lemma ignore_osRemove:
  assumes "ignoreErr (osRemove p) d = (r, e)"
  shows "ents e = ents d \<or> ents e = (ents d)(p := None)"
  using assms
  by (auto simp: ignoreErr_def osRemove_def faultable_def bindIO_def failIO_def getEnts_def setEnt_def
      split: list.splits option.splits if_splits)

end
