(* ===== verification/Deflate.thy ===== *)
theory Deflate
  imports Disk
begin

text \<open>
  When and how a payload is compressed before it is sent (\<open>src/pkg/fmsg/deflate.go\<close>). zlib itself
  is the parameter \<open>deflate\<close>; what the code adds, the choice by type and size, the sample, the
  80 per cent rule and the handling of the temporary file, is modelled.
\<close>

section \<open>Strings\<close>

fun IndexByte :: "string \<Rightarrow> char \<Rightarrow> nat option" where
  "IndexByte [] c = None"
| "IndexByte (x # xs) c = (if x = c then Some 0 else map_option Suc (IndexByte xs c))"

definition TrimRight :: "string \<Rightarrow> char \<Rightarrow> string" where
  "TrimRight s c = rev (dropWhile (\<lambda>x. x = c) (rev s))"

section \<open>The choice\<close>

definition minDeflateSize :: u32 where [simp]: "minDeflateSize = 512"

definition incompressibleTypes :: "string list" where
  "incompressibleTypes =
    [''image/jpeg'', ''image/png'', ''image/gif'', ''image/webp'', ''image/heic'', ''image/avif'', ''image/apng'',
     ''audio/aac'', ''audio/mpeg'', ''audio/ogg'', ''audio/opus'', ''audio/webm'',
     ''video/h264'', ''video/h265'', ''video/h266'', ''video/ogg'', ''video/vp8'', ''video/vp9'', ''video/webm'',
     ''application/gzip'', ''application/zip'', ''application/epub+zip'', ''application/octet-stream'',
     ''application/vnd.oasis.opendocument.presentation'', ''application/vnd.oasis.opendocument.spreadsheet'',
     ''application/vnd.oasis.opendocument.text'',
     ''application/vnd.openxmlformats-officedocument.presentationml.presentation'',
     ''application/vnd.openxmlformats-officedocument.spreadsheetml.sheet'',
     ''application/vnd.openxmlformats-officedocument.wordprocessingml.document'',
     ''application/vnd.amazon.ebook'', ''font/woff'', ''font/woff2'', ''application/pdf'',
     ''model/3mf'', ''model/gltf-binary'', ''model/vnd.usdz+zip'']"

definition ShouldCompress :: "unicode \<Rightarrow> string \<Rightarrow> u32 \<Rightarrow> bool" where
  "ShouldCompress U mediaType dataSize =
     (if dataSize < minDeflateSize then False
      else let t = ToLower U mediaType;
               t' = (case IndexByte t CHR '';'' of None \<Rightarrow> t | Some i \<Rightarrow> TrimRight (take i t) CHR '' '')
           in t' \<notin> set incompressibleTypes)"

section \<open>Compressing\<close>

definition deflateSampleSize :: u32 where [simp]: "deflateSampleSize = 8192"

definition probeSample :: "golib \<Rightarrow> bytes option \<Rightarrow> u32 \<Rightarrow> bool dio" where
  "probeSample L src srcSize =
     (let sampleLen = min (uint srcSize) (uint deflateSampleSize)
      in bindIO (readAllOf src) (\<lambda>b.
         if int (length b) < sampleLen then failIO EOF
         else bindIO osFlush (\<lambda>_.
           retIO (int (length (deflate L (take (nat sampleLen) b))) < sampleLen * 8 div 10))))"

text \<open>Once the temporary file is there, every failure removes it before it is returned.\<close>

definition compressInto :: "golib \<Rightarrow> bytes option \<Rightarrow> u32 \<Rightarrow> string \<Rightarrow> (string \<times> u32 \<times> bool) dio" where
  "compressInto L src srcSize dstName =
     bindIO (onErr (bindIO (readAllOf src) (\<lambda>b. appendFile dstName (deflate L b))) (osRemove dstName)) (\<lambda>_.
     bindIO (onErr osFlush (osRemove dstName)) (\<lambda>_.
     bindIO (onErr osFlush (osRemove dstName)) (\<lambda>_.
     bindIO (onErr (osStat dstName) (osRemove dstName)) (\<lambda>fi.
       let cSize = (of_nat (case fi of Regular c \<Rightarrow> length c | Directory \<Rightarrow> 0) :: u32)
       in if cSize \<ge> srcSize * 8 div 10
          then bindIO (ignoreErr (osRemove dstName)) (\<lambda>_. retIO ([], 0, False))
          else retIO (dstName, cSize, True)))))"

definition TryCompress :: "golib \<Rightarrow> tempNames \<Rightarrow> string \<Rightarrow> u32 \<Rightarrow> (string \<times> u32 \<times> bool) dio" where
  "TryCompress L tmp srcPath srcSize =
     bindIO (osOpen srcPath) (\<lambda>src.
     bindIO (if srcSize > deflateSampleSize then probeSample L src srcSize else retIO True) (\<lambda>promising.
       if \<not> promising then retIO ([], 0, False)
       else bindIO (createTemp tmp ''fmsg-deflate-*'') (compressInto L src srcSize)))"

section \<open>Properties\<close>

lemma probeSample_Ok: "probeSample L src n d = (Ok b, e) \<Longrightarrow> ents e = ents d"
  by (auto simp: probeSample_def Let_def bindIO_eq_Ok dest!: osFlush_Ok split: if_splits)

lemma compressInto_True:
  assumes "compressInto L src n p d = (Ok (dst, c, True), e)" "ents d p = Some (Regular [])"
  shows "\<exists>b. src = Some b \<and> dst = p \<and> c = of_nat (length (deflate L b)) \<and> c < n * 8 div 10
    \<and> ents e = (ents d)(p \<mapsto> Regular (deflate L b))"
  using assms(1) unfolding compressInto_def Let_def
proof (elim bindIO_OkE, unfold onErr_Ok, elim bindIO_OkE)
  fix d1 d2 d3 d4 d5 fi b u1 u2 u3
  assume "readAllOf src d = (Ok b, d5)" "appendFile p (deflate L b) d5 = (Ok u1, d1)"
    and 2: "osFlush d1 = (Ok u2, d2)" "osFlush d2 = (Ok u3, d3)" "osStat p d3 = (Ok fi, d4)"
    and r: "(if of_nat (case fi of Regular c \<Rightarrow> length c | Directory \<Rightarrow> 0) \<ge> n * 8 div 10
          then bindIO (ignoreErr (osRemove p)) (\<lambda>_. retIO ([], 0, False))
          else retIO (p, of_nat (case fi of Regular c \<Rightarrow> length c | Directory \<Rightarrow> 0), True)) d4
        = (Ok (dst, c, True), e)"
  then have src: "src = Some b" and "ents d1 = (ents d)(p \<mapsto> Regular (deflate L b))"
    using appendFile_Ok [OF _ assms(2)] by auto
  with 2 have "ents d4 = (ents d)(p \<mapsto> Regular (deflate L b))" "fi = Regular (deflate L b)"
    by (auto dest!: disk_Ok)
  with r src show ?thesis by (auto elim!: bindIO_OkE split: if_splits)
qed

lemma TryCompress_True:
  assumes "TryCompress L tmp p n d = (Ok (dst, c, True), e)"
  shows "\<exists>b. ents d p = Some (Regular b) \<and> dst = tmp (ents d) [] ''fmsg-deflate-*''
    \<and> c = of_nat (length (deflate L b)) \<and> c < n * 8 div 10
    \<and> ents e = (ents d)(dst \<mapsto> Regular (deflate L b))"
  using assms unfolding TryCompress_def
proof (elim bindIO_OkE)
  fix src d1 d2 promising
  assume o: "osOpen p d = (Ok src, d1)"
    and pr: "(if n > deflateSampleSize then probeSample L src n else retIO True) d1 = (Ok promising, d2)"
    and k: "(if \<not> promising then retIO ([], 0, False)
       else bindIO (createTemp tmp ''fmsg-deflate-*'') (compressInto L src n)) d2 = (Ok (dst, c, True), e)"
  then obtain dst' d3 where ct: "createTemp tmp ''fmsg-deflate-*'' d2 = (Ok dst', d3)"
    and ci: "compressInto L src n dst' d3 = (Ok (dst, c, True), e)"
    by (auto elim: bindIO_OkE split: if_splits)
  have 1: "ents d1 = ents d" "ents d2 = ents d"
    using o pr by (auto dest!: osOpen_Ok probeSample_Ok split: if_splits)
  with ct have 3: "dst' = tmp (ents d) [] ''fmsg-deflate-*''" "ents d3 = (ents d)(dst' \<mapsto> Regular [])"
    by (auto dest!: createTemp_Ok)
  then have "ents d3 dst' = Some (Regular [])" by simp
  from compressInto_True [OF ci this] o 3 show ?thesis
    by (auto dest!: osOpen_Ok split: fentry.splits)
qed

lemma div_u32: "uint (a div b :: u32) = uint a div uint b"
  by (simp add: uint_div)

section \<open>Theorems\<close>

text \<open>
  What a worthwhile compression is: the named temporary file holds the compressed bytes of the
  whole source and no other file has changed, and for a source of fewer than 2^29 bytes whose
  compressed form is shorter than 2^32 the compressed size is below 80 per cent of the declared size.
\<close>

theorem TryCompress_worthwhile:
  assumes "TryCompress L tmp p n d = (Ok (dst, c, True), e)"
  shows "\<exists>b. ents d p = Some (Regular b) \<and> ents e = (ents d)(dst \<mapsto> Regular (deflate L b))
    \<and> (uint n < 2 ^ 29 \<and> length (deflate L b) < 2 ^ 32 \<longrightarrow>
         int (length (deflate L b)) = uint c \<and> 10 * uint c < 8 * uint n)"
proof -
  from TryCompress_True [OF assms] obtain b where b: "ents d p = Some (Regular b)"
    "c = of_nat (length (deflate L b))" "c < n * 8 div 10" "ents e = (ents d)(dst \<mapsto> Regular (deflate L b))"
    by blast
  have "10 * uint c < 8 * uint n" if "uint n < 2 ^ 29"
  proof -
    have "uint (n * 8) = uint n * 8" using that by (simp add: uint_word_ariths)
    then have "uint c < uint n * 8 div 10" using b(3) by (simp add: word_less_def div_u32)
    then show ?thesis by linarith
  qed
  moreover have "int (length (deflate L b)) = uint c" if "length (deflate L b) < 2 ^ 32"
    using that by (simp add: b(2) unsigned_of_nat take_bit_nat_eq_self)
  ultimately show ?thesis using b by blast
qed

definition sampleZip :: golib where
  "sampleZip = \<lparr>uni = \<lparr>letterTab = (\<lambda>r. False), numberTab = (\<lambda>r. False), lowerTab = (\<lambda>r. r), foldTab = (\<lambda>r s. False)\<rparr>,
     sha256 = (\<lambda>b. take 32 (b @ replicate 32 0)), inflate = (\<lambda>b. Ok (replicate 10 7)), deflate = (\<lambda>b. [1]), ParseIP = (\<lambda>s. None)\<rparr>"

definition sampleDisk :: disk where
  "sampleDisk = \<lparr>ents = [''/m'' \<mapsto> Regular (replicate 10 7)], dfaults = []\<rparr>"

lemma sampleCompress:
  "TryCompress sampleZip (\<lambda>fs dir pat. ''/tmp/x'') ''/m'' 10 sampleDisk
     = (Ok (''/tmp/x'', 1, True), sampleDisk\<lparr>ents := (ents sampleDisk)(''/tmp/x'' \<mapsto> Regular [1])\<rparr>)"
proof -
  have "\<not> (10 * 8 div 10 :: u32) \<le> 1" "\<not> (8192 :: u32) < 10" by code_simp+
  then show ?thesis
    by (simp add: TryCompress_def compressInto_def sampleDisk_def sampleZip_def osOpen_def faultable_def
        bindIO_def getEnts_def retIO_def createTemp_def setEnt_def onErr_def readAllOf_def appendFile_def
        osFlush_def osStat_def Let_def)
qed

theorem TryCompress_worthwhile_witness:
  "\<exists>b. ents sampleDisk ''/m'' = Some (Regular b) \<and> 10 * uint (1 :: u32) < 8 * uint (10 :: u32)"
  using TryCompress_worthwhile [OF sampleCompress] by (auto simp: sampleZip_def)

text \<open>
  The 80 per cent threshold is computed in 32 bits. A source of exactly 2^29 bytes has threshold
  0, so it is never found worth compressing, however well it compresses.
\<close>

theorem large_never_compressed:
  "fst (TryCompress L tmp p 0x20000000 d) \<noteq> Ok (dst, c, True)"
proof
  assume "fst (TryCompress L tmp p 0x20000000 d) = Ok (dst, c, True)"
  then have "TryCompress L tmp p 0x20000000 d = (Ok (dst, c, True), snd (TryCompress L tmp p 0x20000000 d))"
    by (metis surjective_pairing)
  from TryCompress_True [OF this] have "c < 0x20000000 * 8 div 10" by blast
  moreover have "(0x20000000 * 8 div 10 :: u32) = 0" by code_simp
  ultimately show False by simp
qed

end
