(* ===== verification/Prepare.thy ===== *)
theory Prepare
  imports Deflate
begin

text \<open>
  Freezing a message's wire form (\<open>src/pkg/fmsg/prepare.go\<close>): \<open>Prepare\<close> for a message written
  here, whose payloads may be compressed; \<open>Preserve\<close> for one that was received, whose payloads
  are copied as they are; and the snapshot both are stored as.
\<close>

unbundle bit_operations_syntax

section \<open>Headers\<close>

definition Clone :: "Header \<Rightarrow> Header" where
  "Clone h = h\<lparr>HeaderHash := None, messageHash := None\<rparr>"

definition applyAttType :: "AttachmentHeader \<Rightarrow> AttachmentHeader" where
  "applyAttType a =
     (case GetCommonMediaTypeID (aType a) of
        Some i \<Rightarrow> if \<not> hasFlag (aFlags a) 1 then a\<lparr>aFlags := aFlags a OR 1, aTypeID := i\<rparr> else a
      | None \<Rightarrow> a)"

definition ApplyCommonTypes :: "Header \<Rightarrow> bool \<times> Header" where
  "ApplyCommonTypes h =
     (let h1 = (case GetCommonMediaTypeID (Type h) of
                  Some i \<Rightarrow> if \<not> hasFlag (Flags h) FlagCommonType
                           then h\<lparr>Flags := Flags h OR FlagCommonType, TypeID := i\<rparr> else h
                | None \<Rightarrow> h);
          h2 = h1\<lparr>Attachments := map applyAttType (Attachments h1)\<rparr>
      in (h1 \<noteq> h \<or> map applyAttType (Attachments h) \<noteq> Attachments h, h2))"

section \<open>Copying payloads\<close>

text \<open>The step's error, or else that of closing the file.\<close>

definition thenClose :: "'a dio \<Rightarrow> unit dio \<Rightarrow> 'a dio" where
  "thenClose m cl d =
     (case m d of (r, d') \<Rightarrow> (case cl d' of (rc, d'') \<Rightarrow>
        (case (r, rc) of (Ok x, Err e) \<Rightarrow> (Err e, d'') | _ \<Rightarrow> (r, d''))))"

definition copyPart :: "string \<Rightarrow> string \<Rightarrow> u32 \<Rightarrow> unit dio" where
  "copyPart src dst n =
     bindIO (osOpen src) (\<lambda>fin.
     bindIO (osCreateExcl dst) (\<lambda>_.
     thenClose (bindIO (copyNTo dst (unat n) fin) (\<lambda>_. osFlush)) osFlush))"

definition preparePart ::
  "golib \<Rightarrow> tempNames \<Rightarrow> string \<Rightarrow> u32 \<Rightarrow> string \<Rightarrow> string \<Rightarrow> (string \<times> u32 \<times> u32) dio" where
  "preparePart L tmp src n typ dst =
     bindIO (osStat src) (\<lambda>info.
       if (case info of Directory \<Rightarrow> True | Regular b \<Rightarrow> int (length b) \<noteq> uint n)
       then failIO (Errorf ''payload length differs from metadata'')
       else
         bindIO (if ShouldCompress (uni L) typ n then TryCompress L tmp src n else retIO ([], 0, False))
           (\<lambda>(path, compressed, useful).
              if useful
              then deferIO (bindIO (copyPart path dst compressed) (\<lambda>_. retIO (dst, compressed, n))) (osRemove path)
              else bindIO (copyPart src dst n) (\<lambda>_. retIO (dst, n, 0))))"

fun prepareAttachments ::
  "golib \<Rightarrow> tempNames \<Rightarrow> string \<Rightarrow> nat \<Rightarrow> AttachmentHeader list \<Rightarrow> AttachmentHeader list dio" where
  "prepareAttachments L tmp dir i [] = retIO []"
| "prepareAttachments L tmp dir i (a # as) =
     (if length (aFilename a) = 0 \<or> length (aFilename a) > 255 \<or> length (aType a) = 0 \<or> length (aType a) > 255
      then failIO (Errorf ''invalid attachment header'')
      else bindIO (preparePart L tmp (aFilepath a) (aSize a) (aType a) (Join [dir, ''attachment-'' @ decimal i]))
        (\<lambda>(path, size', expanded).
           let f = aFlags a AND NOT 2;
               a' = a\<lparr>aFlags := (if expanded > 0 then f OR 2 else f), aFilepath := path, aSize := size',
                      aExpandedSize := expanded\<rparr>
           in bindIO (prepareAttachments L tmp dir (Suc i) as) (\<lambda>as'. retIO (a' # as'))))"

definition syncDirectory :: "string \<Rightarrow> unit dio" where
  "syncDirectory path = bindIO (osOpen path) (\<lambda>_. osFlush)"

definition hashOnDisk :: "golib \<Rightarrow> Header \<Rightarrow> (bytes \<times> Header) dio" where
  "hashOnDisk L h d = (GetMessageHash L (ents d) h, d)"

definition prepareIn :: "golib \<Rightarrow> tempNames \<Rightarrow> string \<Rightarrow> Header \<Rightarrow> (Header \<times> string) dio" where
  "prepareIn L tmp directory h =
     bindIO (preparePart L tmp (Filepath h) (Size h) (Type h) (Join [directory, ''body''])) (\<lambda>(path, size', expanded).
       let f = Flags h AND NOT FlagDeflate;
           h1 = h\<lparr>Flags := (if expanded > 0 then f OR FlagDeflate else f), Filepath := path, Size := size',
                  ExpandedSize := expanded\<rparr>
       in bindIO (prepareAttachments L tmp directory 0 (Attachments h)) (\<lambda>as.
          let h2 = snd (ApplyCommonTypes (h1\<lparr>Attachments := as\<rparr>))
          in bindIO (hashOnDisk L h2) (\<lambda>(_, h3).
             bindIO (syncDirectory directory) (\<lambda>_.
             bindIO (syncDirectory (Dir directory)) (\<lambda>_. retIO (h3, directory))))))"

definition Prepare :: "golib \<Rightarrow> tempNames \<Rightarrow> Header \<Rightarrow> (Header \<times> string) dio" where
  "Prepare L tmp input =
     (let h = Clone input
      in if Version h \<noteq> 1 \<or> length (To h) = 0 \<or> length (To h) > 255 \<or> length (Attachments h) > 255
            \<or> length (Topic h) > 255 \<or> length (Type h) = 0 \<or> length (Type h) > 255
         then failIO (Errorf ''invalid message header lengths or version'')
         else if hasFlag (Flags h) FlagHasPid \<noteq> (length (Pid h) = 32)
         then failIO (Errorf ''reply requires a 32-byte parent hash'')
         else bindIO (mkdirTemp tmp (Dir (Filepath h)) ''.fmsg-wire-'') (\<lambda>directory.
              bindIO (onErr osFlush (removeAll directory)) (\<lambda>_.
              onErr (prepareIn L tmp directory h) (removeAll directory))))"

fun preserveAttachments :: "string \<Rightarrow> nat \<Rightarrow> AttachmentHeader list \<Rightarrow> AttachmentHeader list dio" where
  "preserveAttachments dir i [] = retIO []"
| "preserveAttachments dir i (a # as) =
     (let path = Join [dir, ''attachment-'' @ decimal i]
      in bindIO (copyPart (aFilepath a) path (aSize a)) (\<lambda>_.
         bindIO (preserveAttachments dir (Suc i) as) (\<lambda>as'. retIO (a\<lparr>aFilepath := path\<rparr> # as'))))"

definition Preserve :: "golib \<Rightarrow> tempNames \<Rightarrow> Header \<Rightarrow> string \<Rightarrow> (Header \<times> string) dio" where
  "Preserve L tmp input parentDir =
     (let h = Clone input
      in bindIO (mkdirTemp tmp parentDir ''.fmsg-wire-'') (\<lambda>directory.
         bindIO (onErr osFlush (removeAll directory)) (\<lambda>_.
         onErr
           (let body = Join [directory, ''body'']
            in bindIO (copyPart (Filepath h) body (Size h)) (\<lambda>_.
               bindIO (preserveAttachments directory 0 (Attachments h)) (\<lambda>as.
               bindIO (hashOnDisk L (h\<lparr>Filepath := body, Attachments := as\<rparr>)) (\<lambda>(_, h2).
               bindIO (syncDirectory directory) (\<lambda>_.
               bindIO (syncDirectory parentDir) (\<lambda>_. retIO (h2, directory)))))))
           (removeAll directory))))"

section \<open>Copies are exact and touch nothing else\<close>

lemma osFlush_ents [simp]: "ents (snd (osFlush d)) = ents d"
  by (simp add: osFlush_def faultable_def retIO_def split: list.splits option.splits)

lemma thenClose_osFlush:
  assumes "thenClose m osFlush d = (Ok x, e)"
  obtains d' where "m d = (Ok x, d')" "ents e = ents d'"
proof -
  obtain r d' where m: "m d = (r, d')" by fastforce
  obtain rc d'' where c: "osFlush d' = (rc, d'')" by fastforce
  have "ents d'' = ents d'" using osFlush_ents [of d'] c by simp
  with assms m c that show ?thesis
    by (cases r; cases rc) (auto simp: thenClose_def)
qed

lemma copyPart_Ok:
  assumes "copyPart src dst n d = (Ok u, e)"
  shows "\<exists>b. ents d src = Some (Regular b) \<and> ents d dst = None \<and> unat n \<le> length b
    \<and> ents e = (ents d)(dst \<mapsto> Regular (take (unat n) b))"
  using assms unfolding copyPart_def
proof (elim bindIO_OkE thenClose_osFlush)
  fix fin d1 u1 d2 d3 u2 d4
  assume o: "osOpen src d = (Ok fin, d1)" and c: "osCreateExcl dst d1 = (Ok u1, d2)"
    and w: "copyNTo dst (unat n) fin d2 = (Ok u2, d4)" "osFlush d4 = (Ok u, d3)" and e: "ents e = ents d3"
  from c have "ents d2 dst = Some (Regular [])" by (auto dest!: osCreateExcl_Ok)
  from copyNTo_Ok [OF w(1) this] o c w(2) e show ?thesis
    by (auto dest!: disk_Ok split: fentry.splits)
qed

text \<open>\<open>onlyAt p d e\<close>: nothing but the entry of \<open>p\<close> differs.\<close>

definition onlyAt :: "string \<Rightarrow> disk \<Rightarrow> disk \<Rightarrow> bool" where
  "onlyAt p d e \<longleftrightarrow> (\<forall>q. q \<noteq> p \<longrightarrow> ents e q = ents d q)"

lemma onlyAt_keeps: "onlyAt p d e \<Longrightarrow> ents d p = None \<Longrightarrow> keeps d e"
proof -
  assume *: "onlyAt p d e" "ents d p = None"
  then have "dom (ents e) \<subseteq> insert p (dom (ents d))" by (auto simp: onlyAt_def)
  with * show "keeps d e"
    unfolding onlyAt_def keeps_def by (metis finite_insert finite_subset option.distinct(1))
qed

lemma appendFile_onlyAt: "appendFile p b d = (r, e) \<Longrightarrow> onlyAt p d e"
  by (auto simp: appendFile_def onlyAt_def Let_def split: list.splits option.splits)

lemma compressInto_onlyAt:
  assumes "compressInto L src n p d = (Ok r, e)"
  shows "onlyAt p d e"
  using assms unfolding compressInto_def Let_def
proof (elim bindIO_OkE, unfold onErr_Ok, elim bindIO_OkE)
  fix d1 d2 d3 d4 d5 fi b u1 u2 u3
  let ?c = "of_nat (case fi of Regular c \<Rightarrow> length c | Directory \<Rightarrow> 0) :: u32"
  assume "readAllOf src d = (Ok b, d5)" and a: "appendFile p (deflate L b) d5 = (Ok u1, d1)"
    and 2: "osFlush d1 = (Ok u2, d2)" "osFlush d2 = (Ok u3, d3)" "osStat p d3 = (Ok fi, d4)"
    and r: "(if ?c \<ge> n * 8 div 10
          then bindIO (ignoreErr (osRemove p)) (\<lambda>_. retIO ([], 0, False)) else retIO (p, ?c, True)) d4 = (Ok r, e)"
  then have "onlyAt p d d1" "ents d4 = ents d1" using appendFile_onlyAt [OF a] by (auto dest!: disk_Ok)
  moreover have "ents e = ents d4 \<or> ents e = (ents d4)(p := None)"
    using r by (auto elim!: bindIO_OkE dest: ignore_osRemove split: if_splits)
  ultimately show ?thesis by (auto simp: onlyAt_def)
qed

lemma TryCompress_keeps:
  assumes "TryCompress L tmp p n d = (Ok r, e)" "freshNames tmp" "finite (dom (ents d))"
  shows "keeps d e"
  using assms(1) unfolding TryCompress_def
proof (elim bindIO_OkE)
  fix src d1 d2 promising
  assume o: "osOpen p d = (Ok src, d1)"
    and pr: "(if n > deflateSampleSize then probeSample L src n else retIO True) d1 = (Ok promising, d2)"
    and k: "(if \<not> promising then retIO ([], 0, False)
       else bindIO (createTemp tmp ''fmsg-deflate-*'') (compressInto L src n)) d2 = (Ok r, e)"
  have 1: "ents d2 = ents d"
    using o pr by (auto dest!: osOpen_Ok probeSample_Ok split: if_splits)
  show ?thesis
  proof (cases promising)
    case True
    with k obtain t d3 where ct: "createTemp tmp ''fmsg-deflate-*'' d2 = (Ok t, d3)"
      and ci: "compressInto L src n t d3 = (Ok r, e)" by (auto elim: bindIO_OkE)
    have "ents d3 = (ents d)(t \<mapsto> Regular [])" "ents d t = None"
      using createTemp_Ok [OF ct] 1 assms(2,3) by (auto simp: freshNames_def)
    with compressInto_onlyAt [OF ci] have "onlyAt t d e" by (auto simp: onlyAt_def)
    with \<open>ents d t = None\<close> show ?thesis by (intro onlyAt_keeps)
  qed (use k 1 in auto)
qed

lemma deferIO_Ok:
  assumes "deferIO m (osRemove p) d = (Ok x, e)"
  obtains d' where "m d = (Ok x, d')" "ents e = ents d' \<or> ents e = (ents d')(p := None)"
proof -
  obtain r d' where m: "m d = (r, d')" by fastforce
  obtain rc d'' where c: "ignoreErr (osRemove p) d' = (rc, d'')" by fastforce
  from ignore_osRemove [OF c] assms m c that show ?thesis
    by (cases rc) (auto simp: deferIO_def split: prod.splits)
qed

text \<open>
  What zlib promises: inflating what was deflated gives it back, and deflating a payload of a
  32-bit length does not lengthen it beyond 32 bits.
\<close>

definition zlibLaws :: "golib \<Rightarrow> bool" where
  "zlibLaws L \<longleftrightarrow> (\<forall>b. inflate L (deflate L b) = Ok b)
     \<and> (\<forall>b. length b < 2 ^ 32 \<longrightarrow> length (deflate L b) < 2 ^ 32)"

lemma minDeflate_pos: "ShouldCompress U t n \<Longrightarrow> 0 < n"
  by (auto simp: ShouldCompress_def word_less_def split: if_splits)

lemma int_eq_uint: "int k = uint w \<longleftrightarrow> k = unat w"
  by (metis nat_int nat_uint_eq of_nat_unat)

lemma preparePart_Ok:
  assumes "preparePart L tmp src n typ dst d = (Ok (path, n', x), e)" "freshNames tmp" "zlibLaws L"
    and fin: "finite (dom (ents d))"
  shows "\<exists>b. ents d src = Some (Regular b) \<and> HashPayload L (ents e) path (unat n') (x > 0) x = Ok b
    \<and> path = dst \<and> keeps d e \<and> (\<exists>c. ents e dst = Some (Regular c))"
  using assms(1) unfolding preparePart_def
proof (elim bindIO_OkE)
  fix info d1
  let ?k = "bindIO (if ShouldCompress (uni L) typ n then TryCompress L tmp src n else retIO ([], 0, False))
           (\<lambda>(path, compressed, useful).
              if useful
              then deferIO (bindIO (copyPart path dst compressed) (\<lambda>_. retIO (dst, compressed, n))) (osRemove path)
              else bindIO (copyPart src dst n) (\<lambda>_. retIO (dst, n, 0)))"
  assume "osStat src d = (Ok info, d1)"
    and k: "(if case info of Directory \<Rightarrow> True | Regular b \<Rightarrow> int (length b) \<noteq> uint n
       then failIO (Errorf ''payload length differs from metadata'') else ?k) d1 = (Ok (path, n', x), e)"
  then obtain b where b: "ents d src = Some (Regular b)" "ents d1 = ents d" and len: "length b = unat n"
    by (auto dest!: osStat_Ok simp: int_eq_uint split: fentry.splits if_splits)
  from k have "?k d1 = (Ok (path, n', x), e)" by (auto split: if_splits)
  then obtain p c useful d2 where
    t: "(if ShouldCompress (uni L) typ n then TryCompress L tmp src n else retIO ([], 0, False)) d1 = (Ok (p, c, useful), d2)"
    and r: "(if useful
        then deferIO (bindIO (copyPart p dst c) (\<lambda>_. retIO (dst, c, n))) (osRemove p)
        else bindIO (copyPart src dst n) (\<lambda>_. retIO (dst, n, 0))) d2 = (Ok (path, n', x), e)"
    by (elim bindIO_OkE) (simp only: split_paired_all split_conv)
  have 12: "keeps d1 d2" using t TryCompress_keeps [OF _ assms(2)] fin b(2) by (auto split: if_splits)
  then have src2: "ents d2 src = Some (Regular b)" using b by (auto dest: keepsD)
  show ?thesis
  proof (cases useful)
    case False
    with r obtain u where c: "copyPart src dst n d2 = (Ok u, e)" and res: "path = dst" "n' = n" "x = 0"
      by (auto elim!: bindIO_OkE)
    from copyPart_Ok [OF c] src2 len have e: "ents d2 dst = None" "ents e = (ents d2)(dst \<mapsto> Regular b)" by auto
    then have "keeps d e" using 12 b(2) keeps_new keeps_trans by (metis keeps_refl)
    with e b res len show ?thesis by (simp add: HashPayload_def readFile_def copyN_def)
  next
    case True
    with t have sc: "ShouldCompress (uni L) typ n" and tc: "TryCompress L tmp src n d1 = (Ok (p, c, True), d2)"
      by (auto split: if_splits)
    from TryCompress_True [OF tc] b have z: "c = of_nat (length (deflate L b))"
      "ents d2 = (ents d1)(p \<mapsto> Regular (deflate L b))" "p = tmp (ents d1) [] ''fmsg-deflate-*''" by auto
    from r True obtain d3 where "bindIO (copyPart p dst c) (\<lambda>_. retIO (dst, c, n)) d2 = (Ok (path, n', x), d3)"
      and e3: "ents e = ents d3 \<or> ents e = (ents d3)(p := None)" by (auto elim: deferIO_Ok)
    then obtain u where c: "copyPart p dst c d2 = (Ok u, d3)" and res: "path = dst" "n' = c" "x = n"
      by (auto elim!: bindIO_OkE)
    have "length b < 2 ^ 32" using len by simp
    then have "unat c = length (deflate L b)" using assms(3) z(1) by (simp add: zlibLaws_def unat_of_nat)
    with copyPart_Ok [OF c] z(2) have e: "ents d2 dst = None" "ents d3 = (ents d2)(dst \<mapsto> Regular (deflate L b))"
      "p \<noteq> dst" by auto
    have pn: "ents d p = None" using z(3) assms(2) b(2) fin by (simp add: freshNames_def)
    have dst: "ents e dst = Some (Regular (deflate L b))" using e e3 by auto
    have dn: "ents d dst = None" using e(1,3) z(2) b(2) by simp
    have "dom (ents e) \<subseteq> insert dst (insert p (dom (ents d)))" using e e3 z(2) b(2) by (auto split: if_splits)
    then have "keeps d e"
      unfolding keeps_def using e e3 z(2) b(2) pn dn by (fastforce intro: finite_subset)
    with dst b res len sc \<open>unat c = _\<close> assms(3) show ?thesis
      by (auto simp: HashPayload_def readFile_def zlibLaws_def dest: minDeflate_pos)
  qed
qed

section \<open>Flags\<close>

lemma hasFlag_clear [simp]: "\<not> hasFlag (f AND NOT m) m"
proof -
  have "(f AND NOT m) AND m = 0" by (rule bit_eqI) (auto simp: bit_simps)
  then show ?thesis by (simp add: hasFlag_def)
qed

lemma hasFlag_clear_num [simp]: "\<not> hasFlag (f AND - 3) 2" "\<not> hasFlag (f AND - 33) 32"
  using hasFlag_clear [of f 2] hasFlag_clear [of f 32] by (simp_all del: hasFlag_clear)

lemma hasFlag_set [simp]: "hasFlag (f OR m) m \<longleftrightarrow> m \<noteq> 0"
proof -
  have "(f OR m) AND m = m" by (rule bit_eqI) (auto simp: bit_simps)
  then show ?thesis by (simp add: hasFlag_def)
qed

lemma hasFlag_other: "m AND k = 0 \<Longrightarrow> hasFlag (f OR m) k \<longleftrightarrow> hasFlag f k"
  "m AND k = 0 \<Longrightarrow> hasFlag (f AND NOT m) k \<longleftrightarrow> hasFlag f k"
proof -
  assume "m AND k = 0"
  then have "bit m i \<longrightarrow> \<not> bit k i" for i by (metis bit_and_iff bit_0_eq bot_apply bot_bool_def)
  then have "(f OR m) AND k = f AND k" "(f AND NOT m) AND k = f AND k"
    by (auto intro!: bit_eqI simp: bit_simps)
  then show "hasFlag (f OR m) k \<longleftrightarrow> hasFlag f k" "hasFlag (f AND NOT m) k \<longleftrightarrow> hasFlag f k"
    by (simp_all add: hasFlag_def)
qed

section \<open>All payloads\<close>

lemma HashPayload_keeps:
  "keeps d e \<Longrightarrow> HashPayload L (ents d) p n b x = Ok y \<Longrightarrow> HashPayload L (ents e) p n b x = Ok y"
  by (auto simp: HashPayload_def readFile_def keeps_def split: option.splits fentry.splits if_splits)

lemma hashAttachments_keeps:
  "keeps d e \<Longrightarrow> hashAttachments L (ents d) as = Ok y \<Longrightarrow> hashAttachments L (ents e) as = Ok y"
  by (induction as arbitrary: y) (auto dest: HashPayload_keeps)

lemma prepareAttachments_Ok:
  assumes "prepareAttachments L tmp dir i as d = (Ok as', e)" "freshNames tmp" "zlibLaws L"
    and "finite (dom (ents d))" "list_all2 (\<lambda>a b. ents d (aFilepath a) = Some (Regular b)) as bs"
  shows "keeps d e \<and> hashAttachments L (ents e) as' = Ok (concat bs) \<and> map aFilename as' = map aFilename as
    \<and> map aType as' = map aType as"
  using assms(1,4,5)
proof (induction as arbitrary: i d as' bs)
  case Nil
  then show ?case by simp
next
  case (Cons a as)
  let ?dst = "Join [dir, ''attachment-'' @ decimal i]"
  from Cons.prems(3) obtain b bs' where bs: "bs = b # bs'" "ents d (aFilepath a) = Some (Regular b)"
    and rest: "list_all2 (\<lambda>a b. ents d (aFilepath a) = Some (Regular b)) as bs'" by (auto simp: list_all2_Cons1)
  from Cons.prems(1) obtain path n' x d1 as2 where
    p: "preparePart L tmp (aFilepath a) (aSize a) (aType a) ?dst d = (Ok (path, n', x), d1)"
    and r: "prepareAttachments L tmp dir (Suc i) as d1 = (Ok as2, e)"
    and as': "as' = a\<lparr>aFlags := (if x > 0 then (aFlags a AND NOT 2) OR 2 else aFlags a AND NOT 2),
        aFilepath := path, aSize := n', aExpandedSize := x\<rparr> # as2"
    by (auto simp: Let_def elim!: bindIO_OkE split: if_splits)
  from preparePart_Ok [OF p assms(2,3) Cons.prems(2)] bs have h: "HashPayload L (ents d1) path (unat n') (x > 0) x = Ok b"
    and k: "keeps d d1" by auto
  from rest have "list_all2 (\<lambda>a b. ents d1 (aFilepath a) = Some (Regular b)) as bs'"
    by (rule list_all2_mono) (use k in \<open>auto dest: keepsD\<close>)
  from Cons.IH [OF r keeps_finite [OF k Cons.prems(2)] this] have ih: "keeps d1 e" "hashAttachments L (ents e) as2 = Ok (concat bs')"
    "map aFilename as2 = map aFilename as" "map aType as2 = map aType as" by auto
  have "HashPayload L (ents e) path (unat n') (x > 0) x = Ok b" using HashPayload_keeps [OF ih(1) h] .
  then have "hashAttachments L (ents e) as' = Ok (concat bs)" using ih(2) bs(1) as' by (auto split: if_splits)
  with ih as' keeps_trans [OF k ih(1)] show ?case by auto
qed

lemma syncDirectory_Ok: "syncDirectory p d = (Ok u, e) \<Longrightarrow> ents e = ents d"
  by (auto simp: syncDirectory_def elim!: bindIO_OkE dest!: disk_Ok)

lemma hashOnDisk_Ok [simp]: "hashOnDisk L h d = (r, e) \<longleftrightarrow> GetMessageHash L (ents d) h = r \<and> e = d"
  by (auto simp: hashOnDisk_def)

lemma applyAttType_payload [simp]:
  "aFilepath (applyAttType a) = aFilepath a" "aSize (applyAttType a) = aSize a"
  "aExpandedSize (applyAttType a) = aExpandedSize a" "hasFlag (aFlags (applyAttType a)) 2 = hasFlag (aFlags a) 2"
  "aFilename (applyAttType a) = aFilename a" "aType (applyAttType a) = aType a"
  by (auto simp: applyAttType_def hasFlag_other split: option.splits)

lemma hashAttachments_applyAttType [simp]:
  "hashAttachments L fs (map applyAttType as) = hashAttachments L fs as"
  by (induction as) simp_all

lemma ApplyCommonTypes_payload:
  "Filepath (snd (ApplyCommonTypes h)) = Filepath h" "Size (snd (ApplyCommonTypes h)) = Size h"
  "ExpandedSize (snd (ApplyCommonTypes h)) = ExpandedSize h"
  "hasFlag (Flags (snd (ApplyCommonTypes h))) FlagDeflate = hasFlag (Flags h) FlagDeflate"
  "hashAttachments L fs (Attachments (snd (ApplyCommonTypes h))) = hashAttachments L fs (Attachments h)"
  "messageHash (snd (ApplyCommonTypes h)) = messageHash h"
  by (auto simp: ApplyCommonTypes_def Let_def hasFlag_other split: option.splits)

section \<open>Theorems\<close>

text \<open>The content of the files a header's payload paths name.\<close>

definition payloadsOf :: "disk \<Rightarrow> Header \<Rightarrow> bytes \<Rightarrow> bytes list \<Rightarrow> bool" where
  "payloadsOf d h body bs \<longleftrightarrow>
     ents d (Filepath h) = Some (Regular body)
     \<and> list_all2 (\<lambda>a b. ents d (aFilepath a) = Some (Regular b)) (Attachments h) bs"

lemma prepareIn_Ok:
  assumes "prepareIn L tmp dir h d = (Ok (h', dir'), e)" "freshNames tmp" "zlibLaws L"
    and "payloadsOf d h body bs" "messageHash h = None" "finite (dom (ents d))"
  shows "keeps d e \<and> dir' = dir \<and> messageBytes L (ents e) h' = Ok (Encode h' @ body @ concat bs)
    \<and> messageHash h' = Some (sha256 L (Encode h' @ body @ concat bs))"
  using assms(1) unfolding prepareIn_def Let_def
proof (elim bindIO_OkE, unfold split_paired_all split_conv, elim bindIO_OkE, unfold split_paired_all split_conv, elim bindIO_OkE)
  fix path n' x d1 as d2 m h3 d3 u1 d4 u2 d5
  let ?h2 = "snd (ApplyCommonTypes (h\<lparr>Flags := (if x > 0 then (Flags h AND NOT FlagDeflate) OR FlagDeflate
      else Flags h AND NOT FlagDeflate), Filepath := path, Size := n', ExpandedSize := x\<rparr>\<lparr>Attachments := as\<rparr>))"
  assume p: "preparePart L tmp (Filepath h) (Size h) (Type h) (Join [dir, ''body'']) d = (Ok (path, n', x), d1)"
    and a: "prepareAttachments L tmp dir 0 (Attachments h) d1 = (Ok as, d2)"
    and g: "hashOnDisk L ?h2 d2 = (Ok (m, h3), d3)"
    and s: "syncDirectory dir d3 = (Ok u1, d4)" "syncDirectory (Dir dir) d4 = (Ok u2, d5)"
      "retIO (h3, dir) d5 = (Ok (h', dir'), e)"
  from preparePart_Ok [OF p assms(2,3,6)] assms(4) have hb: "HashPayload L (ents d1) path (unat n') (x > 0) x = Ok body"
    and k1: "keeps d d1" by (auto simp: payloadsOf_def)
  have "list_all2 (\<lambda>a b. ents d1 (aFilepath a) = Some (Regular b)) (Attachments h) bs"
    using assms(4) k1 by (auto simp: payloadsOf_def elim!: list_all2_mono dest: keepsD)
  from prepareAttachments_Ok [OF a assms(2,3) keeps_finite [OF k1 assms(6)] this] have k2: "keeps d1 d2"
    and ha: "hashAttachments L (ents d2) as = Ok (concat bs)" by auto
  have ents: "ents e = ents d2" and h': "h' = h3" "dir' = dir"
    using g s by (auto dest!: syncDirectory_Ok)
  have f: "hasFlag (Flags ?h2) FlagDeflate \<longleftrightarrow> x > 0" "messageHash ?h2 = None"
    using assms(5) by (simp_all add: ApplyCommonTypes_payload del: FlagDeflate_def)
      (simp_all add: FlagDeflate_def)
  have mb: "messageBytes L (ents d2) ?h2 = Ok (Encode ?h2 @ body @ concat bs)"
    using HashPayload_keeps [OF k2 hb] ha f(1) by (simp add: messageBytes_def ApplyCommonTypes_payload)
  from g have "GetMessageHash L (ents d2) ?h2 = Ok (m, h3)" by simp
  then have m: "h3 = ?h2\<lparr>messageHash := Some m\<rparr>" "m = sha256 L (Encode ?h2 @ body @ concat bs)"
    using GetMessageHash_Ok [of L "ents d2" ?h2 m h3] f(2) mb by auto
  have "Encode h3 = Encode ?h2"
    by (simp add: m(1) Encode_def encAddTo_def cong: option.case_cong if_cong)
  moreover have "messageBytes L (ents d2) h3 = Ok (Encode h3 @ body @ concat bs)"
    using mb calculation by (simp add: m(1) messageBytes_def)
  ultimately show ?thesis using keeps_trans [OF k1 k2] ents h' m by (auto simp: keeps_def)
qed

lemma mkdirTemp_keeps: "mkdirTemp tmp dir pat d = (Ok p, e) \<Longrightarrow> freshNames tmp \<Longrightarrow> finite (dom (ents d)) \<Longrightarrow> keeps d e"
  by (drule mkdirTemp_Ok) (auto simp: freshNames_def intro: keeps_new)

lemma payloadsOf_keeps: "keeps d e \<Longrightarrow> payloadsOf d h body bs \<Longrightarrow> payloadsOf e h body bs"
  by (auto simp: payloadsOf_def elim!: list_all2_mono dest: keepsD)


definition plainZip :: golib where
  "plainZip = sampleZip\<lparr>inflate := Ok, deflate := (\<lambda>b. b)\<rparr>"

definition draftHeader :: Header where
  "draftHeader = emptyHeader\<lparr>Version := 1, From := \<lparr>User = ''a'', Domain = ''a.org''\<rparr>,
     To := [\<lparr>User = ''b'', Domain = ''b.org''\<rparr>], Type := ''text/x'', Size := 3, Filepath := ''/d/m''\<rparr>"

definition draftDisk :: disk where
  "draftDisk = \<lparr>ents = [''/d'' \<mapsto> Directory, ''/d/m'' \<mapsto> Regular [1, 2, 3]], dfaults = []\<rparr>"

lemma draft_paths:
  "Dir ''/d/m'' = ''/d''" "Dir ''/d/.fmsg-wire-0'' = ''/d''" "Join [''/d/.fmsg-wire-0'', ''body''] = ''/d/.fmsg-wire-0/body''"
  by code_simp+

lemma draft_temp: "numberedTemp (ents draftDisk) ''/d'' ''.fmsg-wire-'' = ''/d/.fmsg-wire-0''"
proof -
  have "decimal 0 = ''0''" by code_simp
  then show ?thesis
    by (simp add: numberedTemp_def draftDisk_def) (subst firstUnused.simps, simp)
qed

lemma draft_common: "GetCommonMediaTypeID ''text/x'' = None"
  by code_simp

lemma draft_small: "\<not> ShouldCompress U ''text/x'' 3"
proof -
  have "(3 :: u32) < 512" by code_simp
  then show ?thesis by (simp add: ShouldCompress_def)
qed

lemma Prepare_draft:
  "\<exists>h e. Prepare plainZip numberedTemp draftHeader draftDisk = (Ok (h, ''/d/.fmsg-wire-0''), e)"
  using draft_temp [unfolded draftDisk_def] draft_small draft_common
  by (simp add: Prepare_def prepareIn_def preparePart_def copyPart_def thenClose_def Let_def Clone_def
      draftHeader_def draftDisk_def emptyHeader_def hasFlag_def mkdirTemp_def osStat_def osOpen_def
      osCreateExcl_def copyNTo_def readAllOf_def appendFile_def osFlush_def onErr_def syncDirectory_def
      hashOnDisk_def faultable_def bindIO_def getEnts_def setEnt_def retIO_def draft_paths
      ApplyCommonTypes_def GetMessageHash_def messageBytes_def HashPayload_def readFile_def copyN_def)


text \<open>
  C18. Choosing the compact encoding of media types changes no type: a header prepared with
  \<open>ApplyCommonTypes\<close> has the same types, each is encoded as its number exactly when the common type
  flag is set, and the numbers decode to the types.
\<close>

theorem ApplyCommonTypes_types:
  assumes "ApplyCommonTypes h = (changed, h')" "\<not> hasFlag (Flags h) FlagCommonType"
  shows "Type h' = Type h
    \<and> (hasFlag (Flags h') FlagCommonType \<longleftrightarrow> (\<exists>i. GetCommonMediaTypeID (Type h) = Some i))
    \<and> (hasFlag (Flags h') FlagCommonType \<longrightarrow> GetCommonMediaType (TypeID h') = Some (Type h))
    \<and> map aType (Attachments h') = map aType (Attachments h)"
proof -
  have h': "h' = snd (ApplyCommonTypes h)" using assms(1) by simp
  show ?thesis
  proof (cases "GetCommonMediaTypeID (Type h)")
    case None
    then show ?thesis using assms(2) by (simp add: h' ApplyCommonTypes_def Let_def comp_def)
  next
    case (Some i)
    then have "GetCommonMediaType i = Some (Type h)"
      by (simp only: GetCommonMediaTypeID_Some GetCommonMediaType_Some)
    with Some assms(2) show ?thesis by (simp add: h' ApplyCommonTypes_def Let_def comp_def)
  qed
qed

theorem ApplyCommonTypes_types_witness:
  "Type (snd (ApplyCommonTypes (emptyHeader\<lparr>Type := ''text/plain''\<rparr>))) = ''text/plain''"
proof -
  have "\<not> hasFlag (Flags (emptyHeader\<lparr>Type := ''text/plain''\<rparr>)) FlagCommonType" by (simp add: emptyHeader_def hasFlag_def)
  from ApplyCommonTypes_types [OF surjective_pairing this] show ?thesis by simp
qed

section \<open>Preserving a received message\<close>

text \<open>The first \<open>n\<close> bytes of each payload file are those of the wire form.\<close>

lemma HashPayload_copy:
  assumes "HashPayload L (ents d) src n b x = Ok y" "ents d src = Some (Regular c)"
    "ents e dst = Some (Regular (take n c))"
  shows "HashPayload L (ents e) dst n b x = Ok y"
  using assms by (auto simp: HashPayload_def readFile_def copyN_def min_def split: if_splits)

lemma copyPart_payload:
  assumes "copyPart src dst n d = (Ok u, e)" "HashPayload L (ents d) src (unat n) b x = Ok y"
  shows "keeps d e \<and> HashPayload L (ents e) dst (unat n) b x = Ok y"
proof -
  from copyPart_Ok [OF assms(1)] obtain c where c: "ents d src = Some (Regular c)" "ents d dst = None"
    "ents e = (ents d)(dst \<mapsto> Regular (take (unat n) c))" by blast
  then have "ents e dst = Some (Regular (take (unat n) c))" by simp
  from HashPayload_copy [OF assms(2) c(1) this] keeps_new [OF c(2,3)] show ?thesis by simp
qed

lemma preserveAttachments_Ok:
  assumes "preserveAttachments dir i as d = (Ok as', e)" "hashAttachments L (ents d) as = Ok y"
  shows "keeps d e \<and> hashAttachments L (ents e) as' = Ok y
    \<and> map encAttachment as' = map encAttachment as"
  using assms
proof (induction as arbitrary: i d as' y)
  case (Cons a as)
  let ?p = "Join [dir, ''attachment-'' @ decimal i]"
  from Cons.prems(1) obtain u d1 as2 where c: "copyPart (aFilepath a) ?p (aSize a) d = (Ok u, d1)"
    and r: "preserveAttachments dir (Suc i) as d1 = (Ok as2, e)" and as': "as' = a\<lparr>aFilepath := ?p\<rparr> # as2"
    by (auto simp: Let_def elim!: bindIO_OkE)
  from Cons.prems(2) obtain b bs where b: "y = b @ bs" "hashAttachments L (ents d) as = Ok bs"
    "HashPayload L (ents d) (aFilepath a) (unat (aSize a)) (hasFlag (aFlags a) 2) (aExpandedSize a) = Ok b"
    by auto
  from copyPart_payload [OF c b(3)] have k: "keeps d d1"
    "HashPayload L (ents d1) ?p (unat (aSize a)) (hasFlag (aFlags a) 2) (aExpandedSize a) = Ok b" by auto
  from Cons.IH [OF r hashAttachments_keeps [OF k(1) b(2)]] have ih: "keeps d1 e"
    "hashAttachments L (ents e) as2 = Ok bs" "map encAttachment as2 = map encAttachment as" by auto
  with keeps_trans [OF k(1)] HashPayload_keeps [OF ih(1) k(2)] b(1) as' show ?case
    by simp
qed simp

text \<open>
  C30. Preserving a received message keeps its identity: when \<open>Preserve\<close> succeeds, the copy it made
  hashes to the same message hash as the message that was verified, byte for byte the same header
  and payloads, and no file that was there before has changed.
\<close>

theorem Preserve_same_hash:
  assumes "Preserve L tmp h parentDir d = (Ok (h', dir), e)" "freshNames tmp" "finite (dom (ents d))"
    and "messageBytes L (ents d) h = Ok m"
  shows "keeps d e \<and> Encode h' = Encode h \<and> messageBytes L (ents e) h' = Ok m
    \<and> messageHash h' = Some (sha256 L m)"
proof -
  let ?c = "Clone h"
  from assms(1) obtain d1 u d2 dir' body u1 d3 as d4 mh d5 u2 d6 u3 where
    mk: "mkdirTemp tmp parentDir ''.fmsg-wire-'' d = (Ok dir', d1)" and f: "osFlush d1 = (Ok u, d2)"
    and c: "copyPart (Filepath ?c) (Join [dir', ''body'']) (Size ?c) d2 = (Ok u1, d3)"
    and a: "preserveAttachments dir' 0 (Attachments ?c) d3 = (Ok as, d4)"
    and g: "GetMessageHash L (ents d4) (?c\<lparr>Filepath := Join [dir', ''body''], Attachments := as\<rparr>) = Ok (mh, h')"
    and s: "syncDirectory dir' d4 = (Ok u2, d5)" "syncDirectory parentDir d5 = (Ok u3, e)"
    by (auto simp: Preserve_def Let_def elim!: bindIO_OkE)
  have k2: "keeps d d2" using mkdirTemp_keeps [OF mk assms(2,3)] f by (auto simp: keeps_def dest!: osFlush_Ok)
  from assms(4) obtain bb ab where
    bb: "HashPayload L (ents d) (Filepath h) (unat (Size h)) (hasFlag (Flags h) FlagDeflate) (ExpandedSize h) = Ok bb"
    and ab: "hashAttachments L (ents d) (Attachments h) = Ok ab" and m: "m = Encode h @ bb @ ab"
    by (auto simp: messageBytes_def)
  have "HashPayload L (ents d2) (Filepath ?c) (unat (Size ?c)) (hasFlag (Flags h) FlagDeflate) (ExpandedSize h) = Ok bb"
    using HashPayload_keeps [OF k2 bb] by (simp add: Clone_def)
  from copyPart_payload [OF c this] have k3: "keeps d2 d3"
    and b3: "HashPayload L (ents d3) (Join [dir', ''body'']) (unat (Size h)) (hasFlag (Flags h) FlagDeflate) (ExpandedSize h) = Ok bb"
    by (auto simp: Clone_def)
  have "hashAttachments L (ents d3) (Attachments ?c) = Ok ab"
    using hashAttachments_keeps [OF keeps_trans [OF k2 k3] ab] by (simp add: Clone_def)
  from preserveAttachments_Ok [OF a this] have k4: "keeps d3 d4" "hashAttachments L (ents d4) as = Ok ab"
    "map encAttachment as = map encAttachment (Attachments h)" by (auto simp: Clone_def)
  let ?h = "?c\<lparr>Filepath := Join [dir', ''body''], Attachments := as\<rparr>"
  have len: "length as = length (Attachments h)" using k4(3) map_eq_imp_length_eq by blast
  have enc: "Encode ?h = Encode h"
    using k4(3) len by (simp add: Encode_def encAddTo_def Clone_def cong: option.case_cong if_cong)
  have mb: "messageBytes L (ents d4) ?h = Ok m"
    using HashPayload_keeps [OF k4(1) b3] k4(2) enc m by (simp add: messageBytes_def Clone_def)
  have h': "h' = ?h\<lparr>messageHash := Some mh\<rparr>" "mh = sha256 L m"
    using GetMessageHash_Ok [OF g] mb by (auto simp: Clone_def)
  have "Encode h' = Encode ?h"
    by (simp add: h'(1) Encode_def encAddTo_def cong: option.case_cong if_cong)
  moreover have "messageBytes L (ents d4) h' = Ok m"
    using mb enc calculation by (simp add: h'(1) messageBytes_def)
  moreover have "ents e = ents d4" using s by (auto dest!: syncDirectory_Ok)
  moreover have "keeps d e"
    using keeps_trans [OF keeps_trans [OF k2 k3] k4(1)] \<open>ents e = ents d4\<close> by (simp add: keeps_def)
  ultimately show ?thesis using enc h' by simp
qed

lemma Preserve_draft:
  "\<exists>h e. Preserve plainZip numberedTemp draftHeader ''/d'' draftDisk = (Ok (h, ''/d/.fmsg-wire-0''), e)"
  using draft_temp [unfolded draftDisk_def]
  by (simp add: Preserve_def copyPart_def thenClose_def Let_def Clone_def
      draftHeader_def draftDisk_def emptyHeader_def hasFlag_def mkdirTemp_def osOpen_def
      osCreateExcl_def copyNTo_def readAllOf_def appendFile_def osFlush_def onErr_def syncDirectory_def
      hashOnDisk_def faultable_def bindIO_def getEnts_def setEnt_def retIO_def draft_paths
      GetMessageHash_def messageBytes_def HashPayload_def readFile_def copyN_def)

theorem Preserve_same_hash_witness:
  "\<exists>h e. Preserve plainZip numberedTemp draftHeader ''/d'' draftDisk = (Ok (h, ''/d/.fmsg-wire-0''), e)
     \<and> messageBytes plainZip (ents e) h = Ok (Encode draftHeader @ [1, 2, 3])"
proof -
  obtain h e where p: "Preserve plainZip numberedTemp draftHeader ''/d'' draftDisk = (Ok (h, ''/d/.fmsg-wire-0''), e)"
    using Preserve_draft by blast
  have "finite (dom (ents draftDisk))" by (simp add: draftDisk_def)
  moreover have "messageBytes plainZip (ents draftDisk) draftHeader = Ok (Encode draftHeader @ [1, 2, 3])"
    by (simp add: messageBytes_def HashPayload_def readFile_def copyN_def draftDisk_def draftHeader_def
        emptyHeader_def hasFlag_def)
  ultimately show ?thesis using Preserve_same_hash [OF p freshNames_numbered] p by blast
qed

section \<open>Snapshots\<close>

text \<open>
  Package \<open>encoding/json\<close>, as far as the snapshot of a header depends on it: numbers that are not
  finite cannot be encoded, and decoding gives back the version and the header, except that bytes
  of a string that are not UTF-8 have become U+FFFD and that the unexported hash and the excluded
  \<open>StoredWire\<close> are empty.
\<close>

record json =
  encJSON :: "int \<Rightarrow> Header \<Rightarrow> bytes"
  decJSON :: "bytes \<Rightarrow> (int \<times> Header option) res"

definition toValidUTF8 :: "string \<Rightarrow> string" where
  "toValidUTF8 s = concat (map encode_rune (runes s))"

definition jsonAddress :: "Address \<Rightarrow> Address" where
  "jsonAddress a = \<lparr>User = toValidUTF8 (User a), Domain = toValidUTF8 (Domain a)\<rparr>"

definition jsonAttachment :: "AttachmentHeader \<Rightarrow> AttachmentHeader" where
  "jsonAttachment a = a\<lparr>aType := toValidUTF8 (aType a), aFilename := toValidUTF8 (aFilename a),
     aFilepath := toValidUTF8 (aFilepath a)\<rparr>"

definition jsonForm :: "Header \<Rightarrow> Header" where
  "jsonForm h = h\<lparr>From := jsonAddress (From h), To := map jsonAddress (To h),
     AddToFrom := map_option jsonAddress (AddToFrom h), AddTo := map jsonAddress (AddTo h),
     Topic := toValidUTF8 (Topic h), Type := toValidUTF8 (Type h),
     Attachments := map jsonAttachment (Attachments h), Filepath := toValidUTF8 (Filepath h),
     StoredWire := [], messageHash := None\<rparr>"

definition finiteTime :: "Header \<Rightarrow> bool" where
  "finiteTime h \<longleftrightarrow> (case f64_of_bits (Timestamp h) of Fin _ _ \<Rightarrow> True | _ \<Rightarrow> False)"

definition jsonLaw :: "json \<Rightarrow> Header \<Rightarrow> bool" where
  "jsonLaw J h \<longleftrightarrow> (finiteTime h \<longrightarrow> decJSON J (encJSON J 1 h) = Ok (1, Some (jsonForm h)))"

definition MarshalPrepared :: "json \<Rightarrow> Header \<Rightarrow> bytes res" where
  "MarshalPrepared J h =
     (if finiteTime h then Ok (encJSON J 1 (Clone h)) else Err (Errorf ''json: unsupported value''))"

definition UnmarshalPrepared :: "golib \<Rightarrow> fsys \<Rightarrow> json \<Rightarrow> bytes \<Rightarrow> bytes \<Rightarrow> Header res" where
  "UnmarshalPrepared L fs J data expected =
     bindR (decJSON J data) (\<lambda>(v, hd).
       case hd of
         None \<Rightarrow> Err (Errorf ''unsupported prepared message'')
       | Some h0 \<Rightarrow>
           if v \<noteq> 1 then Err (Errorf ''unsupported prepared message'')
           else bindR (GetMessageHash L fs (Clone h0)) (\<lambda>(hash, h).
             if length expected \<noteq> 32 \<or> hash \<noteq> expected then Err (Errorf ''prepared message hash mismatch'')
             else Ok h))"

text \<open>Decoding and encoding again a valid UTF-8 string.\<close>

lemma toValidUTF8_valid: "ValidString s \<Longrightarrow> toValidUTF8 s = s"
proof -
  assume v: "ValidString s"
  have "map encode_rune (runes s) = map (\<lambda>r. encode_rune (the r)) (decode_runes (char_codes s))"
    using v by (auto simp: runes_def ValidString_def intro!: map_cong split: option.splits)
  then have "toValidUTF8 s = map char_of (char_codes s)"
    using encode_decode_runes v by (simp add: toValidUTF8_def ValidString_def)
  then show ?thesis by (simp add: char_codes_def comp_def)
qed

definition validStrings :: "Header \<Rightarrow> bool" where
  "validStrings h \<longleftrightarrow>
     (\<forall>a \<in> set (From h # To h @ AddTo h) \<union> set_option (AddToFrom h). ValidString (User a) \<and> ValidString (Domain a))
     \<and> ValidString (Topic h) \<and> ValidString (Type h) \<and> ValidString (Filepath h)
     \<and> (\<forall>a \<in> set (Attachments h). ValidString (aType a) \<and> ValidString (aFilename a) \<and> ValidString (aFilepath a))"

lemma jsonForm_valid: "validStrings h \<Longrightarrow> jsonForm h = h\<lparr>StoredWire := [], messageHash := None\<rparr>"
proof -
  assume v: "validStrings h"
  have a: "jsonAddress x = x" if "ValidString (User x)" "ValidString (Domain x)" for x
    using that by (simp add: jsonAddress_def toValidUTF8_valid)
  have t: "jsonAttachment x = x" if "ValidString (aType x)" "ValidString (aFilename x)" "ValidString (aFilepath x)" for x
    using that by (simp add: jsonAttachment_def toValidUTF8_valid)
  have "map jsonAddress (To h) = To h" "map jsonAddress (AddTo h) = AddTo h" "jsonAddress (From h) = From h"
    "map jsonAttachment (Attachments h) = Attachments h" "map_option jsonAddress (AddToFrom h) = AddToFrom h"
    using v by (auto simp: validStrings_def a t intro!: map_idI option.map_ident_strong)
  then show ?thesis using v by (simp add: jsonForm_def toValidUTF8_valid validStrings_def)
qed

lemma UnmarshalPrepared_marshalled:
  assumes "jsonLaw J (Clone h)" "validStrings h" "MarshalPrepared J h = Ok data" "messageBytes L fs h = Ok m"
  shows "UnmarshalPrepared L fs J data expected =
    (if length expected = 32 \<and> expected = sha256 L m
     then Ok (h\<lparr>HeaderHash := None, StoredWire := [], messageHash := Some (sha256 L m)\<rparr>)
     else Err (Errorf ''prepared message hash mismatch''))"
proof -
  have v: "validStrings (Clone h)" "finiteTime (Clone h)"
    using assms(2,3) by (auto simp: validStrings_def Clone_def MarshalPrepared_def finiteTime_def split: if_splits)
  define g where "g = h\<lparr>HeaderHash := None, messageHash := None, StoredWire := []\<rparr>"
  have "data = encJSON J 1 (Clone h)" using assms(3) by (simp add: MarshalPrepared_def split: if_splits)
  moreover have "decJSON J (encJSON J 1 (Clone h)) = Ok (1, Some (jsonForm (Clone h)))"
    using assms(1) v(2) unfolding jsonLaw_def by blast
  ultimately have d: "decJSON J data = Ok (1, Some g)"
    using jsonForm_valid [OF v(1)] by (simp add: Clone_def g_def)
  have "Encode g = Encode h"
    by (simp add: g_def Encode_def encAddTo_def cong: option.case_cong if_cong)
  then have "messageBytes L fs g = Ok m" using assms(4) by (simp add: messageBytes_def g_def)
  moreover have c: "Clone g = g" "messageHash g = None" by (simp_all add: g_def Clone_def)
  ultimately have "GetMessageHash L fs g = Ok (sha256 L m, g\<lparr>messageHash := Some (sha256 L m)\<rparr>)"
    by (simp add: GetMessageHash_def Let_def)
  then have "UnmarshalPrepared L fs J data expected =
    (if length expected \<noteq> 32 \<or> sha256 L m \<noteq> expected then Err (Errorf ''prepared message hash mismatch'')
     else Ok (g\<lparr>messageHash := Some (sha256 L m)\<rparr>))"
    unfolding UnmarshalPrepared_def d by (simp add: c(1))
  moreover have "g\<lparr>messageHash := Some (sha256 L m)\<rparr>
      = h\<lparr>HeaderHash := None, StoredWire := [], messageHash := Some (sha256 L m)\<rparr>" by (simp add: g_def)
  ultimately show ?thesis by (metis (no_types))
qed

text \<open>
  C32. A stored snapshot reads back. For a header whose strings are UTF-8, marshalling succeeds
  unless the timestamp is not finite; and unmarshalling the snapshot, as long as the payload files
  are unchanged, yields the same header with the same message hash, exactly when the expected hash
  is that hash (of 32 bytes).
\<close>

theorem snapshot_roundtrip:
  assumes "jsonLaw J (Clone h)" "validStrings h" "MarshalPrepared J h = Ok data" "messageBytes L fs h = Ok m"
  shows "UnmarshalPrepared L fs J data expected =
    (if length expected = 32 \<and> expected = sha256 L m
     then Ok (h\<lparr>HeaderHash := None, StoredWire := [], messageHash := Some (sha256 L m)\<rparr>)
     else Err (Errorf ''prepared message hash mismatch''))"
  by (rule UnmarshalPrepared_marshalled [OF assms])

definition sampleJSON :: json where
  "sampleJSON = \<lparr>encJSON = (\<lambda>v h. []), decJSON = (\<lambda>b. Ok (1, Some draftHeader))\<rparr>"

theorem snapshot_roundtrip_witness:
  "UnmarshalPrepared plainZip (ents draftDisk) sampleJSON [] (sha256 plainZip (Encode draftHeader @ [1, 2, 3]))
     = Ok (draftHeader\<lparr>HeaderHash := None, StoredWire := [],
         messageHash := Some (sha256 plainZip (Encode draftHeader @ [1, 2, 3]))\<rparr>)"
proof -
  have v: "validStrings draftHeader" by code_simp
  have c: "Clone draftHeader = draftHeader" by (simp add: Clone_def draftHeader_def emptyHeader_def)
  have f: "finiteTime draftHeader" by code_simp
  have j: "jsonForm draftHeader = draftHeader"
    unfolding jsonForm_valid [OF v] by (simp add: draftHeader_def emptyHeader_def)
  have "jsonLaw sampleJSON (Clone draftHeader)" by (simp add: jsonLaw_def sampleJSON_def c j)
  moreover have "MarshalPrepared sampleJSON draftHeader = Ok []" using f by (simp add: MarshalPrepared_def sampleJSON_def)
  moreover have "messageBytes plainZip (ents draftDisk) draftHeader = Ok (Encode draftHeader @ [1, 2, 3])"
    by (simp add: messageBytes_def HashPayload_def readFile_def copyN_def draftDisk_def draftHeader_def
        emptyHeader_def hasFlag_def)
  moreover have "length (sha256 plainZip b) = 32" for b by (simp add: plainZip_def sampleZip_def)
  ultimately show ?thesis using snapshot_roundtrip [OF _ v] by simp
qed

end
