(* ===== verification/Indicator.thy ===== *)
theory Indicator
  imports Emoji Prepare
begin

text \<open>
  Indicator datagrams and who receives them (\<open>src/cmd/fmsgd/indicators.go\<close>, first half): the wire
  form and its parser, a message's participants in index order, and the choice of a subject for
  each participant domain.
\<close>

section \<open>Datagrams\<close>

definition indicatorVersion :: byte where [simp]: "indicatorVersion = 1"
definition indicatorDataMax :: nat where [simp]: "indicatorDataMax = 64"
definition indicatorFixedLen :: nat where [simp]: "indicatorFixedLen = 1 + 32 + 2 + 1 + 1"
definition indicatorMaxLen :: nat where [simp]: "indicatorMaxLen = indicatorFixedLen + indicatorDataMax"
definition indicatorTTLMax :: nat where [simp]: "indicatorTTLMax = 120"

record indicatorDatagram =
  dHash :: bytes
  dIndex :: u16
  dTTL :: byte
  dData :: string

definition isClear :: "indicatorDatagram \<Rightarrow> bool" where
  "isClear d \<longleftrightarrow> dData d = [] \<or> dTTL d = 0"

definition marshal :: "indicatorDatagram \<Rightarrow> bytes" where
  "marshal d = [indicatorVersion] @ dHash d @ le16 (dIndex d) @ [dTTL d, of_nat (length (dData d))] @ bytes_of (dData d)"

definition isIndicatorEmoji :: "string \<Rightarrow> bool" where
  "isIndicatorEmoji s \<longleftrightarrow> s = [] \<or> (length s \<le> indicatorDataMax \<and> IsSingle s)"

definition errIndicatorInvalid :: err where "errIndicatorInvalid = Errorf ''invalid indicator datagram''"

definition parseIndicatorDatagram :: "bytes \<Rightarrow> indicatorDatagram res" where
  "parseIndicatorDatagram b =
     (if length b < indicatorFixedLen \<or> b ! 0 \<noteq> indicatorVersion then Err errIndicatorInvalid
      else let n = unat (b ! 36)
           in if n > indicatorDataMax \<or> length b \<noteq> indicatorFixedLen + n then Err errIndicatorInvalid
              else let d = \<lparr>dHash = take 32 (drop 1 b), dIndex = of_int (le_int (take 2 (drop 33 b))),
                            dTTL = b ! 35, dData = string_of (drop indicatorFixedLen b)\<rparr>
                   in if \<not> isIndicatorEmoji (dData d) then Err errIndicatorInvalid else Ok d)"

definition wfDatagram :: "indicatorDatagram \<Rightarrow> bool" where
  "wfDatagram d \<longleftrightarrow> length (dHash d) = 32 \<and> isIndicatorEmoji (dData d)"

lemma wfDatagram_data: "wfDatagram d \<Longrightarrow> length (dData d) \<le> 64"
  by (auto simp: wfDatagram_def isIndicatorEmoji_def)

lemma length_marshal: "length (dHash d) = 32 \<Longrightarrow> length (marshal d) = 37 + length (dData d)"
  by (simp add: marshal_def)

lemma marshal_parts:
  assumes "length (dHash d) = 32"
  shows "marshal d ! 0 = 1" "take 32 (drop 1 (marshal d)) = dHash d" "take 2 (drop 33 (marshal d)) = le16 (dIndex d)"
    "marshal d ! 35 = dTTL d" "marshal d ! 36 = of_nat (length (dData d))" "drop 37 (marshal d) = bytes_of (dData d)"
proof -
  have l: "length (le16 (dIndex d)) = 2" by simp
  show "marshal d ! 0 = 1" "take 32 (drop 1 (marshal d)) = dHash d" by (simp_all add: marshal_def assms)
  show "take 2 (drop 33 (marshal d)) = le16 (dIndex d)" "marshal d ! 35 = dTTL d"
    "marshal d ! 36 = of_nat (length (dData d))" "drop 37 (marshal d) = bytes_of (dData d)"
    using assms l by (simp_all add: marshal_def nth_append nth_Cons')
qed

lemma split_fixed:
  assumes "37 \<le> length b"
  shows "b = b ! 0 # take 32 (drop 1 b) @ take 2 (drop 33 b) @ [b ! 35, b ! 36] @ drop 37 b"
proof -
  have "b = b ! 0 # drop 1 b" using assms by (metis Cons_nth_drop_Suc One_nat_def drop0 le_trans numeral_One numeral_le_iff semiring_norm(68) Suc_le_eq)
  also have "drop 1 b = take 32 (drop 1 b) @ drop 33 b" using append_take_drop_id [of 32 "drop 1 b"] by simp
  also have "drop 33 b = take 2 (drop 33 b) @ drop 35 b" using append_take_drop_id [of 2 "drop 33 b"] by simp
  also have "drop 35 b = [b ! 35, b ! 36] @ drop 37 b" using assms by (simp add: Cons_nth_drop_Suc [symmetric])
  finally show ?thesis .
qed

lemma le16_of_int: "length b = 2 \<Longrightarrow> le16 (of_int (le_int b)) = b"
proof -
  assume l: "length b = 2"
  have "uint (of_int (le_int b) :: u16) = le_int b"
    using le_int_bounds [of b] l by (simp add: uint_word_of_int)
  then show ?thesis using le_bytes_le_int [of b] l by (simp add: le16_def)
qed

lemma parse_marshal: "parseIndicatorDatagram b = Ok d \<longleftrightarrow> wfDatagram d \<and> b = marshal d"
proof
  assume p: "parseIndicatorDatagram b = Ok d"
  then have l: "37 \<le> length b" "b ! 0 = 1" "length b = 37 + unat (b ! 36)"
    and d: "d = \<lparr>dHash = take 32 (drop 1 b), dIndex = of_int (le_int (take 2 (drop 33 b))), dTTL = b ! 35,
      dData = string_of (drop 37 b)\<rparr>" and w: "isIndicatorEmoji (dData d)"
    by (auto simp: parseIndicatorDatagram_def Let_def split: if_splits)
  have "(of_nat (length (dData d)) :: byte) = b ! 36" using l by (simp add: d)
  moreover have "le16 (dIndex d) = take 2 (drop 33 b)" using l by (simp add: d le16_of_int)
  ultimately have "marshal d = b ! 0 # take 32 (drop 1 b) @ take 2 (drop 33 b) @ [b ! 35, b ! 36] @ drop 37 b"
    using l by (simp add: marshal_def d)
  then show "wfDatagram d \<and> b = marshal d" using split_fixed [OF l(1)] w l by (simp add: wfDatagram_def d)
next
  assume "wfDatagram d \<and> b = marshal d"
  then have w: "length (dHash d) = 32" "isIndicatorEmoji (dData d)" "length (dData d) \<le> 64" and b: "b = marshal d"
    using wfDatagram_data by (auto simp: wfDatagram_def)
  then have "unat (of_nat (length (dData d)) :: byte) = length (dData d)" by (simp add: unat_of_nat)
  then show "parseIndicatorDatagram b = Ok d"
    using w unfolding b parseIndicatorDatagram_def by (simp add: Let_def marshal_parts marshal_parts(2) [simplified] length_marshal)
qed

text \<open>
  C36. The parser accepts exactly the encodings of well-formed datagrams: \<open>b\<close> is read as \<open>d\<close> exactly
  when \<open>d\<close> has a 32-byte hash and empty data or one emoji, and \<open>b\<close> is the encoding of \<open>d\<close>, with nothing
  missing, changed or following.
\<close>

theorem parse_iff_marshal: "parseIndicatorDatagram b = Ok d \<longleftrightarrow> wfDatagram d \<and> b = marshal d"
  by (rule parse_marshal)

section \<open>Participants\<close>

definition indicatorParticipants :: "Header \<Rightarrow> Address list" where
  "indicatorParticipants h =
     From h # To h @
       (if hasFlag (Flags h) FlagHasAddTo
        then (case AddToFrom h of Some a \<Rightarrow> a | None \<Rightarrow> From h) # AddTo h else [])"

definition preparedHeader :: "json \<Rightarrow> bytes \<Rightarrow> Header res" where
  "preparedHeader J data =
     bindR (decJSON J data) (\<lambda>(v, hd).
       case hd of None \<Rightarrow> Err (Errorf ''unsupported prepared message'')
       | Some h \<Rightarrow> if v \<noteq> 1 then Err (Errorf ''unsupported prepared message'') else Ok h)"

record indicatorSubject =
  sHash :: bytes
  sParticipants :: "Address list"

text \<open>The lowest index of an address, \<open>None\<close> for Go's \<open>-1\<close>.\<close>

fun addrIndex :: "unicode \<Rightarrow> Address \<Rightarrow> Address list \<Rightarrow> nat option" where
  "addrIndex U addr [] = None"
| "addrIndex U addr (p # ps) =
     (if EqualFold U (ToString p) (ToString addr) then Some 0 else map_option Suc (addrIndex U addr ps))"

definition participantIndex :: "unicode \<Rightarrow> indicatorSubject \<Rightarrow> Address \<Rightarrow> nat option" where
  "participantIndex U s addr = addrIndex U addr (sParticipants s)"

definition hasDomain :: "unicode \<Rightarrow> indicatorSubject \<Rightarrow> string \<Rightarrow> bool" where
  "hasDomain U s domain = hasDomainRecipient U (sParticipants s) domain"

lemma addrIndex_Some:
  "addrIndex U a ps = Some i \<longleftrightarrow> i < length ps \<and> EqualFold U (ToString (ps ! i)) (ToString a)
     \<and> (\<forall>j < i. \<not> EqualFold U (ToString (ps ! j)) (ToString a))"
proof (induction ps arbitrary: i)
  case (Cons p ps)
  show ?case
  proof (cases i)
    case (Suc k)
    then show ?thesis using Cons [of k] by (auto simp: less_Suc_eq_0_disj)
  qed auto
qed simp

section \<open>Choosing what to send where\<close>

record indicatorTarget =
  tDomain :: string
  tHash :: bytes
  tIndex :: u16

text \<open>\<open>addDomains\<close>: the list of domains; the set \<open>seen\<close> holds the same domains.\<close>

definition addDomain :: "unicode \<Rightarrow> (string \<Rightarrow> bool) \<Rightarrow> Address \<Rightarrow> string list \<Rightarrow> string list" where
  "addDomain U isLocal p domains =
     (let d = ToLower U (Domain p)
      in if d \<notin> set domains \<and> \<not> isLocal d then domains @ [d] else domains)"

definition addDomains :: "unicode \<Rightarrow> (string \<Rightarrow> bool) \<Rightarrow> indicatorSubject \<Rightarrow> string list \<Rightarrow> string list" where
  "addDomains U isLocal s = fold (addDomain U isLocal) (sParticipants s)"

fun firstBatch :: "unicode \<Rightarrow> Address \<Rightarrow> string \<Rightarrow> indicatorSubject list \<Rightarrow> (indicatorSubject \<times> nat) option" where
  "firstBatch U from d [] = None"
| "firstBatch U from d (b # bs) =
     (if \<not> hasDomain U b d then firstBatch U from d bs
      else case participantIndex U b from of
        Some i \<Rightarrow> Some (b, i)
      | None \<Rightarrow> firstBatch U from d bs)"

definition chooseSubject ::
  "unicode \<Rightarrow> Address \<Rightarrow> indicatorSubject option \<Rightarrow> indicatorSubject list \<Rightarrow> string \<Rightarrow> (indicatorSubject \<times> nat) option" where
  "chooseSubject U from original batches d =
     (case original of
        None \<Rightarrow> firstBatch U from d batches
      | Some s \<Rightarrow>
          if hasDomain U s d then
            (case participantIndex U s from of Some i \<Rightarrow> Some (s, i) | None \<Rightarrow> firstBatch U from d batches)
          else firstBatch U from d batches)"

definition targetFor ::
  "unicode \<Rightarrow> Address \<Rightarrow> indicatorSubject option \<Rightarrow> indicatorSubject list \<Rightarrow> string \<Rightarrow> indicatorTarget option" where
  "targetFor U from original batches d =
     (case chooseSubject U from original batches d of
        None \<Rightarrow> None
      | Some (s, idx) \<Rightarrow>
          if length (sHash s) \<noteq> 32 \<or> idx > 0xFFFF then None
          else Some \<lparr>tDomain = d, tHash = sHash s, tIndex = of_nat idx\<rparr>)"

definition indicatorDomains ::
  "unicode \<Rightarrow> indicatorSubject option \<Rightarrow> indicatorSubject list \<Rightarrow> (string \<Rightarrow> bool) \<Rightarrow> string list" where
  "indicatorDomains U original batches isLocal =
     fold (addDomains U isLocal) batches (case original of None \<Rightarrow> [] | Some s \<Rightarrow> addDomains U isLocal s [])"

definition selectIndicatorTargets ::
  "unicode \<Rightarrow> Address \<Rightarrow> indicatorSubject option \<Rightarrow> indicatorSubject list \<Rightarrow> (string \<Rightarrow> bool) \<Rightarrow> indicatorTarget list" where
  "selectIndicatorTargets U from original batches isLocal =
     List.map_filter (targetFor U from original batches) (indicatorDomains U original batches isLocal)"

abbreviation subjects :: "indicatorSubject option \<Rightarrow> indicatorSubject list \<Rightarrow> indicatorSubject set" where
  "subjects original batches \<equiv> set_option original \<union> set batches"

text \<open>The domains collected: those of every participant that are not local, each once.\<close>

lemma set_addDomain:
  "set (fold (addDomain U isLocal) ps ds) = set ds \<union> {ToLower U (Domain p) | p. p \<in> set ps \<and> \<not> isLocal (ToLower U (Domain p))}"
  by (induction ps arbitrary: ds) (auto simp: addDomain_def Let_def)

lemma distinct_addDomain: "distinct ds \<Longrightarrow> distinct (fold (addDomain U isLocal) ps ds)"
  by (induction ps arbitrary: ds) (auto simp: addDomain_def Let_def)

lemma addDomains_fold: "fold (addDomains U isLocal) ss ds = fold (addDomain U isLocal) (concat (map sParticipants ss)) ds"
  by (induction ss arbitrary: ds) (simp_all add: addDomains_def)

lemma indicatorDomains_fold:
  "indicatorDomains U original batches isLocal =
     fold (addDomain U isLocal) (concat (map sParticipants (case original of None \<Rightarrow> batches | Some s \<Rightarrow> s # batches))) []"
  by (cases original) (simp_all add: indicatorDomains_def addDomains_fold addDomains_def)

lemma set_indicatorDomains:
  "set (indicatorDomains U original batches isLocal) =
     {ToLower U (Domain p) | p s. s \<in> subjects original batches \<and> p \<in> set (sParticipants s) \<and> \<not> isLocal (ToLower U (Domain p))}"
  unfolding indicatorDomains_fold set_addDomain by (cases original) auto

lemma distinct_indicatorDomains: "distinct (indicatorDomains U original batches isLocal)"
  unfolding indicatorDomains_fold by (rule distinct_addDomain) simp

text \<open>The subject chosen for a domain: one the domain takes part in, as does the indicating participant.\<close>

abbreviation takesPart :: "unicode \<Rightarrow> Address \<Rightarrow> indicatorSubject \<Rightarrow> bool" where
  "takesPart U a s \<equiv> \<exists>p \<in> set (sParticipants s). EqualFold U (ToString p) (ToString a)"

lemma participantIndex_None: "participantIndex U s a = None \<longleftrightarrow> \<not> takesPart U a s"
proof -
  have "addrIndex U a ps = None \<longleftrightarrow> \<not> (\<exists>p \<in> set ps. EqualFold U (ToString p) (ToString a))" for ps
    by (induction ps) auto
  then show ?thesis by (simp add: participantIndex_def)
qed

lemma firstBatch_Some:
  "firstBatch U from d bs = Some (s, i) \<Longrightarrow> s \<in> set bs \<and> hasDomain U s d \<and> participantIndex U s from = Some i"
  by (induction bs) (auto split: if_splits option.splits)

lemma firstBatch_None:
  "firstBatch U from d bs = None \<longleftrightarrow> (\<forall>s \<in> set bs. hasDomain U s d \<longrightarrow> participantIndex U s from = None)"
  by (induction bs) (auto split: option.splits)

lemma chooseSubject_Some:
  assumes "chooseSubject U from original batches d = Some (s, i)"
  shows "s \<in> subjects original batches \<and> hasDomain U s d \<and> participantIndex U s from = Some i"
proof (cases "firstBatch U from d batches = Some (s, i)")
  case True
  from firstBatch_Some [OF this] show ?thesis by blast
next
  case False
  then show ?thesis using assms by (auto simp: chooseSubject_def split: option.splits if_splits)
qed

lemma chooseSubject_None:
  "chooseSubject U from original batches d = None \<longleftrightarrow>
     (\<forall>s \<in> subjects original batches. hasDomain U s d \<longrightarrow> \<not> takesPart U from s)"
  unfolding participantIndex_None [symmetric] by (auto simp: chooseSubject_def firstBatch_None split: option.splits)

lemma targetFor_Some:
  assumes "targetFor U from original batches d = Some t"
  shows "tDomain t = d \<and> (\<exists>s \<in> subjects original batches. sHash s = tHash t \<and> length (tHash t) = 32 \<and> hasDomain U s d
    \<and> participantIndex U s from = Some (unat (tIndex t)))"
proof -
  from assms obtain s i where c: "chooseSubject U from original batches d = Some (s, i)" "length (sHash s) = 32" "i \<le> 0xFFFF"
    "t = \<lparr>tDomain = d, tHash = sHash s, tIndex = of_nat i\<rparr>"
    by (auto simp: targetFor_def split: option.splits if_splits)
  moreover have "unat (tIndex t) = i" using c(3,4) by (simp add: unat_of_nat)
  ultimately show ?thesis using chooseSubject_Some [OF c(1)] by auto
qed

text \<open>
  Every datagram that is to be sent goes to a domain that is not local, once per domain, and
  carries the hash of a subject that domain takes part in, with the lowest index at which the
  indicating participant stands in that subject: a receiver that knows the subject resolves the
  index to the participant.
\<close>

theorem targets_resolve:
  assumes "t \<in> set (selectIndicatorTargets U from original batches isLocal)"
  shows "\<not> isLocal (tDomain t) \<and> length (tHash t) = 32 \<and> (\<exists>s \<in> subjects original batches.
    sHash s = tHash t \<and> hasDomain U s (tDomain t) \<and> unat (tIndex t) < length (sParticipants s)
    \<and> EqualFold U (ToString (sParticipants s ! unat (tIndex t))) (ToString from)
    \<and> (\<forall>j < unat (tIndex t). \<not> EqualFold U (ToString (sParticipants s ! j)) (ToString from)))"
proof -
  from assms obtain d where d: "d \<in> set (indicatorDomains U original batches isLocal)"
    "targetFor U from original batches d = Some t"
    by (auto simp: selectIndicatorTargets_def List.map_filter_def)
  have "\<not> isLocal d" using d(1) unfolding set_indicatorDomains by blast
  with targetFor_Some [OF d(2)] show ?thesis unfolding participantIndex_def addrIndex_Some by blast
qed

text \<open>A message between two hosts: \<open>@a@x.org\<close> to \<open>@b@y.org\<close>, seen from \<open>x.org\<close>.\<close>

definition sampleSubject :: indicatorSubject where
  "sampleSubject = \<lparr>sHash = replicate 32 5,
     sParticipants = [\<lparr>User = ''a'', Domain = ''x.org''\<rparr>, \<lparr>User = ''b'', Domain = ''Y.org''\<rparr>]\<rparr>"

definition sampleUni :: unicode where
  "sampleUni = \<lparr>letterTab = (\<lambda>r. False), numberTab = (\<lambda>r. False), lowerTab = (\<lambda>r. r), foldTab = (\<lambda>r s. False)\<rparr>"

abbreviation sampleTargets :: "indicatorTarget list" where
  "sampleTargets \<equiv> selectIndicatorTargets sampleUni \<lparr>User = ''a'', Domain = ''x.org''\<rparr> (Some sampleSubject) [] (\<lambda>d. d = ''x.org'')"

lemma sampleTargets_val: "sampleTargets = [\<lparr>tDomain = ''y.org'', tHash = replicate 32 5, tIndex = 0\<rparr>]"
proof -
  have l: "ToLower sampleUni ''x.org'' = ''x.org''" "ToLower sampleUni ''Y.org'' = ''y.org''"
    by (simp_all add: ToLower_def is_ascii_def toLowerRune_def char_of_def)
  have f: "\<not> EqualFold sampleUni ''x.org'' ''y.org''" "EqualFold sampleUni ''Y.org'' ''y.org''"
    by (simp_all add: EqualFold_ascii l is_ascii_def) (simp_all add: ToLower_def is_ascii_def toLowerRune_def char_of_def)
  show ?thesis
    by (simp add: selectIndicatorTargets_def indicatorDomains_def addDomains_def addDomain_def sampleSubject_def l
        List.map_filter_def targetFor_def chooseSubject_def hasDomain_def hasDomainRecipient_def f
        participantIndex_def)
qed

theorem targets_resolve_witness:
  "\<exists>t \<in> set sampleTargets. length (tHash t) = 32 \<and> tDomain t \<noteq> ''x.org''"
proof -
  have t: "\<lparr>tDomain = ''y.org'', tHash = replicate 32 5, tIndex = 0\<rparr> \<in> set sampleTargets"
    unfolding sampleTargets_val by simp
  from t targets_resolve [OF t] show ?thesis by blast
qed

text \<open>
  No domain is forgotten or sent to twice: when the known subjects have 32-byte hashes and at
  most 65536 participants, the domains that are sent to are exactly the lower-cased domains of
  participants that are not local and take part in a subject together with the indicating participant.
\<close>

theorem targets_cover:
  assumes "\<forall>s \<in> subjects original batches. length (sHash s) = 32 \<and> length (sParticipants s) \<le> 65536"
  shows "distinct (map tDomain (selectIndicatorTargets U from original batches isLocal))
    \<and> set (map tDomain (selectIndicatorTargets U from original batches isLocal)) =
       {d. \<not> isLocal d \<and> (\<exists>s \<in> subjects original batches. \<exists>p \<in> set (sParticipants s). d = ToLower U (Domain p))
          \<and> (\<exists>s \<in> subjects original batches. hasDomain U s d \<and> takesPart U from s)}"
proof -
  let ?T = "targetFor U from original batches" and ?ds = "indicatorDomains U original batches isLocal"
  have n: "?T d = None \<longleftrightarrow> (\<forall>s \<in> subjects original batches. hasDomain U s d \<longrightarrow> \<not> takesPart U from s)" for d
  proof (cases "chooseSubject U from original batches d")
    case None
    then show ?thesis using chooseSubject_None [of U "from" original batches d] by (simp add: targetFor_def)
  next
    case some: (Some x)
    obtain s i where x: "x = (s, i)" by (cases x)
    then have "chooseSubject U from original batches d = Some (s, i)" using some by simp
    from chooseSubject_Some [OF this] have s: "s \<in> subjects original batches" "i < length (sParticipants s)"
      by (auto simp: participantIndex_def addrIndex_Some)
    then have "length (sHash s) = 32" "length (sParticipants s) \<le> 65536" using assms by blast+
    then have "length (sHash s) = 32" "i \<le> 0xFFFF" using s(2) by linarith+
    then show ?thesis using some chooseSubject_None [of U "from" original batches d] by (simp add: targetFor_def x)
  qed
  have m: "map tDomain (List.map_filter ?T ds) = filter (\<lambda>d. ?T d \<noteq> None) ds" for ds
    by (induction ds) (auto simp: List.map_filter_def dest: targetFor_Some)
  show ?thesis
    unfolding selectIndicatorTargets_def m using distinct_indicatorDomains [of U original batches isLocal]
    by (auto simp: n set_indicatorDomains)
qed

theorem targets_cover_witness: "distinct (map tDomain sampleTargets) \<and> map tDomain sampleTargets = [''y.org'']"
proof -
  have "\<forall>s \<in> subjects (Some sampleSubject) []. length (sHash s) = 32 \<and> length (sParticipants s) \<le> 65536"
    by (simp add: sampleSubject_def)
  from targets_cover [OF this] show ?thesis by (simp add: sampleTargets_val)
qed

end
