(* ===== verification/Limiters.thy ===== *)
theory Limiters
  imports Conn "HOL-Library.AList"
begin

text \<open>
  Rate limits and the address cache of the indicator service (\<open>src/cmd/fmsgd/indicators.go\<close>): the
  token bucket per source address, the sliding window per receiving domain, the cache of resolved
  addresses. A time is the number of nanoseconds since Go's zero time; a map that is ranged over
  is an association list with distinct keys. Each operation holds the limiter's lock throughout,
  so an execution is a sequence of operations.
\<close>

section \<open>Times and doubles\<close>

type_synonym time = int
type_synonym duration = int

text \<open>\<open>Time.Sub\<close> saturates at the bounds of \<open>int64\<close>.\<close>

definition timeSub :: "time \<Rightarrow> time \<Rightarrow> duration" where
  "timeSub t u = max (- (2 ^ 63)) (min (2 ^ 63 - 1) (t - u))"

definition second :: duration where [simp]: "second = 1000000000"

lemma timeSub_less [simp]: "- (2 ^ 63) < w \<Longrightarrow> w < 2 ^ 63 \<Longrightarrow> timeSub t u < w \<longleftrightarrow> t - u < w"
  by (auto simp: timeSub_def)

lemma timeSub_ge [simp]: "- (2 ^ 63) < w \<Longrightarrow> w < 2 ^ 63 \<Longrightarrow> w \<le> timeSub t u \<longleftrightarrow> w \<le> t - u"
  by (auto simp: timeSub_def)

text \<open>
  Sum, product and quotient of doubles, rounded once; the products and quotients formed here are
  zero or at least \<open>10 ^ -9\<close>, so none is subnormal. The quotient is computed to more than 54 bits
  with a last bit that records whether anything was left over, which rounds as the exact quotient does.
\<close>

fun f64_neg :: "f64 \<Rightarrow> f64" where
  "f64_neg NaN = NaN" | "f64_neg (Inf s) = Inf (\<not> s)" | "f64_neg (Fin m e) = Fin (- m) e"

definition f64_add :: "f64 \<Rightarrow> f64 \<Rightarrow> f64" where
  "f64_add a b = f64_sub a (f64_neg b)"

fun f64_mul :: "f64 \<Rightarrow> f64 \<Rightarrow> f64" where
  "f64_mul (Fin m1 e1) (Fin m2 e2) = f64_round (m1 * m2) (e1 + e2)"
| "f64_mul NaN _ = NaN"
| "f64_mul _ NaN = NaN"
| "f64_mul (Inf a) (Inf b) = Inf (a \<noteq> b)"
| "f64_mul (Inf a) (Fin m _) = (if m = 0 then NaN else Inf (a \<noteq> (m < 0)))"
| "f64_mul (Fin m _) (Inf b) = (if m = 0 then NaN else Inf (b \<noteq> (m < 0)))"

fun f64_div :: "f64 \<Rightarrow> f64 \<Rightarrow> f64" where
  "f64_div (Fin m1 e1) (Fin m2 e2) =
     (if m2 = 0 then (if m1 = 0 then NaN else Inf (m1 < 0))
      else if m1 = 0 then Fin 0 0
      else let k = 56 + bitlen \<bar>m2\<bar>; a = \<bar>m1\<bar> * 2 ^ nat k; q = a div \<bar>m2\<bar>; r = a mod \<bar>m2\<bar>
           in if r = 0 then f64_round (sgn m1 * sgn m2 * q) (e1 - e2 - k)
              else f64_round (sgn m1 * sgn m2 * (2 * q + 1)) (e1 - e2 - k - 1))"
| "f64_div NaN _ = NaN"
| "f64_div _ NaN = NaN"
| "f64_div (Inf a) (Inf b) = NaN"
| "f64_div (Inf a) (Fin m _) = Inf (a \<noteq> (m < 0))"
| "f64_div (Fin m _) (Inf b) = Fin 0 0"

definition f64_min :: "f64 \<Rightarrow> f64 \<Rightarrow> f64" where
  "f64_min a b = (if a = NaN \<or> b = NaN then NaN else if f64_less b a then b else a)"

text \<open>\<open>Duration.Seconds\<close>, and the conversion of a double to a duration, which truncates; the language
  leaves the result open outside \<open>int64\<close>, where it is the given value.\<close>

definition Seconds :: "duration \<Rightarrow> f64" where
  "Seconds d =
     (let sec = sgn d * (\<bar>d\<bar> div second); nsec = d - sec * second
      in f64_add (f64_int sec) (f64_div (f64_int nsec) (f64_int second)))"

definition toDuration :: "duration \<Rightarrow> f64 \<Rightarrow> duration" where
  "toDuration overflow x =
     (case x of
        Fin m e \<Rightarrow>
          let v = (if e \<ge> 0 then m * 2 ^ nat e else sgn m * (\<bar>m\<bar> div 2 ^ nat (- e)))
          in if - (2 ^ 63) \<le> v \<and> v < 2 ^ 63 then v else overflow
      | _ \<Rightarrow> overflow)"

section \<open>Token buckets\<close>

record tokenBucket =
  bTokens :: f64
  bLast :: time

definition bucketAllow :: "time \<Rightarrow> f64 \<Rightarrow> f64 \<Rightarrow> tokenBucket \<Rightarrow> bool \<times> tokenBucket" where
  "bucketAllow now rate burst b =
     (let tokens = f64_min burst (f64_add (bTokens b) (f64_mul (Seconds (timeSub now (bLast b))) rate));
          b1 = b\<lparr>bTokens := tokens, bLast := now\<rparr>
      in if f64_less tokens (f64_int 1) then (False, b1)
         else (True, b1\<lparr>bTokens := f64_sub tokens (f64_int 1)\<rparr>))"

record sourceLimiter =
  lRate :: f64
  lBurst :: f64
  lMax :: nat
  lBuckets :: "(string \<times> tokenBucket) list"
  lLastPrune :: time

definition newSourceLimiter :: "f64 \<Rightarrow> f64 \<Rightarrow> nat \<Rightarrow> sourceLimiter" where
  "newSourceLimiter rate burst mx =
     \<lparr>lRate = rate, lBurst = burst, lMax = mx, lBuckets = [], lLastPrune = 0\<rparr>"

text \<open>\<open>overflow\<close> stands for the conversion of \<open>burst / rate\<close> seconds when it does not fit a duration.\<close>

definition sourcePrune :: "duration \<Rightarrow> time \<Rightarrow> sourceLimiter \<Rightarrow> sourceLimiter" where
  "sourcePrune overflow now l =
     (let full = toDuration overflow (f64_mul (f64_div (lBurst l) (lRate l)) (f64_int second))
      in l\<lparr>lBuckets := filter (\<lambda>(k, b). \<not> timeSub now (bLast b) \<ge> full) (lBuckets l), lLastPrune := now\<rparr>)"

definition sourceAllow :: "duration \<Rightarrow> string \<Rightarrow> time \<Rightarrow> sourceLimiter \<Rightarrow> bool \<times> sourceLimiter" where
  "sourceAllow overflow src now l =
     (let charge = (\<lambda>b l. case bucketAllow now (lRate l) (lBurst l) b of
             (ok, b') \<Rightarrow> (ok, l\<lparr>lBuckets := AList.update src b' (lBuckets l)\<rparr>))
      in case map_of (lBuckets l) src of
           Some b \<Rightarrow> charge b l
         | None \<Rightarrow>
             let l1 = (if length (lBuckets l) \<ge> lMax l \<or> timeSub now (lLastPrune l) \<ge> 10 * second
                       then sourcePrune overflow now l else l)
             in if length (lBuckets l1) \<ge> lMax l1 then (False, l1)
                else charge \<lparr>bTokens = lBurst l1, bLast = now\<rparr> l1)"

lemma length_update:
  "length (AList.update k v al) = (case map_of al k of Some _ \<Rightarrow> length al | None \<Rightarrow> Suc (length al))"
  by (induction al) (auto split: option.splits)

lemma sourcePrune_length [simp]:
  "length (lBuckets (sourcePrune overflow now l)) \<le> length (lBuckets l)" "lMax (sourcePrune overflow now l) = lMax l"
  by (simp_all add: sourcePrune_def Let_def)

text \<open>
  The table of sources never grows beyond its maximum, whatever datagrams arrive and whenever.
\<close>

theorem source_table_bounded:
  "length (lBuckets (fold (\<lambda>(src, now) l. snd (sourceAllow overflow src now l)) reqs (newSourceLimiter rate burst mx))) \<le> mx"
proof -
  have step: "length (lBuckets (snd (sourceAllow overflow src now l))) \<le> lMax l \<and> lMax (snd (sourceAllow overflow src now l)) = lMax l"
    if "length (lBuckets l) \<le> lMax l" for src now l
    using that le_trans [OF sourcePrune_length(1) that, of overflow now]
    by (auto simp: sourceAllow_def Let_def length_update split: option.splits prod.splits)
  have "length (lBuckets (fold (\<lambda>(src, now) l. snd (sourceAllow overflow src now l)) reqs l)) \<le> lMax l"
    if "length (lBuckets l) \<le> lMax l" for l
    using that
  proof (induction reqs arbitrary: l)
    case (Cons q reqs)
    obtain src now where q: "q = (src, now)" by (cases q)
    from Cons.IH [of "snd (sourceAllow overflow src now l)"] step [OF Cons.prems, of src now] show ?case by (simp add: q)
  qed simp
  from this [of "newSourceLimiter rate burst mx"] show ?thesis by (simp add: newSourceLimiter_def)
qed

lemma Seconds_0 [simp]: "Seconds 0 = f64_int 0"
  by (simp add: Seconds_def f64_int_def f64_add_def f64_round_def)

lemma timeSub_self [simp]: "timeSub t t = 0"
  by (simp add: timeSub_def)

lemma f64_add_0: "\<bar>a\<bar> < 2 ^ 53 \<Longrightarrow> f64_add (f64_int a) (f64_mul (f64_int 0) (f64_int r)) = f64_int a"
  using f64_sub_int [of a 0] by (simp add: f64_add_def f64_int_def f64_round_def)

lemma bucketAllow_same_time:
  assumes "0 \<le> a" "a \<le> b" "b < 2 ^ 53"
  shows "bucketAllow t (f64_int r) (f64_int b) \<lparr>bTokens = f64_int a, bLast = t\<rparr>
    = (0 < a, \<lparr>bTokens = f64_int (if 0 < a then a - 1 else a), bLast = t\<rparr>)"
proof -
  have "f64_min (f64_int b) (f64_int a) = f64_int a" using assms
    by (auto simp: f64_min_def f64_int_def)
  then show ?thesis using assms f64_add_0 [of a r] f64_sub_int [of a 1] by (auto simp: bucketAllow_def Let_def)
qed

text \<open>
  C35. A source that sends many datagrams at one instant has exactly its burst allowed: after \<open>k\<close> of
  them the next is allowed exactly when \<open>k\<close> is below the burst.
\<close>

theorem source_burst:
  assumes "0 < mx" "0 < burst" "burst < 2 ^ 53"
  shows "fst (sourceAllow overflow src now
      (((\<lambda>l. snd (sourceAllow overflow src now l)) ^^ k) (newSourceLimiter (f64_int rate) (f64_int burst) mx))) \<longleftrightarrow> int k < burst"
proof -
  let ?f = "\<lambda>l. snd (sourceAllow overflow src now l)" and ?new = "newSourceLimiter (f64_int rate) (f64_int burst) mx"
  have first: "sourceAllow overflow src now ?new =
      (True, ?new\<lparr>lBuckets := [(src, \<lparr>bTokens = f64_int (burst - 1), bLast = now\<rparr>)],
         lLastPrune := (if timeSub now 0 \<ge> 10 * second then now else 0)\<rparr>)"
    using assms bucketAllow_same_time [of burst burst now rate]
    by (simp add: sourceAllow_def newSourceLimiter_def sourcePrune_def Let_def)
  have later: "sourceAllow overflow src now l = (0 < a, l\<lparr>lBuckets := [(src, \<lparr>bTokens = f64_int (if 0 < a then a - 1 else a), bLast = now\<rparr>)]\<rparr>)"
    if "lBuckets l = [(src, \<lparr>bTokens = f64_int a, bLast = now\<rparr>)]" "lRate l = f64_int rate" "lBurst l = f64_int burst"
      "0 \<le> a" "a \<le> burst" for l a
    using that assms(3) bucketAllow_same_time [of a burst now rate] by (simp add: sourceAllow_def Let_def)
  have st: "lBuckets ((?f ^^ Suc k) ?new) = [(src, \<lparr>bTokens = f64_int (max 0 (burst - 1 - int k)), bLast = now\<rparr>)]
      \<and> lRate ((?f ^^ Suc k) ?new) = f64_int rate \<and> lBurst ((?f ^^ Suc k) ?new) = f64_int burst" for k
  proof (induction k)
    case 0
    show ?case using assms first by (simp add: newSourceLimiter_def)
  next
    case (Suc k)
    let ?l = "(?f ^^ Suc k) ?new" and ?a = "max 0 (burst - 1 - int k)"
    have "lBuckets ?l = [(src, \<lparr>bTokens = f64_int ?a, bLast = now\<rparr>)]" "lRate ?l = f64_int rate" "lBurst ?l = f64_int burst"
      using Suc by blast+
    moreover have "(if 0 < ?a then ?a - 1 else ?a) = max 0 (burst - 1 - int (Suc k))" by simp
    ultimately have "?f ?l = ?l\<lparr>lBuckets := [(src, \<lparr>bTokens = f64_int (max 0 (burst - 1 - int (Suc k))), bLast = now\<rparr>)]\<rparr>"
      using later [of ?l ?a] assms by simp
    moreover have "(?f ^^ Suc (Suc k)) ?new = ?f ?l" by simp
    ultimately show ?case using Suc by simp
  qed
  show ?thesis
  proof (cases k)
    case 0
    then show ?thesis using first assms by simp
  next
    case (Suc j)
    let ?l = "(?f ^^ Suc j) ?new" and ?a = "max 0 (burst - 1 - int j)"
    have "lBuckets ?l = [(src, \<lparr>bTokens = f64_int ?a, bLast = now\<rparr>)]" "lRate ?l = f64_int rate" "lBurst ?l = f64_int burst"
      using st [of j] by blast+
    from later [OF this] assms have "fst (sourceAllow overflow src now ?l) \<longleftrightarrow> 0 < ?a" by simp
    moreover have "0 < ?a \<longleftrightarrow> int (Suc j) < burst" by (simp add: less_max_iff_disj) linarith
    ultimately show ?thesis unfolding Suc by blast
  qed
qed

theorem source_burst_witness:
  "\<not> fst (sourceAllow 0 ''192.0.2.1'' 5
      (((\<lambda>l. snd (sourceAllow 0 ''192.0.2.1'' 5 l)) ^^ 100) (newSourceLimiter (f64_int 50) (f64_int 100) 100000)))"
  using source_burst [of 100000 100 0 "''192.0.2.1''" 5 100 50] by simp

section \<open>Sliding windows\<close>

record windowRing =
  rTimes :: "time list"
  rNext :: nat

record windowLimiter =
  wN :: nat
  wWindow :: duration
  wKeys :: "(string \<times> windowRing) list"

definition newWindowLimiter :: "nat \<Rightarrow> duration \<Rightarrow> windowLimiter" where
  "newWindowLimiter n window = \<lparr>wN = n, wWindow = window, wKeys = []\<rparr>"

text \<open>One ring: whether the event is allowed, and the ring after it; an index out of range panics.\<close>

definition ringAllow :: "nat \<Rightarrow> duration \<Rightarrow> time \<Rightarrow> windowRing \<Rightarrow> bool res \<times> windowRing" where
  "ringAllow n window now r =
     (if length (rTimes r) < n then (Ok True, r\<lparr>rTimes := rTimes r @ [now]\<rparr>)
      else if length (rTimes r) \<le> rNext r then (Panic, r)
      else if timeSub now (rTimes r ! rNext r) < window then (Ok False, r)
      else (Ok True, r\<lparr>rTimes := (rTimes r)[rNext r := now], rNext := (rNext r + 1) mod n\<rparr>))"

definition windowAllow :: "string \<Rightarrow> time \<Rightarrow> (windowLimiter, bool) st" where
  "windowAllow key now l =
     (let r = (case map_of (wKeys l) key of Some r \<Rightarrow> r | None \<Rightarrow> \<lparr>rTimes = [], rNext = 0\<rparr>)
      in case ringAllow (wN l) (wWindow l) now r of
           (b, r') \<Rightarrow> (b, l\<lparr>wKeys := AList.update key r' (wKeys l)\<rparr>))"

definition ringLatest :: "windowRing \<Rightarrow> time" where
  "ringLatest r = rTimes r ! ((rNext r + length (rTimes r) - 1) mod length (rTimes r))"

definition windowPrune :: "time \<Rightarrow> (windowLimiter, unit) st" where
  "windowPrune now l =
     (if list_ex (\<lambda>(k, r). rTimes r = []) (wKeys l) then (Panic, l)
      else (Ok (), l\<lparr>wKeys := filter (\<lambda>(k, r). \<not> timeSub now (ringLatest r) \<ge> wWindow l) (wKeys l)\<rparr>))"

text \<open>
  The states a limiter reaches while time does not go back, with the time of the last operation
  and the log of allowed events.
\<close>

inductive wreach :: "nat \<Rightarrow> duration \<Rightarrow> windowLimiter \<Rightarrow> time \<Rightarrow> (string \<times> time) list \<Rightarrow> bool"
  for n :: nat and window :: duration where
  start: "wreach n window (newWindowLimiter n window) t []"
| allow: "\<lbrakk>wreach n window l t ev; t \<le> now; windowAllow key now l = (Ok b, l')\<rbrakk>
    \<Longrightarrow> wreach n window l' now (if b then ev @ [(key, now)] else ev)"
| prune: "\<lbrakk>wreach n window l t ev; t \<le> now; windowPrune now l = (Ok u, l')\<rbrakk> \<Longrightarrow> wreach n window l' now ev"

definition events :: "string \<Rightarrow> (string \<times> time) list \<Rightarrow> time list" where
  "events key ev = map snd (filter (\<lambda>(k, t). k = key) ev)"

section \<open>At most n events in a window\<close>

text \<open>
  What a ring knows of the allowed events \<open>A\<close> of its key: read from the oldest entry on, it holds
  the last of them, and when it is not full, those it does not hold are a window older.
\<close>

definition ringInv :: "nat \<Rightarrow> duration \<Rightarrow> time list \<Rightarrow> windowRing \<Rightarrow> bool" where
  "ringInv n window A r \<longleftrightarrow> rTimes r \<noteq> [] \<and> length (rTimes r) \<le> n \<and> rNext r < length (rTimes r)
     \<and> (length (rTimes r) < n \<longrightarrow> rNext r = 0)
     \<and> (\<exists>B. A = B @ rotate (rNext r) (rTimes r)
          \<and> (length (rTimes r) < n \<longrightarrow> (\<forall>b \<in> set B. \<forall>s \<in> set (rTimes r). window \<le> s - b)))"

definition spaced :: "nat \<Rightarrow> duration \<Rightarrow> time list \<Rightarrow> bool" where
  "spaced n window A \<longleftrightarrow> (\<forall>i. i + n < length A \<longrightarrow> window \<le> A ! (i + n) - A ! i)"

lemma spaced_snoc:
  "spaced n window (A @ [x]) \<longleftrightarrow> spaced n window A \<and> (n \<le> length A \<longrightarrow> window \<le> x - (A @ [x]) ! (length A - n))"
proof -
  have "(\<forall>i. i + n < Suc (length A) \<longrightarrow> window \<le> (A @ [x]) ! (i + n) - (A @ [x]) ! i)
      \<longleftrightarrow> (\<forall>i. i + n < length A \<longrightarrow> window \<le> A ! (i + n) - A ! i) \<and> (n \<le> length A \<longrightarrow> window \<le> x - (A @ [x]) ! (length A - n))"
    (is "?L \<longleftrightarrow> ?R")
  proof
    assume L: ?L
    have "window \<le> A ! (i + n) - A ! i" if "i + n < length A" for i
      using L [rule_format, of i] that by (simp add: nth_append)
    moreover have "window \<le> x - (A @ [x]) ! (length A - n)" if "n \<le> length A"
      using L [rule_format, of "length A - n"] that by simp
    ultimately show ?R by blast
  next
    assume R: ?R
    show ?L
    proof (intro allI impI)
      fix i assume i: "i + n < Suc (length A)"
      show "window \<le> (A @ [x]) ! (i + n) - (A @ [x]) ! i"
      proof (cases "i + n = length A")
        case True
        then have "i = length A - n" "n \<le> length A" by simp_all
        then show ?thesis using R True by simp
      qed (use i R in \<open>simp add: nth_append\<close>)
    qed
  qed
  then show ?thesis by (simp add: spaced_def)
qed

lemma rotate_update:
  assumes "i < length xs"
  shows "rotate (Suc i) (xs[i := x]) = tl (rotate i xs) @ [x]" "hd (rotate i xs) = xs ! i"
proof -
  obtain us y vs where xs: "xs = us @ y # vs" "length us = i" using assms by (metis id_take_nth_drop length_take min.absorb4)
  have "rotate i xs = y # vs @ us" using rotate_append [of us "y # vs"] by (simp add: xs)
  moreover have "xs[i := x] = (us @ [x]) @ vs" by (simp add: xs list_update_append)
  then have "rotate (Suc i) (xs[i := x]) = vs @ us @ [x]"
    using rotate_append [of "us @ [x]" vs] by (simp add: xs del: rotate_Suc)
  ultimately show "rotate (Suc i) (xs[i := x]) = tl (rotate i xs) @ [x]" "hd (rotate i xs) = xs ! i"
    by (simp_all add: xs nth_append)
qed

lemma ringAllow_spaced:
  assumes r: "ringInv n window A r" and s: "spaced n window A" and now: "\<forall>a \<in> set A. a \<le> now"
    and w: "- (2 ^ 63) < window" "window < 2 ^ 63"
  shows "\<exists>b r'. ringAllow n window now r = (Ok b, r') \<and>
    (if b then ringInv n window (A @ [now]) r' \<and> spaced n window (A @ [now]) else r' = r)"
proof -
  from r obtain B where ne: "rTimes r \<noteq> []" "length (rTimes r) \<le> n" "rNext r < length (rTimes r)"
    and nx: "length (rTimes r) < n \<longrightarrow> rNext r = 0" and A: "A = B @ rotate (rNext r) (rTimes r)"
    and B: "length (rTimes r) < n \<longrightarrow> (\<forall>b \<in> set B. \<forall>s \<in> set (rTimes r). window \<le> s - b)"
    unfolding ringInv_def by blast
  show ?thesis
  proof (cases "length (rTimes r) < n")
    case True
    let ?r = "r\<lparr>rTimes := rTimes r @ [now]\<rparr>"
    have A0: "A = B @ rTimes r" using A nx True by simp
    have old: "window \<le> now - b" if "b \<in> set B" for b
    proof -
      obtain x where "x \<in> set (rTimes r)" using ne(1) by fastforce
      then have "window \<le> x - b" "x \<le> now" using B True that now A0 by auto
      then show ?thesis by simp
    qed
    then have "ringInv n window (A @ [now]) ?r"
      unfolding ringInv_def using True nx B by (auto simp: A0)
    moreover have "spaced n window (A @ [now])"
      unfolding spaced_snoc using s True old by (auto simp: A0 nth_append)
    ultimately show ?thesis using True by (auto simp: ringAllow_def)
  next
    case False
    then have len: "length (rTimes r) = n" using ne(2) by simp
    let ?i = "rNext r" let ?r = "r\<lparr>rTimes := (rTimes r)[?i := now], rNext := (?i + 1) mod n\<rparr>"
    have old: "A ! (length A - n) = rTimes r ! ?i"
      using rotate_update(2) [OF ne(3)] ne(1) len by (simp add: A nth_append hd_conv_nth)
    show ?thesis
    proof (cases "now - rTimes r ! ?i < window")
      case True
      then show ?thesis using False len ne w by (auto simp: ringAllow_def)
    next
      case gap: False
      have n: "0 < n" using ne(1) len by auto
      have "rotate ((?i + 1) mod n) ((rTimes r)[?i := now]) = rotate (Suc ?i) ((rTimes r)[?i := now])"
        using rotate_conv_mod [of "Suc ?i" "(rTimes r)[?i := now]"] by (simp add: len del: rotate_Suc)
      then have "A @ [now] = (B @ [hd (rotate ?i (rTimes r))]) @ rotate (rNext ?r) (rTimes ?r)"
        using rotate_update(1) [OF ne(3), of now] ne(1) by (simp add: A)
      then have "ringInv n window (A @ [now]) ?r" unfolding ringInv_def using len n by auto
      moreover have "spaced n window (A @ [now])"
        unfolding spaced_snoc using s gap old len n by (simp add: nth_append A)
      ultimately show ?thesis using False gap len ne w by (auto simp: ringAllow_def)
    qed
  qed
qed

lemma ringAllow_exact:
  assumes r: "ringInv n window A r" and srt: "sorted A" and now: "\<forall>a \<in> set A. a \<le> now"
    and w: "0 < window" "window < 2 ^ 63"
  shows "fst (ringAllow n window now r) = Ok (length (filter (\<lambda>x. now - x < window) A) < n)"
proof -
  from r obtain B where ne: "rTimes r \<noteq> []" "length (rTimes r) \<le> n" "rNext r < length (rTimes r)"
    and nx: "length (rTimes r) < n \<longrightarrow> rNext r = 0" and A: "A = B @ rotate (rNext r) (rTimes r)"
    and B: "length (rTimes r) < n \<longrightarrow> (\<forall>b \<in> set B. \<forall>s \<in> set (rTimes r). window \<le> s - b)"
    unfolding ringInv_def by blast
  let ?R = "rotate (rNext r) (rTimes r)" and ?P = "\<lambda>x. now - x < window"
  show ?thesis
  proof (cases "length (rTimes r) < n")
    case True
    have "\<not> ?P b" if "b \<in> set B" for b
    proof -
      obtain x where "x \<in> set (rTimes r)" using ne(1) by fastforce
      then have "window \<le> x - b" "x \<le> now" using B True that now A by auto
      then show ?thesis by simp
    qed
    then have "filter ?P B = []" by (simp add: filter_empty_conv)
    then have "length (filter ?P A) \<le> length (rTimes r)" using length_filter_le [of ?P ?R] by (simp add: A)
    then show ?thesis using True by (simp add: ringAllow_def)
  next
    case False
    then have len: "length (rTimes r) = n" using ne(2) by simp
    have "?R \<noteq> []" "length ?R = n" using ne(1) len by simp_all
    then obtain x R where R: "?R = x # R" "length R = n - 1" by (metis diff_Suc_1 length_Cons neq_Nil_conv)
    have x: "rTimes r ! rNext r = x" using rotate_update(2) [OF ne(3)] R by simp
    have le: "b \<le> x" if "b \<in> set B" for b using srt that by (simp add: A R sorted_append)
    have ge: "x \<le> y" if "y \<in> set R" for y using srt that by (simp add: A R sorted_append)
    show ?thesis
    proof (cases "now - x < window")
      case True
      have "?P y" if "y \<in> set R" for y using ge [OF that] True by linarith
      then have "filter ?P (x # R) = x # R" using True by (simp add: filter_id_conv)
      then have "n \<le> length (filter ?P A)" using R len ne(1) by (simp add: A)
      then show ?thesis using True False len ne(3) w x by (simp add: ringAllow_def)
    next
      case old: False
      have "\<not> ?P b" if "b \<in> set B" for b using le [OF that] old by linarith
      then have "filter ?P A = filter ?P R" using old by (simp add: A R filter_empty_conv)
      moreover have "0 < n" using ne(1) len by auto
      ultimately have "length (filter ?P A) < n" using length_filter_le [of ?P R] R(2) by simp
      then show ?thesis using old False len ne(3) w x by (simp add: ringAllow_def)
    qed
  qed
qed

lemma ringLatest_last:
  assumes "ringInv n window A r"
  shows "ringLatest r = last A" "A \<noteq> []"
proof -
  from assms obtain B where ne: "rTimes r \<noteq> []" and A: "A = B @ rotate (rNext r) (rTimes r)"
    unfolding ringInv_def by blast
  let ?m = "length (rTimes r)"
  have "rotate (rNext r) (rTimes r) ! (?m - 1) = rTimes r ! ((rNext r + (?m - 1)) mod ?m)"
    using ne by (intro nth_rotate) simp
  moreover have "rNext r + ?m - 1 = rNext r + (?m - 1)" using ne by (cases "rTimes r") auto
  ultimately show "ringLatest r = last A" "A \<noteq> []"
    using ne last_conv_nth [of "rotate (rNext r) (rTimes r)"] by (simp_all add: ringLatest_def A)
qed

definition winv :: "nat \<Rightarrow> duration \<Rightarrow> windowLimiter \<Rightarrow> time \<Rightarrow> (string \<times> time) list \<Rightarrow> bool" where
  "winv n window l t ev \<longleftrightarrow> wN l = n \<and> wWindow l = window \<and> distinct (map fst (wKeys l))
     \<and> (\<forall>k. spaced n window (events k ev) \<and> sorted (events k ev) \<and> (\<forall>a \<in> set (events k ev). a \<le> t)
          \<and> (case map_of (wKeys l) k of
                None \<Rightarrow> \<forall>a \<in> set (events k ev). window \<le> t - a
              | Some r \<Rightarrow> ringInv n window (events k ev) r))"

lemma events_snoc: "events k (ev @ [(key, now)]) = (if k = key then events k ev @ [now] else events k ev)"
  by (simp add: events_def)

lemma windowAllow_inv:
  assumes i: "winv n window l t ev" and "t \<le> now" "0 < n" and w: "0 < window" "window < 2 ^ 63"
  shows "\<exists>l'. windowAllow key now l = (Ok (length (filter (\<lambda>x. now - x < window) (events key ev)) < n), l')
    \<and> winv n window l' now (if length (filter (\<lambda>x. now - x < window) (events key ev)) < n then ev @ [(key, now)] else ev)"
proof -
  let ?A = "events key ev" let ?b = "length (filter (\<lambda>x. now - x < window) ?A) < n"
  have l: "wN l = n" "wWindow l = window" "distinct (map fst (wKeys l))"
    and all: "\<And>k. spaced n window (events k ev)" "\<And>k. sorted (events k ev)" "\<And>k a. a \<in> set (events k ev) \<Longrightarrow> a \<le> now"
    and none: "\<And>k a. map_of (wKeys l) k = None \<Longrightarrow> a \<in> set (events k ev) \<Longrightarrow> window \<le> now - a"
    and some: "\<And>k r. map_of (wKeys l) k = Some r \<Longrightarrow> ringInv n window (events k ev) r"
    using i \<open>t \<le> now\<close> unfolding winv_def by (fastforce split: option.splits)+
  define r where "r = (case map_of (wKeys l) key of Some r \<Rightarrow> r | None \<Rightarrow> \<lparr>rTimes = [], rNext = 0\<rparr>)"
  have "\<exists>r'. ringAllow n window now r = (Ok ?b, r') \<and> ringInv n window (if ?b then ?A @ [now] else ?A) r'
      \<and> spaced n window (if ?b then ?A @ [now] else ?A)"
  proof (cases "map_of (wKeys l) key")
    case None
    have "filter (\<lambda>x. now - x < window) ?A = []" using none [OF None] by (fastforce simp: filter_empty_conv)
    moreover have "ringInv n window (?A @ [now]) \<lparr>rTimes = [now], rNext = 0\<rparr>"
      using none [OF None] \<open>0 < n\<close> by (auto simp: ringInv_def)
    moreover have "window \<le> now - ?A ! (length ?A - n)" if "n \<le> length ?A"
      using that \<open>0 < n\<close> by (intro none [OF None] nth_mem) simp
    then have "spaced n window (?A @ [now])" using all(1) \<open>0 < n\<close> by (auto simp: spaced_snoc nth_append)
    ultimately show ?thesis using \<open>0 < n\<close> None by (simp add: r_def ringAllow_def)
  next
    case (Some q)
    have "r = q" using Some by (simp add: r_def)
    have w': "- (2 ^ 63) < window" using w(1) by simp
    have now: "\<forall>a \<in> set ?A. a \<le> now" using all(3) by blast
    note q = some [OF Some]
    from ringAllow_exact [OF q all(2) now w] ringAllow_spaced [OF q all(1) now w' w(2)] q all(1)
    show ?thesis unfolding \<open>r = q\<close> by (auto split: if_splits)
  qed
  then obtain r' where r': "ringAllow n window now r = (Ok ?b, r')"
    "ringInv n window (if ?b then ?A @ [now] else ?A) r'" "spaced n window (if ?b then ?A @ [now] else ?A)" by blast
  define l' where "l' = l\<lparr>wKeys := AList.update key r' (wKeys l)\<rparr>"
  have "windowAllow key now l = (Ok ?b, l')" using r'(1) by (simp add: windowAllow_def l l'_def r_def Let_def)
  moreover have "winv n window l' now (if ?b then ev @ [(key, now)] else ev)"
    unfolding winv_def
  proof (intro conjI allI)
    show "wN l' = n" "wWindow l' = window" "distinct (map fst (wKeys l'))" using l by (simp_all add: l'_def distinct_update)
    fix k
    let ?E = "events k (if ?b then ev @ [(key, now)] else ev)"
    have E: "?E = (if k = key \<and> ?b then ?A @ [now] else events k ev)" by (simp add: events_snoc)
    show "spaced n window ?E" unfolding E using r'(3) all(1) by (simp split: if_splits)
    show "sorted ?E" unfolding E using all(2,3) by (simp add: sorted_append)
    show "\<forall>a \<in> set ?E. a \<le> now" unfolding E using all(3) by auto
    show "case map_of (wKeys l') k of None \<Rightarrow> \<forall>a \<in> set ?E. window \<le> now - a | Some r \<Rightarrow> ringInv n window ?E r"
    proof (cases "k = key")
      case True
      then show ?thesis unfolding E using r'(2) by (simp add: l'_def update_conv' split: if_splits)
    next
      case False
      then have "map_of (wKeys l') k = map_of (wKeys l) k" by (simp add: l'_def update_conv')
      then show ?thesis unfolding E using False none [of k] some [of k] by (auto split: option.splits)
    qed
  qed
  ultimately show ?thesis by blast
qed

lemma windowPrune_inv:
  assumes i: "winv n window l t ev" and "t \<le> now" and w: "0 < window" "window < 2 ^ 63"
  shows "\<exists>l'. windowPrune now l = (Ok (), l') \<and> winv n window l' now ev"
proof -
  let ?keep = "\<lambda>(k :: string, r). \<not> timeSub now (ringLatest r) \<ge> window"
  have l: "wN l = n" "wWindow l = window" "distinct (map fst (wKeys l))"
    and all: "\<And>k. spaced n window (events k ev)" "\<And>k. sorted (events k ev)" "\<And>k a. a \<in> set (events k ev) \<Longrightarrow> a \<le> now"
    and none: "\<And>k a. map_of (wKeys l) k = None \<Longrightarrow> a \<in> set (events k ev) \<Longrightarrow> window \<le> now - a"
    and some: "\<And>k r. map_of (wKeys l) k = Some r \<Longrightarrow> ringInv n window (events k ev) r"
    using i \<open>t \<le> now\<close> unfolding winv_def by (fastforce split: option.splits)+
  have mem: "map_of (wKeys l) k = Some r" if "(k, r) \<in> set (wKeys l)" for k r using that l(3) by simp
  then have "\<not> list_ex (\<lambda>(k, r). rTimes r = []) (wKeys l)"
    using some by (fastforce simp: list_ex_iff ringInv_def)
  then have p: "windowPrune now l = (Ok (), l\<lparr>wKeys := filter ?keep (wKeys l)\<rparr>)" by (simp add: windowPrune_def l)
  have d: "distinct (map fst (filter ?keep (wKeys l)))" using l(3) by (rule distinct_map_filter)
  have "case map_of (filter ?keep (wKeys l)) k of None \<Rightarrow> \<forall>a \<in> set (events k ev). window \<le> now - a
      | Some r \<Rightarrow> ringInv n window (events k ev) r" for k
  proof (cases "map_of (filter ?keep (wKeys l)) k")
    case (Some r)
    then have "(k, r) \<in> set (wKeys l)" by (auto dest: map_of_SomeD)
    then show ?thesis using Some some mem by simp
  next
    case None
    have "window \<le> now - a" if a: "a \<in> set (events k ev)" for a
    proof (cases "map_of (wKeys l) k")
      case q: (Some r)
      then have "\<not> ?keep (k, r)" using None by (force simp: map_of_eq_None_iff dest!: map_of_SomeD)
      then have "window \<le> now - ringLatest r" using w by simp
      moreover have "a \<le> ringLatest r"
        using ringLatest_last [OF some [OF q]] all(2) [of k] a by (metis in_set_conv_nth last_conv_nth sorted_nth_mono
            One_nat_def Suc_pred diff_less length_greater_0_conv less_Suc_eq_le zero_less_one)
      ultimately show ?thesis by simp
    qed (use none a in blast)
    then show ?thesis using None by simp
  qed
  then have "winv n window (l\<lparr>wKeys := filter ?keep (wKeys l)\<rparr>) now ev"
    unfolding winv_def using l d all by simp
  with p show ?thesis by blast
qed

lemma wreach_inv:
  assumes "wreach n window l t ev" "0 < n" "0 < window" "window < 2 ^ 63"
  shows "winv n window l t ev"
  using assms(1)
proof induction
  case (start t)
  then show ?case by (simp add: winv_def newWindowLimiter_def events_def spaced_def)
next
  case (allow l t ev now key b l')
  from windowAllow_inv [OF allow.IH allow.hyps(2) assms(2-4), of key] allow.hyps(3) show ?case by auto
next
  case (prune l t ev now u l')
  from windowPrune_inv [OF prune.IH prune.hyps(2) assms(3,4)] prune.hyps(3) show ?case by auto
qed

text \<open>
  C38. The ring of the sliding window computes the count it stands for: in every state the limiter
  reaches, whatever was forgotten by pruning, an event is allowed exactly when fewer than \<open>n\<close> allowed
  events of its key are younger than the window, and no operation indexes out of range.
\<close>

theorem window_exact:
  assumes "wreach n window l t ev" "t \<le> now" "0 < n" "0 < window" "window < 2 ^ 63"
  shows "fst (windowAllow key now l) = Ok (length (filter (\<lambda>x. now - x < window) (events key ev)) < n)
    \<and> fst (windowPrune now l) = Ok ()"
  using windowAllow_inv [OF wreach_inv [OF assms(1,3,4,5)] assms(2-5), of key]
    windowPrune_inv [OF wreach_inv [OF assms(1,3,4,5)] assms(2,4,5)] by auto

text \<open>A domain's limiter that has allowed 20 datagrams at one instant.\<close>

lemma wreach_same:
  "k \<le> 20 \<Longrightarrow> 0 < k \<Longrightarrow> wreach 20 second \<lparr>wN = 20, wWindow = second, wKeys = [(''y.org'', \<lparr>rTimes = replicate k 7, rNext = 0\<rparr>)]\<rparr> 7
     (replicate k (''y.org'', 7))"
proof (induction k)
  case (Suc k)
  let ?l = "\<lambda>k. \<lparr>wN = 20, wWindow = second, wKeys = [(''y.org'', \<lparr>rTimes = replicate k (7 :: int), rNext = 0\<rparr>)]\<rparr>"
  show ?case
  proof (cases "k = 0")
    case True
    have "windowAllow ''y.org'' 7 (newWindowLimiter 20 second) = (Ok True, ?l 1)"
      by (simp add: windowAllow_def newWindowLimiter_def ringAllow_def)
    from wreach.allow [OF wreach.start [of 20 second 7] order_refl this] show ?thesis using True by simp
  next
    case False
    then have a: "windowAllow ''y.org'' 7 (?l k) = (Ok True, ?l (Suc k))"
      using Suc.prems by (simp add: windowAllow_def ringAllow_def replicate_append_same)
    have "wreach 20 second (?l k) 7 (replicate k (''y.org'', 7))" using Suc False by simp
    from wreach.allow [OF this order_refl a]
    show ?thesis by (simp add: replicate_append_same)
  qed
qed simp

theorem window_exact_witness:
  "fst (windowAllow ''y.org'' 8 \<lparr>wN = 20, wWindow = second, wKeys = [(''y.org'', \<lparr>rTimes = replicate 20 7, rNext = 0\<rparr>)]\<rparr>) = Ok False"
proof -
  have "length (filter (\<lambda>x. 8 - x < second) (events ''y.org'' (replicate 20 (''y.org'', 7)))) = 20"
    by (simp add: events_def)
  with window_exact [OF wreach_same [of 20], of 8 "''y.org''"] show ?thesis by simp
qed

text \<open>
  C33. No window holds more than \<open>n\<close> allowed events of a key, over every execution in which time does
  not go back.
\<close>

theorem window_bound:
  assumes "wreach n window l t ev" "0 < n" "0 < window" "window < 2 ^ 63"
  shows "length (filter (\<lambda>x. a \<le> x \<and> x < a + window) (events key ev)) \<le> n"
proof -
  have "spaced n window A \<Longrightarrow> sorted A \<Longrightarrow> length (filter (\<lambda>x. a \<le> x \<and> x < a + window) A) \<le> n" for A
  proof (induction A rule: rev_induct)
    case (snoc x A)
    let ?P = "\<lambda>x. a \<le> x \<and> x < a + window"
    have IH: "length (filter ?P A) \<le> n" and srt: "sorted A" using snoc by (simp_all add: spaced_snoc sorted_append)
    have le: "length (filter ?P A) \<le> length A" by (rule length_filter_le)
    show ?case
    proof (cases "?P x \<and> n \<le> length A")
      case True
      let ?i = "length A - n"
      have "?i < length A" using True assms(2) by linarith
      then have "window \<le> x - A ! ?i" using snoc.prems(1) True by (simp add: spaced_snoc nth_append)
      then have old: "A ! ?i < a" using True by linarith
      have "\<not> ?P y" if "y \<in> set (take (Suc ?i) A)" for y
      proof -
        obtain j where "j < Suc ?i" "j < length A" "y = A ! j" using \<open>y \<in> _\<close> by (auto simp: in_set_conv_nth)
        then have "y \<le> A ! ?i" using srt True assms(2) by (simp add: sorted_nth_mono)
        then show ?thesis using old by simp
      qed
      then have "filter ?P (take (Suc ?i) A) = []" by (simp add: filter_empty_conv)
      then have "filter ?P A = filter ?P (drop (Suc ?i) A)" by (metis append_Nil append_take_drop_id filter_append)
      then have "length (filter ?P A) \<le> n - 1" using length_filter_le [of ?P "drop (Suc ?i) A"] True by simp
      then show ?thesis using assms(2) by (cases n) simp_all
    next
      case False
      then show ?thesis using IH le by (auto simp del: length_filter_le)
    qed
  qed simp
  then show ?thesis using wreach_inv [OF assms] by (simp add: winv_def)
qed

theorem window_bound_witness: "length (filter (\<lambda>x. 7 \<le> x \<and> x < 7 + second) (events ''y.org'' (replicate 20 (''y.org'', 7)))) \<le> 20"
  by (rule window_bound [OF wreach_same [of 20]]) simp_all

section \<open>The address cache\<close>

text \<open>
  The resolver is an argument, the answer it would give now; its answers are kept with their errors.
\<close>

record ipCacheEntry =
  eAnswer :: "err + ip list"
  eExpires :: time

record ipCache =
  cTTL :: duration
  cNegTTL :: duration
  cMax :: nat
  cEntries :: "(string \<times> ipCacheEntry) list"

definition indicatorDNSCacheTTL :: duration where [simp]: "indicatorDNSCacheTTL = 60 * second"
definition indicatorDNSNegativeTTL :: duration where [simp]: "indicatorDNSNegativeTTL = 10 * second"
definition indicatorDNSCacheMax :: nat where [simp]: "indicatorDNSCacheMax = 10000"

definition newIPCache :: ipCache where
  "newIPCache = \<lparr>cTTL = indicatorDNSCacheTTL, cNegTTL = indicatorDNSNegativeTTL, cMax = indicatorDNSCacheMax, cEntries = []\<rparr>"

definition ipCacheGet :: "unicode \<Rightarrow> (string \<Rightarrow> err + ip list) \<Rightarrow> time \<Rightarrow> string \<Rightarrow> ipCache \<Rightarrow> (err + ip list) \<times> ipCache" where
  "ipCacheGet U lookup now domain0 c =
     (let domain = ToLower U domain0;
          miss = (let answer = lookup domain;
                      e = \<lparr>eAnswer = answer, eExpires = (case answer of Inl _ \<Rightarrow> now + cNegTTL c | Inr _ \<Rightarrow> now + cTTL c)\<rparr>;
                      es = (if length (cEntries c) \<ge> cMax c then filter (\<lambda>(k, old). now < eExpires old) (cEntries c)
                            else cEntries c);
                      es' = (if length es < cMax c then AList.update domain e es else es)
                  in (answer, c\<lparr>cEntries := es'\<rparr>))
      in case map_of (cEntries c) domain of
           Some e \<Rightarrow> if now < eExpires e then (eAnswer e, c) else miss
         | None \<Rightarrow> miss)"

text \<open>The states the service's cache reaches, with the answers the resolver gave: domain, time, answer.\<close>

inductive creach :: "unicode \<Rightarrow> ipCache \<Rightarrow> (string \<times> time \<times> (err + ip list)) list \<Rightarrow> bool"
  for U :: unicode where
  start: "creach U newIPCache []"
| get: "\<lbrakk>creach U c asked; ipCacheGet U lookup now domain c = (a, c')\<rbrakk>
    \<Longrightarrow> creach U c' (asked @ [(ToLower U domain, now, lookup (ToLower U domain))])"

definition lifetime :: "err + ip list \<Rightarrow> duration" where
  "lifetime a = (case a of Inl _ \<Rightarrow> 10 * second | Inr _ \<Rightarrow> 60 * second)"

lemma map_of_filter_subset: "distinct (map fst xs) \<Longrightarrow> map_of (filter P xs) k = Some v \<Longrightarrow> map_of xs k = Some v"
  by (auto dest: map_of_SomeD)

definition cinv :: "ipCache \<Rightarrow> (string \<times> time \<times> (err + ip list)) list \<Rightarrow> bool" where
  "cinv c asked \<longleftrightarrow> cTTL c = 60 * second \<and> cNegTTL c = 10 * second \<and> cMax c = 10000
     \<and> length (cEntries c) \<le> 10000 \<and> distinct (map fst (cEntries c))
     \<and> (\<forall>d e. map_of (cEntries c) d = Some e \<longrightarrow>
          (\<exists>t. (d, t, eAnswer e) \<in> set asked \<and> eExpires e = t + lifetime (eAnswer e)))"

lemma ipCacheGet_inv:
  assumes "cinv c asked" "ipCacheGet U lookup now domain c = (a, c')"
  shows "cinv c' (asked @ [(ToLower U domain, now, lookup (ToLower U domain))])
    \<and> (a = lookup (ToLower U domain) \<or> (\<exists>t. (ToLower U domain, t, a) \<in> set asked \<and> now < t + lifetime a))"
proof -
  let ?d = "ToLower U domain" let ?asked = "asked @ [(?d, now, lookup ?d)]"
  note c = assms(1) [unfolded cinv_def]
  show ?thesis
  proof (cases "\<exists>e. map_of (cEntries c) ?d = Some e \<and> now < eExpires e")
    case True
    then obtain e where e: "map_of (cEntries c) ?d = Some e" "now < eExpires e" by blast
    then have "a = eAnswer e" "c' = c" using assms(2) by (simp_all add: ipCacheGet_def Let_def)
    moreover have "\<exists>t. (?d, t, eAnswer e) \<in> set asked \<and> eExpires e = t + lifetime (eAnswer e)" using c e(1) by blast
    moreover have "cinv c ?asked" using c by (fastforce simp: cinv_def)
    ultimately show ?thesis using e(2) by auto
  next
    case False
    define es where "es = (if length (cEntries c) \<ge> cMax c then filter (\<lambda>(k, old). now < eExpires old) (cEntries c) else cEntries c)"
    define e where "e = \<lparr>eAnswer = lookup ?d, eExpires = now + lifetime (lookup ?d)\<rparr>"
    define es' where "es' = (if length es < cMax c then AList.update ?d e es else es)"
    have "eExpires e = (case lookup ?d of Inl _ \<Rightarrow> now + cNegTTL c | Inr _ \<Rightarrow> now + cTTL c)"
      using c by (simp add: e_def lifetime_def split: sum.splits)
    then have r: "a = lookup ?d" "c' = c\<lparr>cEntries := es'\<rparr>"
      using False assms(2) by (auto simp: ipCacheGet_def Let_def es_def es'_def e_def split: option.splits if_splits)
    have d: "distinct (map fst es)" "distinct (map fst es')"
      using c by (simp_all add: es_def es'_def distinct_map_filter distinct_update)
    have sub: "map_of es k = Some v \<Longrightarrow> map_of (cEntries c) k = Some v" for k v
      using c map_of_filter_subset [of "cEntries c"] by (auto simp: es_def split: if_splits)
    have "length es \<le> length (cEntries c)" by (simp add: es_def)
    then have "length es \<le> 10000" using c by linarith
    then have "length es' \<le> 10000" using c by (auto simp: es'_def length_update split: option.splits)
    moreover have "\<exists>t. (k, t, eAnswer v) \<in> set ?asked \<and> eExpires v = t + lifetime (eAnswer v)" if "map_of es' k = Some v" for k v
    proof (cases "v = e \<and> k = ?d")
      case False
      then have "map_of es k = Some v" using that by (auto simp: es'_def update_conv' split: if_splits)
      from sub [OF this] show ?thesis using c by fastforce
    qed (auto simp: e_def)
    ultimately have "cinv c' ?asked" using c d by (simp add: r cinv_def)
    then show ?thesis using r(1) by blast
  qed
qed

text \<open>
  The cache is never stale and never grows beyond 10000 entries: every answer it gives is the
  one the resolver gives now, or one the resolver gave for that domain less than 60 seconds ago (10
  seconds for a failure).
\<close>

theorem cache_fresh:
  assumes "creach U c asked" "ipCacheGet U lookup now domain c = (a, c')"
  shows "length (cEntries c') \<le> 10000
    \<and> (a = lookup (ToLower U domain) \<or> (\<exists>t. (ToLower U domain, t, a) \<in> set asked \<and> now < t + lifetime a))"
proof -
  have "cinv c asked" using assms(1)
  proof induction
    case start
    show ?case by (simp add: cinv_def newIPCache_def)
  next
    case (get c asked lookup now domain a c')
    then show ?case using ipCacheGet_inv by blast
  qed
  from ipCacheGet_inv [OF this assms(2)] show ?thesis by (simp add: cinv_def)
qed

theorem cache_fresh_witness:
  "length (cEntries (snd (ipCacheGet \<lparr>letterTab = (\<lambda>r. False), numberTab = (\<lambda>r. False), lowerTab = (\<lambda>r. r), foldTab = (\<lambda>r s. False)\<rparr>
     (\<lambda>d. Inr [[192, 0, 2, 1]]) 5 ''x.org'' newIPCache))) \<le> 10000"
  using cache_fresh [OF creach.start surjective_pairing] by blast

end
