(* ===== verification/Exchange.thy ===== *)
theory Exchange
  imports Addresses
begin

text \<open>
  The header exchange of a receiving host (\<open>src/cmd/fmsgd/host.go\<close>, \<open>readHeader\<close> and everything
  it calls): reading each field off the connection, validating it, answering with a response
  code where the code does, and the parent checks of replies and of added recipients.

  \<open>host\<close> is what the handlers see of the process: its configuration variables, the clock at the
  moment it is read, the files, DNS, the message store's lookups (function variables in the
  source, \<open>lookupMsgIdByHashFn\<close> and its siblings) and the outgoing map's lookup.
\<close>

section \<open>The host\<close>

type_synonym 'a lookup = "err + 'a"

record host =
  lib :: golib
  hostDomain :: string
  PastTimeDelta :: f64
  FutureTimeDelta :: f64
  MaxMessageSize :: u32
  MaxExpandedSize :: u32
  SkipAuthorisedIPs :: bool
  clock :: f64
  files :: fsys
  lookupAuthorisedIPs :: "string \<Rightarrow> ip list lookup"
  lookupMsgIdByHash :: "bytes \<Rightarrow> int lookup"
  getMsgByID :: "int \<Rightarrow> Header option lookup"
  getMsgByBatchHash :: "bytes \<Rightarrow> Header option lookup"
  addToBatchRecorded :: "int \<Rightarrow> bytes \<Rightarrow> bool lookup"
  lookupOutgoing :: "bytes \<Rightarrow> string \<Rightarrow> Header option"

abbreviation ucd :: "host \<Rightarrow> unicode" where "ucd H \<equiv> uni (lib H)"

definition liftL :: "'a lookup \<Rightarrow> 'a io" where
  "liftL r = (case r of Inl e \<Rightarrow> failIO e | Inr x \<Rightarrow> retIO x)"

section \<open>Response codes\<close>

definition RejectCodeInvalid :: byte where [simp]: "RejectCodeInvalid = 1"
definition RejectCodeUndisclosed :: byte where [simp]: "RejectCodeUndisclosed = 3"
definition RejectCodeTooBig :: byte where [simp]: "RejectCodeTooBig = 4"
definition RejectCodeInsufficentResources :: byte where [simp]: "RejectCodeInsufficentResources = 5"
definition RejectCodeParentNotFound :: byte where [simp]: "RejectCodeParentNotFound = 6"
definition RejectCodePastTime :: byte where [simp]: "RejectCodePastTime = 7"
definition RejectCodeFutureTime :: byte where [simp]: "RejectCodeFutureTime = 8"
definition RejectCodeTimeTravel :: byte where [simp]: "RejectCodeTimeTravel = 9"
definition RejectCodeDuplicate :: byte where [simp]: "RejectCodeDuplicate = 10"
definition AcceptCodeAddTo :: byte where [simp]: "AcceptCodeAddTo = 11"
definition AcceptCodeContinue :: byte where [simp]: "AcceptCodeContinue = 64"
definition AcceptCodeSkipData :: byte where [simp]: "AcceptCodeSkipData = 65"
definition RejectCodeUserUnknown :: byte where [simp]: "RejectCodeUserUnknown = 100"
definition RejectCodeUserFull :: byte where [simp]: "RejectCodeUserFull = 101"
definition RejectCodeUserNotAccepting :: byte where [simp]: "RejectCodeUserNotAccepting = 102"
definition RejectCodeUserDuplicate :: byte where [simp]: "RejectCodeUserDuplicate = 103"
definition RejectCodeUserUndisclosed :: byte where [simp]: "RejectCodeUserUndisclosed = 105"
definition RejectCodeAccept :: byte where [simp]: "RejectCodeAccept = 200"

definition messageReservedBitsMask :: byte where [simp]: "messageReservedBitsMask = 128"
definition attachmentReservedBitsMask :: byte where [simp]: "attachmentReservedBitsMask = 252"

definition rejectAccept :: "bytes \<Rightarrow> unit io" where
  "rejectAccept codes = Write codes"

definition sendCode :: "byte \<Rightarrow> unit io" where
  "sendCode code = rejectAccept [code]"

text \<open>\<open>if err := sendCode(c, code); err != nil { return err }; return fmt.Errorf(msg)\<close>.\<close>

definition reject :: "byte \<Rightarrow> string \<Rightarrow> 'a io" where
  "reject code msg = bindIO (sendCode code) (\<lambda>_. failIO (Errorf msg))"

section \<open>Fields\<close>

definition ReadUInt8Slice :: "bytes io" where
  "ReadUInt8Slice = bindIO (ReadFull 1) (\<lambda>size. ReadAllLimit (unat (hd size)))"

definition readAddress :: "host \<Rightarrow> Address io" where
  "readAddress H = bindIO ReadUInt8Slice (\<lambda>slice. liftIO (parseAddress (ucd H) slice))"

text \<open>
  A challenge shorter than 32 bytes: the conversion of the slice to \<open>*[32]byte\<close> panics. The
  hash a looked-up header caches is left in the shared header; caching changes no later result.
\<close>

definition handleChallenge :: "host \<Rightarrow> unit io" where
  "handleChallenge H =
     bindIO (ReadAllLimit 32) (\<lambda>hashSlice c.
       if length hashSlice < 32 then (Panic, c)
       else let remoteIP = (case remoteHost c of Some s \<Rightarrow> s | None \<Rightarrow> [])
            in case lookupOutgoing H hashSlice remoteIP of
                 None \<Rightarrow> failIO (Errorf ''challenge for unknown message'') c
               | Some header \<Rightarrow>
                   bindIO (liftIO (GetMessageHash (lib H) (files H) header))
                     (\<lambda>(msgHash, _). Write msgHash) c)"

definition validateMessageFlags :: "byte \<Rightarrow> unit io" where
  "validateMessageFlags flags =
     (if hasFlag flags messageReservedBitsMask
      then reject RejectCodeInvalid ''reserved message flag bits set''
      else if hasFlag flags FlagHasAddTo \<and> hasFlag flags FlagTerminal
      then reject RejectCodeInvalid ''add-to message has terminal flag set''
      else retIO ())"

definition validateAttachmentFlags :: "byte \<Rightarrow> unit io" where
  "validateAttachmentFlags flags =
     (if hasFlag flags attachmentReservedBitsMask
      then reject RejectCodeInvalid ''reserved attachment flag bits set''
      else retIO ())"

text \<open>\<open>True\<close> when the connection was a challenge and has been handled.\<close>

definition readVersionOrChallenge :: "host \<Rightarrow> Header \<Rightarrow> (bool \<times> Header) io" where
  "readVersionOrChallenge H h =
     bindIO ReadByte (\<lambda>v.
       if v \<ge> 129 then
         (if 256 - unat v = 1 then bindIO (handleChallenge H) (\<lambda>_. retIO (True, h))
          else failIO (Errorf ''unsupported challenge version''))
       else if v \<noteq> 1 then failIO (Errorf ''unsupported message version'')
       else retIO (False, h\<lparr>Version := v\<rparr>))"

fun readToLoop :: "host \<Rightarrow> nat \<Rightarrow> string list \<Rightarrow> Header \<Rightarrow> Header io" where
  "readToLoop H 0 seen h = retIO h"
| "readToLoop H (Suc num) seen h =
     bindIO (readAddress H) (\<lambda>addr.
       let key = addrKey (ucd H) addr
       in if key \<in> set seen then failIO (Errorf ''duplicate recipient address'')
          else readToLoop H num (key # seen) (h\<lparr>To := To h @ [addr]\<rparr>))"

definition readToRecipients :: "host \<Rightarrow> Header \<Rightarrow> Header io" where
  "readToRecipients H h =
     bindIO ReadByte (\<lambda>num.
       if num = 0 then reject RejectCodeInvalid ''to count must be >= 1''
       else readToLoop H (unat num) [] h)"

fun readAddToLoop :: "host \<Rightarrow> nat \<Rightarrow> string list \<Rightarrow> Header \<Rightarrow> Header io" where
  "readAddToLoop H 0 seen h = retIO h"
| "readAddToLoop H (Suc num) seen h =
     bindIO (readAddress H) (\<lambda>addr.
       let key = addrKey (ucd H) addr
       in if key \<in> set seen
          then reject RejectCodeInvalid ''duplicate recipient address in add to''
          else readAddToLoop H num (key # seen) (h\<lparr>AddTo := AddTo h @ [addr]\<rparr>))"

text \<open>A failed read of \<open>add to from\<close> is answered with code 1 before it is returned.\<close>

definition readAddToFrom :: "host \<Rightarrow> Address io" where
  "readAddToFrom H c =
     (case readAddress H c of
        (Err e, c') \<Rightarrow> bindIO (sendCode RejectCodeInvalid) (\<lambda>_. failIO e) c'
      | r \<Rightarrow> r)"

definition readAddToRecipients :: "host \<Rightarrow> Header \<Rightarrow> Header io" where
  "readAddToRecipients H h =
     (if \<not> hasFlag (Flags h) FlagHasAddTo then retIO h
      else if \<not> hasFlag (Flags h) FlagHasPid
      then reject RejectCodeInvalid ''add to exists but pid does not''
      else bindIO (readAddToFrom H) (\<lambda>addToFrom.
        let key = addrKey (ucd H) addToFrom;
            inFromOrTo = (addrKey (ucd H) (From h) = key
                          \<or> list_ex (\<lambda>a. addrKey (ucd H) a = key) (To h))
        in if \<not> inFromOrTo then reject RejectCodeInvalid ''add-to-from not in from or to''
           else bindIO ReadByte (\<lambda>addToCount.
             if addToCount = 0
             then reject RejectCodeInvalid ''add to flag set but count is 0''
             else readAddToLoop H (unat addToCount) [] (h\<lparr>AddToFrom := Some addToFrom\<rparr>))))"

definition readAndValidateTimestamp :: "host \<Rightarrow> Header \<Rightarrow> Header io" where
  "readAndValidateTimestamp H h =
     bindIO ReadFloat64 (\<lambda>ts.
       let delta = f64_sub (clock H) (f64_of_bits ts)
       in if f64_less (f64_int 0) (PastTimeDelta H) \<and> f64_less (PastTimeDelta H) delta
          then reject RejectCodePastTime ''message timestamp too far in past''
          else if f64_less (f64_int 0) (FutureTimeDelta H) \<and> f64_less delta (f64_int 0)
                  \<and> f64_less (FutureTimeDelta H) (f64_abs delta)
          then reject RejectCodeFutureTime ''message timestamp too far in future''
          else retIO (h\<lparr>Timestamp := ts\<rparr>))"

text \<open>The common type byte or the media type string, as a message and an attachment read it.\<close>

definition readMediaType :: "bool \<Rightarrow> (string \<times> byte) io" where
  "readMediaType common =
     (if common then
        bindIO ReadByte (\<lambda>typeID.
          case GetCommonMediaType typeID of
            None \<Rightarrow> reject RejectCodeInvalid ''unmapped common type ID''
          | Some mtype \<Rightarrow> retIO (mtype, typeID))
      else
        bindIO ReadUInt8Slice (\<lambda>mime.
          if \<not> isASCIIBytes mime then reject RejectCodeInvalid ''media type must be US-ASCII''
          else retIO (string_of mime, 0)))"

text \<open>Without the common type flag the header's \<open>TypeID\<close> is left as it was.\<close>

definition readMessageType :: "Header \<Rightarrow> Header io" where
  "readMessageType h =
     bindIO (readMediaType (hasFlag (Flags h) FlagCommonType)) (\<lambda>(mtype, typeID).
       if hasFlag (Flags h) FlagCommonType then retIO (h\<lparr>TypeID := typeID, Type := mtype\<rparr>)
       else retIO (h\<lparr>Type := mtype\<rparr>))"

definition readAttachmentType :: "byte \<Rightarrow> (string \<times> byte) io" where
  "readAttachmentType flags = readMediaType (hasFlag flags 1)"


section \<open>Attachment headers\<close>

text \<open>
  One pass of the loop of \<open>readAttachmentHeaders\<close>: the attachment and its contribution to the two
  running totals, which are \<open>uint32\<close> and wrap.
\<close>

definition readAttachment :: "host \<Rightarrow> string list \<Rightarrow> AttachmentHeader io" where
  "readAttachment H seen =
     bindIO ReadByte (\<lambda>attFlags.
     bindIO (validateAttachmentFlags attFlags) (\<lambda>_.
     bindIO (readAttachmentType attFlags) (\<lambda>(attType, attTypeID).
     bindIO ReadUInt8Slice (\<lambda>filenameBytes.
       let filename = string_of filenameBytes
       in if \<not> isValidAttachmentFilename (ucd H) filename
          then reject RejectCodeInvalid ''invalid attachment filename''
          else if ToLower (ucd H) filename \<in> set seen
          then reject RejectCodeInvalid ''duplicate attachment filename''
          else bindIO ReadUint32 (\<lambda>attSize.
               bindIO (if hasFlag attFlags 2 then ReadUint32 else retIO 0) (\<lambda>attExpandedSize.
               retIO \<lparr>aFlags = attFlags, aTypeID = attTypeID, aType = attType,
                      aFilename = filename, aSize = attSize, aExpandedSize = attExpandedSize,
                      aFilepath = []\<rparr>))))))"

definition attExpanded :: "AttachmentHeader \<Rightarrow> u32" where
  "attExpanded a = (if hasFlag (aFlags a) 2 then aExpandedSize a else aSize a)"

fun readAttachmentLoop ::
  "host \<Rightarrow> nat \<Rightarrow> string list \<Rightarrow> u32 \<Rightarrow> u32 \<Rightarrow> Header \<Rightarrow> (u32 \<times> u32 \<times> Header) io" where
  "readAttachmentLoop H 0 seen totalSize totalExpandedSize h =
     retIO (totalSize, totalExpandedSize, h)"
| "readAttachmentLoop H (Suc n) seen totalSize totalExpandedSize h =
     bindIO (readAttachment H seen) (\<lambda>a.
       readAttachmentLoop H n (ToLower (ucd H) (aFilename a) # seen)
         (totalSize + aSize a) (totalExpandedSize + attExpanded a)
         (h\<lparr>Attachments := Attachments h @ [a]\<rparr>))"

definition readAttachmentHeaders :: "host \<Rightarrow> Header \<Rightarrow> Header io" where
  "readAttachmentHeaders H h =
     bindIO (ReadFull 1) (\<lambda>attachCount.
       let expanded0 = (if hasFlag (Flags h) FlagDeflate then ExpandedSize h else Size h)
       in bindIO (readAttachmentLoop H (unat (hd attachCount)) [] (Size h) expanded0 h)
            (\<lambda>(totalSize, totalExpandedSize, h').
              if totalSize > MaxMessageSize H
              then reject RejectCodeTooBig ''total message size exceeds max''
              else if totalExpandedSize > MaxExpandedSize H
              then reject RejectCodeTooBig ''total expanded size exceeds MAX_EXPANDED_SIZE''
              else retIO h'))"

section \<open>The header's fields in order\<close>

definition readPid :: "Header \<Rightarrow> Header io" where
  "readPid h =
     (if hasFlag (Flags h) FlagHasPid then
        bindIO (ReadAllLimit 32) (\<lambda>pid. retIO (h\<lparr>Pid := pid @ replicate (32 - length pid) 0\<rparr>))
      else retIO h)"

definition readTopic :: "Header \<Rightarrow> Header io" where
  "readTopic h =
     (if \<not> hasFlag (Flags h) FlagHasPid then
        bindIO ReadUInt8Slice (\<lambda>topic. retIO (h\<lparr>Topic := string_of topic\<rparr>))
      else retIO h)"

definition readSizes :: "host \<Rightarrow> Header \<Rightarrow> Header io" where
  "readSizes H h =
     bindIO ReadUint32 (\<lambda>size.
       if hasFlag (Flags h) FlagDeflate then
         bindIO ReadUint32 (\<lambda>expanded.
           if expanded > MaxExpandedSize H
           then reject RejectCodeTooBig ''expanded size exceeds MAX_EXPANDED_SIZE''
           else retIO (h\<lparr>Size := size, ExpandedSize := expanded\<rparr>))
       else retIO (h\<lparr>Size := size\<rparr>))"

text \<open>Everything after the version byte that \<open>readHeader\<close> reads off the connection.\<close>

definition readHeaderFields :: "host \<Rightarrow> Header \<Rightarrow> Header io" where
  "readHeaderFields H h0 =
     bindIO ReadByte (\<lambda>flags.
     bindIO (validateMessageFlags flags) (\<lambda>_.
     bindIO (readPid (h0\<lparr>Flags := flags\<rparr>)) (\<lambda>h1.
     bindIO (readAddress H) (\<lambda>from.
     bindIO (readToRecipients H (h1\<lparr>From := from\<rparr>)) (\<lambda>h2.
     bindIO (readAddToRecipients H h2) (\<lambda>h3.
     bindIO (readAndValidateTimestamp H h3) (\<lambda>h4.
     bindIO (readTopic h4) (\<lambda>h5.
     bindIO (readMessageType h5) (\<lambda>h6.
     bindIO (readSizes H h6) (\<lambda>h7.
     readAttachmentHeaders H h7))))))))))"

section \<open>Participants, sender address, parents\<close>

definition checkLocalParticipant :: "host \<Rightarrow> Header \<Rightarrow> unit io" where
  "checkLocalParticipant H h =
     (if \<not> hasDomainRecipient (ucd H) (To h) (hostDomain H)
         \<and> \<not> hasDomainRecipient (ucd H) (AddTo h) (hostDomain H)
         \<and> \<not> (AddTo h \<noteq> [] \<and> EqualFold (ucd H) (Domain (From h)) (hostDomain H))
      then reject RejectCodeInvalid ''no participants for domain''
      else retIO ())"

text \<open>\<open>net.IP.Equal\<close>: an IPv4 address and its IPv4-in-IPv6 form are equal.\<close>

definition v4InV6Prefix :: bytes where
  "v4InV6Prefix = replicate 10 0 @ [255, 255]"

definition ipEqual :: "ip \<Rightarrow> ip \<Rightarrow> bool" where
  "ipEqual a b \<longleftrightarrow>
     (if length a = length b then a = b
      else if length a = 4 \<and> length b = 16 then b = v4InV6Prefix @ a
      else if length a = 16 \<and> length b = 4 then a = v4InV6Prefix @ b
      else False)"

definition verifySenderIP :: "host \<Rightarrow> string \<Rightarrow> unit io" where
  "verifySenderIP H senderDomain c =
     (if SkipAuthorisedIPs H then retIO () c
      else case remoteHost c of
        None \<Rightarrow> failIO (Errorf ''DNS verification failed'') c
      | Some rhost \<Rightarrow>
          (case ParseIP (lib H) rhost of
             None \<Rightarrow> failIO (Errorf ''DNS verification failed'') c
           | Some remoteIP \<Rightarrow>
               (case lookupAuthorisedIPs H senderDomain of
                  Inl e \<Rightarrow> failIO (Errorf ''DNS verification failed'') c
                | Inr authorisedIPs \<Rightarrow>
                    if list_ex (ipEqual remoteIP) authorisedIPs then retIO () c
                    else failIO (Errorf ''DNS verification failed'') c)))"

text \<open>
  \<open>isMessageRetrievable\<close> follows \<open>pid\<close> upwards while the message's own file is missing; nothing
  bounds the walk, so its result is optional and \<open>None\<close> is a walk that never ends.
\<close>

definition isRegular :: "fsys \<Rightarrow> string \<Rightarrow> bool" where
  "isRegular fs p = (case fs p of Some (Regular _) \<Rightarrow> True | _ \<Rightarrow> False)"

partial_function (option) isMessageRetrievable :: "host \<Rightarrow> Header \<Rightarrow> bool option" where
  "isMessageRetrievable H msg =
     (if Filepath msg \<noteq> [] \<and> isRegular (files H) (Filepath msg) then Some True
      else if Pid msg = [] then Some False
      else case lookupMsgIdByHash H (Pid msg) of
             Inl e \<Rightarrow> Some False
           | Inr parentID \<Rightarrow>
               if parentID = 0 then Some False
               else case getMsgByID H parentID of
                      Inl e \<Rightarrow> Some False
                    | Inr parent \<Rightarrow>
                        (case parent of
                           None \<Rightarrow> Some False
                         | Some p \<Rightarrow> isMessageRetrievable H p))"

definition retrievableIO :: "host \<Rightarrow> Header \<Rightarrow> bool io" where
  "retrievableIO H msg =
     liftIO (case isMessageRetrievable H msg of Some b \<Rightarrow> Ok b | None \<Rightarrow> Diverge)"

definition handleAddToParentNotStored :: "Header \<Rightarrow> bool \<Rightarrow> Header io" where
  "handleAddToParentNotStored h hasLocalRecipient =
     (if hasLocalRecipient then retIO (h\<lparr>InitialResponseCode := AcceptCodeContinue\<rparr>)
      else reject RejectCodeParentNotFound ''add-to: parent not stored and no recipients for domain'')"

text \<open>The stored payload paths of the parent, where it has an attachment at that position.\<close>

fun mapPaths :: "AttachmentHeader list \<Rightarrow> AttachmentHeader list \<Rightarrow> AttachmentHeader list" where
  "mapPaths [] ps = []"
| "mapPaths (a # as) [] = a # as"
| "mapPaths (a # as) (p # ps) = a\<lparr>aFilepath := aFilepath p\<rparr> # mapPaths as ps"

definition timeTravels :: "host \<Rightarrow> Header \<Rightarrow> Header \<Rightarrow> bool" where
  "timeTravels H parent h \<longleftrightarrow>
     f64_less (f64_of_bits (Timestamp h))
       (f64_sub (f64_of_bits (Timestamp parent)) (FutureTimeDelta H))"

text \<open>The checks of \<open>handleAddToPath\<close> once the parent is known to be held.\<close>

definition addToHeldParent :: "host \<Rightarrow> Header \<Rightarrow> int \<Rightarrow> Header \<Rightarrow> bool \<Rightarrow> Header io" where
  "addToHeldParent H h parentID parentMsg addToHasOurDomain =
     (if hasFlag (Flags parentMsg) FlagTerminal
      then reject RejectCodeInvalid ''add-to: parent msg is terminal''
      else if timeTravels H parentMsg h
      then reject RejectCodeTimeTravel ''add-to: time travel detected''
      else if \<not> isOriginalParticipant (ucd H) (Some parentMsg) (AddToFrom h)
      then reject RejectCodeInvalid ''add-to: add-to-from is not in from or to of parent''
      else
        let h' = h\<lparr>Filepath := Filepath parentMsg,
                   Attachments := mapPaths (Attachments h) (Attachments parentMsg)\<rparr>
        in bindIO (liftIO (GetMessageHash (lib H) (files H) h')) (\<lambda>(batchHash, h'').
           bindIO (liftL (addToBatchRecorded H parentID batchHash)) (\<lambda>recorded.
             if recorded then reject RejectCodeDuplicate ''add-to: batch already recorded''
             else if addToHasOurDomain
             then retIO (h''\<lparr>InitialResponseCode := AcceptCodeSkipData\<rparr>)
             else retIO (h''\<lparr>InitialResponseCode := AcceptCodeAddTo\<rparr>))))"

definition handleAddToPath :: "host \<Rightarrow> Header \<Rightarrow> Header io" where
  "handleAddToPath H h =
     (if AddTo h = [] then retIO h
      else
        let addToHasOurDomain = hasDomainRecipient (ucd H) (AddTo h) (hostDomain H);
            hasLocalRecipient = (addToHasOurDomain
                                 \<or> hasDomainRecipient (ucd H) (To h) (hostDomain H))
        in bindIO (liftL (lookupMsgIdByHash H (Pid h))) (\<lambda>parentID.
             if parentID = 0 then handleAddToParentNotStored h hasLocalRecipient
             else bindIO (liftL (getMsgByID H parentID)) (\<lambda>parent.
               case parent of
                 None \<Rightarrow> handleAddToParentNotStored h hasLocalRecipient
               | Some parentMsg \<Rightarrow>
                   bindIO (retrievableIO H parentMsg) (\<lambda>ok.
                     if \<not> ok then handleAddToParentNotStored h hasLocalRecipient
                     else addToHeldParent H h parentID parentMsg addToHasOurDomain))))"

definition validatePidReplyPath :: "host \<Rightarrow> Header \<Rightarrow> unit io" where
  "validatePidReplyPath H h =
     (if AddTo h \<noteq> [] \<or> \<not> hasFlag (Flags h) FlagHasPid then retIO ()
      else bindIO (liftL (lookupMsgIdByHash H (Pid h))) (\<lambda>parentID.
        bindIO (liftL (if parentID \<noteq> 0 then getMsgByID H parentID
                       else getMsgByBatchHash H (Pid h))) (\<lambda>parent.
          case parent of
            None \<Rightarrow> reject RejectCodeParentNotFound ''pid reply: parent not found''
          | Some parentMsg \<Rightarrow>
              bindIO (retrievableIO H parentMsg) (\<lambda>ok.
                if \<not> ok
                then reject RejectCodeParentNotFound ''pid reply: parent is not retrievable''
                else if timeTravels H parentMsg h
                then reject RejectCodeTimeTravel ''pid reply: time travel detected''
                else if \<not> isParentParticipant (ucd H) (Some parentMsg) (Some (From h))
                then reject RejectCodeInvalid ''pid reply: sender was not a participant of parent''
                else if hasFlag (Flags parentMsg) FlagTerminal
                then reject RejectCodeInvalid ''pid reply: parent is terminal''
                else retIO ()))))"

section \<open>The whole exchange\<close>

text \<open>What \<open>readHeader\<close> checks once every field is read.\<close>

definition acceptHeader :: "host \<Rightarrow> Header \<Rightarrow> Header option io" where
  "acceptHeader H h =
     bindIO (checkLocalParticipant H h) (\<lambda>_.
     bindIO (verifySenderIP H (determineSenderDomain h)) (\<lambda>_.
     bindIO (handleAddToPath H h) (\<lambda>h'.
     bindIO (validatePidReplyPath H h') (\<lambda>_.
     retIO (Some h')))))"

text \<open>\<open>None\<close> is the nil header of a connection that was a challenge.\<close>

definition readHeader :: "host \<Rightarrow> Header option io" where
  "readHeader H =
     bindIO (readVersionOrChallenge H (emptyHeader\<lparr>InitialResponseCode := AcceptCodeContinue\<rparr>))
       (\<lambda>(handled, h0).
         if handled then retIO None
         else bindIO (readHeaderFields H h0) (acceptHeader H))"

end
