(* ===== verification/IndicatorService.thy ===== *)
theory IndicatorService
  imports Indicator Limiters Paths Exchange
begin

text \<open>
  The indicator service (\<open>src/cmd/fmsgd/indicators.go\<close>, second half): receiving a datagram, verifying
  and publishing it, and sending a local participant's indicators with coalescing. The database
  is the interface \<open>indicatorStore\<close> of the source, given by its lookups; the resolver, the JSON form
  of a notice and the outcome of a notification are part of the environment. The clock is read
  once per call of a handler.
\<close>

section \<open>Held changes\<close>

definition indicatorMinInterval :: duration where [simp]: "indicatorMinInterval = 2 * second"

text \<open>\<open>pLastSent\<close> is 0 for the zero time.\<close>

record indicatorPending =
  pLastSent :: time
  pLatest :: "indicatorDatagram option"
  pDomains :: "string list"

type_synonym pendings = "(string \<times> indicatorPending) list"

definition noPending :: indicatorPending where
  "noPending = \<lparr>pLastSent = 0, pLatest = None, pDomains = []\<rparr>"

text \<open>The critical section of \<open>offer\<close>: whether the datagram is to be sent now.\<close>

definition offerPending :: "time \<Rightarrow> string \<Rightarrow> indicatorDatagram \<Rightarrow> string list \<Rightarrow> pendings \<Rightarrow> bool \<times> pendings" where
  "offerPending now key d domains ps =
     (let p = (case map_of ps key of Some p \<Rightarrow> p | None \<Rightarrow> noPending)
      in if isClear d then (True, AList.update key (p\<lparr>pLatest := None, pDomains := []\<rparr>) ps)
         else if pLastSent p \<noteq> 0 \<and> timeSub now (pLastSent p) < indicatorMinInterval
         then (False, AList.update key (p\<lparr>pLatest := Some d, pDomains := domains\<rparr>) ps)
         else (True, AList.update key (p\<lparr>pLastSent := now, pLatest := None, pDomains := []\<rparr>) ps))"

text \<open>The critical section of \<open>flush\<close>: what is due, with its key, and what stays.\<close>

definition duePending :: "time \<Rightarrow> indicatorPending \<Rightarrow> bool" where
  "duePending now p \<longleftrightarrow> timeSub now (pLastSent p) \<ge> indicatorMinInterval"

fun flushPending :: "time \<Rightarrow> pendings \<Rightarrow> (string \<times> indicatorDatagram \<times> string list) list \<times> pendings" where
  "flushPending now [] = ([], [])"
| "flushPending now ((k, p) # ps) =
     (case flushPending now ps of (due, ps') \<Rightarrow>
        case pLatest p of
          Some d \<Rightarrow> if duePending now p
                    then ((k, d, pDomains p) # due, (k, p\<lparr>pLastSent := now, pLatest := None, pDomains := []\<rparr>) # ps')
                    else (due, (k, p) # ps')
        | None \<Rightarrow> if duePending now p then (due, ps') else (due, (k, p) # ps'))"

text \<open>
  The states of the held changes while time does not go back, with every offer and every datagram
  given to be sent, in order.
\<close>

inductive preach :: "pendings \<Rightarrow> time \<Rightarrow> (string \<times> indicatorDatagram \<times> string list) list
    \<Rightarrow> (string \<times> time \<times> indicatorDatagram \<times> string list) list \<Rightarrow> bool" where
  start: "0 < t \<Longrightarrow> preach [] t [] []"
| offer: "\<lbrakk>preach ps t os ss; t \<le> now; offerPending now key d ds ps = (send, ps')\<rbrakk>
    \<Longrightarrow> preach ps' now (os @ [(key, d, ds)]) (if send then ss @ [(key, now, d, ds)] else ss)"
| flush: "\<lbrakk>preach ps t os ss; t \<le> now; flushPending now ps = (due, ps')\<rbrakk>
    \<Longrightarrow> preach ps' now os (ss @ map (\<lambda>(k, x). (k, now, x)) due)"

inductive_cases preachE: "preach ps t os ss"

text \<open>The last offer of a key, the last datagram sent for it and the last time a non-clearing one was.\<close>

definition lastFor :: "string \<Rightarrow> (string \<times> 'a) list \<Rightarrow> 'a option" where
  "lastFor key xs = map_of (rev xs) key"

definition shown :: "string \<Rightarrow> (string \<times> time \<times> indicatorDatagram \<times> string list) list \<Rightarrow> time list" where
  "shown key ss = map (\<lambda>(k, t, d, ds). t) (filter (\<lambda>(k, t, d, ds). k = key \<and> \<not> isClear d) ss)"

lemma lastFor_snoc: "lastFor key (xs @ [(k, x)]) = (if k = key then Some x else lastFor key xs)"
  by (simp add: lastFor_def)

lemma lastFor_append: "lastFor key (xs @ ys) = (case lastFor key ys of Some y \<Rightarrow> Some y | None \<Rightarrow> lastFor key xs)"
  by (simp add: lastFor_def map_add_def split: option.splits)

lemma flushPending_all:
  "flushPending now ps = (due, ps') \<Longrightarrow> distinct (map fst ps) \<Longrightarrow>
   (\<forall>k. map_of due k = (case map_of ps k of
      Some p \<Rightarrow> (case pLatest p of Some d \<Rightarrow> if duePending now p then Some (d, pDomains p) else None | None \<Rightarrow> None)
    | None \<Rightarrow> None)
   \<and> map_of ps' k = (case map_of ps k of
      Some p \<Rightarrow> if \<not> duePending now p then Some p
        else if pLatest p = None then None else Some (p\<lparr>pLastSent := now, pLatest := None, pDomains := []\<rparr>)
    | None \<Rightarrow> None))
   \<and> distinct (map fst due) \<and> distinct (map fst ps') \<and> fst ` set due \<subseteq> fst ` set ps \<and> fst ` set ps' \<subseteq> fst ` set ps"
proof (induction ps arbitrary: due ps')
  case (Cons q ps)
  obtain k' p where q: "q = (k', p)" by (cases q)
  obtain due1 ps1 where f: "flushPending now ps = (due1, ps1)" by (cases "flushPending now ps")
  have d: "distinct (map fst ps)" "k' \<notin> fst ` set ps" using Cons.prems(2) by (simp_all add: q)
  note IH = Cons.IH [OF f d(1)]
  have "k' \<notin> fst ` set due1" "k' \<notin> fst ` set ps1" using d(2) IH by blast+
  then have n: "map_of ps k' = None" "map_of due1 k' = None" "map_of ps1 k' = None" "k' \<notin> fst ` set due1" "k' \<notin> fst ` set ps1"
    using d(2) by (simp_all only: map_of_eq_None_iff not_False_eq_True)
  define late where "late = duePending now p"
  have r: "due = (if late \<and> pLatest p \<noteq> None then (k', the (pLatest p), pDomains p) # due1 else due1)"
    "ps' = (if late \<and> pLatest p = None then ps1
      else if late then (k', p\<lparr>pLastSent := now, pLatest := None, pDomains := []\<rparr>) # ps1 else (k', p) # ps1)"
    using Cons.prems(1) by (auto simp: q f late_def split: option.splits if_splits)
  have "map_of due k = (case map_of (q # ps) k of
        Some p \<Rightarrow> (case pLatest p of Some d \<Rightarrow> if duePending now p then Some (d, pDomains p) else None | None \<Rightarrow> None)
      | None \<Rightarrow> None)
    \<and> map_of ps' k = (case map_of (q # ps) k of
        Some p \<Rightarrow> if \<not> duePending now p then Some p
          else if pLatest p = None then None else Some (p\<lparr>pLastSent := now, pLatest := None, pDomains := []\<rparr>)
      | None \<Rightarrow> None)" for k
  proof (cases "k = k'")
    case True
    then show ?thesis using n by (cases "pLatest p") (simp_all add: r q late_def)
  next
    case False
    then have "map_of due k = map_of due1 k" "map_of ps' k = map_of ps1 k" "map_of (q # ps) k = map_of ps k"
      by (simp_all add: r q)
    then show ?thesis using IH by presburger
  qed
  moreover have "distinct (map fst due)" "distinct (map fst ps')" using IH n by (simp_all add: r)
  moreover have "fst ` set due \<subseteq> fst ` set (q # ps)" "fst ` set ps' \<subseteq> fst ` set (q # ps)" using IH by (auto simp: r q)
  ultimately show ?case by blast
qed simp

lemmas flushPending_spec = flushPending_all [THEN conjunct1, rule_format, THEN conjunct1]
  flushPending_all [THEN conjunct1, rule_format, THEN conjunct2]
  flushPending_all [THEN conjunct2, THEN conjunct1]
  flushPending_all [THEN conjunct2, THEN conjunct2, THEN conjunct1]

text \<open>What is held and when a datagram was last sent, per key.\<close>

definition heldOf :: "pendings \<Rightarrow> string \<Rightarrow> (indicatorDatagram \<times> string list) option" where
  "heldOf ps k = (case map_of ps k of Some p \<Rightarrow> map_option (\<lambda>d. (d, pDomains p)) (pLatest p) | None \<Rightarrow> None)"

definition lastSentOf :: "pendings \<Rightarrow> string \<Rightarrow> time" where
  "lastSentOf ps k = (case map_of ps k of Some p \<Rightarrow> pLastSent p | None \<Rightarrow> 0)"

lemma offerPending_effect:
  assumes "offerPending now key d ds ps = (send, ps')"
  shows "distinct (map fst ps) \<Longrightarrow> distinct (map fst ps')"
    and "heldOf ps' k = (if k \<noteq> key then heldOf ps k else if send then None else Some (d, ds))"
    and "lastSentOf ps' k = (if k = key \<and> send \<and> \<not> isClear d then now else lastSentOf ps k)"
    and "send \<longleftrightarrow> isClear d \<or> lastSentOf ps key = 0 \<or> 2 * second \<le> timeSub now (lastSentOf ps key)"
proof -
  show "distinct (map fst ps) \<Longrightarrow> distinct (map fst ps')"
    using assms by (auto simp: offerPending_def Let_def distinct_update split: if_splits)
  show "heldOf ps' k = (if k \<noteq> key then heldOf ps k else if send then None else Some (d, ds))"
    using assms by (auto simp: offerPending_def Let_def heldOf_def update_conv' split: if_splits)
  show "lastSentOf ps' k = (if k = key \<and> send \<and> \<not> isClear d then now else lastSentOf ps k)"
    using assms by (auto simp: offerPending_def Let_def lastSentOf_def update_conv' noPending_def split: if_splits option.splits)
  show "send \<longleftrightarrow> isClear d \<or> lastSentOf ps key = 0 \<or> 2 * second \<le> timeSub now (lastSentOf ps key)"
    using assms by (auto simp: offerPending_def Let_def lastSentOf_def noPending_def not_less split: if_splits option.splits)
qed

lemma flushPending_effect:
  assumes "flushPending now ps = (due, ps')" "distinct (map fst ps)"
  shows "map_of due k = (if 2 * second \<le> timeSub now (lastSentOf ps k) then heldOf ps k else None)"
    and "heldOf ps' k = (if 2 * second \<le> timeSub now (lastSentOf ps k) then None else heldOf ps k)"
    and "lastSentOf ps' k = (if 2 * second \<le> timeSub now (lastSentOf ps k)
      then (if heldOf ps k = None then 0 else now) else lastSentOf ps k)"
  using flushPending_spec(1) [OF assms, of k] flushPending_spec(2) [OF assms, of k]
  by (auto simp: heldOf_def lastSentOf_def duePending_def split: option.splits if_splits)

lemma lastFor_due:
  "distinct (map fst due) \<Longrightarrow> lastFor k (map (\<lambda>(k, x). (k, now, x)) due) = map_option (Pair now) (map_of due k)"
proof (induction due)
  case (Cons q due)
  obtain k' x where q: "q = (k', x)" by (cases q)
  have "map_of due k' = None" using Cons.prems by (simp add: q map_of_eq_None_iff)
  moreover have "lastFor k [(k', now, x)] = (if k' = k then Some (now, x) else None)" by (simp add: lastFor_def)
  ultimately show ?case
    using Cons lastFor_append [of k "[(k', now, x)]" "map (\<lambda>(k, x). (k, now, x)) due"]
    by (auto simp: q split: option.splits)
qed (simp add: lastFor_def)

lemma shown_append: "shown k (xs @ ys) = shown k xs @ shown k ys"
  by (simp add: shown_def)

lemma shown_due:
  "distinct (map fst due) \<Longrightarrow> shown k (map (\<lambda>(k, x). (k, now, x)) due)
     = (case map_of due k of Some (d, ds) \<Rightarrow> if isClear d then [] else [now] | None \<Rightarrow> [])"
proof (induction due)
  case (Cons q due)
  obtain k' d ds where q: "q = (k', d, ds)" by (cases q)
  have "map_of due k' = None" using Cons.prems by (simp add: q map_of_eq_None_iff)
  then have "k' = k \<Longrightarrow> shown k (map (\<lambda>(k, x). (k, now, x)) due) = []" using Cons by (simp add: q)
  then show ?case using Cons by (auto simp: q shown_def)
qed (simp add: shown_def)

definition pinv :: "pendings \<Rightarrow> time \<Rightarrow> (string \<times> indicatorDatagram \<times> string list) list
    \<Rightarrow> (string \<times> time \<times> indicatorDatagram \<times> string list) list \<Rightarrow> bool" where
  "pinv ps t os ss \<longleftrightarrow> distinct (map fst ps) \<and> 0 < t \<and> (\<forall>k. lastSentOf ps k \<le> t
     \<and> sorted_wrt (\<lambda>a b. a + 2 * second \<le> b) (shown k ss) \<and> (\<forall>s \<in> set (shown k ss). 0 < s)
     \<and> (shown k ss \<noteq> [] \<longrightarrow> lastSentOf ps k = last (shown k ss) \<or> last (shown k ss) + 2 * second \<le> t)
     \<and> lastFor k os = (case heldOf ps k of Some x \<Rightarrow> Some x | None \<Rightarrow> map_option snd (lastFor k ss)))"

lemma sorted_wrt_snoc:
  assumes "sorted_wrt (\<lambda>a b. a + (c :: int) \<le> b) xs" "xs \<noteq> [] \<longrightarrow> last xs + c \<le> x" "0 \<le> c"
  shows "sorted_wrt (\<lambda>a b. a + c \<le> b) (xs @ [x])"
proof -
  have "y + c \<le> x" if "y \<in> set xs" for y
  proof -
    have ne: "xs \<noteq> []" using that by auto
    then have xs: "xs = butlast xs @ [last xs]" by simp
    have "sorted_wrt (\<lambda>a b. a + c \<le> b) (butlast xs @ [last xs])" using assms(1) xs by simp
    then have "y \<in> set (butlast xs) \<Longrightarrow> y + c \<le> last xs" by (simp add: sorted_wrt_append)
    moreover have "y \<in> set (butlast xs) \<or> y = last xs" using that xs by (metis Un_iff insert_iff list.set(2) set_append empty_iff list.set(1))
    ultimately show ?thesis using assms(2,3) ne by force
  qed
  then show ?thesis using assms(1) by (simp add: sorted_wrt_append)
qed

lemma pinv_offer:
  assumes i: "pinv ps t os ss" and n: "t \<le> now" and o: "offerPending now key d ds ps = (send, ps')"
  shows "pinv ps' now (os @ [(key, d, ds)]) (if send then ss @ [(key, now, d, ds)] else ss)"
proof -
  note e = offerPending_effect [OF o]
  have t: "0 < t" and dis: "distinct (map fst ps)" using i by (auto simp: pinv_def)
  show ?thesis
    unfolding pinv_def
  proof (intro conjI allI)
    show "distinct (map fst ps')" by (rule e(1) [OF dis])
    show "0 < now" using t n by simp
    fix k
    let ?ss = "if send then ss @ [(key, now, d, ds)] else ss"
    have k: "lastSentOf ps k \<le> t" "sorted_wrt (\<lambda>a b. a + 2 * second \<le> b) (shown k ss)" "\<forall>s \<in> set (shown k ss). 0 < s"
      "shown k ss \<noteq> [] \<longrightarrow> lastSentOf ps k = last (shown k ss) \<or> last (shown k ss) + 2 * second \<le> t"
      "lastFor k os = (case heldOf ps k of Some x \<Rightarrow> Some x | None \<Rightarrow> map_option snd (lastFor k ss))"
      using i by (auto simp: pinv_def)
    have s: "shown k ?ss = (if k = key \<and> send \<and> \<not> isClear d then shown k ss @ [now] else shown k ss)" by (simp add: shown_def)
    have gap: "last (shown k ss) + 2 * second \<le> now" if "k = key" "send" "\<not> isClear d" "shown k ss \<noteq> []"
    proof -
      have "0 < last (shown k ss)" using k(3) that(4) by simp
      then show ?thesis using k(4) that e(4) n by (auto simp: timeSub_def)
    qed
    show "lastSentOf ps' k \<le> now" using k(1) n by (simp add: e(3))
    show "sorted_wrt (\<lambda>a b. a + 2 * second \<le> b) (shown k ?ss)" unfolding s using k(2) gap by (auto intro!: sorted_wrt_snoc)
    show "\<forall>x \<in> set (shown k ?ss). 0 < x" unfolding s using k(3) t n by auto
    show "shown k ?ss \<noteq> [] \<longrightarrow> lastSentOf ps' k = last (shown k ?ss) \<or> last (shown k ?ss) + 2 * second \<le> now"
      unfolding s e(3) using k(4) n by auto
    show "lastFor k (os @ [(key, d, ds)]) = (case heldOf ps' k of Some x \<Rightarrow> Some x | None \<Rightarrow> map_option snd (lastFor k ?ss))"
      using k(5) by (auto simp: lastFor_snoc e(2) split: option.splits)
  qed
qed

lemma pinv_flush:
  assumes i: "pinv ps t os ss" and n: "t \<le> now" and f: "flushPending now ps = (due, ps')"
  shows "pinv ps' now os (ss @ map (\<lambda>(k, x). (k, now, x)) due)"
proof -
  have t: "0 < t" and dis: "distinct (map fst ps)" using i by (auto simp: pinv_def)
  note e = flushPending_effect [OF f dis] and sp = flushPending_spec [OF f dis]
  show ?thesis
    unfolding pinv_def
  proof (intro conjI allI)
    show "distinct (map fst ps')" by (rule sp(4))
    show "0 < now" using t n by simp
    fix k
    let ?due = "map (\<lambda>(k, x). (k, now, x)) due" let ?late = "2 * second \<le> timeSub now (lastSentOf ps k)"
    have k: "lastSentOf ps k \<le> t" "sorted_wrt (\<lambda>a b. a + 2 * second \<le> b) (shown k ss)" "\<forall>s \<in> set (shown k ss). 0 < s"
      "shown k ss \<noteq> [] \<longrightarrow> lastSentOf ps k = last (shown k ss) \<or> last (shown k ss) + 2 * second \<le> t"
      "lastFor k os = (case heldOf ps k of Some x \<Rightarrow> Some x | None \<Rightarrow> map_option snd (lastFor k ss))"
      using i by (auto simp: pinv_def)
    have s: "shown k (ss @ ?due) = shown k ss @ (case map_of due k of Some (d, ds) \<Rightarrow> if isClear d then [] else [now] | None \<Rightarrow> [])"
      by (simp add: shown_append shown_due [OF sp(3)])
    have gap: "last (shown k ss) + 2 * second \<le> now" if "shown k ss \<noteq> []" "?late"
      using k(4) that n by (auto simp: timeSub_def)
    show "lastSentOf ps' k \<le> now" using k(1) n t by (simp add: e(3))
    show "sorted_wrt (\<lambda>a b. a + 2 * second \<le> b) (shown k (ss @ ?due))"
      unfolding s e(1) using k(2) gap by (auto intro!: sorted_wrt_snoc split: option.splits)
    show "\<forall>x \<in> set (shown k (ss @ ?due)). 0 < x" unfolding s using k(3) t n by (auto split: option.splits)
    show "shown k (ss @ ?due) \<noteq> [] \<longrightarrow> lastSentOf ps' k = last (shown k (ss @ ?due)) \<or> last (shown k (ss @ ?due)) + 2 * second \<le> now"
      unfolding s e(1,3) using k(4) n gap by (auto split: option.splits)
    show "lastFor k os = (case heldOf ps' k of Some x \<Rightarrow> Some x | None \<Rightarrow> map_option snd (lastFor k (ss @ ?due)))"
      using k(5) by (auto simp: lastFor_append lastFor_due [OF sp(3)] e(1,2) split: option.splits)
  qed
qed

lemma preach_inv: "preach ps t os ss \<Longrightarrow> pinv ps t os ss"
proof (induction rule: preach.induct)
  case (start t)
  then show ?case by (simp add: pinv_def lastSentOf_def heldOf_def shown_def lastFor_def)
next
  case (offer ps t os ss now key d ds send ps')
  then show ?case using pinv_offer by blast
next
  case (flush ps t os ss now due ps')
  then show ?case using pinv_flush by blast
qed

text \<open>
  Two non-clearing datagrams of one participant on one subject are given to be sent at least
  two seconds apart, over every sequence of offers and flushes.
\<close>

theorem indicator_interval:
  assumes "preach ps t os ss" "i < j" "j < length (shown key ss)"
  shows "shown key ss ! i + 2 * second \<le> shown key ss ! j"
  using preach_inv [OF assms(1)] assms(2,3) by (simp add: pinv_def sorted_wrt_iff_nth_less)


text \<open>Two offers within a second: the first is sent, the second held.\<close>

definition typing :: "nat \<Rightarrow> indicatorDatagram" where
  "typing n = \<lparr>dHash = replicate 32 5, dIndex = 0, dTTL = 30, dData = ''#''\<rparr>\<lparr>dIndex := of_nat n\<rparr>"

definition heldSample :: pendings where
  "heldSample = [(''k'', \<lparr>pLastSent = 1, pLatest = Some (typing 1), pDomains = [''y.org'']\<rparr>)]"

lemma preach_held:
  "preach heldSample (1 + second) [(''k'', typing 0, [''y.org'']), (''k'', typing 1, [''y.org''])] [(''k'', 1, typing 0, [''y.org''])]"
proof -
  have "offerPending 1 ''k'' (typing 0) [''y.org''] [] = (True, [(''k'', \<lparr>pLastSent = 1, pLatest = None, pDomains = []\<rparr>)])"
    by (simp add: offerPending_def noPending_def isClear_def typing_def)
  from preach.offer [OF preach.start [of 1] _ this]
  have a: "preach [(''k'', \<lparr>pLastSent = 1, pLatest = None, pDomains = []\<rparr>)] 1 [(''k'', typing 0, [''y.org''])] [(''k'', 1, typing 0, [''y.org''])]"
    by simp
  have "offerPending (1 + second) ''k'' (typing 1) [''y.org''] [(''k'', \<lparr>pLastSent = 1, pLatest = None, pDomains = []\<rparr>)]
      = (False, heldSample)"
    by (simp add: offerPending_def isClear_def typing_def heldSample_def timeSub_def)
  note b = this
  from preach.offer [OF a _ b] show ?thesis by simp
qed

lemma preach_both:
  "\<exists>ps. preach ps (1 + 2 * second) [(''k'', typing 0, [''y.org'']), (''k'', typing 1, [''y.org''])]
     [(''k'', 1, typing 0, [''y.org'']), (''k'', 1 + 2 * second, typing 1, [''y.org''])]"
proof -
  have "flushPending (1 + 2 * second) heldSample = ([(''k'', typing 1, [''y.org''])],
      [(''k'', \<lparr>pLastSent = 1 + 2 * second, pLatest = None, pDomains = []\<rparr>)])"
    by (simp add: heldSample_def duePending_def timeSub_def)
  from preach.flush [OF preach_held _ this] show ?thesis by auto
qed

theorem indicator_interval_witness:
  "shown ''k'' [(''k'', 1, typing 0, [''y.org'']), (''k'', 1 + 2 * second, typing 1, [''y.org''])] ! 0 + 2 * second
     \<le> shown ''k'' [(''k'', 1, typing 0, [''y.org'']), (''k'', 1 + 2 * second, typing 1, [''y.org''])] ! 1"
proof -
  obtain ps where "preach ps (1 + 2 * second) [(''k'', typing 0, [''y.org'']), (''k'', typing 1, [''y.org''])]
     [(''k'', 1, typing 0, [''y.org'']), (''k'', 1 + 2 * second, typing 1, [''y.org''])]" using preach_both by blast
  from indicator_interval [OF this, of 0 1 "''k''"] show ?thesis by (simp add: shown_def isClear_def typing_def)
qed


section \<open>The service\<close>

definition indicatorHostRate :: nat where [simp]: "indicatorHostRate = 20"
definition indicatorRecvRate :: f64 where [simp]: "indicatorRecvRate = f64_int 50"
definition indicatorRecvBurst :: f64 where [simp]: "indicatorRecvBurst = f64_int 100"
definition indicatorRecvMaxSources :: nat where [simp]: "indicatorRecvMaxSources = 100000"
definition indicatorRecvWorkers :: nat where [simp]: "indicatorRecvWorkers = 16"

record indicatorNotice =
  nID :: int
  nFrom :: string
  nEmoji :: string
  nTTL :: int

record indicatorStore =
  subjectByHash :: "bytes \<Rightarrow> err + (int \<times> Address list) option"
  subjectsOf :: "int \<Rightarrow> err + indicatorSubject option \<times> indicatorSubject list"
  notifyErr :: "err option"

record indicatorEnv =
  iLib :: golib
  iDomain :: string
  iSkipIPCheck :: bool
  iRemotePort :: int
  iStore :: indicatorStore
  iLookup :: "string \<Rightarrow> err + ip list"
  encNotice :: "indicatorNotice \<Rightarrow> bytes"
  decNotice :: "string \<Rightarrow> indicatorNotice res"

text \<open>The service's state; \<open>wire\<close> is what was written to the socket, \<open>notices\<close> what was published.\<close>

record indicatorService =
  recvLimit :: sourceLimiter
  domainLimit :: windowLimiter
  resolver :: ipCache
  pending :: pendings
  rr :: "(string \<times> u32) list"
  wire :: "(ip \<times> int \<times> bytes) list"
  notices :: "bytes list"

definition newIndicatorService :: indicatorService where
  "newIndicatorService =
     \<lparr>recvLimit = newSourceLimiter indicatorRecvRate indicatorRecvBurst indicatorRecvMaxSources,
      domainLimit = newWindowLimiter indicatorHostRate second, resolver = newIPCache, pending = [], rr = [],
      wire = [], notices = []\<rparr>"

definition isIndicatorLocalDomain :: "indicatorEnv \<Rightarrow> string \<Rightarrow> bool" where
  "isIndicatorLocalDomain E domain = EqualFold (uni (iLib E)) domain (iDomain E)"

type_synonym 'a sio = "(indicatorService, 'a) st"

definition resolveIPs :: "indicatorEnv \<Rightarrow> time \<Rightarrow> string \<Rightarrow> (err + ip list) sio" where
  "resolveIPs E now domain s =
     (case ipCacheGet (uni (iLib E)) (iLookup E) now domain (resolver s) of
        (a, c) \<Rightarrow> (Ok a, s\<lparr>resolver := c\<rparr>))"

definition errIndicatorRateLimited :: err where "errIndicatorRateLimited = Errorf ''indicator: source rate limited''"
definition errIndicatorUnknown :: err where "errIndicatorUnknown = Errorf ''indicator: subject not found''"
definition errIndicatorIndex :: err where "errIndicatorIndex = Errorf ''indicator: index out of range''"
definition errIndicatorLocal :: err where "errIndicatorLocal = Errorf ''indicator: indicating participant is hosted here''"
definition errIndicatorSource :: err where "errIndicatorSource = Errorf ''indicator: source address not authorised''"

definition notify :: "indicatorEnv \<Rightarrow> bytes \<Rightarrow> unit sio" where
  "notify E payload s =
     (case notifyErr (iStore E) of Some e \<Rightarrow> (Err e, s) | None \<Rightarrow> (Ok (), s\<lparr>notices := notices s @ [payload]\<rparr>))"

definition noticeOf :: "int \<Rightarrow> Address \<Rightarrow> indicatorDatagram \<Rightarrow> indicatorNotice" where
  "noticeOf msgID from d =
     (let n = \<lparr>nID = msgID, nFrom = ToString from, nEmoji = dData d, nTTL = int (min (unat (dTTL d)) indicatorTTLMax)\<rparr>
      in if isClear d then n\<lparr>nEmoji := [], nTTL := 0\<rparr> else n)"

definition verifyAndPublish :: "indicatorEnv \<Rightarrow> time \<Rightarrow> bytes \<Rightarrow> ip \<Rightarrow> unit sio" where
  "verifyAndPublish E now b src =
     bindIO (liftIO (parseIndicatorDatagram b)) (\<lambda>d.
       case subjectByHash (iStore E) (dHash d) of
         Inl e \<Rightarrow> failIO e
       | Inr None \<Rightarrow> failIO errIndicatorUnknown
       | Inr (Some (msgID, parts)) \<Rightarrow>
           if unat (dIndex d) \<ge> length parts then failIO errIndicatorIndex
           else let from = parts ! unat (dIndex d)
                in if isIndicatorLocalDomain E (Domain from) then failIO errIndicatorLocal
                   else bindIO (if iSkipIPCheck E then retIO ()
                                else bindIO (resolveIPs E now (Domain from)) (\<lambda>ips.
                                  case ips of
                                    Inl e \<Rightarrow> failIO errIndicatorSource
                                  | Inr as \<Rightarrow> if list_ex (ipEqual src) as then retIO () else failIO errIndicatorSource))
                          (\<lambda>_. notify E (encNotice E (noticeOf msgID from d))))"

text \<open>\<open>IP.String\<close> of the source address is the key of its bucket; \<open>IPString\<close> stands for it.\<close>

definition receive :: "duration \<Rightarrow> (ip \<Rightarrow> string) \<Rightarrow> indicatorEnv \<Rightarrow> time \<Rightarrow> bytes \<Rightarrow> ip \<Rightarrow> unit sio" where
  "receive overflow IPString E now b src s =
     (case sourceAllow overflow (IPString src) now (recvLimit s) of
        (ok, l) \<Rightarrow>
          if \<not> ok then (Err errIndicatorRateLimited, s\<lparr>recvLimit := l\<rparr>)
          else verifyAndPublish E now b src (s\<lparr>recvLimit := l\<rparr>))"

section \<open>Sending\<close>

definition sendTo :: "indicatorEnv \<Rightarrow> time \<Rightarrow> string \<Rightarrow> bytes \<Rightarrow> unit sio" where
  "sendTo E now domain b s =
     (case windowAllow domain now (domainLimit s) of
        (Ok allowed, w) \<Rightarrow>
          let s1 = s\<lparr>domainLimit := w\<rparr>
          in if \<not> allowed then (Ok (), s1)
             else (case resolveIPs E now domain s1 of
                     (Ok (Inr (a # as)), s2) \<Rightarrow>
                       let ips = a # as; i = (case map_of (rr s2) domain of Some i \<Rightarrow> i | None \<Rightarrow> 0);
                           ip = ips ! unat (i mod of_nat (length ips))
                       in (Ok (), s2\<lparr>rr := AList.update domain (i + 1) (rr s2), wire := wire s2 @ [(ip, iRemotePort E, b)]\<rparr>)
                   | (_, s2) \<Rightarrow> (Ok (), s2))
      | (_, w) \<Rightarrow> (Panic, s\<lparr>domainLimit := w\<rparr>))"

fun sendDomains :: "indicatorEnv \<Rightarrow> time \<Rightarrow> bytes \<Rightarrow> string list \<Rightarrow> unit sio" where
  "sendDomains E now b [] = retIO ()"
| "sendDomains E now b (domain # domains) = bindIO (sendTo E now domain b) (\<lambda>_. sendDomains E now b domains)"

definition sendAll :: "indicatorEnv \<Rightarrow> time \<Rightarrow> indicatorDatagram \<Rightarrow> string list \<Rightarrow> unit sio" where
  "sendAll E now d domains = sendDomains E now (marshal d) domains"

definition offer :: "indicatorEnv \<Rightarrow> time \<Rightarrow> string \<Rightarrow> indicatorDatagram \<Rightarrow> string list \<Rightarrow> unit sio" where
  "offer E now key d domains s =
     (case offerPending now key d domains (pending s) of
        (send, ps) \<Rightarrow> (if send then sendAll E now d domains (s\<lparr>pending := ps\<rparr>) else (Ok (), s\<lparr>pending := ps\<rparr>)))"

fun sendDue :: "indicatorEnv \<Rightarrow> time \<Rightarrow> (string \<times> indicatorDatagram \<times> string list) list \<Rightarrow> unit sio" where
  "sendDue E now [] = retIO ()"
| "sendDue E now ((k, d, domains) # due) = bindIO (sendAll E now d domains) (\<lambda>_. sendDue E now due)"

definition flush :: "indicatorEnv \<Rightarrow> time \<Rightarrow> unit sio" where
  "flush E now s =
     (case flushPending now (pending s) of
        (due, ps) \<Rightarrow>
          case windowPrune now (domainLimit s) of
            (Ok u, w) \<Rightarrow> sendDue E now due (s\<lparr>pending := ps, domainLimit := w\<rparr>)
          | (_, w) \<Rightarrow> (Panic, s\<lparr>pending := ps, domainLimit := w\<rparr>))"

text \<open>The key of a subject and index: \<open>%s/%d\<close> of the hexadecimal hash and the index.\<close>

definition hexDigit :: "nat \<Rightarrow> char" where
  "hexDigit n = ''0123456789abcdef'' ! n"

definition hexString :: "bytes \<Rightarrow> string" where
  "hexString b = concat (map (\<lambda>x. [hexDigit (unat x div 16), hexDigit (unat x mod 16)]) b)"

definition indicatorKey :: "bytes \<Rightarrow> u16 \<Rightarrow> string" where
  "indicatorKey hash index = hexString hash @ ''/'' @ decimal (unat index)"

text \<open>Domains grouped by key, keys in the order in which they first occur.\<close>

definition addTarget :: "byte \<Rightarrow> string \<Rightarrow> indicatorTarget \<Rightarrow> (string \<times> indicatorDatagram \<times> string list) list
    \<Rightarrow> (string \<times> indicatorDatagram \<times> string list) list" where
  "addTarget ttl data t groups =
     (let k = indicatorKey (tHash t) (tIndex t)
      in case map_of groups k of
           Some (d, domains) \<Rightarrow> AList.update k (d, domains @ [tDomain t]) groups
         | None \<Rightarrow> groups @ [(k, \<lparr>dHash = tHash t, dIndex = tIndex t, dTTL = ttl, dData = data\<rparr>, [tDomain t])])"

fun offerAll :: "indicatorEnv \<Rightarrow> time \<Rightarrow> (string \<times> indicatorDatagram \<times> string list) list \<Rightarrow> unit sio" where
  "offerAll E now [] = retIO ()"
| "offerAll E now ((k, d, domains) # gs) = bindIO (offer E now k d domains) (\<lambda>_. offerAll E now gs)"

definition handleNotice :: "indicatorEnv \<Rightarrow> time \<Rightarrow> string \<Rightarrow> unit sio" where
  "handleNotice E now payload =
     bindIO (liftIO (decNotice E payload)) (\<lambda>n.
     bindIO (liftIO (parseAddress (uni (iLib E)) (bytes_of (nFrom n)))) (\<lambda>from.
       if \<not> isIndicatorLocalDomain E (Domain from) then retIO ()
       else if nID n \<le> 0 \<or> nTTL n < 0 \<or> \<not> isIndicatorEmoji (nEmoji n) then failIO (Errorf ''invalid indicator notice'')
       else let ttl0 = min (nTTL n) (int indicatorTTLMax);
                (data, ttl) = (if nEmoji n = [] \<or> ttl0 = 0 then ([], 0) else (nEmoji n, ttl0))
            in case subjectsOf (iStore E) (nID n) of
                 Inl e \<Rightarrow> failIO e
               | Inr (original, batches) \<Rightarrow>
                   let targets = selectIndicatorTargets (uni (iLib E)) from original batches (isIndicatorLocalDomain E)
                   in offerAll E now (fold (addTarget (of_int ttl) data) targets [])))"

section \<open>Receiving is sound and silent\<close>

lemma resolveIPs_frame:
  "resolveIPs E now domain s = (Ok (fst (ipCacheGet (uni (iLib E)) (iLookup E) now domain (resolver s))),
     s\<lparr>resolver := snd (ipCacheGet (uni (iLib E)) (iLookup E) now domain (resolver s))\<rparr>)"
  by (simp add: resolveIPs_def split: prod.splits)

lemma verifyAndPublish_cases:
  assumes "verifyAndPublish E now b src s = (r, s')"
  shows "wire s' = wire s \<and> pending s' = pending s \<and> (r = Ok () \<or> notices s' = notices s)"
  using assms
  by (auto simp: verifyAndPublish_def bindIO_def liftIO_def failIO_def retIO_def resolveIPs_frame notify_def Let_def
      split: res.splits sum.splits option.splits if_splits prod.splits)

lemma verifyAndPublish_Ok:
  assumes "verifyAndPublish E now b src s = (Ok u, s')"
  shows "\<exists>d msgID parts. b = marshal d \<and> wfDatagram d \<and> subjectByHash (iStore E) (dHash d) = Inr (Some (msgID, parts))
    \<and> unat (dIndex d) < length parts \<and> \<not> isIndicatorLocalDomain E (Domain (parts ! unat (dIndex d)))
    \<and> (\<not> iSkipIPCheck E \<longrightarrow> (\<exists>ips. fst (ipCacheGet (uni (iLib E)) (iLookup E) now (Domain (parts ! unat (dIndex d))) (resolver s)) = Inr ips
         \<and> list_ex (ipEqual src) ips))
    \<and> notices s' = notices s @ [encNotice E (noticeOf msgID (parts ! unat (dIndex d)) d)]"
proof -
  obtain d where d: "parseIndicatorDatagram b = Ok d"
    using assms by (auto simp: verifyAndPublish_def bindIO_def liftIO_def split: res.splits)
  then have m: "wfDatagram d" "b = marshal d" by (simp_all add: parse_marshal)
  obtain msgID parts where s: "subjectByHash (iStore E) (dHash d) = Inr (Some (msgID, parts))"
    using assms by (auto simp: verifyAndPublish_def bindIO_def liftIO_def d failIO_def split: sum.splits option.splits)
  have "unat (dIndex d) < length parts \<and> \<not> isIndicatorLocalDomain E (Domain (parts ! unat (dIndex d)))
    \<and> (\<not> iSkipIPCheck E \<longrightarrow> (\<exists>ips. fst (ipCacheGet (uni (iLib E)) (iLookup E) now (Domain (parts ! unat (dIndex d))) (resolver s)) = Inr ips
         \<and> list_ex (ipEqual src) ips))
    \<and> notices s' = notices s @ [encNotice E (noticeOf msgID (parts ! unat (dIndex d)) d)]"
    using assms s by (auto simp: verifyAndPublish_def bindIO_def liftIO_def d failIO_def retIO_def resolveIPs_frame notify_def Let_def
        split: sum.splits option.splits if_splits)
  with m s show ?thesis by blast
qed

text \<open>
  C34. A datagram is published only when it is the encoding of a well-formed one, within the rate of
  its source, about a stored message, from a participant hosted elsewhere whose domain authorises
  the source address (unless that check is off); then exactly one notice is published, with a
  time to live of at most 120 seconds that is 0 exactly for a clear.
\<close>

theorem published_verified:
  assumes "receive overflow IPString E now b src s = (Ok u, s')"
  shows "fst (sourceAllow overflow (IPString src) now (recvLimit s)) \<and>
    (\<exists>d msgID parts. b = marshal d \<and> wfDatagram d \<and> subjectByHash (iStore E) (dHash d) = Inr (Some (msgID, parts))
    \<and> unat (dIndex d) < length parts \<and> \<not> isIndicatorLocalDomain E (Domain (parts ! unat (dIndex d)))
    \<and> (\<not> iSkipIPCheck E \<longrightarrow> (\<exists>ips. fst (ipCacheGet (uni (iLib E)) (iLookup E) now (Domain (parts ! unat (dIndex d))) (resolver s)) = Inr ips
         \<and> list_ex (ipEqual src) ips))
    \<and> notices s' = notices s @ [encNotice E (noticeOf msgID (parts ! unat (dIndex d)) d)]
    \<and> nTTL (noticeOf msgID (parts ! unat (dIndex d)) d) \<le> 120
    \<and> (nTTL (noticeOf msgID (parts ! unat (dIndex d)) d) = 0 \<longleftrightarrow> isClear d))"
proof -
  obtain ok l where a: "sourceAllow overflow (IPString src) now (recvLimit s) = (ok, l)" by fastforce
  then have ok: ok and v: "verifyAndPublish E now b src (s\<lparr>recvLimit := l\<rparr>) = (Ok u, s')"
    using assms by (auto simp: receive_def split: if_splits)
  have "nTTL (noticeOf i p d) \<le> 120 \<and> (nTTL (noticeOf i p d) = 0 \<longleftrightarrow> isClear d)" for i p d
    by (auto simp: noticeOf_def Let_def isClear_def min_def unat_eq_zero [symmetric] simp del: unat_eq_zero)
  with verifyAndPublish_Ok [OF v] ok a show ?thesis by auto
qed

text \<open>A host of \<open>y.org\<close> that holds the sample message, and a clear from its sender.\<close>

definition sampleEnv :: indicatorEnv where
  "sampleEnv = \<lparr>iLib = plainZip\<lparr>uni := sampleUni\<rparr>, iDomain = ''y.org'', iSkipIPCheck = True, iRemotePort = 4930,
     iStore = \<lparr>subjectByHash = (\<lambda>h. if h = replicate 32 5 then Inr (Some (7, sParticipants sampleSubject)) else Inr None),
       subjectsOf = (\<lambda>i. Inr (None, [])), notifyErr = None\<rparr>,
     iLookup = (\<lambda>d. Inr []), encNotice = (\<lambda>n. bytes_of (nFrom n)),
     decNotice = (\<lambda>s. Ok \<lparr>nID = 7, nFrom = s, nEmoji = [], nTTL = 0\<rparr>)\<rparr>"

definition sampleClear :: indicatorDatagram where
  "sampleClear = \<lparr>dHash = replicate 32 5, dIndex = 0, dTTL = 0, dData = []\<rparr>"

lemma sample_remote: "\<not> isIndicatorLocalDomain sampleEnv ''x.org''"
  by (simp add: isIndicatorLocalDomain_def sampleEnv_def plainZip_def EqualFold_ascii is_ascii_def)
    (simp add: ToLower_def is_ascii_def toLowerRune_def char_of_def)

lemma sample_published:
  "verifyAndPublish sampleEnv 5 (marshal sampleClear) src s = (Ok (), s\<lparr>notices := notices s @ [bytes_of ''@a@x.org'']\<rparr>)"
proof -
  have "parseIndicatorDatagram (marshal sampleClear) = Ok sampleClear"
    by (simp add: parse_marshal wfDatagram_def sampleClear_def isIndicatorEmoji_def)
  then show ?thesis using sample_remote
    by (simp add: verifyAndPublish_def bindIO_def liftIO_def retIO_def notify_def noticeOf_def sampleEnv_def sampleClear_def
        sampleSubject_def isClear_def ToString_def)
qed

theorem published_verified_witness:
  "\<exists>s'. receive 0 (\<lambda>i. ''192.0.2.1'') sampleEnv 5 (marshal sampleClear) [192, 0, 2, 1] newIndicatorService = (Ok (), s')
     \<and> notices s' = [bytes_of ''@a@x.org'']
     \<and> fst (sourceAllow 0 ''192.0.2.1'' 5 (recvLimit newIndicatorService))"
proof -
  have "fst (sourceAllow 0 ''192.0.2.1'' 5 (recvLimit newIndicatorService))"
    using bucketAllow_same_time [of 100 100 5 50]
    by (simp add: newIndicatorService_def sourceAllow_def newSourceLimiter_def timeSub_def)
  then have r: "receive 0 (\<lambda>i. ''192.0.2.1'') sampleEnv 5 (marshal sampleClear) [192, 0, 2, 1] newIndicatorService =
      (Ok (), newIndicatorService\<lparr>recvLimit := snd (sourceAllow 0 ''192.0.2.1'' 5 (recvLimit newIndicatorService)),
        notices := [bytes_of ''@a@x.org'']\<rparr>)"
    by (auto simp: receive_def sample_published newIndicatorService_def split: prod.splits)
  from published_verified [OF r] r show ?thesis by simp
qed

text \<open>
  Receiving a datagram sends nothing and touches no held change, and a dropped datagram
  publishes nothing.
\<close>

theorem receive_silent:
  "wire (snd (receive overflow IPString E now b src s)) = wire s
   \<and> pending (snd (receive overflow IPString E now b src s)) = pending s
   \<and> (fst (receive overflow IPString E now b src s) = Ok () \<or> notices (snd (receive overflow IPString E now b src s)) = notices s)"
proof -
  obtain ok l where a: "sourceAllow overflow (IPString src) now (recvLimit s) = (ok, l)" by fastforce
  obtain r s' where v: "verifyAndPublish E now b src (s\<lparr>recvLimit := l\<rparr>) = (r, s')" by fastforce
  from verifyAndPublish_cases [OF v] show ?thesis by (simp add: receive_def a v)
qed

text \<open>
  A notice this host publishes for a received datagram is never sent again: handling it changes
  nothing, when notices survive their JSON form and stored participants are valid addresses.
\<close>

theorem no_echo:
  assumes "verifyAndPublish E now b src s = (Ok u, s')"
    and "\<And>d i parts a. b = marshal d \<Longrightarrow> wfDatagram d \<Longrightarrow> subjectByHash (iStore E) (dHash d) = Inr (Some (i, parts)) \<Longrightarrow> a \<in> set parts \<Longrightarrow>
      validAddress (uni (iLib E)) a \<and> decNotice E (string_of (encNotice E (noticeOf i a d))) = Ok (noticeOf i a d)"
  shows "snd (handleNotice E now' (string_of (last (notices s'))) s1) = s1"
proof -
  from verifyAndPublish_Ok [OF assms(1)] obtain d i parts where p: "subjectByHash (iStore E) (dHash d) = Inr (Some (i, parts))"
    "unat (dIndex d) < length parts" "\<not> isIndicatorLocalDomain E (Domain (parts ! unat (dIndex d)))"
    "notices s' = notices s @ [encNotice E (noticeOf i (parts ! unat (dIndex d)) d)]" and d: "b = marshal d" "wfDatagram d" by blast
  let ?a = "parts ! unat (dIndex d)" and ?U = "uni (iLib E)"
  have n: "nFrom (noticeOf i ?a d) = ToString ?a" by (simp add: noticeOf_def Let_def)
  have l: "validAddress ?U ?a" "decNotice E (string_of (encNotice E (noticeOf i ?a d))) = Ok (noticeOf i ?a d)"
    using assms(2) [OF d p(1)] p(2) by simp_all
  have "parseAddress ?U (bytes_of (ToString ?a)) = Ok ?a" by (rule parseAddress_ToString [OF l(1)])
  then show ?thesis
    using n p(3) l(2) by (simp add: handleNotice_def p(4) bindIO_def liftIO_def retIO_def)
qed

lemma sample_valid: "a \<in> set (sParticipants sampleSubject) \<Longrightarrow> validAddress sampleUni a"
  by (auto simp: sampleSubject_def validAddress_def isValidUser_def isValidDomain_def isValidLabel_def domainRune_def
      ValidString_ascii runes_ascii is_ascii_def char_codes_def userSpecial_def IsLetter_def)

lemma marshal_inject: "wfDatagram d \<Longrightarrow> wfDatagram e \<Longrightarrow> marshal d = marshal e \<Longrightarrow> d = e"
  using parse_marshal by (metis res.inject(1))

lemma sampleClear_wf: "wfDatagram sampleClear"
  by (simp add: wfDatagram_def sampleClear_def isIndicatorEmoji_def)

theorem no_echo_witness: "snd (handleNotice sampleEnv 6 ''@a@x.org'' newIndicatorService) = newIndicatorService"
proof -
  have "validAddress (uni (iLib sampleEnv)) a \<and> decNotice sampleEnv (string_of (encNotice sampleEnv (noticeOf i a d))) = Ok (noticeOf i a d)"
    if "marshal sampleClear = marshal d" "wfDatagram d" "subjectByHash (iStore sampleEnv) (dHash d) = Inr (Some (i, parts))" "a \<in> set parts"
    for d i parts a
  proof -
    have "d = sampleClear" using marshal_inject [OF sampleClear_wf that(2,1)] by simp
    moreover from this that(3) have "i = 7" "parts = sParticipants sampleSubject" by (simp_all add: sampleEnv_def sampleClear_def)
    ultimately show ?thesis
      using sample_valid that(4) by (simp add: sampleEnv_def plainZip_def noticeOf_def isClear_def sampleClear_def)
  qed
  from no_echo [where now' = 6 and ?s1.0 = newIndicatorService, OF sample_published [of _ newIndicatorService] this] show ?thesis by simp
qed



end
