(* ===== verification/Store.thy ===== *)
theory Store
  imports Prepare Exchange
begin

text \<open>
  The message store (\<open>src/cmd/fmsgd/store.go\<close>) over the tables of \<open>src/dd.sql\<close>. A table is the list of
  its rows in order of insertion; a statement checks the constraints and triggers of the schema that
  it can fire and may fail for any other reason (\<open>dbfaults\<close>); a transaction that does not commit
  leaves the tables as they were. Notifications, which only wake listeners, are left out.
\<close>

section \<open>Tables\<close>

record msgRow =
  mId :: int
  mVersion :: int
  mPid :: "int option"
  mNoReply :: bool
  mImportant :: bool
  mDeflate :: bool
  mTerminal :: bool
  mTime :: "float64 option"
  mFrom :: string
  mTopic :: string
  mType :: string
  mSha :: "bytes option"
  mPsha :: "bytes option"
  mSize :: int
  mPath :: string
  mWireHeader :: "bytes option"
  mWire :: "bytes option"

text \<open>Rows of \<open>msg_to\<close> (batch 0) and of \<open>msg_add_to\<close>.\<close>

record rcptRow =
  rId :: int
  rMsg :: int
  rBatch :: int
  rAddr :: string
  rDelivered :: "float64 option"
  rLastAttempt :: "float64 option"
  rCode :: "int option"
  rAttempts :: int

record batchRow =
  bId :: int
  bMsg :: int
  bFrom :: string
  bTime :: float64
  bSha :: "bytes option"
  bWire :: "bytes option"

record attRow =
  tMsg :: int
  tPosition :: int
  tFlags :: int
  tType :: string
  tFilename :: string
  tFilesize :: int
  tFilepath :: string

text \<open>A participant domain that is owed a batch although it hosts none of its recipients.\<close>

record notifyRow =
  nId :: int
  nBatch :: int
  nDomain :: string
  nNotified :: "float64 option"
  nLastAttempt :: "float64 option"
  nCode :: "int option"
  nAttempts :: int

record tables =
  msgs :: "msgRow list"
  tos :: "rcptRow list"
  batches :: "batchRow list"
  addTos :: "rcptRow list"
  atts :: "attRow list"
  notifies :: "notifyRow list"

text \<open>
  \<open>seq\<close> is the next value of the tables' sequences, which no rollback takes back. A fault makes a
  statement fail; on a commit, \<open>AckLost\<close> loses only the acknowledgement.
\<close>

datatype dbfault = StmtOk | StmtFails | AckLost

record db =
  tabs :: tables
  seq :: int
  dbfaults :: "dbfault list"

type_synonym 'a qio = "(db, 'a) st"

text \<open>\<open>jsonb\<close>: what a document reads back as, \<open>None\<close> when it is not accepted.\<close>

record pgEnv =
  jsonb :: "bytes \<Rightarrow> bytes option"

section \<open>Statements\<close>

definition dbErr :: err where "dbErr = StoreErr"

definition stmt :: "'a qio \<Rightarrow> 'a qio" where
  "stmt f s =
     (case dbfaults s of
        [] \<Rightarrow> f s
      | x # xs \<Rightarrow> if x = StmtOk then f (s\<lparr>dbfaults := xs\<rparr>) else (Err dbErr, s\<lparr>dbfaults := xs\<rparr>))"

definition query :: "(tables \<Rightarrow> 'a) \<Rightarrow> 'a qio" where
  "query q = stmt (\<lambda>s. (Ok (q (tabs s)), s))"

text \<open>An update that the schema may refuse.\<close>

definition exec :: "(tables \<Rightarrow> tables option) \<Rightarrow> unit qio" where
  "exec u = stmt (\<lambda>s. case u (tabs s) of Some t \<Rightarrow> (Ok (), s\<lparr>tabs := t\<rparr>) | None \<Rightarrow> (Err dbErr, s))"

text \<open>\<open>insert ... returning id\<close>.\<close>

definition insertId :: "(int \<Rightarrow> tables \<Rightarrow> tables option) \<Rightarrow> int qio" where
  "insertId u = stmt (\<lambda>s. case u (seq s) (tabs s) of
     Some t \<Rightarrow> (Ok (seq s), s\<lparr>tabs := t, seq := seq s + 1\<rparr>)
   | None \<Rightarrow> (Err dbErr, s\<lparr>seq := seq s + 1\<rparr>))"

definition pgText :: "string \<Rightarrow> bool" where
  "pgText s \<longleftrightarrow> ValidString s \<and> CHR 0x00 \<notin> set s"

definition varchar255 :: "string \<Rightarrow> bool" where
  "varchar255 s \<longleftrightarrow> pgText s \<and> length (runes s) \<le> 255"

definition int4 :: "int \<Rightarrow> bool" where
  "int4 v \<longleftrightarrow> - 2147483648 \<le> v \<and> v < 2147483648"

definition msgAt :: "tables \<Rightarrow> int \<Rightarrow> msgRow option" where
  "msgAt t i = find (\<lambda>m. mId m = i) (msgs t)"

definition batchAt :: "tables \<Rightarrow> int \<Rightarrow> batchRow option" where
  "batchAt t i = find (\<lambda>b. bId b = i) (batches t)"

text \<open>What the deferred triggers require of a sent message and its batches when a transaction commits.\<close>

definition finalBatch :: "batchRow \<Rightarrow> bool" where
  "finalBatch b \<longleftrightarrow> (case bSha b of Some h \<Rightarrow> length h = 32 | None \<Rightarrow> False) \<and> bWire b \<noteq> None"

definition sentMsgOK :: "tables \<Rightarrow> msgRow \<Rightarrow> bool" where
  "sentMsgOK t m \<longleftrightarrow>
     (case mSha m of Some h \<Rightarrow> length h = 32 | None \<Rightarrow> False)
     \<and> (mWire m \<noteq> None \<or> list_ex (\<lambda>b. bMsg b = mId m \<and> bSha b \<noteq> None \<and> bWire b \<noteq> None) (batches t))
     \<and> list_all (\<lambda>b. bMsg b = mId m \<longrightarrow> finalBatch b) (batches t)"

definition commitOK :: "tables \<Rightarrow> bool" where
  "commitOK t \<longleftrightarrow> list_all (\<lambda>m. mTime m \<noteq> None \<longrightarrow> sentMsgOK t m) (msgs t)"

definition rollback :: "tables \<Rightarrow> db \<Rightarrow> db" where
  "rollback t s = s\<lparr>tabs := t\<rparr>"

text \<open>\<open>Begin\<close>, the body, \<open>Commit\<close>; the deferred \<open>Rollback\<close> undoes what did not commit.\<close>

definition transaction :: "'a qio \<Rightarrow> 'a qio" where
  "transaction f = stmt (\<lambda>s0.
     case f s0 of
       (Ok x, s) \<Rightarrow>
         (if \<not> commitOK (tabs s) then (Err dbErr, rollback (tabs s0) s)
          else case dbfaults s of
            [] \<Rightarrow> (Ok x, s)
          | StmtOk # fs \<Rightarrow> (Ok x, s\<lparr>dbfaults := fs\<rparr>)
          | StmtFails # fs \<Rightarrow> (Err dbErr, rollback (tabs s0) (s\<lparr>dbfaults := fs\<rparr>))
          | AckLost # fs \<Rightarrow> (Err dbErr, s\<lparr>dbfaults := fs\<rparr>))
     | (r, s) \<Rightarrow> (r, rollback (tabs s0) s))"

section \<open>Lookups\<close>

definition msgBySha :: "tables \<Rightarrow> bytes \<Rightarrow> msgRow option" where
  "msgBySha t hash = find (\<lambda>m. mSha m = Some hash) (msgs t)"

definition batchBySha :: "tables \<Rightarrow> bytes \<Rightarrow> batchRow option" where
  "batchBySha t hash = find (\<lambda>b. bSha b = Some hash) (batches t)"

definition lookupMsgIdByHashDb :: "bytes \<Rightarrow> int qio" where
  "lookupMsgIdByHashDb hash = query (\<lambda>t. case msgBySha t hash of Some m \<Rightarrow> mId m | None \<Rightarrow> 0)"

text \<open>\<open>split_part(s, '@', 3)\<close> and the thread walk: the message and its ancestors, at most 256 rows, none twice.\<close>

definition splitPart3 :: "string \<Rightarrow> string" where
  "splitPart3 s = (let ps = Split s CHR ''@'' in if length ps < 3 then [] else ps ! 2)"

definition maxThreadWalkDepth :: nat where [simp]: "maxThreadWalkDepth = 256"

fun threadWalk :: "tables \<Rightarrow> nat \<Rightarrow> int list \<Rightarrow> msgRow \<Rightarrow> msgRow list" where
  "threadWalk t 0 seen m = [m]"
| "threadWalk t (Suc n) seen m =
     m # (case mPid m of
            None \<Rightarrow> []
          | Some p \<Rightarrow> if p \<in> set seen then []
                      else case msgAt t p of None \<Rightarrow> [] | Some q \<Rightarrow> threadWalk t n (p # seen) q)"

definition threadRoots :: "tables \<Rightarrow> bytes \<Rightarrow> msgRow list" where
  "threadRoots t hash =
     filter (\<lambda>m. mSha m = Some hash \<or> list_ex (\<lambda>b. bSha b = Some hash \<and> bMsg b = mId m) (batches t)) (msgs t)"

definition threadHasFromDomain :: "unicode \<Rightarrow> bytes \<Rightarrow> string \<Rightarrow> bool qio" where
  "threadHasFromDomain U hash domain =
     (if hash = [] \<or> domain = [] then retIO False
      else query (\<lambda>t. list_ex (\<lambda>m. list_ex (\<lambda>q. ToLower U (splitPart3 (mFrom q)) = ToLower U domain)
                    (threadWalk t (maxThreadWalkDepth - 1) [mId m] m)) (threadRoots t hash)))"

definition receivedBy :: "unicode \<Rightarrow> tables \<Rightarrow> bytes \<Rightarrow> string \<Rightarrow> bool" where
  "receivedBy U t hash addr \<longleftrightarrow>
     list_ex (\<lambda>m. mSha m = Some hash \<and>
       (list_ex (\<lambda>r. rMsg r = mId m \<and> ToLower U (rAddr r) = addr \<and> rDelivered r \<noteq> None) (tos t)
        \<or> list_ex (\<lambda>r. rMsg r = mId m \<and> ToLower U (rAddr r) = addr \<and> rDelivered r \<noteq> None) (addTos t))) (msgs t)"

definition hasAddrReceivedMsgHash :: "unicode \<Rightarrow> bytes \<Rightarrow> Address option \<Rightarrow> bool qio" where
  "hasAddrReceivedMsgHash U hash addr =
     (case addr of
        None \<Rightarrow> retIO False
      | Some a \<Rightarrow>
          if hash = [] then retIO False
          else query (\<lambda>t. receivedBy U t hash (ToLower U (ToString a))))"

definition addToBatchRecordedDb :: "int \<Rightarrow> bytes \<Rightarrow> bool qio" where
  "addToBatchRecordedDb msgID batchHash =
     (if batchHash = [] then retIO False
      else query (\<lambda>t. list_ex (\<lambda>b. bMsg b = msgID \<and> bSha b = Some batchHash) (batches t)))"

definition isStoredMsgTerminal :: "bytes \<Rightarrow> bool qio" where
  "isStoredMsgTerminal hash =
     (if hash = [] then retIO False
      else query (\<lambda>t. case msgBySha t hash of
             Some m \<Rightarrow> mTerminal m
           | None \<Rightarrow> (case batchBySha t hash of
               Some b \<Rightarrow> (case msgAt t (bMsg b) of Some m \<Rightarrow> mTerminal m | None \<Rightarrow> False)
             | None \<Rightarrow> False)))"

section \<open>Parents\<close>

text \<open>The trigger that ties a reply to its parent, for a row whose \<open>pid\<close> is being set.\<close>

definition parentLinkOK :: "tables \<Rightarrow> msgRow \<Rightarrow> int \<Rightarrow> msgRow option" where
  "parentLinkOK t m p =
     (case msgAt t p of
        None \<Rightarrow> None
      | Some parent \<Rightarrow>
          (case mSha parent of
             Some h \<Rightarrow>
               if mTime parent = None \<or> mTerminal parent \<or> length h \<noteq> 32 then None
               else (case mPsha m of
                       None \<Rightarrow> Some (m\<lparr>mPid := Some p, mPsha := Some h\<rparr>)
                     | Some ps \<Rightarrow>
                         if ps = [] then Some (m\<lparr>mPid := Some p, mPsha := Some h\<rparr>)
                         else if ps = h \<or> list_ex (\<lambda>b. bMsg b = p \<and> bSha b = Some ps) (batches t)
                         then Some (m\<lparr>mPid := Some p\<rparr>) else None)
           | None \<Rightarrow> None))"

fun updRows :: "('a \<Rightarrow> 'a option) \<Rightarrow> 'a list \<Rightarrow> 'a list option" where
  "updRows f [] = Some []"
| "updRows f (x # xs) = (case f x of None \<Rightarrow> None | Some y \<Rightarrow> map_option ((#) y) (updRows f xs))"

definition lookupParentID :: "bytes \<Rightarrow> int qio" where
  "lookupParentID parentHash =
     query (\<lambda>t. case msgBySha t parentHash of
        Some m \<Rightarrow> mId m
      | None \<Rightarrow> (case batchBySha t parentHash of Some b \<Rightarrow> bMsg b | None \<Rightarrow> 0))"

definition setParentID :: "int \<Rightarrow> int \<Rightarrow> unit qio" where
  "setParentID msgID parentID =
     exec (\<lambda>t. map_option (\<lambda>ms. t\<lparr>msgs := ms\<rparr>)
       (updRows (\<lambda>m. if mId m = msgID then parentLinkOK t m parentID else Some m) (msgs t)))"

definition setPendingChildrenParentID :: "int \<Rightarrow> bytes \<Rightarrow> unit qio" where
  "setPendingChildrenParentID parentID parentHash =
     exec (\<lambda>t. map_option (\<lambda>ms. t\<lparr>msgs := ms\<rparr>)
       (updRows (\<lambda>m. if mPsha m = Some parentHash \<and> mPid m = None then parentLinkOK t m parentID else Some m) (msgs t)))"

definition resolveStoredParent :: "int \<Rightarrow> bytes \<Rightarrow> bool \<Rightarrow> unit qio" where
  "resolveStoredParent msgID parentHash requireParent =
     (if parentHash = [] then retIO ()
      else bindIO (lookupParentID parentHash) (\<lambda>parentID.
        if parentID = 0 then
          (if requireParent then failIO (Errorf ''parent message not found for psha256'') else retIO ())
        else setParentID msgID parentID))"

definition resolvePendingChildLinks :: "int \<Rightarrow> bytes \<Rightarrow> unit qio" where
  "resolvePendingChildLinks parentID parentHash =
     (if parentHash = [] then retIO () else setPendingChildrenParentID parentID parentHash)"

definition resolveMsgParentLinks :: "int \<Rightarrow> bytes \<Rightarrow> bytes \<Rightarrow> bool \<Rightarrow> unit qio" where
  "resolveMsgParentLinks msgID msgHash parentHash requireParent =
     bindIO (resolveStoredParent msgID parentHash requireParent) (\<lambda>_. resolvePendingChildLinks msgID msgHash)"

definition requiresStoredParent :: "Header \<Rightarrow> bool" where
  "requiresStoredParent h \<longleftrightarrow> Pid h \<noteq> [] \<and> \<not> hasFlag (Flags h) FlagHasAddTo"

definition wirePidForLoadedMessage :: "bytes \<Rightarrow> bytes \<Rightarrow> bool \<Rightarrow> bytes" where
  "wirePidForLoadedMessage storedParentHash msgHash hasAddTo = (if hasAddTo then msgHash else storedParentHash)"

definition canonicalMsgHash :: "golib \<Rightarrow> fsys \<Rightarrow> Header \<Rightarrow> (bytes \<times> Header) res" where
  "canonicalMsgHash L fs h =
     (if hasFlag (Flags h) FlagHasAddTo then Ok (Pid h, h) else GetMessageHash L fs h)"

definition relationalParentHash :: "Header \<Rightarrow> bytes" where
  "relationalParentHash h = (if hasFlag (Flags h) FlagHasAddTo then [] else Pid h)"

section \<open>Loading messages\<close>

record storeEnv =
  sLib :: golib
  sJson :: json
  sPg :: pgEnv
  sDomain :: string

definition ErrNoRows :: err where "ErrNoRows = Errorf ''sql: no rows in result set''"

record msgFields =
  parentPid :: bytes
  storedHash :: bytes
  wireForm :: "Header option"
  isTerminal :: bool

record addToBatch =
  batchID :: int
  batchFrom :: Address
  TimeAdded :: float64
  Recipients :: "Address list"
  Prepared :: bytes
  bHash :: bytes

definition nullable :: "bytes option \<Rightarrow> bytes" where
  "nullable b = (case b of Some x \<Rightarrow> x | None \<Rightarrow> [])"

definition loadMsgFields :: "storeEnv \<Rightarrow> fsys \<Rightarrow> int \<Rightarrow> msgFields qio" where
  "loadMsgFields E fs msgID =
     bindIO (query (\<lambda>t. find (\<lambda>m. mId m = msgID \<and> mTime m \<noteq> None) (msgs t))) (\<lambda>row.
       case row of
         None \<Rightarrow> failIO ErrNoRows
       | Some m \<Rightarrow>
           let hash = nullable (mSha m); prepared = nullable (mWire m)
           in if length hash \<noteq> 32 then failIO (Errorf ''message has no finalized identity'')
              else bindIO (if prepared = [] then retIO None
                           else bindIO (liftIO (UnmarshalPrepared (sLib E) fs (sJson E) prepared hash)) (\<lambda>h. retIO (Some h)))
                     (\<lambda>w. retIO \<lparr>parentPid = nullable (mPsha m), storedHash = hash, wireForm = w, isTerminal = mTerminal m\<rparr>))"

fun parseAll :: "unicode \<Rightarrow> string list \<Rightarrow> Address list res" where
  "parseAll U [] = Ok []"
| "parseAll U (a # as) =
     (case parseAddress U (bytes_of a) of
        Ok x \<Rightarrow> bindR (parseAll U as) (\<lambda>xs. Ok (x # xs))
      | _ \<Rightarrow> Err (Errorf ''invalid address''))"

definition loadRecipientAddrs :: "storeEnv \<Rightarrow> (tables \<Rightarrow> string list) \<Rightarrow> Address list qio" where
  "loadRecipientAddrs E q = bindIO (query q) (\<lambda>as. liftIO (parseAll (uni (sLib E)) as))"

text \<open>\<open>ORDER BY time_added, id\<close>: doubles with NaN last.\<close>

definition pgLess :: "float64 \<Rightarrow> float64 \<Rightarrow> bool" where
  "pgLess a b \<longleftrightarrow> (let x = f64_of_bits a; y = f64_of_bits b in f64_less x y \<or> (x \<noteq> NaN \<and> y = NaN))"

definition batchBefore :: "batchRow \<Rightarrow> batchRow \<Rightarrow> bool" where
  "batchBefore b c \<longleftrightarrow> pgLess (bTime b) (bTime c) \<or> (\<not> pgLess (bTime c) (bTime b) \<and> bId b \<le> bId c)"

fun insertBatch :: "batchRow \<Rightarrow> batchRow list \<Rightarrow> batchRow list" where
  "insertBatch b [] = [b]"
| "insertBatch b (c # cs) = (if batchBefore b c then b # c # cs else c # insertBatch b cs)"

definition batchAddrs :: "tables \<Rightarrow> int \<Rightarrow> string list" where
  "batchAddrs t b = map rAddr (filter (\<lambda>r. rBatch r = b) (addTos t))"

fun loadBatches :: "unicode \<Rightarrow> tables \<Rightarrow> batchRow list \<Rightarrow> addToBatch list res" where
  "loadBatches U t [] = Ok []"
| "loadBatches U t (b # bs) =
     (case parseAddress U (bytes_of (bFrom b)) of
        Ok from \<Rightarrow>
          bindR (parseAll U (batchAddrs t (bId b))) (\<lambda>rs.
          bindR (loadBatches U t bs) (\<lambda>xs.
            Ok (\<lparr>batchID = bId b, batchFrom = from, TimeAdded = bTime b, Recipients = rs,
                 Prepared = nullable (bWire b), bHash = nullable (bSha b)\<rparr> # xs)))
      | _ \<Rightarrow> Err (Errorf ''invalid add_to_from address''))"

definition loadAddToBatches :: "storeEnv \<Rightarrow> int \<Rightarrow> addToBatch list qio" where
  "loadAddToBatches E msgID =
     bindIO (query (\<lambda>t. loadBatches (uni (sLib E)) t (foldr insertBatch (filter (\<lambda>b. bMsg b = msgID) (batches t)) [])))
       liftIO"

definition loadMsg :: "storeEnv \<Rightarrow> fsys \<Rightarrow> int \<Rightarrow> Header qio" where
  "loadMsg E fs msgID =
     bindIO (loadMsgFields E fs msgID) (\<lambda>m.
     bindIO (loadRecipientAddrs E (\<lambda>t. map rAddr (filter (\<lambda>r. rMsg r = msgID) (addTos t)))) (\<lambda>addTo.
     bindIO (case wireForm m of
               Some w \<Rightarrow> retIO (Some (Clone w))
             | None \<Rightarrow>
                 bindIO (loadAddToBatches E msgID) (\<lambda>bs.
                   case find (\<lambda>b. Prepared b \<noteq> []) bs of
                     None \<Rightarrow> retIO None
                   | Some b \<Rightarrow> bindIO (liftIO (UnmarshalPrepared (sLib E) fs (sJson E) (Prepared b) (bHash b)))
                                 (\<lambda>h. retIO (Some h))))
       (\<lambda>h. case h of
          None \<Rightarrow> failIO (Errorf ''message has no finalized representation'')
        | Some w \<Rightarrow>
            if addTo = [] then retIO w
            else retIO (w\<lparr>Flags := Flags w OR FlagHasPid OR FlagHasAddTo, Pid := storedHash m, AddTo := addTo\<rparr>))))"

definition getMsgByIDDb :: "storeEnv \<Rightarrow> fsys \<Rightarrow> int \<Rightarrow> Header option qio" where
  "getMsgByIDDb E fs msgID = stmt (\<lambda>s.
     case loadMsg E fs msgID s of
       (Ok h, s') \<Rightarrow> (Ok (Some h), s')
     | (Err e, s') \<Rightarrow> if e = ErrNoRows then (Ok None, s') else (Err e, s')
     | (Panic, s') \<Rightarrow> (Panic, s')
     | (Diverge, s') \<Rightarrow> (Diverge, s'))"

definition getMsgByBatchHashDb :: "storeEnv \<Rightarrow> fsys \<Rightarrow> bytes \<Rightarrow> Header option qio" where
  "getMsgByBatchHashDb E fs batchHash =
     (if batchHash = [] then retIO None
      else stmt (bindIO (query (\<lambda>t. batchBySha t batchHash)) (\<lambda>b.
        case b of
          None \<Rightarrow> retIO None
        | Some r \<Rightarrow> bindIO (liftIO (UnmarshalPrepared (sLib E) fs (sJson E) (nullable (bWire r)) batchHash))
                      (\<lambda>h. retIO (Some h)))))"

section \<open>Storing messages\<close>

definition localResponseCodeNotOurDelivery :: int where [simp]: "localResponseCodeNotOurDelivery = - 2"

definition existingMsgIDForAddTo :: "Header \<Rightarrow> bytes \<Rightarrow> int qio" where
  "existingMsgIDForAddTo h msgHash =
     (if \<not> hasFlag (Flags h) FlagHasAddTo \<or> msgHash = [] then retIO 0
      else query (\<lambda>t. case msgBySha t msgHash of Some m \<Rightarrow> mId m | None \<Rightarrow> 0))"

definition insertAddToBatch :: "int \<Rightarrow> string \<Rightarrow> float64 \<Rightarrow> int qio" where
  "insertAddToBatch msgID addToFrom now =
     insertId (\<lambda>i t.
       case msgAt t msgID of
         None \<Rightarrow> None
       | Some m \<Rightarrow>
           if mTerminal m \<or> \<not> varchar255 addToFrom then None
           else Some (t\<lparr>batches := batches t @ [\<lparr>bId = i, bMsg = msgID, bFrom = addToFrom, bTime = now, bSha = None, bWire = None\<rparr>]\<rparr>))"

definition newRcpt :: "int \<Rightarrow> int \<Rightarrow> int \<Rightarrow> string \<Rightarrow> float64 option \<Rightarrow> int option \<Rightarrow> rcptRow" where
  "newRcpt i msgID batch addr delivered code =
     \<lparr>rId = i, rMsg = msgID, rBatch = batch, rAddr = addr, rDelivered = delivered, rLastAttempt = None, rCode = code, rAttempts = 0\<rparr>"

text \<open>Inserting a recipient row; with \<open>ignore\<close> set, \<open>on conflict do nothing\<close>.\<close>

definition insertTo :: "bool \<Rightarrow> int \<Rightarrow> string \<Rightarrow> float64 option \<Rightarrow> int option \<Rightarrow> unit qio" where
  "insertTo ignore msgID addr delivered code =
     bindIO (insertId (\<lambda>i t.
       if \<not> varchar255 addr then None
       else if list_ex (\<lambda>r. rMsg r = msgID \<and> rAddr r = addr) (tos t) then (if ignore then Some t else None)
       else case msgAt t msgID of
         None \<Rightarrow> None
       | Some m \<Rightarrow> if mTime m \<noteq> None then None else Some (t\<lparr>tos := tos t @ [newRcpt i msgID 0 addr delivered code]\<rparr>)))
       (\<lambda>_. retIO ())"

definition insertAddTo :: "bool \<Rightarrow> int \<Rightarrow> int \<Rightarrow> string \<Rightarrow> float64 option \<Rightarrow> int option \<Rightarrow> unit qio" where
  "insertAddTo ignore msgID batch addr delivered code =
     bindIO (insertId (\<lambda>i t.
       if \<not> varchar255 addr then None
       else if list_ex (\<lambda>r. rBatch r = batch \<and> rAddr r = addr) (addTos t) then (if ignore then Some t else None)
       else case batchAt t batch of
         None \<Rightarrow> None
       | Some b \<Rightarrow> if bMsg b \<noteq> msgID \<or> bSha b \<noteq> None then None
                   else Some (t\<lparr>addTos := addTos t @ [newRcpt i msgID batch addr delivered code]\<rparr>)))
       (\<lambda>_. retIO ())"

text \<open>The recipient loops: each recipient's delivery time and code, then its row.\<close>

fun insertTos :: "bool \<Rightarrow> int \<Rightarrow> (Address \<Rightarrow> float64 option \<times> int option) \<Rightarrow> Address list \<Rightarrow> unit qio" where
  "insertTos ignore msgID outcome [] = retIO ()"
| "insertTos ignore msgID outcome (a # as) =
     bindIO (insertTo ignore msgID (ToString a) (fst (outcome a)) (snd (outcome a))) (\<lambda>_. insertTos ignore msgID outcome as)"

fun insertAddTos :: "bool \<Rightarrow> int \<Rightarrow> int \<Rightarrow> (Address \<Rightarrow> float64 option \<times> int option) \<Rightarrow> Address list \<Rightarrow> unit qio" where
  "insertAddTos ignore msgID batch outcome [] = retIO ()"
| "insertAddTos ignore msgID batch outcome (a # as) =
     bindIO (insertAddTo ignore msgID batch (ToString a) (fst (outcome a)) (snd (outcome a)))
       (\<lambda>_. insertAddTos ignore msgID batch outcome as)"

definition sealBatchRow :: "pgEnv \<Rightarrow> int \<Rightarrow> bytes \<Rightarrow> bytes \<Rightarrow> tables \<Rightarrow> tables option" where
  "sealBatchRow P i hash data t =
     (case jsonb P data of
        None \<Rightarrow> None
      | Some j \<Rightarrow>
          map_option (\<lambda>bs. t\<lparr>batches := bs\<rparr>)
            (updRows (\<lambda>b. if bId b \<noteq> i then Some b
                           else if bSha b \<noteq> None \<and> (bSha b \<noteq> Some hash \<or> bWire b \<noteq> Some j) then None
                           else Some (b\<lparr>bSha := Some hash, bWire := Some j\<rparr>)) (batches t)))"

definition sealReceivedBatch :: "storeEnv \<Rightarrow> int \<Rightarrow> Header \<Rightarrow> bytes \<Rightarrow> unit qio" where
  "sealReceivedBatch E i h hash =
     bindIO (if StoredWire h \<noteq> [] then retIO (StoredWire h) else liftIO (MarshalPrepared (sJson E) h)) (\<lambda>data.
       exec (sealBatchRow (sPg E) i hash data))"

text \<open>One add-to batch of a message: its row, its recipients, its seal.\<close>

definition storeBatch :: "storeEnv \<Rightarrow> fsys \<Rightarrow> bool \<Rightarrow> int \<Rightarrow> (Address \<Rightarrow> float64 option \<times> int option) \<Rightarrow> Header \<Rightarrow> Header qio" where
  "storeBatch E fs ignore msgID outcome h =
     (let addToFrom = (case AddToFrom h of Some a \<Rightarrow> ToString a | None \<Rightarrow> [])
      in bindIO (liftIO (case GetMessageHash (sLib E) fs h of Err e \<Rightarrow> Err (Errorf ''compute add-to batch hash'') | r \<Rightarrow> r)) (\<lambda>(hash, h').
         bindIO (insertAddToBatch msgID addToFrom (Timestamp h')) (\<lambda>batch.
         bindIO (insertAddTos ignore msgID batch outcome (AddTo h')) (\<lambda>_.
         bindIO (sealReceivedBatch E batch h' hash) (\<lambda>_. retIO h')))))"

text \<open>\<open>attachAddToRecipients\<close> takes every recipient on this very domain as delivered.\<close>

definition attachOutcome :: "storeEnv \<Rightarrow> float64 \<Rightarrow> Address \<Rightarrow> float64 option \<times> int option" where
  "attachOutcome E now a =
     (if Domain a = sDomain E then (Some now, None) else (None, Some localResponseCodeNotOurDelivery))"

definition attachAddToRecipients :: "storeEnv \<Rightarrow> fsys \<Rightarrow> float64 \<Rightarrow> int \<Rightarrow> Header \<Rightarrow> Header qio" where
  "attachAddToRecipients E fs now msgID h =
     bindIO (insertTos True msgID (attachOutcome E now) (To h)) (\<lambda>_.
       if AddTo h = [] then retIO h else storeBatch E fs True msgID (attachOutcome E now) h)"

definition inboundRecipientRow :: "unicode \<Rightarrow> (string \<Rightarrow> byte option) \<Rightarrow> float64 \<Rightarrow> Address \<Rightarrow> float64 option \<times> int option" where
  "inboundRecipientRow U localOutcome now a =
     (case localOutcome (ToLower U (ToString a)) of
        None \<Rightarrow> (None, Some localResponseCodeNotOurDelivery)
      | Some c \<Rightarrow> if c = RejectCodeAccept then (Some now, None) else (None, Some (uint c)))"

definition insertMsg :: "Header \<Rightarrow> bytes \<Rightarrow> int qio" where
  "insertMsg h parentHash =
     insertId (\<lambda>i t.
       if \<not> (varchar255 (ToString (From h)) \<and> varchar255 (Topic h) \<and> varchar255 (Type h) \<and> pgText (Filepath h)
             \<and> int4 (uint (Size h))) then None
       else Some (t\<lparr>msgs := msgs t @
         [\<lparr>mId = i, mVersion = uint (Version h), mPid = None, mNoReply = hasFlag (Flags h) FlagNoReply,
           mImportant = hasFlag (Flags h) FlagImportant, mDeflate = hasFlag (Flags h) FlagDeflate,
           mTerminal = hasFlag (Flags h) FlagTerminal, mTime = None, mFrom = ToString (From h), mTopic = Topic h,
           mType = Type h, mSha = None, mPsha = (if parentHash = [] then None else Some parentHash),
           mSize = uint (Size h), mPath = Filepath h, mWireHeader = Some (Encode h), mWire = None\<rparr>]\<rparr>))"

fun insertAttachments :: "int \<Rightarrow> nat \<Rightarrow> AttachmentHeader list \<Rightarrow> unit qio" where
  "insertAttachments msgID i [] = retIO ()"
| "insertAttachments msgID i (a # as) =
     bindIO (exec (\<lambda>t.
       if \<not> (varchar255 (aType a) \<and> varchar255 (aFilename a) \<and> pgText (aFilepath a) \<and> int4 (uint (aSize a)))
          \<or> list_ex (\<lambda>r. tMsg r = msgID \<and> tFilename r = aFilename a) (atts t)
          \<or> (case msgAt t msgID of None \<Rightarrow> True | Some m \<Rightarrow> mTime m \<noteq> None) then None
       else Some (t\<lparr>atts := atts t @ [\<lparr>tMsg = msgID, tPosition = int i, tFlags = uint (aFlags a), tType = aType a,
              tFilename = aFilename a, tFilesize = uint (aSize a), tFilepath = aFilepath a\<rparr>]\<rparr>)))
       (\<lambda>_. insertAttachments msgID (Suc i) as)"

text \<open>\<open>UPDATE msg SET time_sent, sha256, wire_message\<close>: a draft becomes a sent message.\<close>

definition finalizeMsgRow :: "pgEnv \<Rightarrow> int \<Rightarrow> float64 \<Rightarrow> bytes \<Rightarrow> bytes option \<Rightarrow> tables \<Rightarrow> tables option" where
  "finalizeMsgRow P i time hash snapshot t =
     (case (case snapshot of None \<Rightarrow> Some None | Some d \<Rightarrow> map_option Some (jsonb P d)) of
        None \<Rightarrow> None
      | Some w \<Rightarrow>
          if list_ex (\<lambda>m. mId m \<noteq> i \<and> mSha m = Some hash) (msgs t) then None
          else map_option (\<lambda>ms. t\<lparr>msgs := ms\<rparr>)
            (updRows (\<lambda>m. if mId m \<noteq> i then Some m
                           else if mTime m \<noteq> None then None
                           else Some (m\<lparr>mTime := Some time, mSha := Some hash, mWire := w\<rparr>)) (msgs t)))"

definition storeMsgDetail :: "storeEnv \<Rightarrow> fsys \<Rightarrow> float64 \<Rightarrow> Header \<Rightarrow> (string \<Rightarrow> byte option) \<Rightarrow> unit qio" where
  "storeMsgDetail E fs now h0 localOutcome = transaction (
     bindIO (liftIO (canonicalMsgHash (sLib E) fs h0)) (\<lambda>(msgHash, h).
     let parentHash = relationalParentHash h in
     bindIO (existingMsgIDForAddTo h msgHash) (\<lambda>existingID.
       if existingID \<noteq> 0 then bindIO (attachAddToRecipients E fs now existingID h) (\<lambda>_. retIO ())
       else
         bindIO (insertMsg h parentHash) (\<lambda>msgID.
         let outcome = inboundRecipientRow (uni (sLib E)) localOutcome now in
         bindIO (insertTos False msgID outcome (To h)) (\<lambda>_.
         bindIO (if AddTo h \<noteq> [] then storeBatch E fs False msgID outcome h else retIO h) (\<lambda>h'.
         bindIO (insertAttachments msgID 0 (Attachments h')) (\<lambda>_.
         let snapshot = (if \<not> hasFlag (Flags h') FlagHasAddTo \<and> StoredWire h' \<noteq> [] then Some (StoredWire h') else None) in
         bindIO (exec (finalizeMsgRow (sPg E) msgID (Timestamp h') msgHash snapshot)) (\<lambda>_.
         resolveMsgParentLinks msgID msgHash parentHash (requiresStoredParent h')))))))))"

definition storeMsgHeaderOnly :: "storeEnv \<Rightarrow> fsys \<Rightarrow> float64 \<Rightarrow> Header \<Rightarrow> unit qio" where
  "storeMsgHeaderOnly E fs now h0 = transaction (
     bindIO (liftIO (canonicalMsgHash (sLib E) fs h0)) (\<lambda>(msgHash, h).
     bindIO (existingMsgIDForAddTo h msgHash) (\<lambda>existingID.
       if existingID = 0 then failIO (Errorf ''add-to header for unstored message'')
       else bindIO (attachAddToRecipients E fs now existingID h) (\<lambda>_. retIO ()))))"

end
