(* ===== verification/StoreInv.thy ===== *)
theory StoreInv
  imports Store
begin

text \<open>
  Invariants of the store. The locale \<open>table_invariant\<close> says what a property of the tables must satisfy
  to survive the statements a transaction is made of, and carries it through sequences, failures,
  rollbacks and lost acknowledgements; \<open>wfTables\<close> is its instance: keys, references, the uniqueness
  of hashes and the link of every reply to a stored, sent, non-terminal parent.
\<close>

section \<open>Invariants through statements\<close>

locale table_invariant =
  fixes I :: "tables \<Rightarrow> int \<Rightarrow> bool"
  assumes I_seq: "I t q \<Longrightarrow> I t (q + 1)"
begin

definition holds :: "db \<Rightarrow> bool" where
  "holds s \<longleftrightarrow> I (tabs s) (seq s)"

definition pres :: "'a qio \<Rightarrow> bool" where
  "pres f \<longleftrightarrow> (\<forall>s. holds s \<longrightarrow> holds (snd (f s)) \<and> seq s \<le> seq (snd (f s))
     \<and> set (dbfaults (snd (f s))) \<subseteq> set (dbfaults s))"

lemma I_mono:
  assumes "I t q" "q \<le> q'"
  shows "I t q'"
proof -
  have "I t (q + int n)" for n
  proof (induction n)
    case (Suc n)
    from I_seq [OF this] show ?case by (simp add: ac_simps)
  qed (use assms in simp)
  from this [of "nat (q' - q)"] assms show ?thesis by simp
qed

lemma presI:
  "(\<And>s. holds s \<Longrightarrow> holds (snd (f s)) \<and> seq s \<le> seq (snd (f s)) \<and> set (dbfaults (snd (f s))) \<subseteq> set (dbfaults s)) \<Longrightarrow> pres f"
  by (simp add: pres_def)

lemma presD: "pres f \<Longrightarrow> holds s \<Longrightarrow> holds (snd (f s))" "pres f \<Longrightarrow> holds s \<Longrightarrow> seq s \<le> seq (snd (f s))"
  "pres f \<Longrightarrow> holds s \<Longrightarrow> set (dbfaults (snd (f s))) \<subseteq> set (dbfaults s)"
  by (simp_all add: pres_def)

lemma holds_faults [simp]: "holds (s\<lparr>dbfaults := x\<rparr>) = holds s"
  by (simp add: holds_def)

lemma pres_ret [intro]: "pres (retIO x)" "pres (failIO e)" "pres (liftIO r)"
  by (simp_all add: pres_def retIO_def failIO_def liftIO_def)

lemma pres_bind [intro]:
  assumes "pres f" "\<And>x. pres (g x)"
  shows "pres (bindIO f g)"
proof (rule presI)
  fix s
  assume s: "holds s"
  obtain r s1 where e: "f s = (r, s1)" by fastforce
  with assms(1) s have s1: "holds s1" "seq s \<le> seq s1" "set (dbfaults s1) \<subseteq> set (dbfaults s)"
    using presD [of f s] by simp_all
  show "holds (snd (bindIO f g s)) \<and> seq s \<le> seq (snd (bindIO f g s)) \<and> set (dbfaults (snd (bindIO f g s))) \<subseteq> set (dbfaults s)"
  proof (cases r)
    case (Ok x)
    then have "bindIO f g s = g x s1" by (simp add: bindIO_def e)
    then show ?thesis using presD [OF assms(2) s1(1), of x] s1 by auto
  qed (use s1 in \<open>simp_all add: bindIO_def e\<close>)
qed

lemma pres_stmt:
  assumes "pres f"
  shows "pres (stmt f)"
proof (rule presI)
  fix s
  assume s: "holds s"
  then show "holds (snd (stmt f s)) \<and> seq s \<le> seq (snd (stmt f s)) \<and> set (dbfaults (snd (stmt f s))) \<subseteq> set (dbfaults s)"
    using presD [OF assms, of s] presD [OF assms, of "s\<lparr>dbfaults := tl (dbfaults s)\<rparr>"]
    by (cases "dbfaults s") (auto simp: stmt_def)
qed

lemma pres_query [intro]: "pres (query q)"
  unfolding query_def by (rule pres_stmt) (simp add: pres_def)

lemma pres_exec:
  assumes "\<And>t q t'. I t q \<Longrightarrow> u t = Some t' \<Longrightarrow> I t' q"
  shows "pres (exec u)"
  unfolding exec_def
proof (intro pres_stmt presI)
  fix s
  assume "holds s"
  then show "holds (snd (case u (tabs s) of Some t \<Rightarrow> (Ok (), s\<lparr>tabs := t\<rparr>) | None \<Rightarrow> (Err dbErr, s)))
    \<and> seq s \<le> seq (snd (case u (tabs s) of Some t \<Rightarrow> (Ok (), s\<lparr>tabs := t\<rparr>) | None \<Rightarrow> (Err dbErr, s)))
    \<and> set (dbfaults (snd (case u (tabs s) of Some t \<Rightarrow> (Ok (), s\<lparr>tabs := t\<rparr>) | None \<Rightarrow> (Err dbErr, s)))) \<subseteq> set (dbfaults s)"
    using assms by (cases "u (tabs s)") (simp_all add: holds_def)
qed

lemma pres_insertId:
  assumes "\<And>t q t'. I t q \<Longrightarrow> u q t = Some t' \<Longrightarrow> I t' (q + 1)"
  shows "pres (insertId u)"
  unfolding insertId_def
proof (intro pres_stmt presI)
  fix s
  assume "holds s"
  then show "holds (snd (case u (seq s) (tabs s) of Some t \<Rightarrow> (Ok (seq s), s\<lparr>tabs := t, seq := seq s + 1\<rparr>)
      | None \<Rightarrow> (Err dbErr, s\<lparr>seq := seq s + 1\<rparr>)))
    \<and> seq s \<le> seq (snd (case u (seq s) (tabs s) of Some t \<Rightarrow> (Ok (seq s), s\<lparr>tabs := t, seq := seq s + 1\<rparr>)
      | None \<Rightarrow> (Err dbErr, s\<lparr>seq := seq s + 1\<rparr>)))
    \<and> set (dbfaults (snd (case u (seq s) (tabs s) of Some t \<Rightarrow> (Ok (seq s), s\<lparr>tabs := t, seq := seq s + 1\<rparr>)
      | None \<Rightarrow> (Err dbErr, s\<lparr>seq := seq s + 1\<rparr>)))) \<subseteq> set (dbfaults s)"
    using assms I_seq by (cases "u (seq s) (tabs s)") (simp_all add: holds_def)
qed

lemma pres_transaction:
  assumes f: "pres f"
  shows "pres (transaction f)"
  unfolding transaction_def
proof (intro pres_stmt presI)
  fix s
  assume s: "holds s"
  obtain r s1 where e: "f s = (r, s1)" by fastforce
  with f s have s1: "holds s1" "seq s \<le> seq s1" "set (dbfaults s1) \<subseteq> set (dbfaults s)"
    using presD [of f s] by simp_all
  have rb: "holds (rollback (tabs s) (s1\<lparr>dbfaults := x\<rparr>))" "holds (rollback (tabs s) s1)" for x
    using s s1(2) I_mono by (simp_all add: holds_def rollback_def)
  have sq: "seq (rollback u v) = seq v" "dbfaults (rollback u v) = dbfaults v" for u v by (simp_all add: rollback_def)
  let ?R = "case f s of
       (Ok x, s') \<Rightarrow>
         (if \<not> commitOK (tabs s') then (Err dbErr, rollback (tabs s) s')
          else case dbfaults s' of
            [] \<Rightarrow> (Ok x, s')
          | StmtOk # fs \<Rightarrow> (Ok x, s'\<lparr>dbfaults := fs\<rparr>)
          | StmtFails # fs \<Rightarrow> (Err dbErr, rollback (tabs s) (s'\<lparr>dbfaults := fs\<rparr>))
          | AckLost # fs \<Rightarrow> (Err dbErr, s'\<lparr>dbfaults := fs\<rparr>))
     | (r, s') \<Rightarrow> (r, rollback (tabs s) s')"
  show "holds (snd ?R) \<and> seq s \<le> seq (snd ?R) \<and> set (dbfaults (snd ?R)) \<subseteq> set (dbfaults s)"
    using s1 rb by (auto simp: e sq split: res.split list.split dbfault.split)
qed

end

section \<open>All or nothing\<close>

lemma stmt_cases:
  "stmt f s = (r, s') \<Longrightarrow>
     (\<exists>fs. set fs \<subseteq> set (dbfaults s) \<and> (f (s\<lparr>dbfaults := fs\<rparr>) = (r, s') \<or> r = Err dbErr \<and> s' = s\<lparr>dbfaults := fs\<rparr>))"
proof (cases "dbfaults s")
  case Nil
  then have "s\<lparr>dbfaults := []\<rparr> = s" by (cases s) simp
  moreover have "stmt f s = f s" by (simp add: stmt_def Nil)
  ultimately show "stmt f s = (r, s') \<Longrightarrow> ?thesis" by (intro exI [of _ "[]"]) simp
next
  case (Cons y ys)
  then show "stmt f s = (r, s') \<Longrightarrow> ?thesis"
    by (intro exI [of _ ys]) (auto simp: stmt_def split: if_splits)
qed

text \<open>A transaction whose acknowledgement is not lost commits whole or changes no table.\<close>

lemma transaction_atomic:
  assumes t: "transaction f s = (r, s')" and "AckLost \<notin> set (dbfaults s)"
    and f: "\<And>fs. set fs \<subseteq> set (dbfaults s) \<Longrightarrow> set (dbfaults (snd (f (s\<lparr>dbfaults := fs\<rparr>)))) \<subseteq> set (dbfaults s)"
  shows "(case r of Ok x \<Rightarrow> commitOK (tabs s') | _ \<Rightarrow> tabs s' = tabs s)"
proof -
  from stmt_cases [OF t [unfolded transaction_def]] obtain fs where sub: "set fs \<subseteq> set (dbfaults s)"
    and c: "(case f (s\<lparr>dbfaults := fs\<rparr>) of
       (Ok x, s1) \<Rightarrow>
         (if \<not> commitOK (tabs s1) then (Err dbErr, rollback (tabs (s\<lparr>dbfaults := fs\<rparr>)) s1)
          else case dbfaults s1 of
            [] \<Rightarrow> (Ok x, s1)
          | StmtOk # fs \<Rightarrow> (Ok x, s1\<lparr>dbfaults := fs\<rparr>)
          | StmtFails # fs' \<Rightarrow> (Err dbErr, rollback (tabs (s\<lparr>dbfaults := fs\<rparr>)) (s1\<lparr>dbfaults := fs'\<rparr>))
          | AckLost # fs \<Rightarrow> (Err dbErr, s1\<lparr>dbfaults := fs\<rparr>))
     | (r, s1) \<Rightarrow> (r, rollback (tabs (s\<lparr>dbfaults := fs\<rparr>)) s1)) = (r, s') \<or> r = Err dbErr \<and> s' = s\<lparr>dbfaults := fs\<rparr>"
    by blast
  obtain r1 s1 where e: "f (s\<lparr>dbfaults := fs\<rparr>) = (r1, s1)" by fastforce
  with f [OF sub] assms(2) have "AckLost \<notin> set (dbfaults s1)" by auto
  then show ?thesis
    using c by (auto simp: e rollback_def split: res.splits if_splits list.splits dbfault.splits)
qed

section \<open>Well-formed tables\<close>

definition keysOK :: "tables \<Rightarrow> int \<Rightarrow> bool" where
  "keysOK t q \<longleftrightarrow> 0 < q \<and> distinct (map mId (msgs t)) \<and> distinct (map bId (batches t))
     \<and> (\<forall>i \<in> mId ` set (msgs t) \<union> bId ` set (batches t). 0 < i \<and> i < q)"

definition hashesUnique :: "msgRow list \<Rightarrow> bool" where
  "hashesUnique ms \<longleftrightarrow> (\<forall>m \<in> set ms. \<forall>m' \<in> set ms. \<forall>h. mSha m = Some h \<longrightarrow> mSha m' = Some h \<longrightarrow> mId m = mId m')"

definition hashesOK :: "tables \<Rightarrow> bool" where
  "hashesOK t \<longleftrightarrow> hashesUnique (msgs t)"

lemma hashesI: "(\<And>m m' h. m \<in> set ms \<Longrightarrow> m' \<in> set ms \<Longrightarrow> mSha m = Some h \<Longrightarrow> mSha m' = Some h \<Longrightarrow> mId m = mId m')
  \<Longrightarrow> hashesUnique ms"
  unfolding hashesUnique_def by blast

lemma hashesD: "hashesUnique ms \<Longrightarrow> m \<in> set ms \<Longrightarrow> m' \<in> set ms \<Longrightarrow> mSha m = Some h \<Longrightarrow> mSha m' = Some h
  \<Longrightarrow> mId m = mId m'"
  unfolding hashesUnique_def by blast

lemma hashes_append: "hashesUnique ms \<Longrightarrow> mSha m = None \<Longrightarrow> hashesUnique (ms @ [m])"
  by (rule hashesI) (auto dest: hashesD)

definition replyOK :: "tables \<Rightarrow> msgRow \<Rightarrow> bool" where
  "replyOK t m \<longleftrightarrow>
     (case mPid m of
        None \<Rightarrow> True
      | Some p \<Rightarrow> (\<exists>parent \<in> set (msgs t). mId parent = p \<and> mTime parent \<noteq> None \<and> \<not> mTerminal parent
          \<and> (mPsha m = mSha parent \<or> (\<exists>b \<in> set (batches t). bMsg b = p \<and> bSha b = mPsha m))) \<and> mPsha m \<noteq> None)"

lemma replyI:
  "mPid m = Some (mId parent) \<Longrightarrow> parent \<in> set (msgs t) \<Longrightarrow> mTime parent \<noteq> None \<Longrightarrow> \<not> mTerminal parent \<Longrightarrow> mPsha m \<noteq> None \<Longrightarrow>
   mPsha m = mSha parent \<or> (\<exists>b \<in> set (batches t). bMsg b = mId parent \<and> bSha b = mPsha m) \<Longrightarrow> replyOK t m"
  unfolding replyOK_def by auto

definition repliesOK :: "tables \<Rightarrow> bool" where
  "repliesOK t \<longleftrightarrow> (\<forall>m \<in> set (msgs t). replyOK t m)"

definition refsOK :: "tables \<Rightarrow> bool" where
  "refsOK t \<longleftrightarrow>
     (\<forall>b \<in> set (batches t). \<exists>m \<in> set (msgs t). mId m = bMsg b \<and> \<not> mTerminal m)
     \<and> (\<forall>r \<in> set (tos t). \<exists>m \<in> set (msgs t). mId m = rMsg r)
     \<and> (\<forall>r \<in> set (addTos t). \<exists>b \<in> set (batches t). bId b = rBatch r \<and> bMsg b = rMsg r)
     \<and> (\<forall>r \<in> set (atts t). \<exists>m \<in> set (msgs t). mId m = tMsg r)"

definition uniqueOK :: "tables \<Rightarrow> bool" where
  "uniqueOK t \<longleftrightarrow> distinct (map (\<lambda>r. (rMsg r, rAddr r)) (tos t)) \<and> distinct (map (\<lambda>r. (rBatch r, rAddr r)) (addTos t))
     \<and> distinct (map (\<lambda>r. (tMsg r, tFilename r)) (atts t))"

definition wfTables :: "tables \<Rightarrow> int \<Rightarrow> bool" where
  "wfTables t q \<longleftrightarrow> keysOK t q \<and> hashesOK t \<and> repliesOK t \<and> refsOK t \<and> uniqueOK t"

lemmas wf_defs = keysOK_def hashesOK_def repliesOK_def refsOK_def uniqueOK_def

lemma wfI: "keysOK t q \<Longrightarrow> hashesOK t \<Longrightarrow> repliesOK t \<Longrightarrow> refsOK t \<Longrightarrow> uniqueOK t \<Longrightarrow> wfTables t q"
  by (simp add: wfTables_def)

lemma wfD: "wfTables t q \<Longrightarrow> keysOK t q" "wfTables t q \<Longrightarrow> hashesOK t" "wfTables t q \<Longrightarrow> repliesOK t"
  "wfTables t q \<Longrightarrow> refsOK t" "wfTables t q \<Longrightarrow> uniqueOK t"
  by (simp_all add: wfTables_def)

lemma keysOK_Suc: "keysOK t q \<Longrightarrow> keysOK t (q + 1)"
  by (auto simp: keysOK_def intro: less_imp_le)

lemma wfTables_Suc: "wfTables t q \<Longrightarrow> wfTables t (q + 1)"
  using keysOK_Suc by (simp add: wfTables_def)

interpretation wf: table_invariant wfTables
  by unfold_locales (rule wfTables_Suc)

lemma msgAt_Some: "msgAt t i = Some m \<Longrightarrow> m \<in> set (msgs t) \<and> mId m = i"
  by (auto simp: msgAt_def find_Some_iff)

lemma batchAt_Some: "batchAt t i = Some b \<Longrightarrow> b \<in> set (batches t) \<and> bId b = i"
  by (auto simp: batchAt_def find_Some_iff)

text \<open>Rows are appended with a new key.\<close>

lemma wf_newMsg:
  assumes "wfTables t q" "mId row = q" "mPid row = None" "mSha row = None"
  shows "wfTables (t\<lparr>msgs := msgs t @ [row]\<rparr>) (q + 1)"
proof (rule wfI)
  let ?t = "t\<lparr>msgs := msgs t @ [row]\<rparr>"
  note w = wfD [OF assms(1)]
  show "keysOK ?t (q + 1)" using w(1) assms(2) by (auto simp: keysOK_def intro: less_imp_le)
  show "hashesOK ?t" using w(2) assms(4) by (simp add: hashesOK_def hashes_append)
  have "replyOK ?t m" if "replyOK t m" for m
    using that by (auto simp: replyOK_def split: option.splits)
  moreover have "replyOK ?t row" using assms(3) by (simp add: replyOK_def)
  ultimately show "repliesOK ?t" using w(3) by (simp add: repliesOK_def)
  show "refsOK ?t" using w(4) by (fastforce simp: refsOK_def)
  show "uniqueOK ?t" using w(5) by (simp add: uniqueOK_def)
qed

lemma wf_insertMsg: "wf.pres (insertMsg h ph)"
  unfolding insertMsg_def
  by (rule wf.pres_insertId) (auto intro!: wf_newMsg split: if_splits)

lemma wf_newBatch:
  assumes "wfTables t q" "bId row = q" "msgAt t (bMsg row) = Some m" "\<not> mTerminal m"
  shows "wfTables (t\<lparr>batches := batches t @ [row]\<rparr>) (q + 1)"
proof (rule wfI)
  let ?t = "t\<lparr>batches := batches t @ [row]\<rparr>"
  note w = wfD [OF assms(1)]
  show "keysOK ?t (q + 1)" using w(1) assms(2) by (auto simp: keysOK_def intro: less_imp_le)
  show "hashesOK ?t" using w(2) by (simp add: hashesOK_def)
  have "replyOK ?t m" if "replyOK t m" for m
    using that by (auto simp: replyOK_def split: option.splits)
  then show "repliesOK ?t" using w(3) by (simp add: repliesOK_def)
  show "refsOK ?t" using w(4) msgAt_Some [OF assms(3)] assms(4) by (fastforce simp: refsOK_def)
  show "uniqueOK ?t" using w(5) by (simp add: uniqueOK_def)
qed

lemma wf_insertAddToBatch: "wf.pres (insertAddToBatch msgID sender now)"
  unfolding insertAddToBatch_def
  by (rule wf.pres_insertId) (auto intro!: wf_newBatch split: if_splits option.splits)

text \<open>Recipient and attachment rows reference what exists, once.\<close>

lemma replyOK_frame [simp]:
  "replyOK (t\<lparr>tos := x\<rparr>) m = replyOK t m" "replyOK (t\<lparr>addTos := y\<rparr>) m = replyOK t m"
  "replyOK (t\<lparr>atts := z\<rparr>) m = replyOK t m"
  by (simp_all add: replyOK_def split: option.split)

lemma wf_newTo:
  assumes "wfTables t q" "msgAt t (rMsg row) = Some m" "\<not> list_ex (\<lambda>r. rMsg r = rMsg row \<and> rAddr r = rAddr row) (tos t)"
  shows "wfTables (t\<lparr>tos := tos t @ [row]\<rparr>) (q + 1)"
proof -
  note w = wfD [OF assms(1)]
  have "refsOK (t\<lparr>tos := tos t @ [row]\<rparr>)" using w(4) msgAt_Some [OF assms(2)] by (fastforce simp: refsOK_def)
  moreover have "uniqueOK (t\<lparr>tos := tos t @ [row]\<rparr>)"
    using w(5) assms(3) by (auto simp: uniqueOK_def list_ex_iff)
  moreover have "keysOK (t\<lparr>tos := tos t @ [row]\<rparr>) (q + 1)" using keysOK_Suc [OF w(1)] by (simp add: keysOK_def)
  ultimately show ?thesis using w(2,3) by (simp add: wfTables_def hashesOK_def repliesOK_def)
qed

lemma wf_newAddTo:
  assumes "wfTables t q" "batchAt t (rBatch row) = Some b" "bMsg b = rMsg row"
    "\<not> list_ex (\<lambda>r. rBatch r = rBatch row \<and> rAddr r = rAddr row) (addTos t)"
  shows "wfTables (t\<lparr>addTos := addTos t @ [row]\<rparr>) (q + 1)"
proof -
  note w = wfD [OF assms(1)]
  have "refsOK (t\<lparr>addTos := addTos t @ [row]\<rparr>)"
    using w(4) batchAt_Some [OF assms(2)] assms(3) by (fastforce simp: refsOK_def)
  moreover have "uniqueOK (t\<lparr>addTos := addTos t @ [row]\<rparr>)"
    using w(5) assms(4) by (auto simp: uniqueOK_def list_ex_iff)
  moreover have "keysOK (t\<lparr>addTos := addTos t @ [row]\<rparr>) (q + 1)" using keysOK_Suc [OF w(1)] by (simp add: keysOK_def)
  ultimately show ?thesis using w(2,3) by (simp add: wfTables_def hashesOK_def repliesOK_def)
qed

lemma wf_newAtt:
  assumes "wfTables t q" "msgAt t (tMsg row) = Some m" "\<not> list_ex (\<lambda>r. tMsg r = tMsg row \<and> tFilename r = tFilename row) (atts t)"
  shows "wfTables (t\<lparr>atts := atts t @ [row]\<rparr>) q"
proof -
  note w = wfD [OF assms(1)]
  have "refsOK (t\<lparr>atts := atts t @ [row]\<rparr>)" using w(4) msgAt_Some [OF assms(2)] by (fastforce simp: refsOK_def)
  moreover have "uniqueOK (t\<lparr>atts := atts t @ [row]\<rparr>)"
    using w(5) assms(3) by (auto simp: uniqueOK_def list_ex_iff)
  ultimately show ?thesis using w(1-3) by (simp add: wfTables_def keysOK_def hashesOK_def repliesOK_def)
qed

lemma wf_insertTo: "wf.pres (insertTo ignore msgID addr d c)"
  unfolding insertTo_def
  by (intro wf.pres_bind wf.pres_insertId wf.pres_ret)
     (auto intro!: wf_newTo intro: wfTables_Suc simp: newRcpt_def split: if_splits option.splits)

lemma wf_insertAddTo: "wf.pres (insertAddTo ignore msgID batch addr d c)"
  unfolding insertAddTo_def
  by (intro wf.pres_bind wf.pres_insertId wf.pres_ret)
     (auto intro!: wf_newAddTo intro: wfTables_Suc simp: newRcpt_def split: if_splits option.splits)

lemma wf_insertAttachments: "wf.pres (insertAttachments msgID i as)"
proof (induction as arbitrary: i)
  case (Cons a as)
  show ?case
    by (auto intro!: wf.pres_bind wf.pres_exec Cons wf_newAtt split: if_splits option.splits)
qed auto

lemma wf_insertTos: "wf.pres (insertTos ignore msgID outcome as)"
  by (induction as) (auto intro: wf_insertTo)

lemma wf_insertAddTos: "wf.pres (insertAddTos ignore msgID batch outcome as)"
  by (induction as) (auto intro: wf_insertAddTo)

text \<open>Updates keep keys, and what is sent or sealed.\<close>

lemma updRows_Some: "updRows f xs = Some ys \<Longrightarrow> ys = map (\<lambda>x. the (f x)) xs \<and> (\<forall>x \<in> set xs. f x \<noteq> None)"
  by (induction xs arbitrary: ys) (auto split: option.splits)

lemma wf_updMsgs:
  assumes "wfTables t q"
    and g: "\<And>m. m \<in> set (msgs t) \<Longrightarrow> mId (g m) = mId m \<and> mTerminal (g m) = mTerminal m
              \<and> (mTime m \<noteq> None \<longrightarrow> mTime (g m) \<noteq> None \<and> mSha (g m) = mSha m)"
    and r: "\<And>m. m \<in> set (msgs t) \<Longrightarrow> replyOK t m \<Longrightarrow> replyOK t (g m)"
    and h: "hashesOK (t\<lparr>msgs := map g (msgs t)\<rparr>)"
  shows "wfTables (t\<lparr>msgs := map g (msgs t)\<rparr>) q"
proof (rule wfI)
  let ?t = "t\<lparr>msgs := map g (msgs t)\<rparr>"
  note w = wfD [OF assms(1)]
  have "map mId (map g (msgs t)) = map mId (msgs t)" using g by simp
  moreover from this have "mId ` set (map g (msgs t)) = mId ` set (msgs t)" by (metis set_map)
  ultimately show "keysOK ?t q" using w(1) by (simp add: keysOK_def del: map_map)
  have "replyOK ?t m" if "replyOK t m" for m
  proof (cases "mPid m")
    case (Some p)
    with that obtain parent where parent: "parent \<in> set (msgs t)" "mId parent = p" "mTime parent \<noteq> None" "\<not> mTerminal parent"
      "mPsha m = mSha parent \<or> (\<exists>b \<in> set (batches t). bMsg b = p \<and> bSha b = mPsha m)" "mPsha m \<noteq> None"
      by (auto simp: replyOK_def)
    then show ?thesis using g [OF parent(1)] Some by (force simp: replyOK_def)
  qed (simp add: replyOK_def)
  then show "repliesOK ?t" using w(3) r by (simp add: repliesOK_def)
  have e: "(\<exists>m \<in> set (map g (msgs t)). mId m = i) \<longleftrightarrow> (\<exists>m \<in> set (msgs t). mId m = i)"
    "(\<exists>m \<in> set (map g (msgs t)). mId m = i \<and> \<not> mTerminal m) \<longleftrightarrow> (\<exists>m \<in> set (msgs t). mId m = i \<and> \<not> mTerminal m)" for i
    using g by auto
  show "refsOK ?t" using w(4) e by (simp add: refsOK_def del: set_map)
  show "uniqueOK ?t" using w(5) by (simp add: uniqueOK_def)
qed (rule h)

lemma wf_updBatches:
  assumes "wfTables t q"
    and g: "\<And>b. b \<in> set (batches t) \<Longrightarrow> bId (g b) = bId b \<and> bMsg (g b) = bMsg b \<and> (bSha b \<noteq> None \<longrightarrow> bSha (g b) = bSha b)"
  shows "wfTables (t\<lparr>batches := map g (batches t)\<rparr>) q"
proof (rule wfI)
  let ?t = "t\<lparr>batches := map g (batches t)\<rparr>"
  note w = wfD [OF assms(1)]
  have "map bId (map g (batches t)) = map bId (batches t)" using g by simp
  moreover from this have "bId ` set (map g (batches t)) = bId ` set (batches t)" by (metis set_map)
  ultimately show "keysOK ?t q" using w(1) by (simp add: keysOK_def del: map_map)
  have "replyOK ?t m" if "replyOK t m" for m
  proof (cases "mPid m")
    case (Some p)
    have "\<exists>b \<in> set (map g (batches t)). bMsg b = p \<and> bSha b = mPsha m"
      if "b \<in> set (batches t)" "bMsg b = p" "bSha b = mPsha m" "mPsha m \<noteq> None" for b
      using g [OF that(1)] that by auto
    then show ?thesis using \<open>replyOK t m\<close> Some by (auto simp: replyOK_def)
  qed (simp add: replyOK_def)
  then show "repliesOK ?t" using w(3) by (simp add: repliesOK_def)
  have e: "(\<exists>b \<in> set (map g (batches t)). bId b = i \<and> bMsg b = j) \<longleftrightarrow> (\<exists>b \<in> set (batches t). bId b = i \<and> bMsg b = j)" for i j
    using g by auto
  have "\<forall>b \<in> set (map g (batches t)). \<exists>m \<in> set (msgs t). mId m = bMsg b \<and> \<not> mTerminal m"
    using w(4) g by (auto simp: refsOK_def)
  then show "refsOK ?t" using w(4) e by (simp add: refsOK_def del: set_map)
  show "uniqueOK ?t" using w(5) by (simp add: uniqueOK_def)
  show "hashesOK ?t" using w(2) by (simp add: hashesOK_def)
qed

lemma parentLinkOK_Some:
  assumes "parentLinkOK t m p = Some m'"
  shows "mId m' = mId m" "mTerminal m' = mTerminal m" "mTime m' = mTime m" "mSha m' = mSha m" "replyOK t m'"
proof -
  obtain parent where parent: "msgAt t p = Some parent" using assms by (auto simp: parentLinkOK_def split: option.splits)
  note in_t = msgAt_Some [OF parent]
  obtain h where h: "mSha parent = Some h" "mTime parent \<noteq> None" "\<not> mTerminal parent"
    using assms by (auto simp: parentLinkOK_def parent split: option.splits if_splits)
  have m': "m' = m\<lparr>mPid := Some p, mPsha := Some h\<rparr>
     \<or> m' = m\<lparr>mPid := Some p\<rparr> \<and> (mPsha m = Some h \<or> (\<exists>b \<in> set (batches t). bMsg b = p \<and> bSha b = mPsha m)) \<and> mPsha m \<noteq> None"
    using assms by (auto simp: parentLinkOK_def parent h list_ex_iff split: option.splits if_splits)
  then show "mId m' = mId m" "mTerminal m' = mTerminal m" "mTime m' = mTime m" "mSha m' = mSha m" by auto
  show "replyOK t m'" using m' in_t h by (intro replyI [of m' parent]) auto
qed

lemma wf_link:
  assumes w: "wfTables t q" and u: "updRows (\<lambda>m. if P m then parentLinkOK t m p else Some m) (msgs t) = Some ms"
  shows "wfTables (t\<lparr>msgs := ms\<rparr>) q"
proof -
  let ?g = "\<lambda>m. the (if P m then parentLinkOK t m p else Some m)"
  from updRows_Some [OF u] have ms: "ms = map ?g (msgs t)"
    and ok: "\<And>m. m \<in> set (msgs t) \<Longrightarrow> P m \<Longrightarrow> \<exists>m'. parentLinkOK t m p = Some m'"
    by (auto split: if_splits)
  have g: "mId (?g m) = mId m \<and> mTerminal (?g m) = mTerminal m \<and> mTime (?g m) = mTime m \<and> mSha (?g m) = mSha m"
    "replyOK t m \<Longrightarrow> replyOK t (?g m)" if "m \<in> set (msgs t)" for m
    using ok [OF that] by (cases "P m"; auto dest: parentLinkOK_Some)+
  have "hashesUnique (map ?g (msgs t))"
  proof (rule hashesI)
    fix m m' h
    assume "m \<in> set (map ?g (msgs t))" "m' \<in> set (map ?g (msgs t))" and h: "mSha m = Some h" "mSha m' = Some h"
    then obtain x x' where x: "x \<in> set (msgs t)" "x' \<in> set (msgs t)" "m = ?g x" "m' = ?g x'" by auto
    then have "mId x = mId x'" using wfD(2) [OF w] h g(1) unfolding hashesOK_def by (intro hashesD) auto
    then show "mId m = mId m'" using x g(1) by metis
  qed
  then have "hashesOK (t\<lparr>msgs := map ?g (msgs t)\<rparr>)" by (simp add: hashesOK_def)
  then show ?thesis unfolding ms using w g by (intro wf_updMsgs) auto
qed

lemma wf_setParentID: "wf.pres (setParentID msgID parentID)"
  unfolding setParentID_def by (rule wf.pres_exec) (auto intro: wf_link)

lemma wf_setPendingChildrenParentID: "wf.pres (setPendingChildrenParentID parentID parentHash)"
  unfolding setPendingChildrenParentID_def by (rule wf.pres_exec) (auto intro: wf_link)

lemma wf_sealBatchRow: "wf.pres (exec (sealBatchRow P i hash data))"
proof (rule wf.pres_exec)
  fix t q t'
  assume w: "wfTables t q" and u: "sealBatchRow P i hash data t = Some t'"
  then obtain j bs where bs: "updRows (\<lambda>b. if bId b \<noteq> i then Some b
        else if bSha b \<noteq> None \<and> (bSha b \<noteq> Some hash \<or> bWire b \<noteq> Some j) then None
        else Some (b\<lparr>bSha := Some hash, bWire := Some j\<rparr>)) (batches t) = Some bs" and t': "t' = t\<lparr>batches := bs\<rparr>"
    by (auto simp: sealBatchRow_def split: option.splits)
  show "wfTables t' q"
    using updRows_Some [OF bs] unfolding t' by (auto intro!: wf_updBatches w split: if_splits)
qed

lemma wf_finalizeMsgRow: "wf.pres (exec (finalizeMsgRow P i time hash snapshot))"
proof (rule wf.pres_exec)
  fix t q t'
  assume w: "wfTables t q" and u: "finalizeMsgRow P i time hash snapshot t = Some t'"
  then obtain v ms where new: "\<not> list_ex (\<lambda>m. mId m \<noteq> i \<and> mSha m = Some hash) (msgs t)"
    and ms: "updRows (\<lambda>m. if mId m \<noteq> i then Some m else if mTime m \<noteq> None then None
        else Some (m\<lparr>mTime := Some time, mSha := Some hash, mWire := v\<rparr>)) (msgs t) = Some ms"
    and t': "t' = t\<lparr>msgs := ms\<rparr>"
    by (auto simp: finalizeMsgRow_def split: option.splits if_splits)
  let ?g = "\<lambda>m. if mId m = i then m\<lparr>mTime := Some time, mSha := Some hash, mWire := v\<rparr> else m"
  have draft: "mTime m = None" if "m \<in> set (msgs t)" "mId m = i" for m
    using updRows_Some [OF ms] that by (auto split: if_splits)
  have map: "ms = map ?g (msgs t)"
    using updRows_Some [OF ms] by (auto simp: draft)
  have "hashesUnique (map ?g (msgs t))"
  proof (rule hashesI)
    fix m m' h
    assume "m \<in> set (map ?g (msgs t))" "m' \<in> set (map ?g (msgs t))" and h: "mSha m = Some h" "mSha m' = Some h"
    then obtain x x' where x: "x \<in> set (msgs t)" "x' \<in> set (msgs t)" "m = ?g x" "m' = ?g x'" by auto
    consider "mId x = i" "mId x' = i" | "mId x \<noteq> i" "mId x' \<noteq> i" | "mId x \<noteq> i" "mId x' = i" | "mId x = i" "mId x' \<noteq> i" by blast
    then show "mId m = mId m'"
    proof cases
      case 2
      then show ?thesis using x h hashesD [of "msgs t" x x' h] wfD(2) [OF w] by (simp add: hashesOK_def)
    qed (use x h new in \<open>auto simp: list_ex_iff\<close>)
  qed
  then have "hashesOK (t\<lparr>msgs := map ?g (msgs t)\<rparr>)" by (simp add: hashesOK_def)
  moreover have "replyOK t (m\<lparr>mTime := a, mSha := b, mWire := c\<rparr>) = replyOK t m" for m a b c by (simp add: replyOK_def split: option.split)
  ultimately show "wfTables t' q"
    using w unfolding t' map by (intro wf_updMsgs) (auto simp: draft)
qed

section \<open>The operations of the store\<close>

lemmas wf_statements = wf_insertMsg wf_insertAddToBatch wf_insertTos wf_insertAddTos wf_insertAttachments wf_sealBatchRow
  wf_finalizeMsgRow wf_setParentID wf_setPendingChildrenParentID

lemma wf_storeBatch: "wf.pres (storeBatch E fs ignore msgID outcome h)"
  unfolding storeBatch_def sealReceivedBatch_def Let_def
  by (auto intro!: wf.pres_bind wf_statements split: prod.splits)

lemma wf_attach: "wf.pres (attachAddToRecipients E fs now msgID h)"
  unfolding attachAddToRecipients_def by (auto intro!: wf.pres_bind wf_statements wf_storeBatch)

lemma wf_resolveMsgParentLinks: "wf.pres (resolveMsgParentLinks i h ph req)"
  unfolding resolveMsgParentLinks_def resolveStoredParent_def resolvePendingChildLinks_def lookupParentID_def
  by (auto intro!: wf.pres_bind wf_statements)

lemma wf_existing: "wf.pres (existingMsgIDForAddTo h x)"
  unfolding existingMsgIDForAddTo_def by auto

text \<open>A transaction over a body that preserves the invariant.\<close>

definition wfTransaction :: "'a qio \<Rightarrow> bool" where
  "wfTransaction t \<longleftrightarrow> (\<exists>f. t = transaction f \<and> wf.pres f)"

lemma wfTransaction_pres: "wfTransaction t \<Longrightarrow> wf.pres t"
  unfolding wfTransaction_def using wf.pres_transaction by blast

lemma wfTransaction_atomic:
  assumes "wfTransaction t" "t s = (r, s')" "wfTables (tabs s) (seq s)" "AckLost \<notin> set (dbfaults s)"
  shows "(case r of Ok x \<Rightarrow> commitOK (tabs s') | _ \<Rightarrow> tabs s' = tabs s)"
proof -
  from assms(1) obtain f where f: "t = transaction f" "wf.pres f" by (auto simp: wfTransaction_def)
  have "set (dbfaults (snd (f (s\<lparr>dbfaults := fs\<rparr>)))) \<subseteq> set fs" for fs
    using wf.presD(3) [OF f(2), of "s\<lparr>dbfaults := fs\<rparr>"] assms(3) by (simp add: wf.holds_def)
  then show ?thesis using assms(2) unfolding f(1) by (intro transaction_atomic [OF _ assms(4)]) (blast intro: order_trans)+
qed

lemma wf_storeMsgDetail: "wfTransaction (storeMsgDetail E fs now h lo)"
  unfolding storeMsgDetail_def Let_def wfTransaction_def
  by (intro exI conjI, rule refl, intro wf.pres_bind wf.pres_ret)
     (auto intro!: wf.pres_bind wf.pres_ret wf_statements wf_existing wf_attach wf_storeBatch wf_resolveMsgParentLinks split: prod.splits)

lemma wf_storeMsgHeaderOnly: "wfTransaction (storeMsgHeaderOnly E fs now h)"
  unfolding storeMsgHeaderOnly_def wfTransaction_def
  by (intro exI conjI, rule refl, intro wf.pres_bind wf.pres_ret)
     (auto intro!: wf.pres_bind wf_existing wf_attach split: prod.splits)

text \<open>
  C23. Storing a message, or the header of one, keeps the tables well-formed, whatever statements
  fail and wherever the transaction ends: keys stay unique and below the next value of the sequence,
  no two messages share a hash, every reply is linked to a sent, non-terminal parent whose hash or
  one of whose batches it names, and no row is left without the one it belongs to.
\<close>
theorem store_keeps_tables_wf:
  assumes "wfTables (tabs s) (seq s)"
  shows "wfTables (tabs (snd (storeMsgDetail E fs now h lo s))) (seq (snd (storeMsgDetail E fs now h lo s)))
    \<and> wfTables (tabs (snd (storeMsgHeaderOnly E fs now h s))) (seq (snd (storeMsgHeaderOnly E fs now h s)))"
  using wf.presD(1) [OF wfTransaction_pres [OF wf_storeMsgDetail]] wf.presD(1) [OF wfTransaction_pres [OF wf_storeMsgHeaderOnly]] assms by (simp_all add: wf.holds_def)


end
