(* ===== verification/Samples.thy ===== *)
theory Samples
  imports Exchange
begin

text \<open>
  A concrete host and concrete headers, on which the theorems with hypotheses are applied. The
  library functions are the simplest that have their documented shape: no letters outside
  ASCII, a digest that is the first 32 bytes (padded), stored rather than compressed data.
\<close>

definition sampleUni :: unicode where
  "sampleUni = \<lparr>letterTab = (\<lambda>r. False), numberTab = (\<lambda>r. False), lowerTab = (\<lambda>r. r), foldTab = (\<lambda>r s. False)\<rparr>"

definition sampleLib :: golib where
  "sampleLib = \<lparr>uni = sampleUni, sha256 = (\<lambda>b. take 32 (b @ replicate 32 0)), inflate = Ok,
     deflate = (\<lambda>b. b), ParseIP = (\<lambda>s. if s = ''10.0.0.1'' then Some [10, 0, 0, 1] else None)\<rparr>"

definition sampleHost :: host where
  "sampleHost =
     \<lparr>lib = sampleLib, hostDomain = ''b.org'', PastTimeDelta = f64_int 100, FutureTimeDelta = f64_int 10,
      MaxMessageSize = 1000, MaxExpandedSize = 2000, SkipAuthorisedIPs = False, clock = f64_int 0,
      files = (\<lambda>p. None),
      lookupAuthorisedIPs = (\<lambda>s. if s = ''a.org'' then Inr [[10, 0, 0, 1]] else Inr []),
      lookupMsgIdByHash = (\<lambda>b. Inr 0), getMsgByID = (\<lambda>i. Inr None),
      getMsgByBatchHash = (\<lambda>b. Inr None), addToBatchRecorded = (\<lambda>i b. Inr False),
      lookupOutgoing = (\<lambda>b s. None)\<rparr>"

definition alice :: Address where "alice = \<lparr>User = ''alice'', Domain = ''a.org''\<rparr>"
definition bob :: Address where "bob = \<lparr>User = ''bob'', Domain = ''b.org''\<rparr>"
definition carol :: Address where "carol = \<lparr>User = ''carol'', Domain = ''b.org''\<rparr>"

text \<open>A first message from Alice to Bob with a short body of a common type.\<close>

definition sampleHeader :: Header where
  "sampleHeader = emptyHeader\<lparr>Version := 1, Flags := 4, From := alice, To := [bob], Topic := ''hi'',
     TypeID := 3, Type := ''application/json'', Size := 5, InitialResponseCode := 64\<rparr>"

text \<open>The same host once it has stored Alice's message, and what can then arrive: her adding Carol to it,
  and her replying to it.\<close>

definition sampleParent :: Header where
  "sampleParent = sampleHeader\<lparr>Filepath := ''/m''\<rparr>"

definition samplePid :: bytes where "samplePid = replicate 32 9"

definition sampleStore :: host where
  "sampleStore = sampleHost\<lparr>files := (\<lambda>p. if p = ''/m'' then Some (Regular [1, 2, 3, 4, 5]) else None),
     lookupMsgIdByHash := (\<lambda>b. if b = samplePid then Inr 7 else Inr 0),
     getMsgByID := (\<lambda>i. if i = 7 then Inr (Some sampleParent) else Inr None)\<rparr>"

definition sampleAddTo :: Header where
  "sampleAddTo = sampleHeader\<lparr>Flags := 7, Pid := samplePid, Topic := [], AddToFrom := Some alice, AddTo := [carol]\<rparr>"

definition sampleReply :: Header where
  "sampleReply = sampleHeader\<lparr>Flags := 5, Pid := samplePid, Topic := []\<rparr>"

text \<open>Alice's message with two attachments of 2 GiB each.\<close>

definition sampleAtt :: "string \<Rightarrow> u32 \<Rightarrow> AttachmentHeader" where
  "sampleAtt name n = \<lparr>aFlags = 1, aTypeID = 3, aType = ''application/json'', aFilename = name,
     aSize = n, aExpandedSize = 0, aFilepath = []\<rparr>"

definition sampleHuge :: Header where
  "sampleHuge = sampleHeader\<lparr>Attachments := [sampleAtt ''a'' 2147483648, sampleAtt ''b'' 2147483648]\<rparr>"

text \<open>A connection from Alice's host carrying the given bytes.\<close>

definition sampleConn :: "bytes \<Rightarrow> conn" where
  "sampleConn b = \<lparr>inp = b, inp_end = EOF, out = [], wfaults = [], nread = 0, wroteResponse = False,
     remoteHost = Some ''10.0.0.1''\<rparr>"

end
