(* ===== verification/StoreMsg.thy ===== *)
theory StoreMsg
  imports StoreInv Samples
begin

text \<open>
  What storing a received message leaves in the tables: the effect of each statement that succeeded,
  and from them the message, its recipients in wire order with their outcomes, its attachments and
  its parent; all of it or nothing.
\<close>

section \<open>Effects of statements\<close>

lemma list_all2_right: "list_all2 P xs ys \<Longrightarrow> y \<in> set ys \<Longrightarrow> \<exists>x \<in> set xs. P x y"
  by (induction rule: list_all2_induct) auto

lemma list_all2_left: "list_all2 P xs ys \<Longrightarrow> x \<in> set xs \<Longrightarrow> \<exists>y \<in> set ys. P x y"
  by (induction rule: list_all2_induct) auto

lemma stmt_Ok: "stmt f s = (Ok x, s') \<Longrightarrow> \<exists>fs. f (s\<lparr>dbfaults := fs\<rparr>) = (Ok x, s')"
proof (cases "dbfaults s")
  case Nil
  then have "s\<lparr>dbfaults := []\<rparr> = s" by (cases s) simp
  moreover have "stmt f s = f s" by (simp add: stmt_def Nil)
  ultimately show "stmt f s = (Ok x, s') \<Longrightarrow> \<exists>fs. f (s\<lparr>dbfaults := fs\<rparr>) = (Ok x, s')"
    by (intro exI [of _ "[]"]) (simp only:)
next
  case (Cons y ys)
  then show "stmt f s = (Ok x, s') \<Longrightarrow> \<exists>fs. f (s\<lparr>dbfaults := fs\<rparr>) = (Ok x, s')"
    by (auto simp: stmt_def split: if_splits)
qed

lemma query_Ok: "query q s = (Ok x, s') \<Longrightarrow> x = q (tabs s) \<and> tabs s' = tabs s \<and> seq s' = seq s"
  unfolding query_def by (drule stmt_Ok) auto

lemma exec_Ok: "exec u s = (Ok x, s') \<Longrightarrow> u (tabs s) = Some (tabs s') \<and> seq s' = seq s"
  unfolding exec_def by (drule stmt_Ok) (auto split: option.splits)

lemma insertId_Ok: "insertId u s = (Ok i, s') \<Longrightarrow> i = seq s \<and> u i (tabs s) = Some (tabs s') \<and> seq s' = i + 1"
  unfolding insertId_def by (drule stmt_Ok) (auto split: option.splits)

definition rcptRows :: "int \<Rightarrow> int \<Rightarrow> (Address \<Rightarrow> float64 option \<times> int option) \<Rightarrow> int list \<Rightarrow> Address list \<Rightarrow> rcptRow list" where
  "rcptRows msgID batch outcome ids as =
     map2 (\<lambda>i a. newRcpt i msgID batch (ToString a) (fst (outcome a)) (snd (outcome a))) ids as"

lemma insertTo_Ok:
  "insertTo False msgID addr d c s = (Ok u, s') \<Longrightarrow> \<exists>i. tabs s' = (tabs s)\<lparr>tos := tos (tabs s) @ [newRcpt i msgID 0 addr d c]\<rparr>"
  unfolding insertTo_def
  by (elim bindIO_OkE, drule insertId_Ok, rule exI [of _ "seq s"]) (auto split: if_splits option.splits)

lemma insertTos_Ok:
  "insertTos False msgID outcome as s = (Ok u, s') \<Longrightarrow>
     \<exists>ids. length ids = length as \<and> tabs s' = (tabs s)\<lparr>tos := tos (tabs s) @ rcptRows msgID 0 outcome ids as\<rparr>"
proof (induction as arbitrary: s)
  case (Cons a as)
  then obtain u1 s1 where 1: "insertTo False msgID (ToString a) (fst (outcome a)) (snd (outcome a)) s = (Ok u1, s1)"
    and 2: "insertTos False msgID outcome as s1 = (Ok u, s')" by (auto elim: bindIO_OkE)
  from insertTo_Ok [OF 1] obtain i where i: "tabs s1 = (tabs s)\<lparr>tos := tos (tabs s) @
      [newRcpt i msgID 0 (ToString a) (fst (outcome a)) (snd (outcome a))]\<rparr>" by blast
  from Cons.IH [OF 2] obtain ids where "length ids = length as"
    "tabs s' = (tabs s1)\<lparr>tos := tos (tabs s1) @ rcptRows msgID 0 outcome ids as\<rparr>" by blast
  with i show ?case by (intro exI [of _ "i # ids"]) (simp add: rcptRows_def)
qed (auto simp: rcptRows_def)

definition attRows :: "int \<Rightarrow> nat \<Rightarrow> AttachmentHeader list \<Rightarrow> attRow list" where
  "attRows msgID i as = map2 (\<lambda>j a. \<lparr>tMsg = msgID, tPosition = int j, tFlags = uint (aFlags a), tType = aType a,
     tFilename = aFilename a, tFilesize = uint (aSize a), tFilepath = aFilepath a\<rparr>) [i..<i + length as] as"

lemma insertAttachments_Ok:
  "insertAttachments msgID i as s = (Ok u, s') \<Longrightarrow> tabs s' = (tabs s)\<lparr>atts := atts (tabs s) @ attRows msgID i as\<rparr>"
proof (induction as arbitrary: i s)
  case (Cons a as)
  then obtain u1 s1 where 2: "insertAttachments msgID (Suc i) as s1 = (Ok u, s')"
    and 1: "tabs s1 = (tabs s)\<lparr>atts := atts (tabs s) @ [\<lparr>tMsg = msgID, tPosition = int i, tFlags = uint (aFlags a), tType = aType a,
     tFilename = aFilename a, tFilesize = uint (aSize a), tFilepath = aFilepath a\<rparr>]\<rparr>"
    by (auto elim!: bindIO_OkE dest!: exec_Ok split: if_splits option.splits)
  have "[i..<i + length (a # as)] = i # [Suc i..<Suc i + length as]" by (simp add: upt_rec)
  then show ?case using Cons.IH [OF 2] 1 by (simp add: attRows_def)
qed (simp add: attRows_def)

lemma transaction_Ok:
  "transaction f s = (Ok x, s') \<Longrightarrow>
     \<exists>fs s1. f (s\<lparr>dbfaults := fs\<rparr>) = (Ok x, s1) \<and> tabs s' = tabs s1 \<and> seq s' = seq s1 \<and> commitOK (tabs s')"
  unfolding transaction_def
proof (drule stmt_Ok, elim exE)
  fix fs
  let ?s = "s\<lparr>dbfaults := fs\<rparr>"
  assume e: "(case f ?s of
       (Ok x, s) \<Rightarrow>
         (if \<not> commitOK (tabs s) then (Err dbErr, rollback (tabs ?s) s)
          else case dbfaults s of
            [] \<Rightarrow> (Ok x, s)
          | StmtOk # fs \<Rightarrow> (Ok x, s\<lparr>dbfaults := fs\<rparr>)
          | StmtFails # fs \<Rightarrow> (Err dbErr, rollback (tabs ?s) (s\<lparr>dbfaults := fs\<rparr>))
          | AckLost # fs \<Rightarrow> (Err dbErr, s\<lparr>dbfaults := fs\<rparr>))
     | (r, s) \<Rightarrow> (r, rollback (tabs ?s) s)) = (Ok x, s')"
  obtain r s1 where f: "f ?s = (r, s1)" by fastforce
  show ?thesis
    using e by (intro exI [of _ fs] exI [of _ s1]) (auto simp: f split: res.splits if_splits list.splits dbfault.splits)
qed

text \<open>Linking to parents touches nothing but \<open>pid\<close> and \<open>psha256\<close>, and unlinks no row.\<close>

definition linkedTo :: "msgRow \<Rightarrow> msgRow \<Rightarrow> bool" where
  "linkedTo m m' \<longleftrightarrow> m'\<lparr>mPid := mPid m, mPsha := mPsha m\<rparr> = m \<and> (mPid m \<noteq> None \<longrightarrow> mPid m' \<noteq> None)"

definition relinked :: "tables \<Rightarrow> tables \<Rightarrow> bool" where
  "relinked t t' \<longleftrightarrow> t'\<lparr>msgs := msgs t\<rparr> = t \<and> list_all2 linkedTo (msgs t) (msgs t')"

lemma linkedTo_refl [simp]: "linkedTo m m"
  by (simp add: linkedTo_def)

lemma linkedTo_fields:
  assumes "linkedTo m m'"
  shows "mId m' = mId m" "mTime m' = mTime m" "mSha m' = mSha m" "mFrom m' = mFrom m" "mTopic m' = mTopic m"
    "mType m' = mType m" "mSize m' = mSize m" "mTerminal m' = mTerminal m" "mPath m' = mPath m" "mWire m' = mWire m"
proof -
  have e: "m'\<lparr>mPid := mPid m, mPsha := mPsha m\<rparr> = m" using assms by (simp add: linkedTo_def)
  note r = arg_cong [OF e]
  show "mId m' = mId m" "mTime m' = mTime m" "mSha m' = mSha m" "mFrom m' = mFrom m" "mTopic m' = mTopic m"
    "mType m' = mType m" "mSize m' = mSize m" "mTerminal m' = mTerminal m" "mPath m' = mPath m" "mWire m' = mWire m"
    using r [of mId] r [of mTime] r [of mSha] r [of mFrom] r [of mTopic] r [of mType] r [of mSize] r [of mTerminal]
      r [of mPath] r [of mWire] by simp_all
qed

lemma linkedTo_trans: "linkedTo a b \<Longrightarrow> linkedTo b c \<Longrightarrow> linkedTo a c"
proof -
  assume "linkedTo a b" "linkedTo b c"
  then have "b\<lparr>mPid := mPid a, mPsha := mPsha a\<rparr> = a" "c\<lparr>mPid := mPid b, mPsha := mPsha b\<rparr> = b"
    "mPid a \<noteq> None \<longrightarrow> mPid c \<noteq> None" by (auto simp: linkedTo_def)
  moreover from this have "c\<lparr>mPid := mPid a, mPsha := mPsha a\<rparr> = b\<lparr>mPid := mPid a, mPsha := mPsha a\<rparr>"
    by (cases a; cases b; cases c) auto
  ultimately show ?thesis by (simp add: linkedTo_def)
qed

lemma relinked_refl: "relinked t t"
  by (auto simp: relinked_def intro: list.rel_refl)

lemma relinked_fields: "relinked t t' \<Longrightarrow> tos t' = tos t \<and> addTos t' = addTos t \<and> batches t' = batches t \<and> atts t' = atts t"
  unfolding relinked_def by (cases t; cases t') auto

lemma relinked_trans: "relinked t u \<Longrightarrow> relinked u v \<Longrightarrow> relinked t v"
  unfolding relinked_def by (cases t; cases u; cases v) (auto intro: list_all2_trans [of linkedTo linkedTo linkedTo, OF linkedTo_trans])

lemma parentLinkOK_linked: "parentLinkOK t m p = Some m' \<Longrightarrow> linkedTo m m' \<and> mPid m' = Some p"
  by (cases m) (auto simp: parentLinkOK_def linkedTo_def split: option.splits if_splits)

lemma updRows_link:
  "updRows (\<lambda>m. if P m then parentLinkOK t m p else Some m) xs = Some ys \<Longrightarrow>
     list_all2 (\<lambda>m m'. linkedTo m m' \<and> (P m \<longrightarrow> mPid m' \<noteq> None)) xs ys"
  by (induction xs arbitrary: ys) (auto split: option.splits if_splits dest: parentLinkOK_linked)

lemma resolveMsgParentLinks_Ok:
  assumes "resolveMsgParentLinks i hash ph req s = (Ok u, s')"
  shows "relinked (tabs s) (tabs s') \<and> (ph \<noteq> [] \<and> req \<longrightarrow> (\<forall>m \<in> set (msgs (tabs s')). mId m = i \<longrightarrow> mPid m \<noteq> None))"
proof -
  from assms obtain s1 where 1: "resolveStoredParent i ph req s = (Ok (), s1)"
    and 2: "resolvePendingChildLinks i hash s1 = (Ok u, s')"
    unfolding resolveMsgParentLinks_def by (auto elim: bindIO_OkE)
  have p: "relinked (tabs s) (tabs s1) \<and> (ph \<noteq> [] \<and> req \<longrightarrow> (\<forall>m \<in> set (msgs (tabs s1)). mId m = i \<longrightarrow> mPid m \<noteq> None))"
  proof (cases "ph = []")
    case False
    with 1 obtain p s0 where l: "lookupParentID ph s = (Ok p, s0)"
      and k: "(if p = 0 then (if req then failIO (Errorf ''parent message not found for psha256'') else retIO ())
        else setParentID i p) s0 = (Ok (), s1)"
      unfolding resolveStoredParent_def by (auto elim: bindIO_OkE)
    have t0: "tabs s0 = tabs s" using l unfolding lookupParentID_def by (auto dest: query_Ok)
    show ?thesis
    proof (cases "p = 0")
      case True
      then show ?thesis using k t0 by (auto split: if_splits simp: relinked_refl)
    next
      case False
      then have "setParentID i p s0 = (Ok (), s1)" using k by simp
      then obtain ms where t1: "(tabs s)\<lparr>msgs := ms\<rparr> = tabs s1"
        and l2: "list_all2 (\<lambda>m m'. linkedTo m m' \<and> (mId m = i \<longrightarrow> mPid m' \<noteq> None)) (msgs (tabs s)) ms"
        unfolding setParentID_def by (auto dest!: exec_Ok updRows_link simp: t0)
      have "mPid m' \<noteq> None" if m': "m' \<in> set ms" "mId m' = i" for m'
      proof -
        from m'(1) l2 obtain m where "linkedTo m m'" "mId m = i \<longrightarrow> mPid m' \<noteq> None" by (blast dest: list_all2_right)
        then show ?thesis using m'(2) linkedTo_fields(1) by metis
      qed
      moreover have "list_all2 linkedTo (msgs (tabs s)) ms" using l2 by (rule list_all2_mono) simp
      ultimately show ?thesis by (simp add: t1 [symmetric] relinked_def)
    qed
  qed (use 1 in \<open>simp add: resolveStoredParent_def relinked_refl\<close>)
  have c: "relinked (tabs s1) (tabs s')"
  proof (cases "hash = []")
    case False
    with 2 obtain ms where t1: "(tabs s1)\<lparr>msgs := ms\<rparr> = tabs s'"
      and l2: "list_all2 (\<lambda>m m'. linkedTo m m' \<and> (mPsha m = Some hash \<and> mPid m = None \<longrightarrow> mPid m' \<noteq> None)) (msgs (tabs s1)) ms"
      unfolding resolvePendingChildLinks_def setPendingChildrenParentID_def by (auto dest!: exec_Ok updRows_link)
    have "list_all2 linkedTo (msgs (tabs s1)) ms" using l2 by (rule list_all2_mono) simp
    then show ?thesis by (simp add: t1 [symmetric] relinked_def)
  qed (use 2 in \<open>simp add: resolvePendingChildLinks_def relinked_refl\<close>)
  have "mPid m' \<noteq> None" if a: "m' \<in> set (msgs (tabs s'))" "mId m' = i" "ph \<noteq> []" "req" for m'
  proof -
    from c a(1) obtain m where m: "m \<in> set (msgs (tabs s1))" "linkedTo m m'"
      unfolding relinked_def by (blast dest: list_all2_right)
    then have "mPid m \<noteq> None" using p a linkedTo_fields(1) [OF m(2)] by auto
    then show ?thesis using m(2) by (simp add: linkedTo_def)
  qed
  then show ?thesis using p c relinked_trans by blast
qed

section \<open>What a stored message looks like\<close>

lemma msgBySha_unique:
  assumes "wfTables t q" "m \<in> set (msgs t)" "mSha m = Some h"
  shows "msgBySha t h = Some m"
proof (cases "msgBySha t h")
  case None
  then show ?thesis using assms by (auto simp: msgBySha_def find_None_iff)
next
  case (Some m')
  then have m': "m' \<in> set (msgs t)" "mSha m' = Some h" by (auto simp: msgBySha_def find_Some_iff)
  then have "mId m' = mId m" using wfD(2) [OF assms(1)] assms(2,3) unfolding hashesOK_def by (blast intro: hashesD)
  then have "m' = m" using wfD(1) [OF assms(1)] m'(1) assms(2) by (auto simp: keysOK_def distinct_map dest: inj_onD)
  with Some show ?thesis by simp
qed

lemma fresh_key:
  assumes "wfTables t q"
  shows "filter (\<lambda>r. rMsg r = q) (tos t) = []" "filter (\<lambda>r. tMsg r = q) (atts t) = []" "\<forall>m \<in> set (msgs t). mId m \<noteq> q"
  "filter (\<lambda>r. rMsg r = q) (addTos t) = []"
proof -
  note w = wfD(1,4) [OF assms]
  show n: "\<forall>m \<in> set (msgs t). mId m \<noteq> q" using w(1) by (auto simp: keysOK_def)
  show "filter (\<lambda>r. rMsg r = q) (tos t) = []" "filter (\<lambda>r. tMsg r = q) (atts t) = []"
    using w(2) n by (auto simp: refsOK_def filter_empty_conv)
  show "filter (\<lambda>r. rMsg r = q) (addTos t) = []"
    using w(2) n unfolding refsOK_def filter_empty_conv by metis
qed

lemma rcptRows_filter: "length ids = length as \<Longrightarrow>
    map (\<lambda>r. (rAddr r, rDelivered r, rCode r)) (filter (\<lambda>r. rMsg r = i) (rcptRows i b oc ids as))
      = map (\<lambda>a. (ToString a, oc a)) as"
  by (induction ids as rule: list_induct2) (auto simp: rcptRows_def newRcpt_def)

lemma attRows_filter:
    "map (\<lambda>r. (tFilename r, tFilepath r)) (filter (\<lambda>r. tMsg r = i) (attRows i j as)) = map (\<lambda>a. (aFilename a, aFilepath a)) as"
proof (induction as arbitrary: j)
  case (Cons a as)
  have "[j..<j + length (a # as)] = j # [Suc j..<Suc j + length as]" by (simp add: upt_rec)
  then show ?case using Cons [of "Suc j"] by (simp add: attRows_def)
qed (simp add: attRows_def)

text \<open>The effect of the body of \<open>storeMsgDetail\<close> for a message that is not an add-to.\<close>

lemma storeMsgDetail_rows:
  assumes s: "storeMsgDetail E fs now h lo s = (Ok (), s')"
    and f: "\<not> hasFlag (Flags h) FlagHasAddTo" "AddTo h = []" and g: "GetMessageHash (sLib E) fs h = Ok (hash, h')"
  obtains row ids w t where "mId row = seq s" "mPid row = None" "mFrom row = ToString (From h)" "mTopic row = Topic h"
      "mType row = Type h" "mSize row = uint (Size h)" "mTerminal row = hasFlag (Flags h) FlagTerminal" "mPath row = Filepath h"
    "finalizeMsgRow (sPg E) (seq s) (Timestamp h) hash (if StoredWire h \<noteq> [] then Some (StoredWire h) else None)
       ((tabs s)\<lparr>msgs := msgs (tabs s) @ [row],
          tos := tos (tabs s) @ rcptRows (seq s) 0 (inboundRecipientRow (uni (sLib E)) lo now) ids (To h),
          atts := atts (tabs s) @ attRows (seq s) 0 (Attachments h)\<rparr>) = Some t"
    "length ids = length (To h)" "relinked t (tabs s')"
    "requiresStoredParent h \<longrightarrow> (\<forall>m \<in> set (msgs (tabs s')). mId m = seq s \<longrightarrow> mPid m \<noteq> None)"
proof -
  have h': "h' = h\<lparr>messageHash := Some hash\<rparr>" using GetMessageHash_Ok(1) [OF g] .
  have fl: "AddTo h' = []" "\<not> hasFlag (Flags h') FlagHasAddTo" using f by (simp_all add: h')
  have c: "canonicalMsgHash (sLib E) fs h = Ok (hash, h')" using f(1) g by (simp add: canonicalMsgHash_def)
  have ex: "existingMsgIDForAddTo h' hash = retIO 0" using f(1) by (simp add: existingMsgIDForAddTo_def h')
  let ?oc = "inboundRecipientRow (uni (sLib E)) lo now"
  let ?snap = "if StoredWire h' \<noteq> [] then Some (StoredWire h') else None"
  from transaction_Ok [OF s [unfolded storeMsgDetail_def]] obtain faults s1 where
    b: "bindIO (insertMsg h' (relationalParentHash h')) (\<lambda>msgID.
         bindIO (insertTos False msgID ?oc (To h')) (\<lambda>_.
         bindIO (insertAttachments msgID 0 (Attachments h')) (\<lambda>_.
         bindIO (exec (finalizeMsgRow (sPg E) msgID (Timestamp h') hash ?snap)) (\<lambda>_.
         resolveMsgParentLinks msgID hash (relationalParentHash h') (requiresStoredParent h')))))
       (s\<lparr>dbfaults := faults\<rparr>) = (Ok (), s1)" and e: "tabs s' = tabs s1"
    using fl by (auto simp: c ex Let_def)
  from b obtain i sa sb sc sd where i: "insertMsg h' (relationalParentHash h') (s\<lparr>dbfaults := faults\<rparr>) = (Ok i, sa)"
    and t: "insertTos False i ?oc (To h') sa = (Ok (), sb)" and at: "insertAttachments i 0 (Attachments h') sb = (Ok (), sc)"
    and fin: "exec (finalizeMsgRow (sPg E) i (Timestamp h') hash ?snap) sc = (Ok (), sd)"
    and r: "resolveMsgParentLinks i hash (relationalParentHash h') (requiresStoredParent h') sd = (Ok (), s1)"
    by (auto elim!: bindIO_OkE)
  have ii: "i = seq s" "seq sa = seq s + 1" using i unfolding insertMsg_def by (auto dest!: insertId_Ok)
  from i obtain row where row: "(tabs s)\<lparr>msgs := msgs (tabs s) @ [row]\<rparr> = tabs sa"
      "mId row = i" "mPid row = None" "mFrom row = ToString (From h)" "mTopic row = Topic h"
      "mType row = Type h" "mSize row = uint (Size h)" "mTerminal row = hasFlag (Flags h) FlagTerminal" "mPath row = Filepath h"
    unfolding insertMsg_def by (auto dest!: insertId_Ok simp: h' split: if_splits)
  from insertTos_Ok [OF t] obtain ids where ids: "length ids = length (To h')"
    "tabs sb = (tabs sa)\<lparr>tos := tos (tabs sa) @ rcptRows i 0 ?oc ids (To h')\<rparr>" by blast
  have tc: "tabs sc = (tabs s)\<lparr>msgs := msgs (tabs s) @ [row], tos := tos (tabs s) @ rcptRows (seq s) 0 ?oc ids (To h),
          atts := atts (tabs s) @ attRows (seq s) 0 (Attachments h)\<rparr>"
    using insertAttachments_Ok [OF at] ids row(1) [symmetric] by (simp add: ii(1) h')
  show thesis
  proof (rule that [of row ids "tabs sd"])
    show "finalizeMsgRow (sPg E) (seq s) (Timestamp h) hash (if StoredWire h \<noteq> [] then Some (StoredWire h) else None) ((tabs s)\<lparr>msgs := msgs (tabs s) @ [row],
          tos := tos (tabs s) @ rcptRows (seq s) 0 ?oc ids (To h),
          atts := atts (tabs s) @ attRows (seq s) 0 (Attachments h)\<rparr>) = Some (tabs sd)"
      using exec_Ok [OF fin] tc by (cases "StoredWire h = []") (simp_all add: ii(1) h')
    show "requiresStoredParent h \<longrightarrow> (\<forall>m \<in> set (msgs (tabs s')). mId m = seq s \<longrightarrow> mPid m \<noteq> None)"
      using resolveMsgParentLinks_Ok [OF r] f(1)
      by (auto simp: e ii(1) h' requiresStoredParent_def relationalParentHash_def)
  qed (use row ii ids e resolveMsgParentLinks_Ok [OF r] in \<open>auto simp: h'\<close>)
qed

lemma finalizeMsgRow_Some:
  assumes "finalizeMsgRow P i time hash snap t = Some t'"
  obtains w ms where "w = (case snap of None \<Rightarrow> None | Some d \<Rightarrow> jsonb P d)" "t\<lparr>msgs := ms\<rparr> = t'"
    "updRows (\<lambda>m. if mId m \<noteq> i then Some m else if mTime m \<noteq> None then None
       else Some (m\<lparr>mTime := Some time, mSha := Some hash, mWire := w\<rparr>)) (msgs t) = Some ms"
  using assms by (auto simp: finalizeMsgRow_def split: option.splits if_splits)

text \<open>
  What a recipient's row is to say: delivered now if this host accepted it, otherwise not delivered and with
  the code this host gave, or \<open>-2\<close> for a recipient of another host.
\<close>

definition recordedOutcome :: "(string \<Rightarrow> byte option) \<Rightarrow> float64 \<Rightarrow> string \<Rightarrow> float64 option \<times> int option" where
  "recordedOutcome lo now key =
     (if lo key = Some 200 then (Some now, None)
      else (None, Some (if lo key = None then - 2 else uint (the (lo key)))))"

lemma inboundRecipientRow_recorded:
  "inboundRecipientRow U lo now a = recordedOutcome lo now (ToLower U (ToString a))"
  by (auto simp: inboundRecipientRow_def recordedOutcome_def split: option.split)

text \<open>The row a message ends up as, and what hangs on it.\<close>

definition storedAs :: "storeEnv \<Rightarrow> (string \<Rightarrow> byte option) \<Rightarrow> float64 \<Rightarrow> Header \<Rightarrow> bytes \<Rightarrow> tables \<Rightarrow> msgRow \<Rightarrow> bool" where
  "storedAs E lo now h hash t m \<longleftrightarrow>
     msgBySha t hash = Some m \<and> mTime m = Some (Timestamp h)
     \<and> mFrom m = ToString (From h) \<and> mTopic m = Topic h \<and> mType m = Type h \<and> mSize m = uint (Size h)
     \<and> mTerminal m = hasFlag (Flags h) FlagTerminal \<and> mPath m = Filepath h
     \<and> mWire m = (if StoredWire h = [] then None else jsonb (sPg E) (StoredWire h))
     \<and> map (\<lambda>r. (rAddr r, rDelivered r, rCode r)) (filter (\<lambda>r. rMsg r = mId m) (tos t))
         = map (\<lambda>a. (ToString a, recordedOutcome lo now (ToLower (uni (sLib E)) (ToString a)))) (To h)
     \<and> filter (\<lambda>r. rMsg r = mId m) (addTos t) = []
     \<and> map (\<lambda>r. (tFilename r, tFilepath r)) (filter (\<lambda>r. tMsg r = mId m) (atts t))
         = map (\<lambda>a. (aFilename a, aFilepath a)) (Attachments h)
     \<and> (requiresStoredParent h \<longrightarrow> mPid m \<noteq> None)"

lemma storeMsgDetail_stores:
  assumes "wfTables (tabs s) (seq s)" "storeMsgDetail E fs now h lo s = (Ok (), s')"
    and "\<not> hasFlag (Flags h) FlagHasAddTo" "AddTo h = []" "GetMessageHash (sLib E) fs h = Ok (hash, h')"
  shows "\<exists>m. storedAs E lo now h hash (tabs s') m"
  using assms(2-)
proof (rule storeMsgDetail_rows)
  fix row ids t
  let ?i = "seq s" and ?oc = "inboundRecipientRow (uni (sLib E)) lo now"
  let ?t = "(tabs s)\<lparr>msgs := msgs (tabs s) @ [row], tos := tos (tabs s) @ rcptRows (seq s) 0 ?oc ids (To h),
          atts := atts (tabs s) @ attRows (seq s) 0 (Attachments h)\<rparr>"
  assume row: "mId row = ?i" "mPid row = None" "mFrom row = ToString (From h)" "mTopic row = Topic h"
      "mType row = Type h" "mSize row = uint (Size h)" "mTerminal row = hasFlag (Flags h) FlagTerminal" "mPath row = Filepath h"
    and fin: "finalizeMsgRow (sPg E) ?i (Timestamp h) hash (if StoredWire h \<noteq> [] then Some (StoredWire h) else None) ?t = Some t"
    and ids: "length ids = length (To h)" and l: "relinked t (tabs s')"
    and parent: "requiresStoredParent h \<longrightarrow> (\<forall>m \<in> set (msgs (tabs s')). mId m = ?i \<longrightarrow> mPid m \<noteq> None)"
  note fresh = fresh_key [OF assms(1)]
  from fin obtain w ms where w: "w = (case if StoredWire h \<noteq> [] then Some (StoredWire h) else None of None \<Rightarrow> None | Some d \<Rightarrow> jsonb (sPg E) d)"
    and t: "?t\<lparr>msgs := ms\<rparr> = t" and ms: "updRows (\<lambda>m. if mId m \<noteq> ?i then Some m else if mTime m \<noteq> None then None
       else Some (m\<lparr>mTime := Some (Timestamp h), mSha := Some hash, mWire := w\<rparr>)) (msgs ?t) = Some ms"
    by (rule finalizeMsgRow_Some)
  let ?row = "row\<lparr>mTime := Some (Timestamp h), mSha := Some hash, mWire := w\<rparr>"
  have "mTime row = None" using updRows_Some [OF ms] row(1) by (auto split: if_splits)
  then have "?row \<in> set ms" using updRows_Some [OF ms] row(1) by simp
  then have "?row \<in> set (msgs t)" by (simp flip: t)
  then obtain m where m: "m \<in> set (msgs (tabs s'))" "linkedTo ?row m"
    using l unfolding relinked_def by (blast dest: list_all2_left)
  note fields = linkedTo_fields [OF m(2)]
  have "wfTables (tabs s') (seq s')"
    using wf.presD(1) [OF wfTransaction_pres [OF wf_storeMsgDetail], of s E fs now h lo] assms(1,2) by (simp add: wf.holds_def)
  then have "msgBySha (tabs s') hash = Some m" using m(1) fields by (intro msgBySha_unique) simp_all
  moreover have "tos (tabs s') = tos (tabs s) @ rcptRows ?i 0 ?oc ids (To h)"
    "atts (tabs s') = atts (tabs s) @ attRows ?i 0 (Attachments h)" "addTos (tabs s') = addTos (tabs s)"
    using relinked_fields [OF l] by (simp_all flip: t)
  moreover have "requiresStoredParent h \<longrightarrow> mPid m \<noteq> None" using parent m(1) fields(1) row(1) by simp
  ultimately have "storedAs E lo now h hash (tabs s') m"
    using row fields fresh ids unfolding storedAs_def by (simp add: rcptRows_filter attRows_filter w inboundRecipientRow_recorded)
  then show ?thesis by blast
qed

text \<open>
  C25. What storing means. When \<open>storeMsgDetail\<close> succeeds on a message that is not an add-to, the
  tables hold it under its message hash: sent at its own time, with its header fields and the exact
  snapshot; its recipients, all of them and in wire order, each delivered at \<open>now\<close> if this host
  accepted it, with the code it answered if it refused it, and as another host's duty if the
  recipient is not local; its attachments in order; and, for a reply, linked to its stored parent.
\<close>
theorem stored_message:
  assumes "wfTables (tabs s) (seq s)" "storeMsgDetail E fs now h lo s = (Ok (), s')"
    and "\<not> hasFlag (Flags h) FlagHasAddTo" "AddTo h = []" "GetMessageHash (sLib E) fs h = Ok (hash, h')"
  shows "\<exists>m. storedAs E lo now h hash (tabs s') m"
  using assms by (rule storeMsgDetail_stores)

lemma find_unique:
  assumes "distinct (map f xs)" "x \<in> set xs" "P x"
  shows "find (\<lambda>y. f y = f x \<and> P y) xs = Some x"
proof (cases "find (\<lambda>y. f y = f x \<and> P y) xs")
  case None
  then show ?thesis using assms by (auto simp: find_None_iff)
next
  case (Some y)
  then have "y \<in> set xs" "f y = f x" by (auto simp: find_Some_iff)
  then have "y = x" using assms(1,2) by (auto simp: distinct_map dest: inj_onD)
  with Some show ?thesis by simp
qed

text \<open>
  C26. A stored message loads as what was received: \<open>getMsgByID\<close> on the row of a message stored with its
  snapshot returns the header that the snapshot, as the database keeps it, unmarshals to under the
  stored hash, and changes nothing.
\<close>
theorem stored_message_loads:
  assumes "storedAs E lo now h hash (tabs s) m" "wfTables (tabs s) (seq s)" "dbfaults s = []" "length hash = 32"
    and "StoredWire h \<noteq> []" "jsonb (sPg E) (StoredWire h) = Some j" "j \<noteq> []" "UnmarshalPrepared (sLib E) fs (sJson E) j hash = Ok g"
  shows "getMsgByIDDb E fs (mId m) s = (Ok (Some (Clone g)), s)"
proof -
  have m: "m \<in> set (msgs (tabs s))" "mSha m = Some hash" "mTime m = Some (Timestamp h)" "mWire m = Some j"
    "filter (\<lambda>r. rMsg r = mId m) (addTos (tabs s)) = []"
    using assms(1,5,6) by (auto simp: storedAs_def msgBySha_def find_Some_iff)
  have "find (\<lambda>y. mId y = mId m \<and> mTime y \<noteq> None) (msgs (tabs s)) = Some m"
    using find_unique [of mId "msgs (tabs s)" m "\<lambda>y. mTime y \<noteq> None"] wfD(1) [OF assms(2)] m(1,3)
    by (simp add: keysOK_def)
  then have "loadMsgFields E fs (mId m) s
      = (Ok \<lparr>parentPid = nullable (mPsha m), storedHash = hash, wireForm = Some g, isTerminal = mTerminal m\<rparr>, s)"
    using assms(3,4,7,8) m by (simp add: loadMsgFields_def query_def stmt_def bindIO_def nullable_def retIO_def liftIO_def)
  then have "loadMsg E fs (mId m) s = (Ok (Clone g), s)"
    using assms(3) m(5)
    by (simp add: loadMsg_def bindIO_def loadRecipientAddrs_def query_def stmt_def retIO_def liftIO_def)
  then show ?thesis using assms(3) by (simp add: getMsgByIDDb_def stmt_def)
qed

section \<open>Instances\<close>

text \<open>An empty store, with or without failing statements, and Alice's message as received and verified.\<close>

definition storeSample :: storeEnv where
  "storeSample = \<lparr>sLib = sampleLib\<lparr>sha256 := (\<lambda>b. replicate 32 7)\<rparr>,
     sJson = \<lparr>encJSON = (\<lambda>v h. [123]), decJSON = (\<lambda>b. Ok (1, Some sampleParent))\<rparr>, sPg = \<lparr>jsonb = Some\<rparr>, sDomain = ''b.org''\<rparr>"

definition sampleFiles :: fsys where "sampleFiles p = (if p = ''/m'' then Some (Regular [1, 2, 3, 4, 5]) else None)"

definition sampleDb :: "dbfault list \<Rightarrow> db" where
  "sampleDb fs = \<lparr>tabs = \<lparr>msgs = [], tos = [], batches = [], addTos = [], atts = [], notifies = []\<rparr>, seq = 1, dbfaults = fs\<rparr>"

definition sampleOutcome :: "string \<Rightarrow> byte option" where
  "sampleOutcome a = (if a = ''@bob@b.org'' then Some 200 else None)"

definition sampleStored :: Header where "sampleStored = sampleParent\<lparr>StoredWire := [123], messageHash := Some (replicate 32 7)\<rparr>"

lemma wf_sampleDb: "wfTables (tabs (sampleDb fs)) (seq (sampleDb fs))"
  by (simp add: sampleDb_def wfTables_def wf_defs hashesUnique_def)

lemma sampleOutcome_bob: "inboundRecipientRow sampleUni sampleOutcome 1 bob = (Some 1, None)"
  by (simp add: inboundRecipientRow_def sampleOutcome_def bob_def ToString_def ToLower_def is_ascii_def toLowerRune_def char_of_def)

lemma sampleStored_hash: "GetMessageHash L sampleFiles sampleStored = Ok (replicate 32 7, sampleStored)"
  by (simp add: GetMessageHash_def sampleStored_def)

lemma sample_texts: "varchar255 (ToString alice) \<and> varchar255 (ToString bob) \<and> varchar255 ''hi'' \<and> varchar255 ''application/json'' \<and> pgText ''/m''"
  by code_simp

lemma sampleStored_fields: "Flags sampleStored = 4" "To sampleStored = [bob]" "AddTo sampleStored = []" "From sampleStored = alice"
  "Topic sampleStored = ''hi''" "Type sampleStored = ''application/json''" "Filepath sampleStored = ''/m''"
  "Size sampleStored = 5" "Attachments sampleStored = []" "StoredWire sampleStored = [123]" "Pid sampleStored = []"
  "Timestamp sampleStored = 0"
  by (simp_all add: sampleStored_def sampleParent_def sampleHeader_def emptyHeader_def)

lemma sampleStored_run: "fst (storeMsgDetail storeSample sampleFiles 1 sampleStored sampleOutcome (sampleDb [])) = Ok ()"
  using sample_texts
  by (simp add: storeMsgDetail_def transaction_def stmt_def bindIO_def liftIO_def retIO_def canonicalMsgHash_def sampleStored_fields sampleStored_hash
     existingMsgIDForAddTo_def relationalParentHash_def storeSample_def insertMsg_def insertId_def hasFlag_def int4_def sampleOutcome_bob newRcpt_def
     sampleLib_def insertTo_def msgAt_def exec_def finalizeMsgRow_def sampleDb_def resolveMsgParentLinks_def resolveStoredParent_def
     resolvePendingChildLinks_def setPendingChildrenParentID_def commitOK_def sentMsgOK_def Let_def)

theorem store_keeps_tables_wf_witness:
  "wfTables (tabs (snd (storeMsgDetail storeSample sampleFiles 1 sampleStored sampleOutcome (sampleDb []))))
     (seq (snd (storeMsgDetail storeSample sampleFiles 1 sampleStored sampleOutcome (sampleDb []))))"
  by (rule store_keeps_tables_wf [OF wf_sampleDb, THEN conjunct1])



theorem stored_message_witness:
  "\<exists>m. storedAs storeSample sampleOutcome 1 sampleStored (replicate 32 7)
     (tabs (snd (storeMsgDetail storeSample sampleFiles 1 sampleStored sampleOutcome (sampleDb [])))) m"
proof -
  let ?r = "storeMsgDetail storeSample sampleFiles 1 sampleStored sampleOutcome (sampleDb [])"
  have "?r = (Ok (), snd ?r)" using sampleStored_run by (metis prod.collapse)
  from stored_message [OF wf_sampleDb this _ _ sampleStored_hash] show ?thesis
    by (simp add: sampleStored_fields hasFlag_def)
qed

theorem stored_message_loads_witness:
  "let s = snd (storeMsgDetail storeSample sampleFiles 1 sampleStored sampleOutcome (sampleDb []))
   in \<exists>i. fst (getMsgByIDDb storeSample sampleFiles i s) = Ok (Some (Clone (sampleParent\<lparr>messageHash := Some (replicate 32 7)\<rparr>)))"
proof -
  let ?r = "storeMsgDetail storeSample sampleFiles 1 sampleStored sampleOutcome (sampleDb [])"
  let ?h = "replicate 32 7 :: bytes"
  have r: "?r = (Ok (), snd ?r)" using sampleStored_run by (metis prod.collapse)
  obtain m where m: "storedAs storeSample sampleOutcome 1 sampleStored ?h (tabs (snd ?r)) m"
    using storeMsgDetail_stores [OF wf_sampleDb r _ _ sampleStored_hash] by (auto simp: sampleStored_fields hasFlag_def)
  have w: "wfTables (tabs (snd ?r)) (seq (snd ?r))" "dbfaults (snd ?r) = []"
    using wf.presD [OF wfTransaction_pres [OF wf_storeMsgDetail], of "sampleDb []"] wf_sampleDb
    by (simp_all add: wf.holds_def) (simp add: sampleDb_def)
  have c: "Clone sampleParent = sampleParent" by (simp add: Clone_def sampleParent_def sampleHeader_def emptyHeader_def)
  have "UnmarshalPrepared (sLib storeSample) sampleFiles (sJson storeSample) [123] ?h = Ok (sampleParent\<lparr>messageHash := Some ?h\<rparr>)"
    by (simp add: UnmarshalPrepared_def storeSample_def c)
       (simp add: GetMessageHash_def messageBytes_def HashPayload_def readFile_def sampleFiles_def sampleParent_def
          sampleHeader_def emptyHeader_def copyN_def hasFlag_def Let_def)
  then show ?thesis
    using stored_message_loads [OF m w, of "[123]" sampleFiles] by (auto simp: sampleStored_fields storeSample_def intro!: exI [of _ "mId m"])
qed

end
