(* ===== verification/IndicatorStore.thy ===== *)
theory IndicatorStore
  imports IndicatorService StoreMsg
begin

text \<open>
  The database behind the indicators (\<open>src/cmd/fmsgd/indicators.go\<close>, \<open>sqlIndicatorStore\<close>): the subject a
  hash names and the subjects of a message, read off the tables of the message store, each statement
  of which may fail.
\<close>

section \<open>Lookups\<close>

definition finalSnapshot :: "batchRow \<Rightarrow> bool" where
  "finalSnapshot b \<longleftrightarrow> bSha b \<noteq> None \<and> bWire b \<noteq> None"

definition originalFromBatch :: "json \<Rightarrow> int \<Rightarrow> Address list option qio" where
  "originalFromBatch J msgID =
     bindIO (query (\<lambda>t. find (\<lambda>b. bMsg b = msgID \<and> finalSnapshot b) (batches t))) (\<lambda>row.
       case row of
         None \<Rightarrow> retIO None
       | Some b \<Rightarrow> bindIO (liftIO (preparedHeader J (nullable (bWire b)))) (\<lambda>h. retIO (Some (From h # To h))))"

text \<open>A message without a snapshot of its own takes the participants of one of its batches.\<close>

definition originalParticipants :: "json \<Rightarrow> int \<Rightarrow> bytes \<Rightarrow> Address list option qio" where
  "originalParticipants J msgID prepared =
     (if prepared = [] then originalFromBatch J msgID
      else bindIO (liftIO (preparedHeader J prepared)) (\<lambda>h. retIO (Some (indicatorParticipants h))))"

definition sqlSubjectByHash :: "json \<Rightarrow> bytes \<Rightarrow> (int \<times> Address list) option qio" where
  "sqlSubjectByHash J hash =
     bindIO (query (\<lambda>t. find (\<lambda>m. mSha m = Some hash \<and> mTime m \<noteq> None) (msgs t))) (\<lambda>row.
       case row of
         Some m \<Rightarrow>
           bindIO (originalParticipants J (mId m) (nullable (mWire m))) (\<lambda>parts. retIO (map_option (Pair (mId m)) parts))
       | None \<Rightarrow>
           bindIO (query (\<lambda>t. find (\<lambda>b. bSha b = Some hash \<and> bWire b \<noteq> None) (batches t))) (\<lambda>row'.
             case row' of
               None \<Rightarrow> retIO None
             | Some b \<Rightarrow> bindIO (liftIO (preparedHeader J (nullable (bWire b))))
                 (\<lambda>h. retIO (Some (bMsg b, indicatorParticipants h)))))"

fun batchSubjects :: "json \<Rightarrow> batchRow list \<Rightarrow> indicatorSubject list res" where
  "batchSubjects J [] = Ok []"
| "batchSubjects J (b # bs) =
     bindR (preparedHeader J (nullable (bWire b))) (\<lambda>h.
     bindR (batchSubjects J bs) (\<lambda>rest.
       Ok (\<lparr>sHash = nullable (bSha b), sParticipants = indicatorParticipants h\<rparr> # rest)))"

definition sqlSubjectsOf :: "json \<Rightarrow> int \<Rightarrow> (indicatorSubject option \<times> indicatorSubject list) qio" where
  "sqlSubjectsOf J msgID =
     bindIO (query (\<lambda>t. find (\<lambda>m. mId m = msgID \<and> mTime m \<noteq> None) (msgs t))) (\<lambda>row.
       case row of
         None \<Rightarrow> retIO (None, [])
       | Some m \<Rightarrow>
           bindIO (query (\<lambda>t. filter (\<lambda>b. bMsg b = msgID \<and> finalSnapshot b) (batches t))) (\<lambda>rows.
           bindIO (liftIO (batchSubjects J rows)) (\<lambda>bs.
             if length (nullable (mSha m)) \<noteq> 32 then retIO (None, bs)
             else bindIO (originalParticipants J msgID (nullable (mWire m))) (\<lambda>parts.
               retIO (map_option (\<lambda>ps. \<lparr>sHash = nullable (mSha m), sParticipants = ps\<rparr>) parts, bs)))))"

text \<open>What the service sees of the database at one moment; a notice is published or the statement fails.\<close>

definition answerOf :: "'a res \<times> db \<Rightarrow> err + 'a" where
  "answerOf r = (case fst r of Ok x \<Rightarrow> Inr x | Err e \<Rightarrow> Inl e | _ \<Rightarrow> Inl dbErr)"

definition sqlIndicatorStore :: "json \<Rightarrow> db \<Rightarrow> indicatorStore" where
  "sqlIndicatorStore J s =
     \<lparr>subjectByHash = (\<lambda>hash. answerOf (sqlSubjectByHash J hash s)), subjectsOf = (\<lambda>i. answerOf (sqlSubjectsOf J i s)),
      notifyErr = (case fst (query (\<lambda>_. ()) s) of Err e \<Rightarrow> Some e | _ \<Rightarrow> None)\<rparr>"

section \<open>Subjects\<close>

text \<open>On a database without faults a statement reads the tables and leaves them.\<close>

lemma quiet_query: "dbfaults s = [] \<Longrightarrow> bindIO (query q) f s = f (q (tabs s)) s"
  by (simp add: query_def stmt_def bindIO_def)

lemma quiet_lift: "bindIO (liftIO r) f s = (case r of Ok x \<Rightarrow> f x s | Err e \<Rightarrow> (Err e, s) | Panic \<Rightarrow> (Panic, s) | Diverge \<Rightarrow> (Diverge, s))"
  by (cases r) (simp_all add: bindIO_def liftIO_def)

definition originalIn :: "json \<Rightarrow> int \<Rightarrow> bytes \<Rightarrow> tables \<Rightarrow> Address list option res" where
  "originalIn J i p t =
     (if p = [] then (case find (\<lambda>b. bMsg b = i \<and> finalSnapshot b) (batches t) of
        None \<Rightarrow> Ok None | Some b \<Rightarrow> bindR (preparedHeader J (nullable (bWire b))) (\<lambda>h. Ok (Some (From h # To h))))
      else bindR (preparedHeader J p) (\<lambda>h. Ok (Some (indicatorParticipants h))))"

lemma quiet_original: "dbfaults s = [] \<Longrightarrow> originalParticipants J i p s = (originalIn J i p (tabs s), s)"
  by (simp add: originalParticipants_def originalFromBatch_def originalIn_def quiet_query quiet_lift retIO_def
      split: option.split) (simp split: res.split)

lemma quiet_originals: "dbfaults s = [] \<Longrightarrow> bindIO (originalParticipants J i p) f s
    = (case originalIn J i p (tabs s) of Ok x \<Rightarrow> f x s | Err e \<Rightarrow> (Err e, s) | Panic \<Rightarrow> (Panic, s) | Diverge \<Rightarrow> (Diverge, s))"
  by (simp add: bindIO_def quiet_original)

lemma batchSubjects_has:
  "batchSubjects J rows = Ok bs \<Longrightarrow> b \<in> set rows \<Longrightarrow> preparedHeader J (nullable (bWire b)) = Ok h \<Longrightarrow>
    \<lparr>sHash = nullable (bSha b), sParticipants = indicatorParticipants h\<rparr> \<in> set bs"
  by (induction rows arbitrary: bs) auto

lemma subjectByHash_Ok:
  assumes "fst (sqlSubjectByHash J hash s) = Ok (Some (i, ps))" "dbfaults s = []"
  obtains m where "m \<in> set (msgs (tabs s))" "mId m = i" "mSha m = Some hash" "mTime m \<noteq> None"
      "originalIn J i (nullable (mWire m)) (tabs s) = Ok (Some ps)"
  | b h where "b \<in> set (batches (tabs s))" "bMsg b = i" "bSha b = Some hash" "bWire b \<noteq> None"
      "preparedHeader J (nullable (bWire b)) = Ok h" "ps = indicatorParticipants h"
proof (cases "find (\<lambda>m. mSha m = Some hash \<and> mTime m \<noteq> None) (msgs (tabs s))")
  case (Some m)
  then have "fst (case originalIn J (mId m) (nullable (mWire m)) (tabs s) of
      Ok parts \<Rightarrow> retIO (map_option (Pair (mId m)) parts) s | Err e \<Rightarrow> (Err e, s) | Panic \<Rightarrow> (Panic, s) | Diverge \<Rightarrow> (Diverge, s)) = Ok (Some (i, ps))"
    using assms by (simp add: sqlSubjectByHash_def quiet_query quiet_originals del: not_None_eq)
  then have "originalIn J i (nullable (mWire m)) (tabs s) = Ok (Some ps)" "mId m = i"
    by (auto simp: retIO_def split: res.splits)
  moreover have "m \<in> set (msgs (tabs s))" "mSha m = Some hash" "mTime m \<noteq> None" using Some by (auto simp: find_Some_iff)
  ultimately show thesis using that(1) by blast
next
  case None
  note n = None
  show thesis
  proof (cases "find (\<lambda>b. bSha b = Some hash \<and> bWire b \<noteq> None) (batches (tabs s))")
    case None
    then show thesis using assms n by (simp add: sqlSubjectByHash_def quiet_query retIO_def del: not_None_eq)
  next
    case (Some b)
    then have "fst (case preparedHeader J (nullable (bWire b)) of
        Ok h \<Rightarrow> retIO (Some (bMsg b, indicatorParticipants h)) s | Err e \<Rightarrow> (Err e, s) | Panic \<Rightarrow> (Panic, s) | Diverge \<Rightarrow> (Diverge, s)) = Ok (Some (i, ps))"
      using assms n by (simp add: sqlSubjectByHash_def quiet_query quiet_lift del: not_None_eq)
    then obtain h where "preparedHeader J (nullable (bWire b)) = Ok h" "bMsg b = i" "ps = indicatorParticipants h"
      by (auto simp: retIO_def split: res.splits)
    moreover have "b \<in> set (batches (tabs s))" "bSha b = Some hash" "bWire b \<noteq> None" using Some by (auto simp: find_Some_iff)
    ultimately show thesis using that(2) by blast
  qed
qed

lemma subjectsOf_Ok:
  assumes "fst (sqlSubjectsOf J i s) = Ok (orig, bs)" "dbfaults s = []" "wfTables (tabs s) (seq s)"
    and "m \<in> set (msgs (tabs s))" "mId m = i" "mTime m \<noteq> None"
  shows "batchSubjects J (filter (\<lambda>b. bMsg b = i \<and> finalSnapshot b) (batches (tabs s))) = Ok bs
    \<and> (length (nullable (mSha m)) = 32 \<longrightarrow> (\<exists>parts. originalIn J i (nullable (mWire m)) (tabs s) = Ok parts
         \<and> orig = map_option (\<lambda>ps. \<lparr>sHash = nullable (mSha m), sParticipants = ps\<rparr>) parts))"
proof -
  have f: "find (\<lambda>y. mId y = i \<and> mTime y \<noteq> None) (msgs (tabs s)) = Some m"
    using find_unique [of mId "msgs (tabs s)" m "\<lambda>y. mTime y \<noteq> None"] wfD(1) [OF assms(3)] assms(4-6)
    by (simp add: keysOK_def)
  let ?bs = "batchSubjects J (filter (\<lambda>b. bMsg b = i \<and> finalSnapshot b) (batches (tabs s)))"
  let ?o = "originalIn J i (nullable (mWire m)) (tabs s)"
  have "fst (case ?bs of Ok bs \<Rightarrow> (if length (nullable (mSha m)) \<noteq> 32 then retIO (None, bs) s
      else case ?o of Ok parts \<Rightarrow> retIO (map_option (\<lambda>ps. \<lparr>sHash = nullable (mSha m), sParticipants = ps\<rparr>) parts, bs) s
        | Err e \<Rightarrow> (Err e, s) | Panic \<Rightarrow> (Panic, s) | Diverge \<Rightarrow> (Diverge, s))
      | Err e \<Rightarrow> (Err e, s) | Panic \<Rightarrow> (Panic, s) | Diverge \<Rightarrow> (Diverge, s)) = Ok (orig, bs)"
    using assms(1,2) f by (simp add: sqlSubjectsOf_def quiet_query quiet_lift quiet_originals if_distrib [of "\<lambda>f. f s"] del: not_None_eq cong: if_cong res.case_cong)
  then show ?thesis by (auto simp: retIO_def split: res.splits if_splits)
qed

section \<open>Theorems\<close>

text \<open>
  C20. Both directions agree on what a hash names. If a hash of 32 bytes names a subject of a sent message,
  then the subjects read for that message, when the reader is to choose one to send about, include one
  with exactly this hash and these participants in this order.
\<close>
theorem subject_consistent:
  assumes "fst (sqlSubjectByHash J hash s) = Ok (Some (i, ps))" "fst (sqlSubjectsOf J i s) = Ok (orig, bs)"
    and "dbfaults s = []" "wfTables (tabs s) (seq s)" "length hash = 32" "msgAt (tabs s) i = Some m" "mTime m \<noteq> None"
  shows "\<lparr>sHash = hash, sParticipants = ps\<rparr> \<in> subjects orig bs"
  using assms(1,3)
proof (rule subjectByHash_Ok)
  fix m' assume m: "m' \<in> set (msgs (tabs s))" "mId m' = i" "mSha m' = Some hash" "mTime m' \<noteq> None"
    and o: "originalIn J i (nullable (mWire m')) (tabs s) = Ok (Some ps)"
  from subjectsOf_Ok [OF assms(2-4) m(1,2,4)] o m(3) assms(5)
  have "orig = Some \<lparr>sHash = hash, sParticipants = ps\<rparr>" by (simp add: nullable_def)
  then show ?thesis by simp
next
  fix b h assume b: "b \<in> set (batches (tabs s))" "bMsg b = i" "bSha b = Some hash" "bWire b \<noteq> None"
      "preparedHeader J (nullable (bWire b)) = Ok h" "ps = indicatorParticipants h"
  have m: "m \<in> set (msgs (tabs s))" "mId m = i" using assms(6) by (auto simp: msgAt_def find_Some_iff)
  from subjectsOf_Ok [OF assms(2-4) m assms(7)]
  have s: "batchSubjects J (filter (\<lambda>b. bMsg b = i \<and> finalSnapshot b) (batches (tabs s))) = Ok bs" by blast
  have "b \<in> set (filter (\<lambda>b. bMsg b = i \<and> finalSnapshot b) (batches (tabs s)))" using b by (simp add: finalSnapshot_def)
  from batchSubjects_has [OF s this b(5)] have "\<lparr>sHash = hash, sParticipants = ps\<rparr> \<in> set bs" using b(3,6) by (simp add: nullable_def)
  then show ?thesis by simp
qed


section \<open>The socket\<close>

text \<open>
  What \<open>serve\<close> does with one datagram, while \<open>busy\<close> of its workers are at work: it reads one byte more
  than a datagram may have, and drops what is too long, over the rate, or finds no worker free.
\<close>

definition serveOne :: "duration \<Rightarrow> (ip \<Rightarrow> string) \<Rightarrow> indicatorEnv \<Rightarrow> time \<Rightarrow> nat \<Rightarrow> bytes \<Rightarrow> ip \<Rightarrow> indicatorService \<Rightarrow> indicatorService" where
  "serveOne overflow IPString E now busy datagram src s =
     (let b = take (indicatorMaxLen + 1) datagram
      in if length b > indicatorMaxLen then s
         else case sourceAllow overflow (IPString src) now (recvLimit s) of
                (ok, l) \<Rightarrow>
                  if \<not> ok \<or> indicatorRecvWorkers \<le> busy then s\<lparr>recvLimit := l\<rparr>
                  else snd (verifyAndPublish E now b src (s\<lparr>recvLimit := l\<rparr>)))"

text \<open>A datagram that is served is received; one that is not publishes nothing.\<close>

lemma serveOne_received:
  "notices (serveOne overflow IPString E now busy datagram src s) = notices s
   \<or> busy < indicatorRecvWorkers \<and> length datagram \<le> indicatorMaxLen
     \<and> serveOne overflow IPString E now busy datagram src s = snd (receive overflow IPString E now datagram src s)"
  by (auto simp: serveOne_def receive_def Let_def split: prod.splits)

section \<open>Witnesses\<close>

text \<open>A message of Alice's to Bob and a batch that Bob added to it, with a snapshot each.\<close>

definition indicatedMsg :: msgRow where
  "indicatedMsg = \<lparr>mId = 1, mVersion = 1, mPid = None, mNoReply = False, mImportant = False, mDeflate = False, mTerminal = False,
     mTime = Some 0, mFrom = ''@alice@a.org'', mTopic = ''hi'', mType = ''text/plain'', mSha = Some (replicate 32 7),
     mPsha = None, mSize = 5, mPath = ''/m'', mWireHeader = None, mWire = Some [123]\<rparr>"

definition indicatedBatch :: batchRow where
  "indicatedBatch = \<lparr>bId = 2, bMsg = 1, bFrom = ''@bob@b.org'', bTime = 0, bSha = Some (replicate 32 9), bWire = Some [123]\<rparr>"

definition indicatedDb :: db where
  "indicatedDb = \<lparr>tabs = \<lparr>msgs = [indicatedMsg], tos = [], batches = [indicatedBatch], addTos = [], atts = [], notifies = []\<rparr>,
     seq = 3, dbfaults = []\<rparr>"

definition indicatedJSON :: json where
  "indicatedJSON = \<lparr>encJSON = (\<lambda>v h. [123]), decJSON = (\<lambda>b. Ok (1, Some sampleParent))\<rparr>"

theorem subject_consistent_witness:
  "\<exists>orig bs. fst (sqlSubjectByHash indicatedJSON (replicate 32 9) indicatedDb) = Ok (Some (1, indicatorParticipants sampleParent))
    \<and> fst (sqlSubjectsOf indicatedJSON 1 indicatedDb) = Ok (orig, bs)
    \<and> \<lparr>sHash = replicate 32 9, sParticipants = indicatorParticipants sampleParent\<rparr> \<in> subjects orig bs"
proof -
  have d: "dbfaults indicatedDb = []" by (simp add: indicatedDb_def)
  have n: "(replicate 32 9 :: bytes) \<noteq> replicate 32 7" by simp
  have J: "preparedHeader indicatedJSON b = Ok sampleParent" for b by (simp add: preparedHeader_def indicatedJSON_def)
  have m: "msgs (tabs indicatedDb) = [indicatedMsg]" "batches (tabs indicatedDb) = [indicatedBatch]" by (simp_all add: indicatedDb_def)
  have f: "mSha indicatedMsg = Some (replicate 32 7)" "mTime indicatedMsg = Some 0" "mWire indicatedMsg = Some [123]" "mId indicatedMsg = 1"
    "bSha indicatedBatch = Some (replicate 32 9)" "bWire indicatedBatch = Some [123]" "bMsg indicatedBatch = 1"
    by (simp_all only: indicatedMsg_def indicatedBatch_def msgRow.simps batchRow.simps)
  have a: "fst (sqlSubjectByHash indicatedJSON (replicate 32 9) indicatedDb) = Ok (Some (1, indicatorParticipants sampleParent))"
    using n by (simp add: sqlSubjectByHash_def quiet_query [OF d] quiet_lift m f J retIO_def)
  have "batchSubjects indicatedJSON [indicatedBatch] = Ok [\<lparr>sHash = replicate 32 9, sParticipants = indicatorParticipants sampleParent\<rparr>]"
    by (simp add: J f nullable_def)
  then have "\<exists>orig bs. fst (sqlSubjectsOf indicatedJSON 1 indicatedDb) = Ok (orig, bs)"
    by (simp add: sqlSubjectsOf_def quiet_query [OF d] quiet_lift quiet_originals [OF d] m f J finalSnapshot_def nullable_def originalIn_def retIO_def)
  then obtain orig bs where b: "fst (sqlSubjectsOf indicatedJSON 1 indicatedDb) = Ok (orig, bs)" by blast
  have w: "wfTables (tabs indicatedDb) (seq indicatedDb)"
    by (simp add: wfTables_def wf_defs hashesUnique_def replyOK_def indicatedDb_def indicatedMsg_def indicatedBatch_def)
  have "msgAt (tabs indicatedDb) 1 = Some indicatedMsg" "mTime indicatedMsg \<noteq> None" by (simp_all add: msgAt_def m f)
  from subject_consistent [OF a b d w _ this] a b show ?thesis by simp
qed


end
