(* ===== verification/Recipients.thy ===== *)
theory Recipients
  imports Store
begin

text \<open>
  What decides whether one local recipient takes a message: whether it already has it, what the
  identity service says of the address (\<open>src/cmd/fmsgd/id.go\<close>), and its limits
  (\<open>src/cmd/fmsgd/host.go\<close>). The HTTP exchange with the service and the decoding of its answer are
  parameters; sizes and limits are \<open>int64\<close> and wrap.
\<close>

section \<open>The world a connection is handled in\<close>

type_synonym i64 = "64 word"

record world =
  wConn :: conn
  wDisk :: disk
  wDb :: db
  wStats :: "(string \<times> string \<times> float64 \<times> i64) list"

text \<open>A step on a part of the world is a step on the world. \<open>wStats\<close> records the statistics posted.\<close>

definition onConn :: "'a io \<Rightarrow> ('z world_scheme, 'a) st" where
  "onConn m w = (case m (wConn w) of (r, c) \<Rightarrow> (r, w\<lparr>wConn := c\<rparr>))"

definition onDisk :: "'a dio \<Rightarrow> ('z world_scheme, 'a) st" where
  "onDisk m w = (case m (wDisk w) of (r, d) \<Rightarrow> (r, w\<lparr>wDisk := d\<rparr>))"

definition onDb :: "'a qio \<Rightarrow> ('z world_scheme, 'a) st" where
  "onDb m w = (case m (wDb w) of (r, s) \<Rightarrow> (r, w\<lparr>wDb := s\<rparr>))"

definition getS :: "('s \<Rightarrow> 'a) \<Rightarrow> ('s, 'a) st" where
  "getS f s = (Ok (f s), s)"

definition modS :: "('s \<Rightarrow> 's) \<Rightarrow> ('s, unit) st" where
  "modS f s = (Ok (), f s)"

text \<open>The error of a step as a value.\<close>

definition tryIO :: "('s, 'a) st \<Rightarrow> ('s, err + 'a) st" where
  "tryIO m s =
     (case m s of
        (Ok x, s') \<Rightarrow> (Ok (Inr x), s')
      | (Err e, s') \<Rightarrow> (Ok (Inl e), s')
      | (Panic, s') \<Rightarrow> (Panic, s')
      | (Diverge, s') \<Rightarrow> (Diverge, s'))"

section \<open>The identity service\<close>

record AddressDetail =
  AcceptingNew :: bool
  LimitRecvSizeTotal :: i64
  LimitRecvSizePer1d :: i64
  LimitRecvCountPer1d :: i64
  RecvSizeTotal :: i64
  RecvSizePer1d :: i64
  RecvCountPer1d :: i64

text \<open>
  \<open>httpGet\<close>: status and body; \<open>decDetail\<close>: the decoded body; \<open>httpPostStat\<close>: the status of posting
  address, time and size. The clocks are the readings the code makes when it stores and when it posts.
\<close>

record receiver = host +
  codecJson :: json
  postgres :: pgEnv
  dataDir :: string
  tempNames :: tempNames
  extensionsByType :: "string \<Rightarrow> string list"
  challengeMode :: string
  idURI :: string
  httpGet :: "string \<Rightarrow> (nat \<times> bytes) lookup"
  decDetail :: "bytes \<Rightarrow> AddressDetail res"
  httpPostStat :: "string \<Rightarrow> string \<Rightarrow> float64 \<Rightarrow> i64 \<Rightarrow> nat lookup"
  storeClock :: float64
  statClock :: float64

definition storeEnvOf :: "receiver \<Rightarrow> storeEnv" where
  "storeEnvOf R = \<lparr>sLib = lib R, sJson = codecJson R, sPg = postgres R, sDomain = hostDomain R\<rparr>"

text \<open>\<open>url.PathEscape\<close>.\<close>

definition upperHex :: "nat \<Rightarrow> char" where
  "upperHex n = ''0123456789ABCDEF'' ! n"

definition pathSafe :: "char \<Rightarrow> bool" where
  "pathSafe c \<longleftrightarrow>
     (let n = of_char c :: nat in (97 \<le> n \<and> n \<le> 122) \<or> (65 \<le> n \<and> n \<le> 90) \<or> (48 \<le> n \<and> n \<le> 57))
     \<or> c \<in> set ''-_.~$&+:=@''"

definition PathEscape :: "string \<Rightarrow> string" where
  "PathEscape s = concat (map (\<lambda>c. if pathSafe c then [c]
     else [CHR ''%'', upperHex (of_char c div 16), upperHex (of_char c mod 16)]) s)"

definition getAddressDetail :: "receiver \<Rightarrow> Address \<Rightarrow> AddressDetail option res" where
  "getAddressDetail R addr =
     (case httpGet R (idURI R @ ''/fmsgid/'' @ PathEscape (ToString addr)) of
        Inl e \<Rightarrow> Err e
      | Inr (status, body) \<Rightarrow>
          if status = 404 then Ok None
          else bindR (decDetail R body) (\<lambda>detail. Ok (Some detail)))"

definition postMsgStat :: "receiver \<Rightarrow> Address \<Rightarrow> float64 \<Rightarrow> i64 \<Rightarrow> bool \<Rightarrow> ('z world_scheme, unit) st" where
  "postMsgStat R addr timestamp size' isSending =
     (let part = (if isSending then ''send'' else ''recv'');
          uri = idURI R @ ''/fmsgid/'' @ part
      in bindIO (modS (\<lambda>w. w\<lparr>wStats := wStats w @ [(uri, ToString addr, timestamp, size')]\<rparr>)) (\<lambda>_.
           case httpPostStat R uri (ToString addr) timestamp size' of
             Inl e \<Rightarrow> failIO e
           | Inr status \<Rightarrow> if status \<noteq> 200 then failIO (Errorf ''POST returned'') else retIO ()))"

definition postMsgStatSend :: "receiver \<Rightarrow> Address \<Rightarrow> float64 \<Rightarrow> i64 \<Rightarrow> ('z world_scheme, unit) st" where
  "postMsgStatSend R addr timestamp size' = postMsgStat R addr timestamp size' True"

definition postMsgStatRecv :: "receiver \<Rightarrow> Address \<Rightarrow> float64 \<Rightarrow> i64 \<Rightarrow> ('z world_scheme, unit) st" where
  "postMsgStatRecv R addr timestamp size' = postMsgStat R addr timestamp size' False"

section \<open>Limits\<close>

definition storedSize :: "Header \<Rightarrow> i64" where
  "storedSize h =
     foldl (\<lambda>n a. n + (if hasFlag (aFlags a) 2 then ucast (aExpandedSize a) else ucast (aSize a)))
       (if hasFlag (Flags h) FlagDeflate then ucast (ExpandedSize h) else ucast (Size h)) (Attachments h)"

datatype recvLimit = CountPer1d | SizePer1d | SizeTotal

definition recvLimitExceeded :: "AddressDetail \<Rightarrow> i64 \<Rightarrow> recvLimit option" where
  "recvLimitExceeded d n =
     (if - 1 <s LimitRecvCountPer1d d \<and> LimitRecvCountPer1d d <s RecvCountPer1d d + 1 then Some CountPer1d
      else if - 1 <s LimitRecvSizePer1d d \<and> LimitRecvSizePer1d d <s RecvSizePer1d d + n then Some SizePer1d
      else if - 1 <s LimitRecvSizeTotal d \<and> LimitRecvSizeTotal d <s RecvSizeTotal d + n then Some SizeTotal
      else None)"

section \<open>One recipient\<close>

definition validateMsgRecvForAddr :: "receiver \<Rightarrow> Header \<Rightarrow> Address \<Rightarrow> bytes \<Rightarrow> ('z world_scheme, byte) st" where
  "validateMsgRecvForAddr R h addr msgHash =
     bindIO (onDb (hasAddrReceivedMsgHash (uni (lib R)) msgHash (Some addr))) (\<lambda>duplicate.
       if duplicate then retIO RejectCodeUserDuplicate
       else bindIO (liftIO (getAddressDetail R addr)) (\<lambda>detail.
         case detail of
           None \<Rightarrow> retIO RejectCodeUserUnknown
         | Some d \<Rightarrow>
             if \<not> AcceptingNew d then retIO RejectCodeUserNotAccepting
             else case recvLimitExceeded d (storedSize h) of
               Some _ \<Rightarrow> retIO RejectCodeUserFull
             | None \<Rightarrow> retIO RejectCodeAccept))"

fun allHaveHash :: "receiver \<Rightarrow> bytes \<Rightarrow> Address list \<Rightarrow> ('z world_scheme, bool) st" where
  "allHaveHash R msgHash [] = retIO True"
| "allHaveHash R msgHash (a # as) =
     bindIO (onDb (hasAddrReceivedMsgHash (uni (lib R)) msgHash (Some a))) (\<lambda>duplicate.
       if \<not> duplicate then retIO False else allHaveHash R msgHash as)"

definition allLocalRecipientsHaveMessageHash :: "receiver \<Rightarrow> bytes \<Rightarrow> Address list \<Rightarrow> ('z world_scheme, bool) st" where
  "allLocalRecipientsHaveMessageHash R msgHash addrs =
     (if addrs = [] then retIO False else allHaveHash R msgHash addrs)"

end
