(* ===== verification/Finalize.thy ===== *)
theory Finalize
  imports StoreMsg Recipients
begin

text \<open>
  Sealing outgoing messages (\<open>src/pkg/message/store.go\<close>): a draft of the shared store gets its time,
  its payload representation and its hash, and so does every batch of added recipients. The caller
  owns the transaction and the list of directories made on the way. \<open>tempDirs\<close> chooses their names,
  \<open>collated\<close> is the order of the database's strings.
\<close>

section \<open>State\<close>

record finalizer = storeEnv +
  tempDirs :: tempNames
  collated :: "string \<Rightarrow> string \<Rightarrow> bool"

record finalizing = world +
  newFiles :: "string list"

type_synonym 'a fin = "(finalizing, 'a) st"

definition Cleanup :: "string list \<Rightarrow> unit dio" where
  "Cleanup f = foldr (\<lambda>p rest. bindIO (ignoreErr (removeAll p)) (\<lambda>_. rest)) f (retIO ())"

section \<open>Loading a message\<close>

definition AddressOf :: "string \<Rightarrow> Address res" where
  "AddressOf s =
     (let p = Split s CHR ''@''
      in if length p \<noteq> 3 \<or> p ! 0 \<noteq> [] \<or> p ! 1 = [] \<or> p ! 2 = [] \<or> length s > 255
         then Err (Errorf ''invalid address'')
         else Ok \<lparr>User = p ! 1, Domain = p ! 2\<rparr>)"

fun addressesOf :: "string list \<Rightarrow> Address list res" where
  "addressesOf [] = Ok []"
| "addressesOf (a # as) = bindR (AddressOf a) (\<lambda>x. bindR (addressesOf as) (\<lambda>xs. Ok (x # xs)))"

record stored =
  sHeader :: Header
  sTime :: "float64 option"
  sPid :: "int option"
  sHash :: bytes
  sPrepared :: bytes

text \<open>\<open>Scan\<close> of an integer column into an unsigned variable.\<close>

definition scanUint :: "int \<Rightarrow> 'a::len word res" where
  "scanUint v = (if 0 \<le> v \<and> v < 2 ^ LENGTH('a) then Ok (word_of_int v) else Err (Errorf ''converting driver.Value''))"

definition storedOf :: "msgRow \<Rightarrow> stored res" where
  "storedOf m =
     bindR (scanUint (mVersion m)) (\<lambda>version.
     bindR (scanUint (mSize m)) (\<lambda>n.
     bindR (AddressOf (mFrom m)) (\<lambda>sender.
     let pid = nullable (mPsha m);
         flags = (if mNoReply m then FlagNoReply else 0) OR (if mImportant m then FlagImportant else 0)
           OR (if mTerminal m then FlagTerminal else 0) OR (if mPid m \<noteq> None \<or> pid \<noteq> [] then FlagHasPid else 0)
     in Ok \<lparr>sHeader = emptyHeader\<lparr>Version := version, Flags := flags, Pid := pid, From := sender,
              Timestamp := (case mTime m of Some t \<Rightarrow> t | None \<Rightarrow> 0), Topic := mTopic m, Type := mType m, Size := n,
              Filepath := mPath m\<rparr>,
            sTime = mTime m, sPid = mPid m, sHash = nullable (mSha m), sPrepared = nullable (mWire m)\<rparr>)))"

text \<open>\<open>ORDER BY position, filename\<close>.\<close>

definition attBefore :: "finalizer \<Rightarrow> attRow \<Rightarrow> attRow \<Rightarrow> bool" where
  "attBefore F a b \<longleftrightarrow> tPosition a < tPosition b \<or> (tPosition a = tPosition b \<and> collated F (tFilename a) (tFilename b))"

fun insertAtt :: "finalizer \<Rightarrow> attRow \<Rightarrow> attRow list \<Rightarrow> attRow list" where
  "insertAtt F a [] = [a]"
| "insertAtt F a (b # bs) = (if attBefore F a b then a # b # bs else b # insertAtt F a bs)"

fun attachmentsOf :: "attRow list \<Rightarrow> AttachmentHeader list res" where
  "attachmentsOf [] = Ok []"
| "attachmentsOf (r # rs) =
     bindR (scanUint (tFilesize r)) (\<lambda>n.
     bindR (attachmentsOf rs) (\<lambda>as.
       Ok (\<lparr>aFlags = 0, aTypeID = 0, aType = tType r, aFilename = tFilename r, aSize = n, aExpandedSize = 0,
            aFilepath = tFilepath r\<rparr> # as)))"

definition load :: "finalizer \<Rightarrow> int \<Rightarrow> stored qio" where
  "load F i =
     bindIO (query (\<lambda>t. msgAt t i)) (\<lambda>row.
       case row of
         None \<Rightarrow> failIO ErrNoRows
       | Some m \<Rightarrow>
           bindIO (liftIO (storedOf m)) (\<lambda>s.
           bindIO (query (\<lambda>t. map rAddr (filter (\<lambda>r. rMsg r = i) (tos t)))) (\<lambda>addrs.
           bindIO (liftIO (addressesOf addrs)) (\<lambda>to.
           bindIO (query (\<lambda>t. foldr (insertAtt F) (filter (\<lambda>r. tMsg r = i) (atts t)) [])) (\<lambda>rows.
           bindIO (liftIO (attachmentsOf rows)) (\<lambda>as.
             retIO (s\<lparr>sHeader := (sHeader s)\<lparr>To := to, Attachments := as\<rparr>\<rparr>)))))))"

section \<open>Added recipients\<close>

definition lockBatch :: "int \<Rightarrow> int \<Rightarrow> batchRow qio" where
  "lockBatch batch i =
     bindIO (query (\<lambda>t. find (\<lambda>b. bId b = batch \<and> bMsg b = i) (batches t)))
       (\<lambda>row. case row of None \<Rightarrow> failIO ErrNoRows | Some b \<Rightarrow> retIO b)"

text \<open>The payload representation of a message: its own, or else that of its first batch that has one.\<close>

definition representation :: "finalizer \<Rightarrow> fsys \<Rightarrow> int \<Rightarrow> stored \<Rightarrow> Header qio" where
  "representation F fs i s =
     (if sPrepared s \<noteq> [] then liftIO (UnmarshalPrepared (sLib F) fs (sJson F) (sPrepared s) (sHash s))
      else bindIO (query (\<lambda>t. find (\<lambda>b. bMsg b = i \<and> bWire b \<noteq> None) (batches t))) (\<lambda>row.
           case row of
             None \<Rightarrow> failIO ErrNoRows
           | Some b \<Rightarrow> liftIO (UnmarshalPrepared (sLib F) fs (sJson F) (nullable (bWire b)) (nullable (bSha b)))))"

definition batchHeader :: "bytes \<Rightarrow> batchRow \<Rightarrow> Address \<Rightarrow> Address list \<Rightarrow> Header \<Rightarrow> Header" where
  "batchHeader hash b sender added h =
     (Clone h)\<lparr>Flags := Flags h OR FlagHasPid OR FlagHasAddTo, Pid := hash, Timestamp := bTime b, Topic := [],
       AddToFrom := Some sender, AddTo := added\<rparr>"

definition sealBatch :: "finalizer \<Rightarrow> fsys \<Rightarrow> int \<Rightarrow> int \<Rightarrow> stored \<Rightarrow> batchRow \<Rightarrow> bytes qio" where
  "sealBatch F fs i batch s b =
     bindIO (representation F fs i s) (\<lambda>h.
     bindIO (liftIO (AddressOf (bFrom b))) (\<lambda>sender.
     bindIO (query (\<lambda>t. batchAddrs t batch)) (\<lambda>addrs.
     bindIO (liftIO (addressesOf addrs)) (\<lambda>added.
     if added = [] \<or> length added > 255 then failIO (Errorf ''invalid add-to recipient count'')
     else bindIO (liftIO (GetMessageHash (sLib F) fs (batchHeader (sHash s) b sender added h))) (\<lambda>(hash, h').
          bindIO (liftIO (MarshalPrepared (sJson F) h')) (\<lambda>data.
          bindIO (exec (sealBatchRow (sPg F) batch hash data)) (\<lambda>_. retIO hash)))))))"

text \<open>A draft's batches are sealed with it; a sealed batch has its hash.\<close>

definition FinalizeBatch :: "finalizer \<Rightarrow> fsys \<Rightarrow> int \<Rightarrow> int \<Rightarrow> bytes qio" where
  "FinalizeBatch F fs i batch =
     bindIO (load F i) (\<lambda>s.
       if sTime s = None then retIO []
       else if length (sHash s) \<noteq> 32 then failIO (Errorf ''message has no finalized identity'')
       else bindIO (lockBatch batch i) (\<lambda>b.
            if nullable (bSha b) \<noteq> [] then retIO (nullable (bSha b)) else sealBatch F fs i batch s b))"

text \<open>\<open>UPDATE msg_add_to_batch SET time_added=GREATEST(time_added,$2)\<close>.\<close>

definition laterTime :: "float64 \<Rightarrow> float64 \<Rightarrow> float64" where
  "laterTime a b = (if pgLess a b then b else a)"

definition postponeBatch :: "int \<Rightarrow> float64 \<Rightarrow> tables \<Rightarrow> tables option" where
  "postponeBatch batch timestamp t =
     Some (t\<lparr>batches := map (\<lambda>b. if bId b = batch \<and> bSha b = None then b\<lparr>bTime := laterTime (bTime b) timestamp\<rparr> else b) (batches t)\<rparr>)"

fun finalizeBatches :: "finalizer \<Rightarrow> fsys \<Rightarrow> int \<Rightarrow> float64 \<Rightarrow> int list \<Rightarrow> unit qio" where
  "finalizeBatches F fs i timestamp [] = retIO ()"
| "finalizeBatches F fs i timestamp (b # bs) =
     bindIO (exec (postponeBatch b timestamp)) (\<lambda>_.
     bindIO (FinalizeBatch F fs i b) (\<lambda>_. finalizeBatches F fs i timestamp bs))"

section \<open>Drafts\<close>

definition parentHashOf :: "stored \<Rightarrow> Header qio" where
  "parentHashOf s =
     (case sPid s of
        None \<Rightarrow> retIO (sHeader s)
      | Some p \<Rightarrow>
          bindIO (query (\<lambda>t. find (\<lambda>m. mId m = p \<and> mTime m \<noteq> None \<and> \<not> mTerminal m) (msgs t))) (\<lambda>row.
            case row of
              None \<Rightarrow> failIO (Errorf ''parent unavailable'')
            | Some m \<Rightarrow>
                if length (nullable (mSha m)) \<noteq> 32 then failIO (Errorf ''parent has no finalized identity'')
                else retIO (if Pid (sHeader s) = [] then (sHeader s)\<lparr>Pid := nullable (mSha m)\<rparr> else sHeader s)))"

text \<open>
  The update that seals a message, with what the schema checks: the hash is new, a sent message does
  not change, a reply has the parent its hash names. An empty parent hash is stored as null.
\<close>

definition sealedRow :: "float64 \<Rightarrow> bytes \<Rightarrow> bytes \<Rightarrow> Header \<Rightarrow> msgRow \<Rightarrow> msgRow" where
  "sealedRow timestamp hash w h m =
     m\<lparr>mTime := Some timestamp, mSha := Some hash, mPsha := (if Pid h = [] then None else Some (Pid h)),
       mWireHeader := Some (Encode h), mWire := Some w, mDeflate := hasFlag (Flags h) FlagDeflate\<rparr>"

definition sealMsgRow :: "pgEnv \<Rightarrow> int \<Rightarrow> float64 \<Rightarrow> bytes \<Rightarrow> bytes \<Rightarrow> Header \<Rightarrow> tables \<Rightarrow> tables option" where
  "sealMsgRow P i timestamp hash snapshot h t =
     (case jsonb P snapshot of
        None \<Rightarrow> None
      | Some w \<Rightarrow>
          if list_ex (\<lambda>m. mId m \<noteq> i \<and> mSha m = Some hash) (msgs t) then None
          else map_option (\<lambda>ms. t\<lparr>msgs := ms\<rparr>)
            (updRows (\<lambda>m.
               if mId m \<noteq> i then Some m
               else let m' = sealedRow timestamp hash w h m
                    in if mTime m \<noteq> None \<and> m' \<noteq> m then None
                       else case mPid m of None \<Rightarrow> Some m' | Some p \<Rightarrow> parentLinkOK t m' p) (msgs t)))"

definition unsealed :: "int \<Rightarrow> tables \<Rightarrow> int list" where
  "unsealed i t = map bId (filter (\<lambda>b. bMsg b = i \<and> bSha b = None) (batches t))"

text \<open>The prepared header is hashed, the message sealed under that hash, and then its batches.\<close>

definition sealDraft :: "finalizer \<Rightarrow> int \<Rightarrow> float64 \<Rightarrow> Header \<Rightarrow> bytes fin" where
  "sealDraft F i timestamp h =
     bindIO (getS (\<lambda>w. ents (wDisk w))) (\<lambda>fs.
     bindIO (liftIO (GetMessageHash (sLib F) fs h)) (\<lambda>(hash, h').
     bindIO (liftIO (MarshalPrepared (sJson F) h')) (\<lambda>snapshot.
     bindIO (onDb (exec (sealMsgRow (sPg F) i timestamp hash snapshot h'))) (\<lambda>_.
     bindIO (onDb (query (unsealed i))) (\<lambda>bs.
     bindIO (onDb (finalizeBatches F fs i timestamp bs)) (\<lambda>_.
     retIO hash))))))"

definition Finalize :: "finalizer \<Rightarrow> int \<Rightarrow> float64 \<Rightarrow> bytes fin" where
  "Finalize F i timestamp =
     bindIO (onDb (load F i)) (\<lambda>s.
       if sTime s \<noteq> None \<or> sHash s \<noteq> [] then failIO (Errorf ''message is already finalized'')
       else bindIO (onDb (parentHashOf (s\<lparr>sHeader := (sHeader s)\<lparr>Timestamp := timestamp\<rparr>\<rparr>))) (\<lambda>draft.
            if Pid draft \<noteq> [] \<and> length (Pid draft) \<noteq> 32 then failIO (Errorf ''invalid parent hash'')
            else bindIO (onDisk (Prepare (sLib F) (tempDirs F) draft)) (\<lambda>(h, dir).
                 bindIO (modS (\<lambda>w. w\<lparr>newFiles := newFiles w @ [dir]\<rparr>)) (\<lambda>_. sealDraft F i timestamp h))))"

end
