(* ===== verification/Delivery.thy ===== *)
theory Delivery
  imports Recipients Limiters
begin

text \<open>
  Receiving a message's data and delivering it to this host's recipients (\<open>src/cmd/fmsgd/host.go\<close>,
  \<open>prepareMessageData\<close> to \<open>downloadMessage\<close>). Every step that can fail does so where the code's can:
  the connection, the disk, the database, the identity service. The local variables of
  \<open>downloadMessage\<close> that its deferred calls read are kept beside the world.
\<close>

section \<open>Message data\<close>

text \<open>\<open>io.CopyN\<close> from the connection to a file: what arrived is written, and less than asked is an error.\<close>

definition copyNFromConn :: "string \<Rightarrow> nat \<Rightarrow> ('z world_scheme, unit) st" where
  "copyNFromConn path n w =
     (let c = wConn w; b = take n (inp c)
      in bindIO (onConn (\<lambda>c. (Ok (), consume (length b) c))) (\<lambda>_.
         bindIO (onDisk (appendFile path b)) (\<lambda>_.
         if length b < n then failIO (inp_end c) else retIO ())) w)"

fun cleanupFiles :: "string list \<Rightarrow> unit dio" where
  "cleanupFiles [] = retIO ()"
| "cleanupFiles (p # ps) =
     (if p = [] then cleanupFiles ps else bindIO (ignoreErr (osRemove p)) (\<lambda>_. cleanupFiles ps))"

text \<open>A new temporary file filled from the connection; on failure it is removed.\<close>

definition downloadPart :: "tempNames \<Rightarrow> string \<Rightarrow> u32 \<Rightarrow> ('z world_scheme, string) st" where
  "downloadPart tmp pat n =
     bindIO (onDisk (createTemp tmp pat)) (\<lambda>fd.
     bindIO (onErr (copyNFromConn fd (unat n)) (onDisk (bindIO (ignoreErr osFlush) (\<lambda>_. osRemove fd)))) (\<lambda>_.
     bindIO (onErr (onDisk osFlush) (onDisk (osRemove fd))) (\<lambda>_.
     retIO fd)))"

text \<open>The attachments in order; a failure removes what was created before it.\<close>

fun downloadAttachments :: "tempNames \<Rightarrow> string list \<Rightarrow> AttachmentHeader list \<Rightarrow>
    ('z world_scheme, AttachmentHeader list \<times> string list) st" where
  "downloadAttachments tmp created [] = retIO ([], created)"
| "downloadAttachments tmp created (a # as) =
     bindIO (onErr (downloadPart tmp ''fmsg-attachment-'' (aSize a)) (onDisk (cleanupFiles created))) (\<lambda>afd.
     bindIO (downloadAttachments tmp (created @ [afd]) as) (\<lambda>(as', created').
     retIO (a\<lparr>aFilepath := afd\<rparr> # as', created')))"

fun storedPaths :: "AttachmentHeader list \<Rightarrow> AttachmentHeader list \<Rightarrow> AttachmentHeader list option" where
  "storedPaths (p # ps) (a # as) =
     (if aFilepath p = [] then None else map_option ((#) (a\<lparr>aFilepath := aFilepath p\<rparr>)) (storedPaths ps as))"
| "storedPaths _ as = Some as"

definition prepareMessageData :: "receiver \<Rightarrow> Header \<Rightarrow> bool \<Rightarrow> ('z world_scheme, Header \<times> string list) st" where
  "prepareMessageData R h skipData =
     (if skipData then
        bindIO (onDb (lookupMsgIdByHashDb (Pid h))) (\<lambda>parentID.
          if parentID = 0 then failIO (ErrProtocolViolation ''code 65 requires stored parent'')
          else bindIO (getS (\<lambda>w. ents (wDisk w))) (\<lambda>fs.
               bindIO (onDb (getMsgByIDDb (storeEnvOf R) fs parentID)) (\<lambda>parentMsg.
                 case parentMsg of
                   None \<Rightarrow> failIO (ErrProtocolViolation ''code 65 parent data unavailable'')
                 | Some p \<Rightarrow>
                     if Filepath p = [] then failIO (ErrProtocolViolation ''code 65 parent data unavailable'')
                     else if length (Attachments p) \<noteq> length (Attachments h)
                     then failIO (ErrProtocolViolation ''code 65 attachment count mismatch'')
                     else case storedPaths (Attachments p) (Attachments h) of
                       None \<Rightarrow> failIO (ErrProtocolViolation ''code 65 attachment data unavailable'')
                     | Some as \<Rightarrow> retIO (h\<lparr>Filepath := Filepath p, Attachments := as\<rparr>, []))))
      else
        bindIO (downloadPart (tempNames R) ''fmsg-download-'' (Size h)) (\<lambda>fd.
        bindIO (downloadAttachments (tempNames R) [fd] (Attachments h)) (\<lambda>(as, created).
        retIO (h\<lparr>Filepath := fd, Attachments := as\<rparr>, created))))"

section \<open>Payload copies\<close>

text \<open>\<open>Close\<close> is checked before the copy's own error, and then leaves the file; a stream that does not
  inflate is taken to fail as it is copied.\<close>

definition copyMessagePayload :: "golib \<Rightarrow> bytes option \<Rightarrow> string \<Rightarrow> bool \<Rightarrow> u32 \<Rightarrow> unit dio" where
  "copyMessagePayload L src dstPath compressed wireSize =
     bindIO osFlush (\<lambda>_.
     bindIO (osCreate dstPath) (\<lambda>_.
     bindIO (tryIO (if compressed
        then bindIO (readAllOf src) (\<lambda>b. bindIO (liftIO (inflate L (take (unat wireSize) b))) (appendFile dstPath))
        else copyNTo dstPath (unat wireSize) src)) (\<lambda>copyErr.
     bindIO osFlush (\<lambda>_.
     case copyErr of
       Inl e \<Rightarrow> bindIO (ignoreErr (osRemove dstPath)) (\<lambda>_. failIO e)
     | Inr _ \<Rightarrow> retIO ()))))"

definition orDiverge :: "'a option \<Rightarrow> 'a res" where
  "orDiverge x = (case x of None \<Rightarrow> Diverge | Some y \<Rightarrow> Ok y)"

text \<open>Every attachment to its place; those before a failure keep their new path.\<close>

fun persistAttachments :: "golib \<Rightarrow> string \<Rightarrow> u32 \<Rightarrow> nat \<Rightarrow> AttachmentHeader list \<Rightarrow> (AttachmentHeader list \<times> err option) dio" where
  "persistAttachments L dirpath timestamp i [] = retIO ([], None)"
| "persistAttachments L dirpath timestamp i (a # as) =
     bindIO (tryIO (bindIO (osOpen (aFilepath a)) (\<lambda>src.
             bindIO getEnts (\<lambda>fs.
             bindIO (liftIO (orDiverge (uniqueAttachmentPath fs dirpath timestamp i (aFilename a)))) (\<lambda>dstPath.
             bindIO (copyMessagePayload L src dstPath (hasFlag (aFlags a) 2) (aSize a)) (\<lambda>_.
             retIO dstPath)))))) (\<lambda>r.
       case r of
         Inl e \<Rightarrow> retIO (a # as, Some e)
       | Inr p \<Rightarrow>
           bindIO (persistAttachments L dirpath timestamp (Suc i) as) (\<lambda>(as', e).
           retIO (a\<lparr>aFilepath := p\<rparr> # as', e)))"

text \<open>\<open>uint32(h.Timestamp)\<close>; the language leaves a value out of range open, and here it is what is left
  of the value in 64 bits.\<close>

definition u32OfTime :: "float64 \<Rightarrow> u32" where
  "u32OfTime t = of_int (toDuration 0 (f64_of_bits t))"

definition persistAttachmentPayloads :: "golib \<Rightarrow> Header \<Rightarrow> string \<Rightarrow> (Header \<times> err option) dio" where
  "persistAttachmentPayloads L h dirpath =
     bindIO (persistAttachments L dirpath (u32OfTime (Timestamp h)) 0 (Attachments h)) (\<lambda>(as, e).
       retIO (h\<lparr>Attachments := as\<rparr>, e))"

section \<open>Downloading\<close>

text \<open>
  The variables of \<open>downloadMessage\<close>. \<open>lCodes\<close> are the entries of \<open>codes\<close> assigned so far: each pass
  of the loop assigns its own.
\<close>

record download = world +
  lHeader :: Header
  lCodes :: bytes
  lAcceptedTo :: "Address list"
  lAcceptedAddTo :: "Address list"
  lPrimary :: string
  lWireDir :: string
  lWireStored :: bool

type_synonym 'a dl = "(download, 'a) st"

definition setCode :: "byte \<Rightarrow> unit dl" where
  "setCode c = modS (\<lambda>w. w\<lparr>lCodes := lCodes w @ [c]\<rparr>)"

text \<open>The wire form of the message is preserved once, before its attachments are expanded into place.\<close>

definition preserveWire :: "receiver \<Rightarrow> string \<Rightarrow> unit dl" where
  "preserveWire R fp =
     bindIO (getS lHeader) (\<lambda>h.
       if length (StoredWire h) \<noteq> 0 then retIO ()
       else bindIO (onDisk (Preserve (lib R) (tempNames R) h (Dir fp))) (\<lambda>(wire, dir).
            bindIO (modS (\<lambda>w. w\<lparr>lWireDir := dir\<rparr>)) (\<lambda>_.
            bindIO (liftIO (MarshalPrepared (codecJson R) wire)) (\<lambda>data.
            modS (\<lambda>w. w\<lparr>lHeader := h\<lparr>StoredWire := data\<rparr>\<rparr>)))))"

text \<open>A failure to place the attachments takes the acceptances back.\<close>

definition settleFirst :: "err option \<Rightarrow> unit dl" where
  "settleFirst e =
     (case e of
        None \<Rightarrow> setCode RejectCodeAccept
      | Some _ \<Rightarrow>
          bindIO (modS (\<lambda>w. w\<lparr>lPrimary := [], lAcceptedTo := [], lAcceptedAddTo := []\<rparr>)) (\<lambda>_.
          setCode RejectCodeUserUndisclosed))"

definition placeAttachments :: "receiver \<Rightarrow> string \<Rightarrow> err option dl" where
  "placeAttachments R fp =
     bindIO (getS lHeader) (\<lambda>h.
     bindIO (onDisk (persistAttachmentPayloads (lib R) h (Dir fp))) (\<lambda>(h', e).
     bindIO (modS (\<lambda>w. w\<lparr>lHeader := h'\<rparr>)) (\<lambda>_. retIO e)))"

definition acceptFirst :: "receiver \<Rightarrow> string \<Rightarrow> unit dl" where
  "acceptFirst R fp =
     bindIO (modS (\<lambda>w. w\<lparr>lPrimary := fp\<rparr>)) (\<lambda>_.
     bindIO (preserveWire R fp) (\<lambda>_.
     bindIO (placeAttachments R fp) settleFirst))"

text \<open>The copy is in the recipient's inbox: the recipient is accepted, the first one with the message's own files.\<close>

definition acceptCopy :: "receiver \<Rightarrow> bool \<Rightarrow> Address \<Rightarrow> string \<Rightarrow> unit dl" where
  "acceptCopy R isTo addr fp =
     bindIO (modS (\<lambda>w. if isTo then w\<lparr>lAcceptedTo := lAcceptedTo w @ [addr]\<rparr>
                       else w\<lparr>lAcceptedAddTo := lAcceptedAddTo w @ [addr]\<rparr>)) (\<lambda>_.
     bindIO (getS lPrimary) (\<lambda>primary.
       if primary = [] then acceptFirst R fp else setCode RejectCodeAccept))"

definition deliverCopy :: "receiver \<Rightarrow> bytes option \<Rightarrow> string \<Rightarrow> bool \<Rightarrow> Address \<Rightarrow> Header \<Rightarrow> unit dl" where
  "deliverCopy R src ext isTo addr h =
     (let dirpath = Join [dataDir R, Domain addr, User addr, ''in'']
      in bindIO (onDisk (mkdirAll dirpath)) (\<lambda>_.
         bindIO (getS (\<lambda>w. ents (wDisk w))) (\<lambda>fs.
         bindIO (liftIO (orDiverge (uniqueFilepath fs dirpath (u32OfTime (Timestamp h)) ext))) (\<lambda>fp.
         bindIO (tryIO (onDisk (copyMessagePayload (lib R) src fp (hasFlag (Flags h) FlagDeflate) (Size h)))) (\<lambda>r.
           case r of
             Inl _ \<Rightarrow> setCode RejectCodeUserUndisclosed
           | Inr _ \<Rightarrow> acceptCopy R isTo addr fp)))))"

definition deliverTo :: "receiver \<Rightarrow> bytes option \<Rightarrow> string \<Rightarrow> bytes \<Rightarrow> bool \<Rightarrow> Address \<Rightarrow> unit dl" where
  "deliverTo R src ext dupHash isTo addr =
     bindIO (getS lHeader) (\<lambda>h.
     bindIO (validateMsgRecvForAddr R h addr dupHash) (\<lambda>code.
       if code \<noteq> RejectCodeAccept then setCode code
       else deliverCopy R src ext isTo addr h))"

text \<open>\<open>i < numLocalTo\<close> tells the recipients that came from \<open>to\<close>.\<close>

fun deliverAll :: "receiver \<Rightarrow> bytes option \<Rightarrow> string \<Rightarrow> bytes \<Rightarrow> nat \<Rightarrow> Address list \<Rightarrow> unit dl" where
  "deliverAll R src ext dupHash numLocalTo [] = retIO ()"
| "deliverAll R src ext dupHash numLocalTo (a # as) =
     bindIO (deliverTo R src ext dupHash (0 < numLocalTo) a) (\<lambda>_. deliverAll R src ext dupHash (numLocalTo - 1) as)"

text \<open>A failure to post is only logged.\<close>

fun recordRecvUsage :: "receiver \<Rightarrow> Header \<Rightarrow> Address list \<Rightarrow> float64 \<Rightarrow> ('z world_scheme, unit) st" where
  "recordRecvUsage R h [] now = retIO ()"
| "recordRecvUsage R h (a # as) now =
     bindIO (ignoreErr (postMsgStatRecv R a now (storedSize h))) (\<lambda>_. recordRecvUsage R h as now)"

text \<open>A map built by assignments in order: the last one to a key counts.\<close>

definition localOutcomeOf :: "receiver \<Rightarrow> Address list \<Rightarrow> bytes \<Rightarrow> string \<Rightarrow> byte option" where
  "localOutcomeOf R addrs codes = map_of (rev (zip (map (\<lambda>a. ToLower (uni (lib R)) (ToString a)) addrs) codes))"

definition storeAcceptedMessage :: "receiver \<Rightarrow> (string \<Rightarrow> byte option) \<Rightarrow> bool dl" where
  "storeAcceptedMessage R localOutcome =
     bindIO (getS (\<lambda>w. lAcceptedTo w @ lAcceptedAddTo w)) (\<lambda>accepted.
       if accepted = [] then retIO False
       else
         bindIO (modS (\<lambda>w. w\<lparr>lHeader := (lHeader w)\<lparr>Filepath := lPrimary w\<rparr>\<rparr>)) (\<lambda>_.
         bindIO (getS lHeader) (\<lambda>h.
         bindIO (getS (\<lambda>w. ents (wDisk w))) (\<lambda>fs.
         bindIO (tryIO (onDb (storeMsgDetail (storeEnvOf R) fs (storeClock R) h localOutcome))) (\<lambda>r.
           case r of
             Inl _ \<Rightarrow>
               bindIO (modS (\<lambda>w. w\<lparr>lCodes := map (\<lambda>c. if c = RejectCodeAccept then RejectCodeUserUndisclosed else c) (lCodes w)\<rparr>))
                 (\<lambda>_. retIO False)
           | Inr _ \<Rightarrow>
               bindIO (recordRecvUsage R h accepted (statClock R)) (\<lambda>_. retIO True))))))"

text \<open>From the hash check on; the deferred removal of the preserved wire form follows it.\<close>

definition deliverVerified :: "receiver \<Rightarrow> Address list \<Rightarrow> nat \<Rightarrow> bytes \<Rightarrow> unit dl" where
  "deliverVerified R addrs numLocalTo dupHash =
     bindIO (getS lHeader) (\<lambda>h.
     let exts = extensionsByType R (Type h);
         ext = (if exts = [] then ''.unknown'' else hd exts)
     in bindIO (onDisk (osOpen (Filepath h))) (\<lambda>src.
        bindIO (deliverAll R src ext dupHash numLocalTo addrs) (\<lambda>_.
        bindIO (getS lCodes) (\<lambda>codes.
        bindIO (modS (\<lambda>w. w\<lparr>lWireStored := (lAcceptedTo w @ lAcceptedAddTo w \<noteq> [])\<rparr>)) (\<lambda>_.
        bindIO (storeAcceptedMessage R (localOutcomeOf R addrs codes)) (\<lambda>_.
        bindIO (getS lCodes) (\<lambda>codes'.
        onConn (rejectAccept codes'))))))))"

definition cleanupWire :: "unit dl" where
  "cleanupWire w = (if \<not> lWireStored w \<and> lWireDir w \<noteq> [] then onDisk (removeAll (lWireDir w)) w else retIO () w)"

definition verifyHash :: "receiver \<Rightarrow> (bytes \<times> bytes) dl" where
  "verifyHash R =
     bindIO (getS lHeader) (\<lambda>h.
     bindIO (getS (\<lambda>w. ents (wDisk w))) (\<lambda>fs.
     bindIO (liftIO (GetMessageHash (lib R) fs h)) (\<lambda>(msgHash, h1).
       if ChallengeCompleted h \<and> ChallengeHash h \<noteq> msgHash
       then failIO (ErrProtocolViolation ''actual hash mismatch challenge response'')
       else bindIO (liftIO (canonicalMsgHash (lib R) fs h1)) (\<lambda>(dupHash, h2).
            bindIO (modS (\<lambda>w. w\<lparr>lHeader := h2\<rparr>)) (\<lambda>_. retIO (msgHash, dupHash))))))"

definition downloadBody :: "receiver \<Rightarrow> bool \<Rightarrow> unit dl" where
  "downloadBody R skipData =
     bindIO (getS lHeader) (\<lambda>h.
     let (addrs, numLocalTo) = localRecipients (uni (lib R)) (hostDomain R) h
     in if addrs = [] then failIO (ErrProtocolViolation ''our domain not in recipient list'')
        else bindIO (prepareMessageData R h skipData) (\<lambda>(h1, createdPaths).
             deferIO
               (bindIO (modS (\<lambda>w. w\<lparr>lHeader := h1\<rparr>)) (\<lambda>_.
                bindIO (verifyHash R) (\<lambda>(_, dupHash).
                deferIO (deliverVerified R addrs numLocalTo dupHash) cleanupWire)))
               (if skipData then retIO () else onDisk (cleanupFiles createdPaths))))"

definition downloadMessage :: "receiver \<Rightarrow> Header \<Rightarrow> bool \<Rightarrow> world \<Rightarrow> unit res \<times> world" where
  "downloadMessage R h skipData w =
     (case downloadBody R skipData
        (world.extend w (download.fields h [] [] [] [] [] False)) of
        (r, w') \<Rightarrow> (r, world.truncate w'))"

end
