(* ===== verification/Sender.thy ===== *)
theory Sender
  imports Delivery Outgoing Limiters
begin

text \<open>
  The sending host (\<open>src/cmd/fmsgd/sender.go\<close>): which recipients are due, one delivery of one wire
  message to one domain in a transaction of its own, and the deliveries a stored message consists
  of. A transaction in which a statement failed refuses every further one, as PostgreSQL does. The
  rows other senders hold locked are a parameter, as is the TLS connection to an address.
\<close>

section \<open>State\<close>

text \<open>
  \<open>dialTLS\<close>: a connection to an address under a server name, with the address as \<open>String\<close> writes
  it; \<open>clockAt\<close>: the successive readings of the clock; \<open>heldRows\<close>: the rows locked elsewhere.
\<close>

record sender = receiver +
  RetryInterval :: f64
  RetryMaxAge :: f64
  dialTLS :: "ip \<Rightarrow> string \<Rightarrow> (string \<times> conn) option"
  clockAt :: "nat \<Rightarrow> float64"
  heldRows :: "int list"

text \<open>
  \<open>sBase\<close> are the tables a rollback restores, \<open>sAborted\<close> tells that a statement of the transaction
  has failed, \<open>sPeers\<close> keeps each connection as it was left, by the domain it was made to.
\<close>

record sending = world +
  sOut :: outgoingMap
  sTicks :: nat
  sAborted :: bool
  sBase :: tables
  sPeers :: "(string \<times> conn) list"

type_synonym 'a sd = "(sending, 'a) st"

datatype rcptTable = MsgTo | MsgAddTo

record pendingTarget =
  MsgID :: int
  tDomain :: string

definition getNow :: "sender \<Rightarrow> float64 sd" where
  "getNow S w = (Ok (clockAt S (sTicks w)), w\<lparr>sTicks := Suc (sTicks w)\<rparr>)"

section \<open>Transactions\<close>

definition txBegin :: "unit sd" where
  "txBegin = bindIO (onDb (stmt (retIO ()))) (\<lambda>_. modS (\<lambda>w. w\<lparr>sBase := tabs (wDb w), sAborted := False\<rparr>))"

definition inTx :: "'a qio \<Rightarrow> 'a sd" where
  "inTx m w =
     (if sAborted w then (Err dbErr, w)
      else case onDb m w of
        (Err e, w') \<Rightarrow> (Err e, w'\<lparr>sAborted := True\<rparr>)
      | r \<Rightarrow> r)"

definition txRollback :: "unit sd" where
  "txRollback = modS (\<lambda>w. w\<lparr>wDb := rollback (sBase w) (wDb w)\<rparr>)"

text \<open>Whether the commit succeeded; a lost acknowledgement counts as a failure although it was done.\<close>

definition txCommit :: "bool sd" where
  "txCommit w =
     (let s = wDb w
      in if sAborted w then (Ok False, w\<lparr>wDb := rollback (sBase w) s\<rparr>)
         else case dbfaults s of
           [] \<Rightarrow> (Ok True, w)
         | StmtOk # fs \<Rightarrow> (Ok True, w\<lparr>wDb := s\<lparr>dbfaults := fs\<rparr>\<rparr>)
         | StmtFails # fs \<Rightarrow> (Ok False, w\<lparr>wDb := rollback (sBase w) (s\<lparr>dbfaults := fs\<rparr>)\<rparr>)
         | AckLost # fs \<Rightarrow> (Ok False, w\<lparr>wDb := s\<lparr>dbfaults := fs\<rparr>, sBase := tabs s\<rparr>))"

section \<open>What is due\<close>

definition localResponseCodeNoResponse :: int where [simp]: "localResponseCodeNoResponse = - 1"

definition retryableResponseCodes :: "int list" where
  "retryableResponseCodes = [localResponseCodeNoResponse, uint RejectCodeUndisclosed,
     uint RejectCodeInsufficentResources, uint RejectCodeUserFull]"

definition retryable :: "int option \<Rightarrow> bool" where
  "retryable c \<longleftrightarrow> (case c of None \<Rightarrow> True | Some v \<Rightarrow> v \<in> set retryableResponseCodes)"

text \<open>
  \<open>LEAST\<close> and \<open>>\<close> of doubles, NaN last. A power of two is exact; from the 1024th on, which takes more
  attempts than fit into the days a message is retried, PostgreSQL would refuse it.
\<close>

definition pgLessF :: "f64 \<Rightarrow> f64 \<Rightarrow> bool" where
  "pgLessF x y \<longleftrightarrow> f64_less x y \<or> (x \<noteq> NaN \<and> y = NaN)"

definition backoff :: "sender \<Rightarrow> int \<Rightarrow> f64" where
  "backoff S attempts =
     (let d = f64_mul (RetryInterval S) (f64_round 1 (max (attempts - 1) 0))
      in if pgLessF (RetryMaxAge S) d then RetryMaxAge S else d)"

definition elapsed :: "float64 \<Rightarrow> float64 \<Rightarrow> f64" where
  "elapsed now t = f64_sub (f64_of_bits now) (f64_of_bits t)"

definition dueAgain :: "sender \<Rightarrow> float64 \<Rightarrow> float64 option \<Rightarrow> int \<Rightarrow> bool" where
  "dueAgain S now lastTry attempts \<longleftrightarrow>
     (case lastTry of None \<Rightarrow> True | Some t \<Rightarrow> pgLessF (backoff S attempts) (elapsed now t))"

definition young :: "sender \<Rightarrow> float64 \<Rightarrow> float64 \<Rightarrow> bool" where
  "young S now t \<longleftrightarrow> pgLessF (elapsed now t) (RetryMaxAge S)"

definition rowsOf :: "rcptTable \<Rightarrow> tables \<Rightarrow> rcptRow list" where
  "rowsOf tbl t = (case tbl of MsgTo \<Rightarrow> tos t | MsgAddTo \<Rightarrow> addTos t)"

text \<open>A recipient ages with its message, an added one with its batch.\<close>

definition pendingRow :: "sender \<Rightarrow> float64 \<Rightarrow> rcptTable \<Rightarrow> tables \<Rightarrow> rcptRow \<Rightarrow> bool" where
  "pendingRow S now tbl t r \<longleftrightarrow>
     rDelivered r = None \<and> retryable (rCode r) \<and> dueAgain S now (rLastAttempt r) (rAttempts r)
     \<and> (case msgAt t (rMsg r) of
          None \<Rightarrow> False
        | Some m \<Rightarrow> (case mTime m of
            None \<Rightarrow> False
          | Some sent \<Rightarrow> (case tbl of
              MsgTo \<Rightarrow> young S now sent
            | MsgAddTo \<Rightarrow> (case batchAt t (rBatch r) of None \<Rightarrow> False | Some b \<Rightarrow> young S now (bTime b)))))"

definition pendingNotify :: "sender \<Rightarrow> float64 \<Rightarrow> tables \<Rightarrow> notifyRow \<Rightarrow> bool" where
  "pendingNotify S now t n \<longleftrightarrow>
     nNotified n = None \<and> retryable (nCode n) \<and> dueAgain S now (nLastAttempt n) (nAttempts n)
     \<and> (case batchAt t (nBatch n) of
          None \<Rightarrow> False
        | Some b \<Rightarrow> young S now (bTime b)
            \<and> (case msgAt t (bMsg b) of None \<Rightarrow> False | Some m \<Rightarrow> mTime m \<noteq> None))"

definition afterLastAt :: "string \<Rightarrow> string option" where
  "afterLastAt addr = (case LastIndex addr CHR ''@'' of None \<Rightarrow> None | Some i \<Rightarrow> Some (drop (Suc i) addr))"

text \<open>Domains already seen for a message are not listed again.\<close>

fun addTargets :: "sender \<Rightarrow> (int \<times> string) list \<Rightarrow> (int \<times> string) list \<Rightarrow> pendingTarget list" where
  "addTargets S seen [] = []"
| "addTargets S seen ((msgID, domain) # rows) =
     (if EqualFold (uni (lib S)) domain (hostDomain S) then addTargets S seen rows
      else let k = (msgID, ToLower (uni (lib S)) domain)
           in if k \<in> set seen then addTargets S seen rows
              else \<lparr>MsgID = msgID, tDomain = domain\<rparr> # addTargets S (k # seen) rows)"

definition dueDomains :: "sender \<Rightarrow> float64 \<Rightarrow> tables \<Rightarrow> (int \<times> string) list" where
  "dueDomains S now t =
     List.map_filter (\<lambda>r. map_option (Pair (rMsg r)) (afterLastAt (rAddr r)))
       (filter (pendingRow S now MsgTo t) (tos t) @ filter (pendingRow S now MsgAddTo t) (addTos t))"

definition dueNotices :: "sender \<Rightarrow> float64 \<Rightarrow> tables \<Rightarrow> (int \<times> string) list" where
  "dueNotices S now t =
     List.map_filter (\<lambda>n. map_option (\<lambda>b. (bMsg b, nDomain n)) (batchAt t (nBatch n)))
       (filter (pendingNotify S now t) (notifies t))"

definition findPendingTargets :: "sender \<Rightarrow> pendingTarget list sd" where
  "findPendingTargets S =
     bindIO (getNow S) (\<lambda>now.
     bindIO (onDb (query (dueDomains S now))) (\<lambda>rows.
     bindIO (onDb (query (dueNotices S now))) (\<lambda>notices.
     retIO (addTargets S [] (rows @ notices)))))"

section \<open>Recording outcomes\<close>

text \<open>
  The update names the message and the address, not the batch. \<open>updateRecipient\<close> only logs a failure,
  which leaves the transaction aborted.
\<close>

definition recordRcpt :: "string \<Rightarrow> int \<Rightarrow> float64 \<Rightarrow> int \<Rightarrow> bool \<Rightarrow> rcptRow \<Rightarrow> rcptRow" where
  "recordRcpt addr msgID now code delivered r =
     (if rMsg r \<noteq> msgID \<or> rAddr r \<noteq> addr then r
      else if delivered then r\<lparr>rDelivered := Some now, rCode := Some code\<rparr>
      else r\<lparr>rLastAttempt := Some now, rCode := Some code, rAttempts := rAttempts r + 1\<rparr>)"

definition mapRows :: "rcptTable \<Rightarrow> (rcptRow \<Rightarrow> rcptRow) \<Rightarrow> tables \<Rightarrow> tables" where
  "mapRows tbl f t = (case tbl of MsgTo \<Rightarrow> t\<lparr>tos := map f (tos t)\<rparr> | MsgAddTo \<Rightarrow> t\<lparr>addTos := map f (addTos t)\<rparr>)"

definition updateRecipient :: "rcptTable \<Rightarrow> string \<Rightarrow> int \<Rightarrow> float64 \<Rightarrow> int \<Rightarrow> bool \<Rightarrow> unit sd" where
  "updateRecipient tbl addr msgID now code delivered =
     ignoreErr (inTx (exec (\<lambda>t. Some (mapRows tbl (recordRcpt addr msgID now code delivered) t))))"

fun updateLocked :: "rcptTable \<Rightarrow> string list \<Rightarrow> int \<Rightarrow> float64 \<Rightarrow> int \<Rightarrow> bool \<Rightarrow> unit sd" where
  "updateLocked tbl [] msgID now code delivered = retIO ()"
| "updateLocked tbl (a # as) msgID now code delivered =
     bindIO (updateRecipient tbl a msgID now code delivered) (\<lambda>_. updateLocked tbl as msgID now code delivered)"

definition recordNotify :: "int \<Rightarrow> float64 \<Rightarrow> int \<Rightarrow> bool \<Rightarrow> notifyRow \<Rightarrow> notifyRow" where
  "recordNotify i now code notified n =
     (if nId n \<noteq> i then n
      else if notified then n\<lparr>nNotified := Some now, nCode := Some code\<rparr>
      else n\<lparr>nLastAttempt := Some now, nCode := Some code, nAttempts := nAttempts n + 1\<rparr>)"

definition updateNotify :: "int \<Rightarrow> float64 \<Rightarrow> int \<Rightarrow> bool \<Rightarrow> unit sd" where
  "updateNotify notifyID now code notified =
     (if notifyID = 0 then retIO ()
      else ignoreErr (inTx (exec (\<lambda>t. Some (t\<lparr>notifies := map (recordNotify notifyID now code notified) (notifies t)\<rparr>)))))"

definition recordRetryableFailure :: "sender \<Rightarrow> rcptTable \<Rightarrow> string list \<Rightarrow> int \<Rightarrow> int \<Rightarrow> bool sd" where
  "recordRetryableFailure S tbl locked msgID notifyID =
     bindIO (getNow S) (\<lambda>now.
     bindIO (updateLocked tbl locked msgID now localResponseCodeNoResponse False) (\<lambda>_.
     bindIO (updateNotify notifyID now localResponseCodeNoResponse False) (\<lambda>_.
     txCommit)))"

section \<open>Locking\<close>

definition lockPendingNotify :: "sender \<Rightarrow> int \<Rightarrow> string \<Rightarrow> float64 \<Rightarrow> int sd" where
  "lockPendingNotify S batch domain now =
     (if batch = 0 then retIO 0
      else inTx (query (\<lambda>t. case find (\<lambda>n. nBatch n = batch \<and> ToLower (uni (lib S)) (nDomain n) = ToLower (uni (lib S)) domain
             \<and> pendingNotify S now t n \<and> nId n \<notin> set (heldRows S)) (notifies t) of
           Some n \<Rightarrow> nId n | None \<Rightarrow> 0)))"

definition ofDomain :: "sender \<Rightarrow> string \<Rightarrow> string \<Rightarrow> bool" where
  "ofDomain S domain addr \<longleftrightarrow> (case afterLastAt addr of None \<Rightarrow> False | Some d \<Rightarrow> EqualFold (uni (lib S)) d domain)"

definition lockedRows :: "sender \<Rightarrow> rcptTable \<Rightarrow> int \<Rightarrow> string \<Rightarrow> int \<Rightarrow> float64 \<Rightarrow> tables \<Rightarrow> rcptRow list" where
  "lockedRows S tbl msgID domain batch now t =
     filter (\<lambda>r. rMsg r = msgID \<and> pendingRow S now tbl t r \<and> (tbl = MsgAddTo \<longrightarrow> rBatch r = batch)
       \<and> rId r \<notin> set (heldRows S) \<and> ofDomain S domain (rAddr r)) (rowsOf tbl t)"

definition lockPendingRecipients :: "sender \<Rightarrow> rcptTable \<Rightarrow> int \<Rightarrow> string \<Rightarrow> int \<Rightarrow> float64 \<Rightarrow> string list sd" where
  "lockPendingRecipients S tbl msgID domain batch now =
     inTx (query (\<lambda>t. map rAddr (lockedRows S tbl msgID domain batch now t)))"

text \<open>\<open>recordUnitInvalid\<close> and \<open>deliverUnit\<close> begin alike; what follows the locks is run with what was locked.\<close>

definition withLocks :: "sender \<Rightarrow> pendingTarget \<Rightarrow> rcptTable \<Rightarrow> int \<Rightarrow> (float64 \<Rightarrow> string list \<Rightarrow> int \<Rightarrow> bool sd) \<Rightarrow> unit sd" where
  "withLocks S target tbl batch body =
     bindIO (tryIO txBegin) (\<lambda>r. case r of
       Inl _ \<Rightarrow> retIO ()
     | Inr _ \<Rightarrow>
         bindIO (getNow S) (\<lambda>now.
         bindIO (tryIO (lockPendingRecipients S tbl (MsgID target) (tDomain target) batch now)) (\<lambda>r. case r of
           Inl _ \<Rightarrow> txRollback
         | Inr locked \<Rightarrow>
             bindIO (tryIO (if tbl = MsgAddTo then lockPendingNotify S batch (tDomain target) now else retIO 0)) (\<lambda>r. case r of
               Inl _ \<Rightarrow> txRollback
             | Inr notifyID \<Rightarrow>
                 if locked = [] \<and> notifyID = 0 then txRollback
                 else bindIO (body now locked notifyID) (\<lambda>committed. if committed then retIO () else txRollback)))))"

definition recordUnitInvalid :: "sender \<Rightarrow> pendingTarget \<Rightarrow> rcptTable \<Rightarrow> int \<Rightarrow> unit sd" where
  "recordUnitInvalid S target tbl batch = withLocks S target tbl batch (\<lambda>now locked notifyID.
     bindIO (updateLocked tbl locked (MsgID target) now (uint RejectCodeInvalid) False) (\<lambda>_.
     bindIO (updateNotify notifyID now (uint RejectCodeInvalid) False) (\<lambda>_.
     txCommit)))"

section \<open>One delivery\<close>

text \<open>\<open>io.CopyN(conn, file, n)\<close>.\<close>

definition copyNToConn :: "nat \<Rightarrow> bytes option \<Rightarrow> unit sd" where
  "copyNToConn n src =
     (if n = 0 then retIO ()
      else case src of
        None \<Rightarrow> failIO FsErr
      | Some b \<Rightarrow>
          bindIO (if b = [] then retIO () else onConn (Write (take n b))) (\<lambda>_.
          if length b < n then failIO EOF else retIO ()))"

fun sendAttachments :: "AttachmentHeader list \<Rightarrow> unit sd" where
  "sendAttachments [] = retIO ()"
| "sendAttachments (a # as) =
     bindIO (onDisk (osOpen (aFilepath a))) (\<lambda>src.
     bindIO (copyNToConn (unat (aSize a)) src) (\<lambda>_. sendAttachments as))"

definition sendMsgData :: "Header \<Rightarrow> unit sd" where
  "sendMsgData h =
     bindIO (onDisk (osOpen (Filepath h))) (\<lambda>src.
     bindIO (copyNToConn (unat (Size h)) src) (\<lambda>_. sendAttachments (Attachments h)))"

text \<open>The recipients on the target's domain in the order their codes arrive, and whether each is ours to record.\<close>

definition domainRecips :: "sender \<Rightarrow> Header \<Rightarrow> string \<Rightarrow> string list \<Rightarrow> (string \<times> bool) list" where
  "domainRecips S h domain locked =
     (let U = uni (lib S);
          lockedSet = map (ToLower U) locked;
          entries = (\<lambda>as. map (\<lambda>a. (ToString a, ToLower U (ToString a) \<in> set lockedSet))
                          (filter (\<lambda>a. EqualFold U (Domain a) domain) as))
      in entries (To h) @ (if hasFlag (Flags h) FlagHasAddTo then entries (AddTo h) else []))"

fun recordCodes :: "rcptTable \<Rightarrow> int \<Rightarrow> float64 \<Rightarrow> ((string \<times> bool) \<times> byte) list \<Rightarrow> unit sd" where
  "recordCodes tbl msgID now [] = retIO ()"
| "recordCodes tbl msgID now (((addr, isLocked), c) # rest) =
     bindIO (if isLocked then updateRecipient tbl addr msgID now (uint c) (c = RejectCodeAccept) else retIO ())
       (\<lambda>_. recordCodes tbl msgID now rest)"

text \<open>
  The outcomes of an exchange: \<open>None\<close> when it ended before anything could be recorded, otherwise
  whether what was recorded is committed.
\<close>

definition readCodes :: "sender \<Rightarrow> rcptTable \<Rightarrow> int \<Rightarrow> byte \<Rightarrow> (string \<times> bool) list \<Rightarrow> int \<Rightarrow> bool option sd" where
  "readCodes S tbl msgID initCode recips notifyID =
     bindIO (tryIO (onConn (ReadFull (length recips)))) (\<lambda>r. case r of
       Inl _ \<Rightarrow> retIO None
     | Inr codes \<Rightarrow>
         bindIO (getNow S) (\<lambda>now.
         bindIO (recordCodes tbl msgID now (zip recips codes)) (\<lambda>_.
         bindIO (updateNotify notifyID now (uint initCode) True) (\<lambda>_.
         bindIO txCommit (\<lambda>c. retIO (Some c))))))"

definition recordAll :: "rcptTable \<Rightarrow> int \<Rightarrow> float64 \<Rightarrow> byte \<Rightarrow> bool \<Rightarrow> string list \<Rightarrow> int \<Rightarrow> bool option sd" where
  "recordAll tbl msgID now code ok locked notifyID =
     bindIO (updateLocked tbl locked msgID now (uint code) ok) (\<lambda>_.
     bindIO (updateNotify notifyID now (uint code) ok) (\<lambda>_.
     bindIO txCommit (\<lambda>c. retIO (Some c))))"

text \<open>What follows the response byte.\<close>

definition onResponse :: "sender \<Rightarrow> Header \<Rightarrow> rcptTable \<Rightarrow> int \<Rightarrow> (string \<times> bool) list \<Rightarrow> string list \<Rightarrow> int \<Rightarrow> byte \<Rightarrow> bool option sd" where
  "onResponse S h tbl msgID recips locked notifyID initCode =
     bindIO (getNow S) (\<lambda>now.
     let isAddToMsg = hasFlag (Flags h) FlagHasAddTo
     in if initCode = AcceptCodeContinue then
          bindIO (tryIO (sendMsgData h)) (\<lambda>r. case r of
            Inl _ \<Rightarrow> retIO None
          | Inr _ \<Rightarrow> readCodes S tbl msgID initCode recips notifyID)
        else if initCode = AcceptCodeSkipData then
          (if isAddToMsg then readCodes S tbl msgID initCode recips notifyID else retIO None)
        else if initCode = AcceptCodeAddTo then
          (if isAddToMsg then recordAll tbl msgID now initCode True locked notifyID else retIO None)
        else if 1 \<le> initCode \<and> initCode \<le> 10 then recordAll tbl msgID now initCode False locked notifyID
        else retIO None)"

definition exchange :: "sender \<Rightarrow> Header \<Rightarrow> rcptTable \<Rightarrow> int \<Rightarrow> (string \<times> bool) list \<Rightarrow> string list \<Rightarrow> int \<Rightarrow> bool option sd" where
  "exchange S h tbl msgID recips locked notifyID =
     bindIO (tryIO (onConn (Write (Encode h)))) (\<lambda>r. case r of
       Inl _ \<Rightarrow> retIO None
     | Inr _ \<Rightarrow>
         bindIO (tryIO (onConn (ReadFull 1))) (\<lambda>r. case r of
           Inl _ \<Rightarrow> retIO None
         | Inr resp \<Rightarrow> onResponse S h tbl msgID recips locked notifyID (hd resp)))"

fun dialTargetIPs :: "sender \<Rightarrow> ip list \<Rightarrow> string \<Rightarrow> (string \<times> conn) option" where
  "dialTargetIPs S [] name = None"
| "dialTargetIPs S (i # is) name = (case dialTLS S i name of Some c \<Rightarrow> Some c | None \<Rightarrow> dialTargetIPs S is name)"

definition sendUnit :: "sender \<Rightarrow> pendingTarget \<Rightarrow> Header \<Rightarrow> rcptTable \<Rightarrow> string list \<Rightarrow> int \<Rightarrow> bool option sd" where
  "sendUnit S target h tbl locked notifyID =
     (let recips = domainRecips S h (tDomain target) locked;
          (hash, h1) = GetHeaderHash (lib S) h
      in case lookupAuthorisedIPs S (tDomain target) of
           Inl _ \<Rightarrow> retIO None
         | Inr targetIPs \<Rightarrow>
             (case dialTargetIPs S targetIPs (''fmsg.'' @ tDomain target) of
                None \<Rightarrow> retIO None
              | Some (connectedIP, conn) \<Rightarrow>
                  bindIO (modS (\<lambda>w. w\<lparr>wConn := conn, sOut := registerOutgoing hash h1 connectedIP (sOut w)\<rparr>)) (\<lambda>_.
                  bindIO (exchange S h1 tbl (MsgID target) recips locked notifyID) (\<lambda>outcome.
                  bindIO (modS (\<lambda>w. w\<lparr>sOut := removeOutgoingIP hash connectedIP (sOut w), sPeers := sPeers w @ [(tDomain target, wConn w)]\<rparr>)) (\<lambda>_.
                  retIO outcome)))))"

definition deliverUnit :: "sender \<Rightarrow> pendingTarget \<Rightarrow> Header \<Rightarrow> rcptTable \<Rightarrow> int \<Rightarrow> unit sd" where
  "deliverUnit S target h tbl batch = withLocks S target tbl batch (\<lambda>now locked notifyID.
     bindIO (sendUnit S target h tbl locked notifyID) (\<lambda>outcome. case outcome of
       Some committed \<Rightarrow> retIO committed
     | None \<Rightarrow> recordRetryableFailure S tbl locked (MsgID target) notifyID))"

section \<open>A message to a domain\<close>

text \<open>
  Whether this host still owes the domain the message a hash names, or the batch: some delivery of
  it to the domain is pending, and none is done.
\<close>

definition domainDeliveries :: "unicode \<Rightarrow> tables \<Rightarrow> bytes \<Rightarrow> string \<Rightarrow> (float64 option \<times> int option) list" where
  "domainDeliveries U t hash domain =
     (let d = ToLower U domain;
          here = (\<lambda>r. ToLower U (splitPart3 (rAddr r)) = d);
          row = (\<lambda>r. (rDelivered r, rCode r));
          ofMsg = (\<lambda>i. map row (filter (\<lambda>r. rMsg r = i \<and> here r) (tos t))
                       @ map row (filter (\<lambda>r. rMsg r = i \<and> here r) (addTos t))
                       @ concat (map (\<lambda>b. map (\<lambda>n. (nNotified n, nCode n))
                            (filter (\<lambda>n. nBatch n = bId b \<and> ToLower U (nDomain n) = d) (notifies t)))
                          (filter (\<lambda>b. bMsg b = i) (batches t))));
          ofBatch = (\<lambda>b. map row (filter (\<lambda>r. rMsg r = bMsg b \<and> rBatch r = bId b \<and> here r) (addTos t))
                         @ map (\<lambda>n. (nNotified n, nCode n))
                            (filter (\<lambda>n. nBatch n = bId b \<and> ToLower U (nDomain n) = d) (notifies t)))
      in concat (map (\<lambda>m. ofMsg (mId m)) (filter (\<lambda>m. mSha m = Some hash) (msgs t)))
         @ concat (map ofBatch (filter (\<lambda>b. bSha b = Some hash) (batches t))))"

definition parentPendingForDomain :: "sender \<Rightarrow> bytes \<Rightarrow> string \<Rightarrow> bool qio" where
  "parentPendingForDomain S hash domain =
     (if hash = [] then retIO False
      else query (\<lambda>t. let ds = domainDeliveries (uni (lib S)) t hash domain
        in list_ex (\<lambda>(delivered, code). delivered = None \<and> retryable code) ds
           \<and> \<not> list_ex (\<lambda>(delivered, code). delivered \<noteq> None) ds))"

definition markLocalDelivered :: "sender \<Rightarrow> pendingTarget \<Rightarrow> unit sd" where
  "markLocalDelivered S target =
     bindIO (getNow S) (\<lambda>now.
     ignoreErr (onDb (exec (\<lambda>t. Some (mapRows MsgTo (\<lambda>r.
       if rMsg r = MsgID target \<and> rDelivered r = None
          \<and> ToLower (uni (lib S)) (splitPart3 (rAddr r)) = ToLower (uni (lib S)) (tDomain target)
       then r\<lparr>rDelivered := Some now, rCode := Some 200\<rparr> else r) t)))))"

text \<open>Each batch is a message of its own; one whose form cannot be restored is passed over.\<close>

fun deliverBatches :: "sender \<Rightarrow> pendingTarget \<Rightarrow> bool \<Rightarrow> addToBatch list \<Rightarrow> unit sd" where
  "deliverBatches S target terminal [] = retIO ()"
| "deliverBatches S target terminal (b # bs) =
     bindIO (if Recipients b = [] then retIO ()
             else if terminal then recordUnitInvalid S target MsgAddTo (batchID b)
             else bindIO (getS (\<lambda>w. ents (wDisk w))) (\<lambda>fs.
                  bindIO (tryIO (liftIO (UnmarshalPrepared (lib S) fs (codecJson S) (Prepared b) (bHash b)))) (\<lambda>r. case r of
                    Inl _ \<Rightarrow> retIO ()
                  | Inr h \<Rightarrow> deliverUnit S target h MsgAddTo (batchID b))))
       (\<lambda>_. deliverBatches S target terminal bs)"

definition loadUnits :: "storeEnv \<Rightarrow> fsys \<Rightarrow> int \<Rightarrow> (msgFields \<times> addToBatch list) qio" where
  "loadUnits E fs msgID = stmt (
     bindIO (loadMsgFields E fs msgID) (\<lambda>m.
     bindIO (loadAddToBatches E msgID) (\<lambda>bs. retIO (m, bs))))"

definition deliverOriginal :: "sender \<Rightarrow> pendingTarget \<Rightarrow> bool \<Rightarrow> bool \<Rightarrow> Header option \<Rightarrow> unit sd" where
  "deliverOriginal S target parentTerminal parentPending orig =
     (if parentTerminal then recordUnitInvalid S target MsgTo 0
      else case orig of
        Some h \<Rightarrow> if parentPending then retIO () else deliverUnit S target h MsgTo 0
      | None \<Rightarrow> retIO ())"

definition deliverMessage :: "sender \<Rightarrow> pendingTarget \<Rightarrow> unit sd" where
  "deliverMessage S target =
     (if EqualFold (uni (lib S)) (tDomain target) (hostDomain S) then markLocalDelivered S target
      else
        bindIO (getS (\<lambda>w. ents (wDisk w))) (\<lambda>fs.
        bindIO (tryIO (onDb (loadUnits (storeEnvOf (receiver.truncate S)) fs (MsgID target)))) (\<lambda>r. case r of
          Inl _ \<Rightarrow> retIO ()
        | Inr (m, bs) \<Rightarrow>
            bindIO (tryIO (onDb (isStoredMsgTerminal (parentPid m)))) (\<lambda>r. case r of
              Inl _ \<Rightarrow> retIO ()
            | Inr parentTerminal \<Rightarrow>
                bindIO (tryIO (onDb (parentPendingForDomain S (parentPid m) (tDomain target)))) (\<lambda>r. case r of
                  Inl _ \<Rightarrow> retIO ()
                | Inr parentPending \<Rightarrow>
                    bindIO (deliverOriginal S target parentTerminal parentPending (wireForm m)) (\<lambda>_.
                    deliverBatches S target (isTerminal m) bs))))))"

end
