(* ===== verification/DeliveryProps.thy ===== *)
theory DeliveryProps
  imports Delivery StoreMsg
begin

text \<open>
  What a download does to the connection, the store and the disk. The locale \<open>step_relation\<close> carries a
  reflexive, transitive relation between states through the ways the code combines its steps; its
  interpretations say what the steps up to the store leave alone, and that a disk without faults stays so.
\<close>

section \<open>Relations kept by steps\<close>

lemma snd_ignoreErr [simp]: "snd (ignoreErr m s) = snd (m s)"
  by (simp add: ignoreErr_def split: prod.split res.split)

lemma snd_tryIO [simp]: "snd (tryIO m s) = snd (m s)"
  by (simp add: tryIO_def split: prod.split res.split)

lemma snd_deferIO: "snd (deferIO m cl s) = snd (cl (snd (m s)))"
proof -
  obtain r t where m: "m s = (r, t)" by fastforce
  obtain q u where c: "ignoreErr cl t = (q, u)" by fastforce
  then have "snd (ignoreErr cl t) = u" by simp
  then have "u = snd (cl t)" by simp
  then show ?thesis by (cases q) (simp_all add: deferIO_def m c)
qed

lemma deferIO_run: "deferIO m cl s = (Ok x, s') \<Longrightarrow> \<exists>t. m s = (Ok x, t) \<and> s' = snd (cl t)"
proof -
  assume d: "deferIO m cl s = (Ok x, s')"
  obtain r t where m: "m s = (r, t)" by fastforce
  have "s' = snd (cl t)" using d snd_deferIO [of m cl s] m by simp
  moreover have "r = Ok x" using d by (auto simp: deferIO_def m split: prod.splits res.splits)
  ultimately show ?thesis using m by blast
qed

locale step_relation =
  fixes rel :: "'s \<Rightarrow> 's \<Rightarrow> bool"
  assumes rel_refl [simp]: "rel s s"
    and rel_trans: "rel s t \<Longrightarrow> rel t u \<Longrightarrow> rel s u"
begin

definition keep :: "('s, 'a) st \<Rightarrow> bool" where
  "keep m \<longleftrightarrow> (\<forall>s. rel s (snd (m s)))"

lemma keepI: "(\<And>s. rel s (snd (m s))) \<Longrightarrow> keep m"
  by (simp add: keep_def)

lemma keepE: "keep m \<Longrightarrow> rel s (snd (m s))"
  by (simp add: keep_def)

lemma keepD: "keep m \<Longrightarrow> m s = (r, t) \<Longrightarrow> rel s t"
  unfolding keep_def by (metis snd_conv)

lemma keep_ret: "keep (retIO x)" "keep (failIO e)" "keep (liftIO r)" "keep (getS f)"
  by (simp_all add: keep_def retIO_def failIO_def liftIO_def getS_def)

lemma keep_mod: "(\<And>s. rel s (f s)) \<Longrightarrow> keep (modS f)"
  by (simp add: keep_def modS_def)

lemma keep_bind:
  assumes "keep m" "\<And>x. keep (k x)"
  shows "keep (bindIO m k)"
proof (rule keepI)
  fix s
  obtain r t where m: "m s = (r, t)" by fastforce
  note st = keepD [OF assms(1) m]
  show "rel s (snd (bindIO m k s))"
  proof (cases r)
    case (Ok x)
    have "rel t (snd (k x t))" using assms(2) by (simp add: keep_def)
    then show ?thesis using rel_trans [OF st] by (simp add: bindIO_def m Ok)
  qed (use st in \<open>simp_all add: bindIO_def m\<close>)
qed

lemma rel_bind:
  assumes "rel s (snd (m s))" "\<And>x t. m s = (Ok x, t) \<Longrightarrow> rel t (snd (k x t))"
  shows "rel s (snd (bindIO m k s))"
proof -
  obtain r t where m: "m s = (r, t)" by fastforce
  with assms(1) have st: "rel s t" by simp
  show ?thesis
  proof (cases r)
    case (Ok x)
    then show ?thesis using rel_trans [OF st assms(2)] m by (simp add: bindIO_def)
  qed (use st in \<open>simp_all add: bindIO_def m\<close>)
qed

lemma keep_ignore: "keep m \<Longrightarrow> keep (ignoreErr m)"
  by (simp add: keep_def)

lemma keep_try: "keep m \<Longrightarrow> keep (tryIO m)"
  by (simp add: keep_def)

lemma keep_onErr:
  assumes "keep m" "keep cl"
  shows "keep (onErr m cl)"
proof (rule keepI)
  fix s
  obtain r t where m: "m s = (r, t)" by fastforce
  have c: "rel t (snd (bindIO (ignoreErr cl) (\<lambda>_. failIO e) t))" for e
    by (intro keepE keep_bind keep_ignore assms keep_ret)
  show "rel s (snd (onErr m cl s))"
    using rel_trans [OF keepD [OF assms(1) m] c] keepD [OF assms(1) m] by (cases r) (simp_all add: onErr_def m)
qed

lemma keep_defer: "keep m \<Longrightarrow> keep cl \<Longrightarrow> keep (deferIO m cl)"
  using rel_trans by (simp add: keep_def snd_deferIO) blast

lemma keep_if: "keep m \<Longrightarrow> keep n \<Longrightarrow> keep (if b then m else n)"
  by simp

lemma keep_option: "keep m \<Longrightarrow> (\<And>x. keep (k x)) \<Longrightarrow> keep (case y of None \<Rightarrow> m | Some x \<Rightarrow> k x)"
  by (cases y) simp_all

lemma keep_sum: "(\<And>x. keep (m x)) \<Longrightarrow> (\<And>x. keep (k x)) \<Longrightarrow> keep (case y of Inl x \<Rightarrow> m x | Inr x \<Rightarrow> k x)"
  by (cases y) simp_all

lemma keep_pair: "(\<And>x y. keep (k x y)) \<Longrightarrow> keep (case p of (x, y) \<Rightarrow> k x y)"
  by (cases p) simp

lemmas keep_intros = keep_ret keep_bind keep_try keep_ignore keep_onErr keep_defer keep_if keep_option keep_sum keep_pair

end

lemma getS_Ok [simp]: "getS f s = (r, t) \<longleftrightarrow> r = Ok (f s) \<and> t = s"
  by (auto simp: getS_def)

lemma modS_Ok [simp]: "modS f s = (r, t) \<longleftrightarrow> r = Ok () \<and> t = f s"
  by (auto simp: modS_def)

lemma bind_getS [simp]: "bindIO (getS f) k s = k (f s) s"
  by (simp add: bindIO_def getS_def)

lemma bind_modS [simp]: "bindIO (modS f) k s = k () (f s)"
  by (simp add: bindIO_def modS_def)

lemma onDisk_Ok: "onDisk m w = (r, w') \<longleftrightarrow> (\<exists>d. m (wDisk w) = (r, d) \<and> w' = w\<lparr>wDisk := d\<rparr>)"
  by (auto simp: onDisk_def split: prod.splits)

lemma onDb_Ok: "onDb m w = (r, w') \<longleftrightarrow> (\<exists>d. m (wDb w) = (r, d) \<and> w' = w\<lparr>wDb := d\<rparr>)"
  by (auto simp: onDb_def split: prod.splits)

lemma onConn_Ok: "onConn m w = (r, w') \<longleftrightarrow> (\<exists>d. m (wConn w) = (r, d) \<and> w' = w\<lparr>wConn := d\<rparr>)"
  by (auto simp: onConn_def split: prod.splits)

lemma tryIO_Ok: "tryIO m s = (Ok x, t) \<longleftrightarrow> (case x of Inl e \<Rightarrow> m s = (Err e, t) | Inr y \<Rightarrow> m s = (Ok y, t))"
  by (auto simp: tryIO_def split: prod.splits res.splits sum.splits)

section \<open>Queries read\<close>

definition reads :: "db \<Rightarrow> db \<Rightarrow> bool" where
  "reads s t \<longleftrightarrow> tabs t = tabs s \<and> seq t = seq s \<and> set (dbfaults t) \<subseteq> set (dbfaults s)"

interpretation rd: step_relation reads
  by unfold_locales (auto simp: reads_def)

lemma rd_stmt: "rd.keep f \<Longrightarrow> rd.keep (stmt f)"
proof (rule rd.keepI)
  fix s
  assume f: "rd.keep f"
  show "reads s (snd (stmt f s))"
  proof (cases "dbfaults s")
    case (Cons x xs)
    then have "reads s (s\<lparr>dbfaults := xs\<rparr>)" by (auto simp: reads_def)
    moreover have "reads (s\<lparr>dbfaults := xs\<rparr>) (snd (f (s\<lparr>dbfaults := xs\<rparr>)))" using f by (simp add: rd.keep_def)
    ultimately show ?thesis using rd.rel_trans by (cases "x = StmtOk") (simp_all add: stmt_def Cons)
  qed (use f in \<open>simp add: stmt_def rd.keep_def\<close>)
qed

lemma rd_query: "rd.keep (query q)"
  unfolding query_def by (rule rd_stmt) (simp add: rd.keep_def)

lemmas rd_intros = rd.keep_intros rd_query

lemma rd_hasAddr: "rd.keep (hasAddrReceivedMsgHash U h a)"
  unfolding hasAddrReceivedMsgHash_def by (intro rd_intros)

lemma rd_lookups: "rd.keep (lookupMsgIdByHashDb h)" "rd.keep (threadHasFromDomain U h d)"
  unfolding lookupMsgIdByHashDb_def threadHasFromDomain_def by (intro rd_intros)+

lemma rd_loadMsg: "rd.keep (loadMsg E fs i)"
  unfolding loadMsg_def loadMsgFields_def loadRecipientAddrs_def loadAddToBatches_def Let_def
  by (intro rd_intros)

lemma rd_getMsgByID: "rd.keep (getMsgByIDDb E fs i)"
proof -
  have "snd ((case loadMsg E fs i s of
       (Ok h, s') \<Rightarrow> (Ok (Some h), s')
     | (Err e, s') \<Rightarrow> if e = ErrNoRows then (Ok None, s') else (Err e, s')
     | (Panic, s') \<Rightarrow> (Panic, s')
     | (Diverge, s') \<Rightarrow> (Diverge, s')) :: Header option res \<times> db) = snd (loadMsg E fs i s)" for s
    by (simp split: prod.split res.split)
  then show ?thesis unfolding getMsgByIDDb_def using rd_loadMsg by (intro rd_stmt) (simp add: rd.keep_def)
qed

section \<open>What the steps before the store leave alone\<close>

definition sameMsg :: "Header \<Rightarrow> Header \<Rightarrow> bool" where
  "sameMsg h h' \<longleftrightarrow> h'\<lparr>StoredWire := StoredWire h, Attachments := Attachments h, Filepath := Filepath h\<rparr> = h"

lemma sameMsg_refl [simp]: "sameMsg h h"
  by (simp add: sameMsg_def)

lemma sameMsg_upd [simp]:
  "sameMsg h (h'\<lparr>StoredWire := x\<rparr>) = sameMsg h h'" "sameMsg h (h'\<lparr>Attachments := y\<rparr>) = sameMsg h h'"
  "sameMsg h (h'\<lparr>Filepath := z\<rparr>) = sameMsg h h'"
  by (simp_all add: sameMsg_def)

lemma sameMsg_trans: "sameMsg a b \<Longrightarrow> sameMsg b c \<Longrightarrow> sameMsg a c"
  unfolding sameMsg_def by (cases a; cases b; cases c) auto

lemma sameMsg_fields:
  assumes "sameMsg h h'"
  shows "Flags h' = Flags h" "From h' = From h" "To h' = To h" "AddTo h' = AddTo h" "Pid h' = Pid h"
    "Timestamp h' = Timestamp h" "Topic h' = Topic h" "Type h' = Type h" "Size h' = Size h" "messageHash h' = messageHash h"
proof -
  have e: "h'\<lparr>StoredWire := StoredWire h, Attachments := Attachments h, Filepath := Filepath h\<rparr> = h"
    using assms by (simp add: sameMsg_def)
  note r = arg_cong [OF e]
  show "Flags h' = Flags h" "From h' = From h" "To h' = To h" "AddTo h' = AddTo h" "Pid h' = Pid h"
    "Timestamp h' = Timestamp h" "Topic h' = Topic h" "Type h' = Type h" "Size h' = Size h" "messageHash h' = messageHash h"
    using r [of Flags] r [of From] r [of To] r [of AddTo] r [of Pid] r [of Timestamp] r [of Topic] r [of Type] r [of Size]
      r [of messageHash] by simp_all
qed

definition calm :: "download \<Rightarrow> download \<Rightarrow> bool" where
  "calm w w' \<longleftrightarrow> out (wConn w') = out (wConn w) \<and> wfaults (wConn w') = wfaults (wConn w)
     \<and> reads (wDb w) (wDb w') \<and> sameMsg (lHeader w) (lHeader w')"

text \<open>The variables the loop over the recipients assigns.\<close>

definition locals :: "download \<Rightarrow> bytes \<times> Address list \<times> Address list \<times> string" where
  "locals w = (lCodes w, lAcceptedTo w, lAcceptedAddTo w, lPrimary w)"

lemma locals_iff: "locals w = locals v \<longleftrightarrow>
    lCodes w = lCodes v \<and> lAcceptedTo w = lAcceptedTo v \<and> lAcceptedAddTo w = lAcceptedAddTo v \<and> lPrimary w = lPrimary v"
  by (auto simp: locals_def)

definition idle :: "download \<Rightarrow> download \<Rightarrow> bool" where
  "idle w w' \<longleftrightarrow> calm w w' \<and> locals w' = locals w"

interpretation cm: step_relation calm
  by unfold_locales (auto simp: calm_def intro: rd.rel_trans sameMsg_trans)

interpretation sl: step_relation idle
  by unfold_locales (auto simp: idle_def intro: cm.rel_trans)

lemma cm_idle: "sl.keep m \<Longrightarrow> cm.keep m"
  by (simp add: sl.keep_def cm.keep_def idle_def)

lemma sl_onDisk: "sl.keep (onDisk m)"
  by (rule sl.keepI) (simp add: onDisk_def idle_def calm_def locals_def split: prod.split)

lemma sl_onDb: "rd.keep m \<Longrightarrow> sl.keep (onDb m)"
  by (rule sl.keepI) (auto simp: onDb_def idle_def calm_def locals_def split: prod.split dest: rd.keepD)

lemmas sl_intros = sl.keep_intros sl_onDisk sl_onDb rd_hasAddr rd_lookups rd_getMsgByID

lemmas cm_onDisk = cm_idle [OF sl_onDisk]

lemmas cm_intros = cm.keep_intros cm_onDisk

lemma cm_setCode: "cm.keep (setCode c)"
  unfolding setCode_def by (rule cm.keep_mod) (simp add: calm_def)

lemma sl_validate: "sl.keep (validateMsgRecvForAddr R h a x)"
  unfolding validateMsgRecvForAddr_def by (intro sl_intros)

lemmas cm_validate = cm_idle [OF sl_validate]

lemma sl_copyN: "sl.keep (copyNFromConn p n)"
proof (rule sl.keepI)
  fix w
  have "sl.keep (onConn (\<lambda>c. (Ok (), consume k c)))" for k
    by (rule sl.keepI) (simp add: onConn_def idle_def calm_def locals_def)
  then have "sl.keep (bindIO (onConn (\<lambda>c. (Ok (), consume k c))) (\<lambda>_.
         bindIO (onDisk (appendFile p b)) (\<lambda>_. if x then failIO e else retIO ())))" for k b x e
    by (intro sl_intros)
  then show "idle w (snd (copyNFromConn p n w))"
    unfolding copyNFromConn_def Let_def by (rule sl.keepE)
qed

lemma sl_downloadPart: "sl.keep (downloadPart tmp pat n)"
  unfolding downloadPart_def by (intro sl_intros sl_copyN)

lemma sl_downloadAttachments: "sl.keep (downloadAttachments tmp created as)"
proof (induction as arbitrary: created)
  case (Cons a as)
  then show ?case by (auto intro!: sl_intros sl_downloadPart)
qed (simp add: sl_intros)

lemma sl_prepareMessageData: "sl.keep (prepareMessageData R h skip)"
  unfolding prepareMessageData_def by (intro sl_intros sl_downloadPart sl_downloadAttachments)

text \<open>The header changes only in where its payloads are and what its stored form is.\<close>

lemma persist_Ok: "persistAttachmentPayloads L h dir d = (Ok (h', e), d') \<Longrightarrow> \<exists>as. h' = h\<lparr>Attachments := as\<rparr>"
  by (auto simp: persistAttachmentPayloads_def bindIO_eq_Ok split: prod.splits)

lemma calm_upd [simp]:
  "calm w (w\<lparr>lWireDir := a\<rparr>)" "calm w (w\<lparr>lCodes := b\<rparr>)" "calm w (w\<lparr>lPrimary := p\<rparr>)"
  "calm w (w\<lparr>lAcceptedTo := xs\<rparr>)" "calm w (w\<lparr>lAcceptedAddTo := ys\<rparr>)" "calm w (w\<lparr>lWireStored := c\<rparr>)"
  "calm w (w\<lparr>lPrimary := p, lAcceptedTo := xs, lAcceptedAddTo := ys\<rparr>)"
  "calm w (w\<lparr>lHeader := h\<rparr>) = sameMsg (lHeader w) h"
  by (simp_all add: calm_def)

lemma calm_onDisk [intro]: "calm w (snd (onDisk m w))"
  by (rule cm.keepE [OF cm_onDisk])

lemma snd_io [simp]: "snd (modS f s) = f s" "snd (retIO x s) = s" "snd (failIO e s) = s" "snd (liftIO r s) = s"
  by (simp_all add: modS_def retIO_def failIO_def liftIO_def)

lemma cm_preserveWire: "cm.keep (preserveWire R fp)"
  by (rule cm.keepI) (auto simp: preserveWire_def onDisk_Ok intro!: cm.rel_bind split: prod.splits)

lemma cm_placeAttachments: "cm.keep (placeAttachments R fp)"
  by (rule cm.keepI) (auto simp: placeAttachments_def onDisk_Ok dest!: persist_Ok intro!: cm.rel_bind split: prod.splits)

lemma cm_settleFirst: "cm.keep (settleFirst e)"
  unfolding settleFirst_def by (intro cm_intros cm_setCode cm.keep_mod calm_upd)

lemma cm_acceptFirst: "cm.keep (acceptFirst R fp)"
  unfolding acceptFirst_def
  by (intro cm_intros cm.keep_mod calm_upd cm_preserveWire cm_placeAttachments cm_settleFirst)

lemma cm_deliverTo: "cm.keep (deliverTo R src ext dupHash isTo addr)"
  unfolding deliverTo_def deliverCopy_def acceptCopy_def Let_def
  by (intro cm_intros cm_setCode cm_validate cm_acceptFirst cm.keep_mod) auto

lemma cm_deliverAll: "cm.keep (deliverAll R src ext dupHash n as)"
  by (induction as arbitrary: n) (auto intro!: cm_intros cm_deliverTo)

section \<open>One code per recipient\<close>

definition recipientCodes :: "byte set" where
  "recipientCodes = {RejectCodeUserUnknown, RejectCodeUserFull, RejectCodeUserNotAccepting, RejectCodeUserDuplicate,
     RejectCodeUserUndisclosed, RejectCodeAccept}"

lemma validate_codes: "validateMsgRecvForAddr R h a x w = (Ok c, w') \<Longrightarrow> c \<in> recipientCodes"
  by (auto simp: validateMsgRecvForAddr_def recipientCodes_def elim!: bindIO_OkE split: if_split_asm option.split_asm)

text \<open>A recipient is told it was accepted exactly if one is recorded as such, and the message has its file then.\<close>

definition accepting :: "download \<Rightarrow> bool" where
  "accepting w \<longleftrightarrow> (RejectCodeAccept \<in> set (lCodes w) \<longleftrightarrow> lAcceptedTo w @ lAcceptedAddTo w \<noteq> [])
     \<and> (RejectCodeAccept \<in> set (lCodes w) \<longrightarrow> lPrimary w \<noteq> [])"

lemma preserveWire_locals: "preserveWire R fp w = (Ok u, w') \<Longrightarrow> locals w' = locals w"
  by (auto simp: preserveWire_def bindIO_eq_Ok onDisk_Ok locals_def split: if_splits prod.splits)

lemma validate_locals: "validateMsgRecvForAddr R h a x w = (Ok c, w') \<Longrightarrow> locals w' = locals w"
  using sl.keepD [OF sl_validate] by (simp add: idle_def)

lemma placeAttachments_locals: "placeAttachments R fp w = (Ok e, w') \<Longrightarrow> locals w' = locals w"
  by (auto simp: placeAttachments_def onDisk_Ok locals_def elim!: bindIO_OkE split: prod.splits)

lemma settleFirst_Ok:
  "settleFirst e w = (Ok u, w') \<Longrightarrow>
     locals w' = (lCodes w @ [RejectCodeAccept], lAcceptedTo w, lAcceptedAddTo w, lPrimary w)
     \<or> locals w' = (lCodes w @ [RejectCodeUserUndisclosed], [], [], [])"
  by (auto simp: settleFirst_def setCode_def locals_def split: option.splits)

lemma acceptFirst_Ok:
  assumes "acceptFirst R fp w = (Ok u, w')"
  shows "locals w' = (lCodes w @ [RejectCodeAccept], lAcceptedTo w, lAcceptedAddTo w, fp)
    \<or> locals w' = (lCodes w @ [RejectCodeUserUndisclosed], [], [], [])"
proof -
  from assms obtain v v' e where v: "preserveWire R fp (w\<lparr>lPrimary := fp\<rparr>) = (Ok (), v)"
    and p: "placeAttachments R fp v = (Ok e, v')" and e: "settleFirst e v' = (Ok u, w')"
    unfolding acceptFirst_def by (auto elim!: bindIO_OkE)
  from preserveWire_locals [OF v] placeAttachments_locals [OF p] settleFirst_Ok [OF e] show ?thesis
    by (simp add: locals_def)
qed

text \<open>The chosen path is not empty, and nothing is there.\<close>

lemma cleanElems_nonempty: "[] \<notin> set acc \<Longrightarrow> [] \<notin> set (cleanElems r acc es)"
  by (induction r acc es rule: cleanElems.induct) (auto split: list.splits)

lemma joinWith_nonempty: "es \<noteq> [] \<Longrightarrow> [] \<notin> set es \<Longrightarrow> joinWith sep es \<noteq> []"
  by (cases "(sep, es)" rule: joinWith.cases) auto

lemma Clean_nonempty: "Clean p \<noteq> []"
  using cleanElems_nonempty [of "[]"] by (auto simp: Clean_def Let_def dest: joinWith_nonempty)

lemma Join_nonempty: "e \<in> set es \<Longrightarrow> e \<noteq> [] \<Longrightarrow> Join es \<noteq> []"
  using Clean_nonempty by (auto simp: Join_def dropWhile_eq_Nil_conv split: list.split)

lemma firstUnused_Some: "firstUnused fs name i = Some p \<Longrightarrow> (\<exists>j. p = name j) \<and> fs p = None"
  by (erule firstUnused.raw_induct [of "\<lambda>fs name i p. (\<exists>j. p = name j) \<and> fs p = None", rotated]) (auto split: if_splits)

lemma uniqueFilepath_Some:
  assumes "uniqueFilepath fs dir ts ext = Some p"
  shows "p \<noteq> [] \<and> fs p = None"
proof -
  have n: "Join [dir, decimal k @ xs] \<noteq> []" for k xs by (rule Join_nonempty [of "decimal k @ xs"]) simp_all
  show ?thesis using assms n by (auto simp: uniqueFilepath_def Let_def split: if_splits dest!: firstUnused_Some)
qed

text \<open>One pass: what it adds to the codes, and the bookkeeping it keeps.\<close>

definition onePass :: "download \<Rightarrow> download \<Rightarrow> bool" where
  "onePass w w' \<longleftrightarrow> (\<exists>c \<in> recipientCodes. lCodes w' = lCodes w @ [c]) \<and> (accepting w \<longrightarrow> accepting w')"

lemma onePass_code: "c \<in> recipientCodes \<Longrightarrow> locals w' = (lCodes w @ [c], lAcceptedTo w, lAcceptedAddTo w, lPrimary w) \<Longrightarrow>
    (c = RejectCodeAccept \<longrightarrow> lPrimary w \<noteq> [] \<and> lAcceptedTo w @ lAcceptedAddTo w \<noteq> []) \<Longrightarrow> onePass w w'"
  by (auto simp: onePass_def accepting_def locals_def)

lemma onePass_locals: "locals v = locals w \<Longrightarrow> onePass v w' \<Longrightarrow> onePass w w'"
  by (auto simp: onePass_def accepting_def locals_iff)

lemma setCode_onePass: "setCode c w = (Ok u, w') \<Longrightarrow> c \<in> recipientCodes \<Longrightarrow> c \<noteq> RejectCodeAccept \<Longrightarrow> onePass w w'"
  by (rule onePass_code [of c]) (auto simp: setCode_def locals_def)

lemma acceptCopy_onePass:
  assumes a: "acceptCopy R isTo addr fp w = (Ok u, w')" and fp: "fp \<noteq> []"
  shows "onePass w w'"
proof -
  let ?v = "if isTo then w\<lparr>lAcceptedTo := lAcceptedTo w @ [addr]\<rparr> else w\<lparr>lAcceptedAddTo := lAcceptedAddTo w @ [addr]\<rparr>"
  have v: "lCodes ?v = lCodes w" "lPrimary ?v = lPrimary w" "lAcceptedTo ?v @ lAcceptedAddTo ?v \<noteq> []" by simp_all
  have c: "RejectCodeAccept \<in> recipientCodes" "RejectCodeUserUndisclosed \<in> recipientCodes" by (simp_all add: recipientCodes_def)
  show ?thesis
  proof (cases "lPrimary w = []")
    case True
    then have "acceptFirst R fp ?v = (Ok u, w')" using a v(2) by (simp add: acceptCopy_def)
    then consider "locals w' = (lCodes w @ [RejectCodeAccept], lAcceptedTo ?v, lAcceptedAddTo ?v, fp)"
      | "locals w' = (lCodes w @ [RejectCodeUserUndisclosed], [], [], [])"
      using acceptFirst_Ok [of R fp ?v u w'] v(1) by auto
    then show ?thesis
    proof cases
      case 1
      then show ?thesis using v(3) fp c(1) unfolding onePass_def accepting_def locals_def by auto
    next
      case 2
      then show ?thesis using True c(2) unfolding onePass_def accepting_def locals_def by auto
    qed
  next
    case False
    then have "setCode RejectCodeAccept ?v = (Ok u, w')" using a v(2) by (simp add: acceptCopy_def)
    then have "locals w' = (lCodes w @ [RejectCodeAccept], lAcceptedTo ?v, lAcceptedAddTo ?v, lPrimary w)"
      using v by (auto simp: setCode_def locals_def)
    then show ?thesis using v(3) False c(1) unfolding onePass_def accepting_def locals_def by auto
  qed
qed

lemma deliverCopy_onePass:
  assumes "deliverCopy R src ext isTo addr h w = (Ok u, w')"
  shows "onePass w w'"
proof -
  from assms obtain w1 fs fp r v where w1: "onDisk (mkdirAll (Join [dataDir R, Domain addr, User addr, ''in''])) w = (Ok (), w1)"
    and fp: "Ok fp = orDiverge (uniqueFilepath fs (Join [dataDir R, Domain addr, User addr, ''in'']) (u32OfTime (Timestamp h)) ext)"
    and r: "tryIO (onDisk (copyMessagePayload (lib R) src fp (hasFlag (Flags h) FlagDeflate) (Size h))) w1 = (Ok r, v)"
    and k: "(case r of Inl _ \<Rightarrow> setCode 105 | Inr _ \<Rightarrow> acceptCopy R isTo addr fp) v = (Ok u, w')"
    unfolding deliverCopy_def Let_def by (auto elim!: bindIO_OkE)
  have v: "locals v = locals w" using w1 r by (cases r) (auto simp: onDisk_Ok tryIO_Ok locals_def)
  have "onePass v w'"
  proof (cases r)
    case (Inl e)
    then show ?thesis using k by (auto intro: setCode_onePass simp: recipientCodes_def)
  next
    case (Inr x)
    then show ?thesis using k fp by (auto intro!: acceptCopy_onePass dest: uniqueFilepath_Some simp: orDiverge_def split: option.splits)
  qed
  then show ?thesis by (rule onePass_locals [OF v])
qed

lemma deliverTo_onePass:
  assumes "deliverTo R src ext dupHash isTo addr w = (Ok u, w')"
  shows "onePass w w'"
proof -
  from assms obtain code v where v: "validateMsgRecvForAddr R (lHeader w) addr dupHash w = (Ok code, v)"
    and k: "(if code \<noteq> RejectCodeAccept then setCode code else deliverCopy R src ext isTo addr (lHeader w)) v = (Ok u, w')"
    unfolding deliverTo_def by (auto elim!: bindIO_OkE)
  have "onePass v w'"
    using k validate_codes [OF v] by (cases "code = RejectCodeAccept") (auto intro: setCode_onePass deliverCopy_onePass)
  then show ?thesis by (rule onePass_locals [OF validate_locals [OF v]])
qed

lemma deliverAll_Ok:
  assumes "deliverAll R src ext dupHash n as w = (Ok u, w')" "accepting w"
  shows "accepting w' \<and> (\<exists>cs. lCodes w' = lCodes w @ cs \<and> length cs = length as \<and> set cs \<subseteq> recipientCodes)"
  using assms
proof (induction as arbitrary: n w)
  case (Cons a as)
  then obtain v where v: "deliverTo R src ext dupHash (0 < n) a w = (Ok (), v)"
    and k: "deliverAll R src ext dupHash (n - 1) as v = (Ok u, w')" by (auto elim!: bindIO_OkE)
  from deliverTo_onePass [OF v] Cons.prems(2) obtain c where c: "c \<in> recipientCodes" "lCodes v = lCodes w @ [c]" "accepting v"
    by (auto simp: onePass_def)
  from Cons.IH [OF k c(3)] obtain cs where "accepting w'" "lCodes w' = lCodes v @ cs" "length cs = length as" "set cs \<subseteq> recipientCodes"
    by blast
  with c show ?case by (intro conjI exI [of _ "c # cs"]) auto
qed auto

section \<open>What was answered is what was stored\<close>

lemma recordRecvUsage_Ok:
  "recordRecvUsage R h as now v = (Ok u, v') \<Longrightarrow>
     wConn v' = wConn v \<and> wDb v' = wDb v \<and> wDisk v' = wDisk v \<and> lCodes v' = lCodes v"
proof (induction as arbitrary: v)
  case (Cons a as)
  then obtain v1 where v1: "ignoreErr (postMsgStatRecv R a now (storedSize h)) v = (Ok (), v1)"
    and k: "recordRecvUsage R h as now v1 = (Ok u, v')" by (auto elim!: bindIO_OkE)
  have "snd (ignoreErr (postMsgStatRecv R a now (storedSize h)) v) = v1" using v1 by simp
  then have "v1 = snd (postMsgStatRecv R a now (storedSize h) v)" by simp
  then have "wConn v1 = wConn v \<and> wDb v1 = wDb v \<and> wDisk v1 = wDisk v \<and> lCodes v1 = lCodes v"
    by (simp add: postMsgStatRecv_def postMsgStat_def Let_def split: sum.split prod.split)
  with Cons.IH [OF k] show ?case by simp
qed simp

definition withdrawn :: "bytes \<Rightarrow> bytes" where
  "withdrawn cs = map (\<lambda>c. if c = RejectCodeAccept then RejectCodeUserUndisclosed else c) cs"

definition storesAccepted :: "receiver \<Rightarrow> (string \<Rightarrow> byte option) \<Rightarrow> download \<Rightarrow> download \<Rightarrow> bool" where
  "storesAccepted R lo w w' \<longleftrightarrow>
     (\<exists>r. storeMsgDetail (storeEnvOf R) (ents (wDisk w)) (storeClock R) ((lHeader w)\<lparr>Filepath := lPrimary w\<rparr>) lo (wDb w) = (r, wDb w')
        \<and> (r = Ok () \<and> lCodes w' = lCodes w \<or> (\<exists>e. r = Err e) \<and> lCodes w' = withdrawn (lCodes w)))"

lemma storeAcceptedMessage_cases:
  assumes "storeAcceptedMessage R lo w = (Ok b, w')"
  shows "wConn w' = wConn w"
    and "if lAcceptedTo w @ lAcceptedAddTo w = [] then wDb w' = wDb w \<and> lCodes w' = lCodes w else storesAccepted R lo w w'"
  using assms
  by (auto simp: storeAcceptedMessage_def onDb_Ok tryIO_Ok withdrawn_def storesAccepted_def
      elim!: bindIO_OkE dest!: recordRecvUsage_Ok split: if_splits sum.splits)

definition storedOutcome :: "receiver \<Rightarrow> Address list \<Rightarrow> bytes \<Rightarrow> Header \<Rightarrow> db \<Rightarrow> db \<Rightarrow> bool" where
  "storedOutcome R addrs codes h0 s0 s' \<longleftrightarrow>
     (\<exists>h s fs. sameMsg h0 h \<and> reads s0 s \<and>
        (if RejectCodeAccept \<in> set codes
         then storeMsgDetail (storeEnvOf R) fs (storeClock R) h (localOutcomeOf R addrs codes) s = (Ok (), s')
         else s' = s \<or> (\<exists>lo e. storeMsgDetail (storeEnvOf R) fs (storeClock R) h lo s = (Err e, s'))))"

lemma storedOutcome_mono: "reads s t \<Longrightarrow> storedOutcome R addrs codes h t s' \<Longrightarrow> storedOutcome R addrs codes h s s'"
  unfolding storedOutcome_def using rd.rel_trans by blast

lemma withdrawn_props: "RejectCodeAccept \<notin> set (withdrawn cs)" "length (withdrawn cs) = length cs"
  "set cs \<subseteq> recipientCodes \<Longrightarrow> set (withdrawn cs) \<subseteq> recipientCodes"
  by (auto simp: withdrawn_def recipientCodes_def)

lemma rejectAccept_Ok: "onConn (rejectAccept b) w = (Ok u, w') \<Longrightarrow>
    out (wConn w') = out (wConn w) @ b \<and> wDb w' = wDb w \<and> wDisk w' = wDisk w"
  by (auto simp: onConn_Ok rejectAccept_def Write_def split: list.splits option.splits)

lemma deliverVerified_Ok:
  assumes d: "deliverVerified R addrs n dup w = (Ok u, w')" and init: "lCodes w = []" "lAcceptedTo w = []" "lAcceptedAddTo w = []"
  shows "\<exists>codes. length codes = length addrs \<and> set codes \<subseteq> recipientCodes
    \<and> out (wConn w') = out (wConn w) @ codes \<and> storedOutcome R addrs codes (lHeader w) (wDb w) (wDb w')"
proof -
  let ?ext = "if extensionsByType R (Type (lHeader w)) = [] then ''.unknown'' else hd (extensionsByType R (Type (lHeader w)))"
  let ?stored = "\<lambda>v. v\<lparr>lWireStored := (lAcceptedTo v @ lAcceptedAddTo v \<noteq> [])\<rparr>"
  from d obtain src w1 v b x where w1: "onDisk (osOpen (Filepath (lHeader w))) w = (Ok src, w1)"
    and v: "deliverAll R src ?ext dup n addrs w1 = (Ok (), v)"
    and s: "storeAcceptedMessage R (localOutcomeOf R addrs (lCodes v)) (?stored v) = (Ok b, x)"
    and k: "onConn (rejectAccept (lCodes x)) x = (Ok u, w')"
    unfolding deliverVerified_def Let_def by (auto elim!: bindIO_OkE)
  have a1: "accepting w1" "lCodes w1 = []" using w1 init by (auto simp: onDisk_Ok accepting_def)
  from deliverAll_Ok [OF v a1(1)] a1(2) have acc: "accepting v" and codes: "length (lCodes v) = length addrs"
    "set (lCodes v) \<subseteq> recipientCodes" by auto
  have "calm w w1" using cm.keepD [OF cm_onDisk w1] .
  from cm.rel_trans [OF this cm.keepD [OF cm_deliverAll v]] have calm: "calm w v" .
  note out = rejectAccept_Ok [OF k]
  note sc = storeAcceptedMessage_cases [OF s]
  have conn: "out (wConn w') = out (wConn w) @ lCodes x" using out sc(1) calm by (simp add: calm_def)
  have rd: "reads (wDb w) (wDb v)" "sameMsg (lHeader w) (lHeader v)" using calm by (simp_all add: calm_def)
  show ?thesis
  proof (cases "RejectCodeAccept \<in> set (lCodes v)")
    case False
    then have "wDb x = wDb v \<and> lCodes x = lCodes v" using sc(2) acc by (simp add: accepting_def)
    then show ?thesis using False codes conn out rd unfolding storedOutcome_def
      by (intro exI [of _ "lCodes v"] conjI exI [of _ "lHeader v"] exI [of _ "wDb v"]) auto
  next
    case True
    then have "storesAccepted R (localOutcomeOf R addrs (lCodes v)) (?stored v) x"
      using sc(2) acc by (auto simp: accepting_def storesAccepted_def split: if_splits)
    then obtain r where r: "storeMsgDetail (storeEnvOf R) (ents (wDisk v)) (storeClock R) ((lHeader v)\<lparr>Filepath := lPrimary v\<rparr>)
        (localOutcomeOf R addrs (lCodes v)) (wDb v) = (r, wDb x)"
      "r = Ok () \<and> lCodes x = lCodes v \<or> (\<exists>e. r = Err e) \<and> lCodes x = withdrawn (lCodes v)"
      unfolding storesAccepted_def by auto
    have "storedOutcome R addrs (lCodes x) (lHeader w) (wDb w) (wDb w')"
      using r rd True out withdrawn_props(1) [of "lCodes v"] unfolding storedOutcome_def
      by (intro exI [of _ "(lHeader v)\<lparr>Filepath := lPrimary v\<rparr>"] exI [of _ "wDb v"] exI [of _ "ents (wDisk v)"]) auto
    then show ?thesis using conn codes r(2) withdrawn_props(2) withdrawn_props(3) [OF codes(2)]
      by (intro exI [of _ "lCodes x"]) auto
  qed
qed

lemma storedPaths_sameMsg: "sameMsg h (h\<lparr>Filepath := p, Attachments := as\<rparr>)"
  by (simp add: sameMsg_def)

lemma prepareMessageData_Ok:
  "prepareMessageData R h skip w = (Ok (h1, created), w') \<Longrightarrow> sameMsg h h1"
  by (auto simp: prepareMessageData_def elim!: bindIO_OkE split: if_splits option.splits prod.splits intro: storedPaths_sameMsg)

lemma verifyHash_Ok:
  assumes "verifyHash R w = (Ok (m, dup), w')"
  shows "w' = w\<lparr>lHeader := (lHeader w)\<lparr>messageHash := Some m\<rparr>\<rparr>"
    and "GetMessageHash (lib R) (ents (wDisk w)) (lHeader w) = Ok (m, (lHeader w)\<lparr>messageHash := Some m\<rparr>)"
    and "ChallengeCompleted (lHeader w) \<longrightarrow> ChallengeHash (lHeader w) = m"
proof -
  let ?h = "(lHeader w)\<lparr>messageHash := Some m\<rparr>"
  from assms obtain h1 h2 where g: "Ok (m, h1) = GetMessageHash (lib R) (ents (wDisk w)) (lHeader w)"
    and c: "Ok (dup, h2) = canonicalMsgHash (lib R) (ents (wDisk w)) h1" and w': "w' = w\<lparr>lHeader := h2\<rparr>"
    and ch: "ChallengeCompleted (lHeader w) \<longrightarrow> ChallengeHash (lHeader w) = m"
    unfolding verifyHash_def by (auto elim!: bindIO_OkE split: if_splits)
  have h1: "h1 = ?h" using GetMessageHash_Ok(1) [OF g [symmetric]] .
  then have "h2 = ?h" using c by (auto simp: canonicalMsgHash_def GetMessageHash_def split: if_splits)
  with h1 g w' ch show "w' = w\<lparr>lHeader := ?h\<rparr>" "GetMessageHash (lib R) (ents (wDisk w)) (lHeader w) = Ok (m, ?h)"
    "ChallengeCompleted (lHeader w) \<longrightarrow> ChallengeHash (lHeader w) = m" by simp_all
qed

lemma downloadBody_Ok:
  assumes "downloadBody R skip w = (Ok u, w')" "lCodes w = []" "lAcceptedTo w = []" "lAcceptedAddTo w = []"
  shows "\<exists>codes h1 hash. length codes = length (fst (localRecipients (uni (lib R)) (hostDomain R) (lHeader w)))
    \<and> set codes \<subseteq> recipientCodes \<and> out (wConn w') = out (wConn w) @ codes
    \<and> sameMsg (lHeader w) h1 \<and> (ChallengeCompleted h1 \<longrightarrow> ChallengeHash h1 = hash)
    \<and> storedOutcome R (fst (localRecipients (uni (lib R)) (hostDomain R) (lHeader w))) codes
        (h1\<lparr>messageHash := Some hash\<rparr>) (wDb w) (wDb w')"
proof -
  obtain addrs n where l: "localRecipients (uni (lib R)) (hostDomain R) (lHeader w) = (addrs, n)" by fastforce
  from assms(1) obtain h1 created v where p: "prepareMessageData R (lHeader w) skip w = (Ok (h1, created), v)"
    and d: "deferIO (bindIO (modS (\<lambda>w. w\<lparr>lHeader := h1\<rparr>)) (\<lambda>_.
                bindIO (verifyHash R) (\<lambda>(_, dupHash).
                deferIO (deliverVerified R addrs n dupHash) cleanupWire)))
               (if skip then retIO () else onDisk (cleanupFiles created)) v = (Ok u, w')"
    unfolding downloadBody_def by (auto simp: l elim!: bindIO_OkE split: if_splits)
  from deferIO_run [OF d] obtain hash dup v1 t where
    vh: "verifyHash R (v\<lparr>lHeader := h1\<rparr>) = (Ok (hash, dup), v1)"
    and dv: "deferIO (deliverVerified R addrs n dup) cleanupWire v1 = (Ok u, t)"
    and w': "w' = snd ((if skip then retIO () else onDisk (cleanupFiles created)) t)"
    by (auto elim!: bindIO_OkE split: prod.splits)
  from deferIO_run [OF dv] obtain x where x: "deliverVerified R addrs n dup v1 = (Ok u, x)" and t: "t = snd (cleanupWire x)" by blast
  have cv: "calm w v" and loc: "locals v = locals w"
    using sl.keepD [OF sl_prepareMessageData p] by (simp_all add: idle_def)
  note vh' = verifyHash_Ok [OF vh]
  have init: "lCodes v1 = []" "lAcceptedTo v1 = []" "lAcceptedAddTo v1 = []"
    using loc assms(2-4) vh'(1) by (simp_all add: locals_iff)
  have end1: "wConn w' = wConn x \<and> wDb w' = wDb x"
    by (simp add: w' t cleanupWire_def onDisk_def split: prod.split)
  from deliverVerified_Ok [OF x init] obtain codes where c: "length codes = length addrs" "set codes \<subseteq> recipientCodes"
    "out (wConn x) = out (wConn v1) @ codes" "storedOutcome R addrs codes (lHeader v1) (wDb v1) (wDb x)" by blast
  have so: "storedOutcome R addrs codes (h1\<lparr>messageHash := Some hash\<rparr>) (wDb w) (wDb w')"
    using c(4) cv end1 vh'(1) storedOutcome_mono [of "wDb w" "wDb v"] by (simp add: calm_def)
  show ?thesis using c so cv end1 vh' prepareMessageData_Ok [OF p] unfolding l calm_def
    by (intro exI [of _ codes] exI [of _ h1] exI [of _ hash]) auto
qed


end
