(* ===== verification/TempFiles.thy ===== *)
theory TempFiles
  imports DeliveryProps
begin

text \<open>
  Temporary files. On a disk whose operations do not fail, whatever becomes of a download, the files
  its data was received into are gone when it returns. A step is sound for this if it leaves a disk
  without faults without faults: an instance of \<open>step_relation\<close> on disks and one on downloads.
\<close>

definition sound :: "disk \<Rightarrow> disk \<Rightarrow> bool" where
  "sound d e \<longleftrightarrow> (dfaults d = [] \<longrightarrow> dfaults e = [])"

interpretation dk: step_relation sound
  by unfold_locales (auto simp: sound_def)

lemma dk_faultable:
  assumes "dk.keep m"
  shows "dk.keep (faultable m)"
proof (rule dk.keepI)
  fix d
  show "sound d (snd (faultable m d))"
    using dk.keepE [OF assms, of "d\<lparr>dfaults := []\<rparr>"] by (cases "dfaults d") (simp_all add: sound_def faultable_def)
qed

lemma dk_basic: "dk.keep getEnts" "dk.keep (setEnt p e)" "dk.keep (appendFile p b)" "dk.keep (hashOnDisk L h)"
  "dk.keep (\<lambda>d. (Ok x, d\<lparr>ents := f (ents d)\<rparr>))"
  by (auto intro!: dk.keepI simp: sound_def getEnts_def setEnt_def appendFile_def hashOnDisk_def Let_def split: list.split option.split)

lemmas dk_intros = dk.keep_intros dk_faultable dk_basic

lemma dk_ops: "dk.keep (osStat p)" "dk.keep (osOpen p)" "dk.keep (osCreate p)" "dk.keep (osCreateExcl p)"
  "dk.keep (createTemp tmp pat)" "dk.keep (mkdirTemp tmp dir pat)" "dk.keep (osRemove p)" "dk.keep osFlush" "dk.keep (removeAll p)"
  unfolding osStat_def osOpen_def osCreate_def osCreateExcl_def createTemp_def mkdirTemp_def osRemove_def osFlush_def removeAll_def
  by (auto intro!: dk_intros split: option.split fentry.split)

lemma dk_mkdirAll: "dk.keep (mkdirAll p)"
  unfolding mkdirAll_def by (auto intro!: dk_intros split: option.split fentry.split)

lemma dk_readAllOf: "dk.keep (readAllOf src)"
  unfolding readAllOf_def by (intro dk_intros)

lemma dk_copyNTo: "dk.keep (copyNTo p n src)"
  unfolding copyNTo_def by (intro dk_intros dk_readAllOf)

lemma dk_cleanupFiles: "dk.keep (cleanupFiles ps)"
  by (induction ps) (auto intro!: dk_intros dk_ops)

lemma dk_thenClose: "dk.keep m \<Longrightarrow> dk.keep cl \<Longrightarrow> dk.keep (thenClose m cl)"
proof (rule dk.keepI)
  fix d
  assume m: "dk.keep m" and cl: "dk.keep cl"
  obtain r e where e: "m d = (r, e)" by fastforce
  obtain q f where f: "cl e = (q, f)" by fastforce
  have "snd (thenClose m cl d) = f" by (simp add: thenClose_def e f split: prod.split res.split)
  then show "sound d (snd (thenClose m cl d))" using dk.rel_trans [OF dk.keepD [OF m e] dk.keepD [OF cl f]] by simp
qed

lemma dk_copyPart: "dk.keep (copyPart src dst n)"
  unfolding copyPart_def by (intro dk_intros dk_ops dk_thenClose dk_copyNTo)

lemma dk_preserveAttachments: "dk.keep (preserveAttachments dir i as)"
  by (induction as arbitrary: i) (auto intro!: dk_intros dk_copyPart simp: Let_def)

lemma dk_Preserve: "dk.keep (Preserve L tmp h dir)"
  unfolding Preserve_def Let_def syncDirectory_def
  by (intro dk_intros dk_ops dk_copyPart dk_preserveAttachments)

lemma dk_copyMessagePayload: "dk.keep (copyMessagePayload L src p c n)"
  unfolding copyMessagePayload_def by (intro dk_intros dk_ops dk_readAllOf dk_copyNTo)

lemma dk_persist: "dk.keep (persistAttachmentPayloads L h dir)"
proof -
  have "dk.keep (persistAttachments L dir t i as)" for t i as
    by (induction as arbitrary: i) (auto intro!: dk_intros dk_ops dk_copyMessagePayload)
  then show ?thesis unfolding persistAttachmentPayloads_def by (intro dk_intros)
qed

section \<open>Downloads\<close>

definition soundDisk :: "download \<Rightarrow> download \<Rightarrow> bool" where
  "soundDisk w w' \<longleftrightarrow> sound (wDisk w) (wDisk w')"

interpretation sd: step_relation soundDisk
  by unfold_locales (auto simp: soundDisk_def intro: dk.rel_trans)

lemma sd_onDisk: "dk.keep m \<Longrightarrow> sd.keep (onDisk m)"
  by (rule sd.keepI) (auto simp: onDisk_def soundDisk_def split: prod.split dest: dk.keepD)

lemma sd_others: "sd.keep (onDb f)" "sd.keep (onConn g)" "sd.keep (setCode c)"
  by (auto intro!: sd.keepI simp: onDb_def onConn_def setCode_def modS_def soundDisk_def split: prod.split)

lemma sd_mod: "(\<And>w. wDisk (f w) = wDisk w) \<Longrightarrow> sd.keep (modS f)"
  by (rule sd.keep_mod) (simp add: soundDisk_def)

lemmas sd_intros = sd.keep_intros sd_onDisk sd_others dk_ops dk_mkdirAll dk_cleanupFiles dk_Preserve
  dk_copyMessagePayload dk_persist

lemma sd_validate: "sd.keep (validateMsgRecvForAddr R h a x)"
  unfolding validateMsgRecvForAddr_def by (intro sd_intros)

lemma sd_deliverTo: "sd.keep (deliverTo R src ext dup isTo a)"
  unfolding deliverTo_def deliverCopy_def acceptCopy_def acceptFirst_def preserveWire_def placeAttachments_def settleFirst_def Let_def
  by (intro sd_intros sd_validate sd_mod) auto

lemma sd_deliverAll: "sd.keep (deliverAll R src ext dup n as)"
  by (induction as arbitrary: n) (auto intro!: sd_intros sd_deliverTo)

lemma sd_recordRecvUsage: "sd.keep (recordRecvUsage R h as now)"
  by (induction as) (auto intro!: sd_intros sd_mod simp: postMsgStatRecv_def postMsgStat_def Let_def)

lemma sd_deliverVerified: "sd.keep (deliverVerified R addrs n dup)"
  unfolding deliverVerified_def storeAcceptedMessage_def Let_def
  by (intro sd_intros sd_deliverAll sd_recordRecvUsage sd_mod) auto

lemma sd_verifyHash: "sd.keep (verifyHash R)"
  unfolding verifyHash_def by (intro sd_intros sd_mod) auto

lemma sd_cleanupWire: "sd.keep cleanupWire"
proof (rule sd.keepI)
  fix w :: download
  have "sd.keep (onDisk (removeAll (lWireDir w)))" by (intro sd_intros)
  then show "soundDisk w (snd (cleanupWire w))" by (simp add: cleanupWire_def sd.keepE)
qed

lemma sd_copyN: "sd.keep (copyNFromConn p n)"
proof (rule sd.keepI)
  fix w :: download
  have "sd.keep (bindIO (onConn (\<lambda>c. (Ok (), consume k c))) (\<lambda>_.
         bindIO (onDisk (appendFile p b)) (\<lambda>_. if x then failIO e else retIO ())))" for k b x e
    by (intro sd_intros dk_basic)
  then show "soundDisk w (snd (copyNFromConn p n w))"
    unfolding copyNFromConn_def Let_def by (rule sd.keepE)
qed

lemma sd_downloadPart: "sd.keep (downloadPart tmp pat n)"
  unfolding downloadPart_def by (intro sd_intros sd_copyN dk_intros dk_ops)

lemma sd_downloadAttachments: "sd.keep (downloadAttachments tmp created as)"
  by (induction as arbitrary: created) (auto intro!: sd_intros sd_downloadPart)

lemma sd_prepareMessageData: "sd.keep (prepareMessageData R h skip)"
  unfolding prepareMessageData_def by (intro sd_intros sd_downloadPart sd_downloadAttachments)

section \<open>Cleaning up\<close>

lemma wDisk_onDisk: "wDisk (snd (onDisk m w)) = snd (m (wDisk w))"
  by (simp add: onDisk_def split: prod.split)

lemma osRemove_clean: "dfaults d = [] \<Longrightarrow> ents (snd (osRemove p d)) = (ents d)(p := None)"
  by (auto simp: osRemove_def faultable_def bindIO_def getEnts_def setEnt_def failIO_def fun_eq_iff)

lemma cleanupFiles_removes:
  "dfaults d = [] \<Longrightarrow> ents (snd (cleanupFiles ps d)) q = (if q \<in> set ps \<and> q \<noteq> [] then None else ents d q)"
proof (induction ps arbitrary: d)
  case (Cons p ps)
  show ?case
  proof (cases "p = []")
    case False
    obtain r e where e: "osRemove p d = (r, e)" by fastforce
    then have d: "dfaults e = []" "ents e = (ents d)(p := None)"
      using dk.keepD [OF dk_ops(7) e] osRemove_clean [OF Cons.prems, of p] Cons.prems by (simp_all add: sound_def)
    have "r = Ok () \<or> (\<exists>x. r = Err x)"
      using e Cons.prems by (auto simp: osRemove_def faultable_def bindIO_def getEnts_def setEnt_def failIO_def split: if_splits)
    then have "snd (cleanupFiles (p # ps) d) = snd (cleanupFiles ps e)"
      using False e by (auto simp: bindIO_def ignoreErr_def)
    then show ?thesis using Cons.IH [OF d(1)] d(2) False by auto
  qed (use Cons in auto)
qed (simp add: retIO_def)


section \<open>Instances\<close>

text \<open>Bob's host, whose identity service does not know Bob, receiving Alice's message.\<close>

definition sampleReceiver :: receiver where
  "sampleReceiver = host.extend sampleHost (receiver.fields (sJson storeSample) (sPg storeSample) ''/data'' (\<lambda>fs dir pat. ''/tmp/x'')
     (\<lambda>t. []) ''NEVER'' ''http://id'' (\<lambda>u. Inr (404, [])) (\<lambda>b. Err EOF) (\<lambda>u a t n. Inr 200) 1 2)"

definition sampleWorld :: world where
  "sampleWorld = \<lparr>wConn = sampleConn [1, 2, 3, 4, 5], wDisk = \<lparr>ents = Map.empty, dfaults = []\<rparr>, wDb = sampleDb [], wStats = []\<rparr>"

lemma sampleLocal: "localRecipients (uni (lib sampleReceiver)) (hostDomain sampleReceiver) sampleStored = ([bob], 1)"
  by (simp add: localRecipients_def sampleStored_fields sampleReceiver_def host.defs sampleHost_def bob_def Let_def)

lemmas sample_host = sampleReceiver_def host.defs receiver.defs sampleHost_def

definition sampleDownload :: download where
  "sampleDownload = world.extend sampleWorld (download.fields sampleStored [] [] [] [] [] False)"

lemma samplePrepared:
  "prepareMessageData sampleReceiver sampleStored False sampleDownload
     = (Ok (sampleStored\<lparr>Filepath := ''/tmp/x''\<rparr>, [''/tmp/x'']),
        sampleDownload\<lparr>wConn := consume 5 (sampleConn [1, 2, 3, 4, 5]), wDisk := \<lparr>ents = [''/tmp/x'' \<mapsto> Regular [1, 2, 3, 4, 5]], dfaults = []\<rparr>\<rparr>)"
  by (simp add: prepareMessageData_def downloadPart_def sampleStored_fields sample_host sampleDownload_def sampleWorld_def
      world.defs download.defs onDisk_def createTemp_def faultable_def getEnts_def setEnt_def bindIO_def retIO_def onErr_def
      copyNFromConn_def onConn_def sampleConn_def appendFile_def osFlush_def Let_def)

lemma sampleValidate:
  "dbfaults (wDb w) = [] \<Longrightarrow> tabs (wDb w) = tabs (sampleDb []) \<Longrightarrow>
     validateMsgRecvForAddr sampleReceiver h bob x w = (Ok 100, w)"
  by (simp add: validateMsgRecvForAddr_def sample_host onDb_def hasAddrReceivedMsgHash_def query_def stmt_def receivedBy_def
      sampleDb_def bindIO_def retIO_def liftIO_def getAddressDetail_def)

text \<open>A deferred call that neither panics nor hangs leaves the result.\<close>

definition returns :: "('s, unit) st \<Rightarrow> bool" where
  "returns m \<longleftrightarrow> (\<forall>s. fst (m s) \<noteq> Panic \<and> fst (m s) \<noteq> Diverge)"

lemma fst_deferIO: "returns cl \<Longrightarrow> fst (deferIO m cl s) = fst (m s)"
proof -
  assume cl: "returns cl"
  obtain r t where m: "m s = (r, t)" by fastforce
  obtain q u where c: "cl t = (q, u)" by fastforce
  have "q \<noteq> Panic" "q \<noteq> Diverge" using cl c unfolding returns_def by (metis fst_conv)+
  then show ?thesis by (cases q) (simp_all add: deferIO_def ignoreErr_def m c)
qed

lemma returns_onDisk: "returns m \<Longrightarrow> returns (onDisk m)"
  by (simp add: returns_def onDisk_def split: prod.split) (metis fst_conv)

lemma returns_remove: "returns (osRemove p)" "returns (removeAll p)"
  by (auto simp: returns_def osRemove_def removeAll_def faultable_def bindIO_def getEnts_def setEnt_def failIO_def
      split: list.split option.split)

lemma returns_cleanupFiles: "returns (cleanupFiles ps)"
proof (induction ps)
  case (Cons p ps)
  have "fst (bindIO (ignoreErr (osRemove p)) (\<lambda>_. cleanupFiles ps) s) \<noteq> Panic
      \<and> fst (bindIO (ignoreErr (osRemove p)) (\<lambda>_. cleanupFiles ps) s) \<noteq> Diverge" for s
  proof -
    obtain q u where c: "osRemove p s = (q, u)" by fastforce
    have "q \<noteq> Panic" "q \<noteq> Diverge" using returns_remove(1) c unfolding returns_def by (metis fst_conv)+
    then show ?thesis using Cons by (cases q) (simp_all add: returns_def bindIO_def ignoreErr_def c)
  qed
  then show ?case using Cons by (simp add: returns_def)
qed (simp add: returns_def retIO_def)

lemma returns_cleanupWire: "returns cleanupWire"
  using returns_onDisk [OF returns_remove(2)] unfolding returns_def cleanupWire_def by (auto simp: retIO_def)

lemma sampleRun:
  "\<exists>w'. downloadMessage sampleReceiver sampleStored False sampleWorld = (Ok (), w')"
proof -
  let ?v = "sampleDownload\<lparr>wConn := consume 5 (sampleConn [1, 2, 3, 4, 5]), wDisk := \<lparr>ents = [''/tmp/x'' \<mapsto> Regular [1, 2, 3, 4, 5]], dfaults = []\<rparr>,
    lHeader := sampleStored\<lparr>Filepath := ''/tmp/x''\<rparr>\<rparr>"
  have h: "lHeader sampleDownload = sampleStored" "lCodes sampleDownload = []" "lAcceptedTo sampleDownload = []"
    "lAcceptedAddTo sampleDownload = []" "lWireDir sampleDownload = []" "wDb sampleDownload = sampleDb []"
    by (simp_all add: sampleDownload_def sampleWorld_def download.defs world.defs)
  have vh: "verifyHash sampleReceiver ?v = (Ok (replicate 32 7, replicate 32 7), ?v)"
    by (simp add: verifyHash_def GetMessageHash_def canonicalMsgHash_def sampleStored_def sampleParent_def sampleHeader_def
        emptyHeader_def bindIO_def liftIO_def retIO_def modS_def getS_def hasFlag_def)
  have "fst (deliverVerified sampleReceiver [bob] 1 (replicate 32 7) ?v) = Ok ()"
    by (simp add: deliverVerified_def Let_def onDisk_def osOpen_def faultable_def getEnts_def bindIO_def retIO_def
        deliverTo_def sampleValidate setCode_def storeAcceptedMessage_def onConn_def rejectAccept_def Write_def consume_def
        sampleConn_def h sampleDb_def modS_def getS_def)
  then have "fst (deferIO (deliverVerified sampleReceiver [bob] 1 (replicate 32 7)) cleanupWire ?v) = Ok ()"
    by (simp only: fst_deferIO [OF returns_cleanupWire])
  then have "fst (deferIO (bindIO (modS (\<lambda>w. w\<lparr>lHeader := sampleStored\<lparr>Filepath := ''/tmp/x''\<rparr>\<rparr>)) (\<lambda>_.
       bindIO (verifyHash sampleReceiver) (\<lambda>(_, dupHash).
       deferIO (deliverVerified sampleReceiver [bob] 1 dupHash) cleanupWire))) (onDisk (cleanupFiles [''/tmp/x'']))
      (sampleDownload\<lparr>wConn := consume 5 (sampleConn [1, 2, 3, 4, 5]), wDisk := \<lparr>ents = [''/tmp/x'' \<mapsto> Regular [1, 2, 3, 4, 5]], dfaults = []\<rparr>\<rparr>)) = Ok ()"
    unfolding fst_deferIO [OF returns_onDisk [OF returns_cleanupFiles]] bind_modS
    by (simp add: bindIO_run vh)
  then have "fst (downloadBody sampleReceiver False sampleDownload) = Ok ()"
    by (simp add: downloadBody_def h sampleLocal bindIO_run samplePrepared)
  then show ?thesis by (simp add: downloadMessage_def sampleDownload_def split: prod.split) (metis fst_conv)
qed



end
