(* ===== verification/Codec.thy ===== *)
theory Codec
  imports Exchange
begin

text \<open>
  The wire format from both sides: \<open>wireOK H h\<close> says which headers the host \<open>H\<close> reads off the
  wire, \<open>readHeaderFields\<close> reads back what \<open>Encode\<close> writes for each of them, and whatever
  \<open>readHeader\<close> accepts was transmitted as exactly its encoding.
\<close>

section \<open>Well-formed headers\<close>

definition wireAddress :: "unicode \<Rightarrow> Address \<Rightarrow> bool" where
  "wireAddress U a \<longleftrightarrow> validAddress U a \<and> length (ToString a) < 256"

definition typeOK :: "bool \<Rightarrow> byte \<Rightarrow> string \<Rightarrow> bool" where
  "typeOK common i t \<longleftrightarrow>
     (if common then GetCommonMediaType i = Some t
      else i = 0 \<and> isASCIIBytes (bytes_of t) \<and> length t < 256)"

definition attOK :: "unicode \<Rightarrow> AttachmentHeader \<Rightarrow> bool" where
  "attOK U a \<longleftrightarrow>
     \<not> hasFlag (aFlags a) attachmentReservedBitsMask
     \<and> typeOK (hasFlag (aFlags a) 1) (aTypeID a) (aType a)
     \<and> isValidAttachmentFilename U (aFilename a)
     \<and> (\<not> hasFlag (aFlags a) 2 \<longrightarrow> aExpandedSize a = 0)
     \<and> aFilepath a = []"

definition recipientsOK :: "unicode \<Rightarrow> Address list \<Rightarrow> bool" where
  "recipientsOK U as \<longleftrightarrow>
     as \<noteq> [] \<and> length as < 256 \<and> list_all (wireAddress U) as \<and> distinct (map (addrKey U) as)"

definition flagsOK :: "byte \<Rightarrow> bool" where
  "flagsOK f \<longleftrightarrow>
     \<not> hasFlag f messageReservedBitsMask \<and> \<not> (hasFlag f FlagHasAddTo \<and> hasFlag f FlagTerminal)"

definition pidOK :: "Header \<Rightarrow> bool" where
  "pidOK h \<longleftrightarrow> (if hasFlag (Flags h) FlagHasPid then length (Pid h) = 32 else Pid h = [])"

definition addToOK :: "unicode \<Rightarrow> Header \<Rightarrow> bool" where
  "addToOK U h \<longleftrightarrow>
     (if hasFlag (Flags h) FlagHasAddTo then
        hasFlag (Flags h) FlagHasPid \<and> recipientsOK U (AddTo h)
        \<and> (\<exists>f. AddToFrom h = Some f \<and> wireAddress U f
               \<and> addrKey U f \<in> set (map (addrKey U) (From h # To h)))
      else AddToFrom h = None \<and> AddTo h = [])"

lemma addToOK_code [code]:
  "addToOK U h \<longleftrightarrow>
     (if hasFlag (Flags h) FlagHasAddTo then
        hasFlag (Flags h) FlagHasPid \<and> recipientsOK U (AddTo h)
        \<and> (case AddToFrom h of None \<Rightarrow> False
           | Some f \<Rightarrow> wireAddress U f \<and> addrKey U f \<in> set (map (addrKey U) (From h # To h)))
      else AddToFrom h = None \<and> AddTo h = [])"
  by (auto simp: addToOK_def split: option.splits)

definition timeOK :: "host \<Rightarrow> float64 \<Rightarrow> bool" where
  "timeOK H ts \<longleftrightarrow>
     (let delta = f64_sub (clock H) (f64_of_bits ts)
      in \<not> (f64_less (f64_int 0) (PastTimeDelta H) \<and> f64_less (PastTimeDelta H) delta)
         \<and> \<not> (f64_less (f64_int 0) (FutureTimeDelta H) \<and> f64_less delta (f64_int 0)
               \<and> f64_less (FutureTimeDelta H) (f64_abs delta)))"

definition topicOK :: "Header \<Rightarrow> bool" where
  "topicOK h \<longleftrightarrow> (if hasFlag (Flags h) FlagHasPid then Topic h = [] else length (Topic h) < 256)"

definition expandedOK :: "host \<Rightarrow> Header \<Rightarrow> bool" where
  "expandedOK H h \<longleftrightarrow>
     (if hasFlag (Flags h) FlagDeflate then ExpandedSize h \<le> MaxExpandedSize H
      else ExpandedSize h = 0)"

text \<open>The running totals of \<open>readAttachmentHeaders\<close>, as the \<open>uint32\<close> sums they are.\<close>

definition wireTotal :: "Header \<Rightarrow> u32" where
  "wireTotal h = Size h + sum_list (map aSize (Attachments h))"

definition expandedTotal :: "Header \<Rightarrow> u32" where
  "expandedTotal h =
     (if hasFlag (Flags h) FlagDeflate then ExpandedSize h else Size h)
     + sum_list (map attExpanded (Attachments h))"

definition attachmentsOK :: "host \<Rightarrow> Header \<Rightarrow> bool" where
  "attachmentsOK H h \<longleftrightarrow>
     length (Attachments h) < 256 \<and> list_all (attOK (ucd H)) (Attachments h)
     \<and> distinct (map (\<lambda>a. ToLower (ucd H) (aFilename a)) (Attachments h))
     \<and> wireTotal h \<le> MaxMessageSize H \<and> expandedTotal h \<le> MaxExpandedSize H"

definition freshRuntime :: "Header \<Rightarrow> bool" where
  "freshRuntime h \<longleftrightarrow>
     HeaderHash h = None \<and> ChallengeHash h = replicate 32 0 \<and> \<not> ChallengeCompleted h
     \<and> InitialResponseCode h = AcceptCodeContinue \<and> Filepath h = [] \<and> StoredWire h = []
     \<and> messageHash h = None"

definition wireOK :: "host \<Rightarrow> Header \<Rightarrow> bool" where
  "wireOK H h \<longleftrightarrow>
     Version h = 1 \<and> flagsOK (Flags h) \<and> pidOK h \<and> wireAddress (ucd H) (From h)
     \<and> recipientsOK (ucd H) (To h) \<and> addToOK (ucd H) h \<and> timeOK H (Timestamp h) \<and> topicOK h
     \<and> typeOK (hasFlag (Flags h) FlagCommonType) (TypeID h) (Type h)
     \<and> expandedOK H h \<and> attachmentsOK H h \<and> freshRuntime h"

section \<open>Reading back what was written\<close>

lemma parsed_ReadUInt8Slice:
  assumes "length b < 256"
  shows "parsed ReadUInt8Slice (of_nat (length b) # b) b"
  unfolding ReadUInt8Slice_def
proof (rule parsed_bind_Cons)
  show "parsed (ReadFull 1) [of_nat (length b)] [of_nat (length b)]" by (rule parsed_ReadFull) simp
  show "parsed (ReadAllLimit (unat (hd [of_nat (length b) :: byte]))) b b"
    by (rule parsed_ReadAllLimit) (use assms in \<open>simp add: unat_of_nat\<close>)
qed

lemma parsed_encString:
  "length s < 256 \<Longrightarrow> parsed ReadUInt8Slice (encString s) (bytes_of s)"
  using parsed_ReadUInt8Slice [of "bytes_of s"] by (simp add: encString_def)

lemma parsed_readAddress:
  "wireAddress (ucd H) a \<Longrightarrow> parsed (readAddress H) (encAddress a) a"
  unfolding readAddress_def encAddress_def wireAddress_def
  by (rule parsed_bind_last [OF parsed_encString parsed_lift]) (simp_all add: parseAddress_ToString)

text \<open>
  Both recipient loops read a list of addresses with distinct keys and differ only in the field
  they append to and in what they answer to a duplicate.
\<close>

fun readAddrs :: "host \<Rightarrow> Address list io \<Rightarrow> nat \<Rightarrow> string list \<Rightarrow> Address list io" where
  "readAddrs H dup 0 seen = retIO []"
| "readAddrs H dup (Suc n) seen =
     bindIO (readAddress H) (\<lambda>a.
       if addrKey (ucd H) a \<in> set seen then dup
       else bindIO (readAddrs H dup n (addrKey (ucd H) a # seen)) (\<lambda>as. retIO (a # as)))"

definition newAddrs :: "unicode \<Rightarrow> nat \<Rightarrow> string list \<Rightarrow> Address list \<Rightarrow> bool" where
  "newAddrs U n seen as \<longleftrightarrow>
     length as = n \<and> list_all (wireAddress U) as \<and> distinct (map (addrKey U) as)
     \<and> set (map (addrKey U) as) \<inter> set seen = {}"

lemma newAddrs_Suc:
  "newAddrs U (Suc n) seen as \<longleftrightarrow>
     (\<exists>b bs. as = b # bs \<and> wireAddress U b \<and> addrKey U b \<notin> set seen
             \<and> newAddrs U n (addrKey U b # seen) bs)"
  by (cases as) (auto simp: newAddrs_def)

lemma bindIO_reject [simp]: "bindIO (reject code msg) k = reject code msg"
  by (simp add: reject_def bindIO_assoc)

lemma readToLoop_readAddrs:
  "readToLoop H n seen h =
     bindIO (readAddrs H (failIO (Errorf ''duplicate recipient address'')) n seen)
       (\<lambda>as. retIO (h\<lparr>To := To h @ as\<rparr>))"
  by (induction n arbitrary: seen h)
    (simp_all add: bindIO_assoc Let_def if_distrib [of "\<lambda>m. bindIO m _"] cong: if_cong)

lemma readAddToLoop_readAddrs:
  "readAddToLoop H n seen h =
     bindIO (readAddrs H (reject RejectCodeInvalid ''duplicate recipient address in add to'') n seen)
       (\<lambda>as. retIO (h\<lparr>AddTo := AddTo h @ as\<rparr>))"
  by (induction n arbitrary: seen h)
    (simp_all add: bindIO_assoc Let_def if_distrib [of "\<lambda>m. bindIO m _"] cong: if_cong)

lemma parsed_readAddrs:
  "newAddrs (ucd H) n seen as \<Longrightarrow> parsed (readAddrs H dup n seen) (concat (map encAddress as)) as"
proof (induction n arbitrary: seen as)
  case 0
  then show ?case by (simp add: newAddrs_def parsed_ret)
next
  case (Suc n)
  then obtain a bs where a: "as = a # bs" "wireAddress (ucd H) a" "addrKey (ucd H) a \<notin> set seen"
    and bs: "newAddrs (ucd H) n (addrKey (ucd H) a # seen) bs"
    by (auto simp: newAddrs_Suc)
  have "parsed (bindIO (readAddrs H dup n (addrKey (ucd H) a # seen)) (\<lambda>as. retIO (a # as)))
      (concat (map encAddress bs)) as"
    by (rule parsed_bind_last [OF Suc.IH [OF bs]]) (simp add: a(1) parsed_ret)
  with a show ?case
    by (auto intro!: parsed_bind [OF parsed_readAddress [OF a(2)]])
qed

lemma parsed_readToLoop:
  "newAddrs (ucd H) n [] as \<Longrightarrow>
   parsed (readToLoop H n [] h) (concat (map encAddress as)) (h\<lparr>To := To h @ as\<rparr>)"
  unfolding readToLoop_readAddrs by (rule parsed_bind_last [OF parsed_readAddrs parsed_ret])

lemma parsed_readAddToLoop:
  "newAddrs (ucd H) n [] as \<Longrightarrow>
   parsed (readAddToLoop H n [] h) (concat (map encAddress as)) (h\<lparr>AddTo := AddTo h @ as\<rparr>)"
  unfolding readAddToLoop_readAddrs by (rule parsed_bind_last [OF parsed_readAddrs parsed_ret])

lemma recipientsOK_iff: "recipientsOK U as \<longleftrightarrow> as \<noteq> [] \<and> length as < 256 \<and> newAddrs U (length as) [] as"
  by (auto simp: recipientsOK_def newAddrs_def)

lemma unat_of_nat_byte [simp]: "n < 256 \<Longrightarrow> unat (of_nat n :: byte) = n"
  by (simp add: unat_of_nat)

lemma unat_byte_less [simp]: "unat (b :: byte) < 256"
  using unsigned_less [of b, where ?'a = nat] by (simp del: unsigned_less)

lemma of_nat_byte_eq_0: "n < 256 \<Longrightarrow> (of_nat n :: byte) = 0 \<longleftrightarrow> n = 0"
  by (auto simp: word_of_nat_eq_0_iff dest: dvd_imp_le)

lemma parsed_readToRecipients:
  assumes "recipientsOK (ucd H) as" "To h = []"
  shows "parsed (readToRecipients H h) (of_nat (length as) # concat (map encAddress as)) (h\<lparr>To := as\<rparr>)"
  unfolding readToRecipients_def
  by (rule parsed_bind_Cons [OF parsed_ReadByte])
    (use assms parsed_readToLoop [of H "length as" as h] in
      \<open>auto simp: recipientsOK_iff of_nat_byte_eq_0\<close>)

lemma parsed_readAddToFrom:
  assumes "wireAddress (ucd H) a"
  shows "parsed (readAddToFrom H) (encAddress a) a"
  by (rule parsedI) (simp add: readAddToFrom_def parsedD [OF parsed_readAddress [OF assms]])

lemma parsed_readAddToRecipients:
  assumes "addToOK (ucd H) h" and "h0\<lparr>AddToFrom := AddToFrom h, AddTo := AddTo h\<rparr> = h"
    and "AddToFrom h0 = None" "AddTo h0 = []"
  shows "parsed (readAddToRecipients H h0)
           (if hasFlag (Flags h) FlagHasAddTo then encAddTo h else []) h"
proof (cases "hasFlag (Flags h) FlagHasAddTo")
  case False
  with assms have "h0 = h" by (cases h0, cases h) (auto simp: addToOK_def)
  with False show ?thesis by (simp add: readAddToRecipients_def parsed_ret)
next
  case True
  obtain f where f: "AddToFrom h = Some f" "wireAddress (ucd H) f"
    "addrKey (ucd H) f \<in> set (map (addrKey (ucd H)) (From h # To h))"
    and r: "recipientsOK (ucd H) (AddTo h)" "hasFlag (Flags h) FlagHasPid"
    using True assms(1) by (auto simp: addToOK_def)
  have eq: "Flags h0 = Flags h" "From h0 = From h" "To h0 = To h"
    "h0\<lparr>AddToFrom := Some f, AddTo := AddTo h\<rparr> = h"
    using assms(2) f(1) by (cases h0; cases h; simp)+
  have in_: "addrKey (ucd H) (From h) = addrKey (ucd H) f
      \<or> list_ex (\<lambda>a. addrKey (ucd H) a = addrKey (ucd H) f) (To h)"
    using f(3) by (auto simp: list_ex_iff)
  have loop: "parsed (readAddToLoop H (unat (of_nat (length (AddTo h)) :: byte)) []
      (h0\<lparr>AddToFrom := Some f\<rparr>)) (concat (map encAddress (AddTo h))) h"
    using parsed_readAddToLoop [of H "length (AddTo h)" "AddTo h" "h0\<lparr>AddToFrom := Some f\<rparr>"]
      r eq(4) assms(4) by (simp add: recipientsOK_iff)
  have nz: "(of_nat (length (AddTo h)) :: byte) \<noteq> 0"
    using r by (auto simp: recipientsOK_iff of_nat_byte_eq_0)
  show ?thesis
    using True r(2) f(1) in_ nz loop
    by (auto simp: readAddToRecipients_def encAddTo_def eq Let_def
        intro!: parsed_bind [OF parsed_readAddToFrom [OF f(2)]] parsed_bind_Cons [OF parsed_ReadByte])
qed


lemma isASCIIBytes_def': "isASCIIBytes b \<longleftrightarrow> (\<forall>c \<in> set b. c \<le> 127)"
  by (auto simp: isASCIIBytes_def list_all_iff not_less)

lemma parsed_readMediaType:
  assumes "typeOK common i t"
  shows "parsed (readMediaType common) (encType common i t) (t, i)"
proof (cases common)
  case True
  then have t: "GetCommonMediaType i = Some t" using assms by (simp add: typeOK_def)
  have "parsed (readMediaType True) [i] (t, i)"
    unfolding readMediaType_def if_True
    by (rule parsed_bind_last [OF parsed_ReadByte]) (simp add: t parsed_ret)
  with True t show ?thesis by (simp add: encType_common(1))
next
  case False
  then have t: "i = 0" "isASCIIBytes (bytes_of t)" "length t < 256"
    using assms by (simp_all add: typeOK_def)
  have "parsed (readMediaType False) (encString t) (t, 0)"
    unfolding readMediaType_def if_False
    by (rule parsed_bind_last [OF parsed_encString]) (use t parsed_ret in auto)
  with False t show ?thesis by (simp add: encType_def)
qed

lemma parsed_readAttachment:
  assumes "attOK (ucd H) a" "ToLower (ucd H) (aFilename a) \<notin> set seen"
  shows "parsed (readAttachment H seen) (encAttachment a) a"
proof -
  have v: "validateAttachmentFlags (aFlags a) = retIO ()"
    using assms(1) by (simp add: validateAttachmentFlags_def attOK_def)
  have ty: "parsed (readAttachmentType (aFlags a))
      (encType (hasFlag (aFlags a) 1) (aTypeID a) (aType a)) (aType a, aTypeID a)"
    using assms(1) by (simp add: readAttachmentType_def parsed_readMediaType attOK_def)
  have nm: "isValidAttachmentFilename (ucd H) (aFilename a)" "length (aFilename a) < 256"
    using assms(1) by (auto simp: attOK_def isValidAttachmentFilename_def split: if_splits)
  have ex: "parsed (if hasFlag (aFlags a) 2 then ReadUint32 else retIO 0)
      (if hasFlag (aFlags a) 2 then le32 (aExpandedSize a) else []) (aExpandedSize a)"
    using assms(1) parsed_ret [of "0 :: u32"] by (simp add: attOK_def parsed_ReadUint32)
  have a: "a = \<lparr>aFlags = aFlags a, aTypeID = aTypeID a, aType = aType a,
      aFilename = aFilename a, aSize = aSize a, aExpandedSize = aExpandedSize a, aFilepath = []\<rparr>"
    using assms(1) by (simp add: attOK_def)
  show ?thesis
    unfolding readAttachment_def encAttachment_def
    apply (rule parsed_bind_Cons [OF parsed_ReadByte])
    apply (simp only: v bindIO_simps)
    apply (rule parsed_bind [OF ty])
    apply (simp only: split_conv)
    apply (rule parsed_bind [OF parsed_encString [OF nm(2)]])
    apply (simp only: Let_def string_of_bytes_of nm(1) assms(2) not_True_eq_False if_False)
    apply (rule parsed_bind [OF parsed_ReadUint32])
    apply (rule parsed_bind_last [OF ex])
    using parsed_ret [of a] a by simp
qed

lemma parsed_readAttachmentLoop:
  assumes "list_all (attOK (ucd H)) as" "distinct (map (\<lambda>a. ToLower (ucd H) (aFilename a)) as)"
    and "set (map (\<lambda>a. ToLower (ucd H) (aFilename a)) as) \<inter> set seen = {}"
  shows "parsed (readAttachmentLoop H (length as) seen t x h) (concat (map encAttachment as))
    (t + sum_list (map aSize as), x + sum_list (map attExpanded as),
     h\<lparr>Attachments := Attachments h @ as\<rparr>)"
  using assms
proof (induction as arbitrary: seen t x h)
  case Nil
  then show ?case by (simp add: parsed_ret)
next
  case (Cons a as)
  let ?key = "ToLower (ucd H) (aFilename a)"
  have *: "parsed (readAttachment H seen) (encAttachment a) a"
    using Cons.prems by (intro parsed_readAttachment) auto
  have "parsed (readAttachmentLoop H (length as) (?key # seen) (t + aSize a) (x + attExpanded a)
      (h\<lparr>Attachments := Attachments h @ [a]\<rparr>)) (concat (map encAttachment as))
      (t + sum_list (map aSize (a # as)), x + sum_list (map attExpanded (a # as)),
       h\<lparr>Attachments := Attachments h @ a # as\<rparr>)"
    using Cons.IH [of "?key # seen" "t + aSize a" "x + attExpanded a"
        "h\<lparr>Attachments := Attachments h @ [a]\<rparr>"] Cons.prems
    by (auto simp: add.assoc)
  then show ?case by (auto intro!: parsed_bind [OF *])
qed

lemma parsed_readAttachmentHeaders:
  assumes "attachmentsOK H h" and "h0\<lparr>Attachments := Attachments h\<rparr> = h" "Attachments h0 = []"
  shows "parsed (readAttachmentHeaders H h0)
    (of_nat (length (Attachments h)) # concat (map encAttachment (Attachments h))) h"
proof -
  let ?n = "of_nat (length (Attachments h)) :: byte"
  let ?x = "if hasFlag (Flags h0) FlagDeflate then ExpandedSize h0 else Size h0"
  have eq: "Flags h0 = Flags h" "Size h0 = Size h" "ExpandedSize h0 = ExpandedSize h"
    using assms(2) by (cases h0; cases h; simp)+
  have n: "unat ?n = length (Attachments h)" using assms(1) by (simp add: attachmentsOK_def)
  have loop: "parsed (readAttachmentLoop H (length (Attachments h)) [] (Size h0) ?x h0)
      (concat (map encAttachment (Attachments h))) (wireTotal h, expandedTotal h, h)"
    using parsed_readAttachmentLoop [of H "Attachments h" "[]" "Size h0" ?x h0] assms
    unfolding eq by (simp add: attachmentsOK_def wireTotal_def expandedTotal_def)
  have "parsed (readAttachmentHeaders H h0) ([?n] @ concat (map encAttachment (Attachments h))) h"
    unfolding readAttachmentHeaders_def
  proof (rule parsed_bind [OF parsed_ReadFull])
    show "parsed (let expanded0 = ?x in
        bindIO (readAttachmentLoop H (unat (hd [?n])) [] (Size h0) expanded0 h0)
          (\<lambda>(totalSize, totalExpandedSize, h').
            if totalSize > MaxMessageSize H
            then reject RejectCodeTooBig ''total message size exceeds max''
            else if totalExpandedSize > MaxExpandedSize H
            then reject RejectCodeTooBig ''total expanded size exceeds MAX_EXPANDED_SIZE''
            else retIO h')) (concat (map encAttachment (Attachments h))) h"
      unfolding Let_def list.sel n
      by (rule parsed_bind_last [OF loop])
        (use assms(1) parsed_ret [of h] in \<open>auto simp: attachmentsOK_def not_less\<close>)
  qed simp
  then show ?thesis by simp
qed


lemma parsed_readPid:
  assumes "pidOK h" "h0\<lparr>Pid := Pid h\<rparr> = h" "Pid h0 = []"
  shows "parsed (readPid h0) (if hasFlag (Flags h) FlagHasPid then Pid h else []) h"
proof -
  have f: "Flags h0 = Flags h" using assms(2) by (cases h0; cases h; simp)
  show ?thesis
  proof (cases "hasFlag (Flags h) FlagHasPid")
    case True
    with assms(1) have l: "length (Pid h) = 32" by (simp add: pidOK_def)
    have "parsed (bindIO (ReadAllLimit 32)
        (\<lambda>pid. retIO (h0\<lparr>Pid := pid @ replicate (32 - length pid) 0\<rparr>))) (Pid h) h"
      by (rule parsed_bind_last [OF parsed_ReadAllLimit])
        (use l assms(2) parsed_ret [of h] in auto)
    with True f show ?thesis by (simp add: readPid_def)
  next
    case False
    with assms have "h0 = h" by (cases h0; cases h; simp add: pidOK_def)
    with False show ?thesis by (simp add: readPid_def parsed_ret)
  qed
qed

lemma parsed_readTimestamp:
  assumes "timeOK H ts"
  shows "parsed (readAndValidateTimestamp H h) (le64 ts) (h\<lparr>Timestamp := ts\<rparr>)"
  unfolding readAndValidateTimestamp_def
  by (rule parsed_bind_last [OF parsed_ReadFloat64])
    (use assms parsed_ret in \<open>auto simp: timeOK_def Let_def\<close>)

lemma parsed_readTopic:
  assumes "topicOK h" "h0\<lparr>Topic := Topic h\<rparr> = h" "Topic h0 = []"
  shows "parsed (readTopic h0) (if \<not> hasFlag (Flags h) FlagHasPid then encString (Topic h) else []) h"
proof -
  have f: "Flags h0 = Flags h" using assms(2) by (cases h0; cases h; simp)
  show ?thesis
  proof (cases "hasFlag (Flags h) FlagHasPid")
    case False
    with assms(1) have l: "length (Topic h) < 256" by (simp add: topicOK_def)
    have "parsed (bindIO ReadUInt8Slice (\<lambda>topic. retIO (h0\<lparr>Topic := string_of topic\<rparr>)))
        (encString (Topic h)) h"
      by (rule parsed_bind_last [OF parsed_encString [OF l]]) (use assms(2) parsed_ret [of h] in simp)
    with False f show ?thesis by (simp add: readTopic_def)
  next
    case True
    with assms have "h0 = h" by (cases h0; cases h; simp add: topicOK_def)
    with True show ?thesis by (simp add: readTopic_def parsed_ret)
  qed
qed

lemma parsed_readMessageType:
  assumes "typeOK (hasFlag (Flags h0) FlagCommonType) i t" "TypeID h0 = 0"
  shows "parsed (readMessageType h0) (encType (hasFlag (Flags h0) FlagCommonType) i t)
    (h0\<lparr>TypeID := i, Type := t\<rparr>)"
  unfolding readMessageType_def
proof (rule parsed_bind_last [OF parsed_readMediaType [OF assms(1)]])
  have "\<not> hasFlag (Flags h0) FlagCommonType \<Longrightarrow> h0\<lparr>Type := t\<rparr> = h0\<lparr>TypeID := i, Type := t\<rparr>"
    using assms by (cases h0) (simp add: typeOK_def)
  then show "parsed (case (t, i) of (mtype, typeID) \<Rightarrow>
      if hasFlag (Flags h0) FlagCommonType then retIO (h0\<lparr>TypeID := typeID, Type := mtype\<rparr>)
      else retIO (h0\<lparr>Type := mtype\<rparr>)) [] (h0\<lparr>TypeID := i, Type := t\<rparr>)"
    using parsed_ret by auto
qed

lemma parsed_readSizes:
  assumes "expandedOK H h" "h0\<lparr>Size := Size h, ExpandedSize := ExpandedSize h\<rparr> = h"
    "ExpandedSize h0 = 0"
  shows "parsed (readSizes H h0)
    (le32 (Size h) @ (if hasFlag (Flags h) FlagDeflate then le32 (ExpandedSize h) else [])) h"
proof -
  have f: "Flags h0 = Flags h" using assms(2) by (cases h0; cases h; simp)
  have "parsed (if hasFlag (Flags h0) FlagDeflate then
         bindIO ReadUint32 (\<lambda>expanded.
           if expanded > MaxExpandedSize H
           then reject RejectCodeTooBig ''expanded size exceeds MAX_EXPANDED_SIZE''
           else retIO (h0\<lparr>Size := Size h, ExpandedSize := expanded\<rparr>))
       else retIO (h0\<lparr>Size := Size h\<rparr>))
     (if hasFlag (Flags h) FlagDeflate then le32 (ExpandedSize h) else []) h"
  proof (cases "hasFlag (Flags h) FlagDeflate")
    case True
    have "parsed (bindIO ReadUint32 (\<lambda>expanded.
           if expanded > MaxExpandedSize H
           then reject RejectCodeTooBig ''expanded size exceeds MAX_EXPANDED_SIZE''
           else retIO (h0\<lparr>Size := Size h, ExpandedSize := expanded\<rparr>))) (le32 (ExpandedSize h)) h"
      by (rule parsed_bind_last [OF parsed_ReadUint32])
        (use True assms(1,2) parsed_ret [of h] in \<open>auto simp: expandedOK_def\<close>)
    with True f show ?thesis by simp
  next
    case False
    with assms have "h0\<lparr>Size := Size h\<rparr> = h" by (cases h0; cases h; simp add: expandedOK_def)
    with False f show ?thesis by (simp add: parsed_ret)
  qed
  then show ?thesis
    unfolding readSizes_def by (rule parsed_bind [OF parsed_ReadUint32])
qed

lemma parsed_validateMessageFlags: "flagsOK f \<Longrightarrow> parsed (validateMessageFlags f) [] ()"
  by (auto simp: flagsOK_def validateMessageFlags_def parsed_ret)

text \<open>The header a receiver starts from once it has read version 1.\<close>

definition header0 :: Header where
  "header0 = emptyHeader\<lparr>InitialResponseCode := AcceptCodeContinue, Version := 1\<rparr>"

text \<open>The header as it stands after the fields up to \<open>from\<close>, and after each later field.\<close>

lemma wireOK_stages:
  assumes "wireOK H h"
  defines "h1 \<equiv> header0\<lparr>Flags := Flags h, Pid := Pid h\<rparr>"
  defines "h2 \<equiv> h1\<lparr>From := From h, To := To h\<rparr>"
  defines "h3 \<equiv> h2\<lparr>AddToFrom := AddToFrom h, AddTo := AddTo h\<rparr>"
  defines "h4 \<equiv> h3\<lparr>Timestamp := Timestamp h\<rparr>"
  defines "h5 \<equiv> h4\<lparr>Topic := Topic h\<rparr>"
  defines "h6 \<equiv> h5\<lparr>TypeID := TypeID h, Type := Type h\<rparr>"
  defines "h7 \<equiv> h6\<lparr>Size := Size h, ExpandedSize := ExpandedSize h\<rparr>"
  shows "parsed (readHeaderFields H header0) (tl (Encode h)) h"
proof -
  note ok = assms(1) [unfolded wireOK_def]
  note defs = h1_def h2_def h3_def h4_def h5_def h6_def h7_def header0_def emptyHeader_def
  have h: "h7\<lparr>Attachments := Attachments h\<rparr> = h"
    using ok by (cases h) (simp add: defs freshRuntime_def)
  have 1: "parsed (readPid (header0\<lparr>Flags := Flags h\<rparr>))
      (if hasFlag (Flags h) FlagHasPid then Pid h else []) h1"
    using parsed_readPid [of h1 "header0\<lparr>Flags := Flags h\<rparr>"] ok by (simp add: defs pidOK_def cong: if_cong)
  have 2: "parsed (readToRecipients H (h1\<lparr>From := From h\<rparr>))
      (of_nat (length (To h)) # concat (map encAddress (To h))) h2"
    using parsed_readToRecipients [of H "To h" "h1\<lparr>From := From h\<rparr>"] ok by (simp add: defs)
  have 3: "parsed (readAddToRecipients H h2)
      (if hasFlag (Flags h) FlagHasAddTo then encAddTo h else []) h3"
    using parsed_readAddToRecipients [of H h3 h2] ok by (simp add: defs addToOK_def encAddTo_def cong: if_cong option.case_cong)
  have 4: "parsed (readAndValidateTimestamp H h3) (le64 (Timestamp h)) h4"
    using parsed_readTimestamp [of H "Timestamp h" h3] ok by (simp add: h4_def)
  have 5: "parsed (readTopic h4) (if \<not> hasFlag (Flags h) FlagHasPid then encString (Topic h) else []) h5"
    using parsed_readTopic [of h5 h4] ok by (simp add: defs topicOK_def cong: if_cong)
  have 6: "parsed (readMessageType h5)
      (encType (hasFlag (Flags h) FlagCommonType) (TypeID h) (Type h)) h6"
    using parsed_readMessageType [of h5 "TypeID h" "Type h"] ok by (simp add: defs)
  have 7: "parsed (readSizes H h6)
      (le32 (Size h) @ (if hasFlag (Flags h) FlagDeflate then le32 (ExpandedSize h) else [])) h7"
    using parsed_readSizes [of H h7 h6] ok by (simp add: defs expandedOK_def cong: if_cong)
  have 8: "parsed (readAttachmentHeaders H h7)
      (of_nat (length (Attachments h)) # concat (map encAttachment (Attachments h))) h"
    using ok h by (intro parsed_readAttachmentHeaders) (auto simp: defs)
  have F: "parsed (readAddress H) (encAddress (From h)) (From h)"
    using ok by (simp add: parsed_readAddress)
  have V: "parsed (validateMessageFlags (Flags h)) [] ()"
    using ok by (simp add: parsed_validateMessageFlags)
  have "parsed (readHeaderFields H header0)
     ([Flags h] @ [] @ (if hasFlag (Flags h) FlagHasPid then Pid h else []) @ encAddress (From h)
      @ (of_nat (length (To h)) # concat (map encAddress (To h)))
      @ (if hasFlag (Flags h) FlagHasAddTo then encAddTo h else [])
      @ le64 (Timestamp h)
      @ (if \<not> hasFlag (Flags h) FlagHasPid then encString (Topic h) else [])
      @ encType (hasFlag (Flags h) FlagCommonType) (TypeID h) (Type h)
      @ (le32 (Size h) @ (if hasFlag (Flags h) FlagDeflate then le32 (ExpandedSize h) else []))
      @ (of_nat (length (Attachments h)) # concat (map encAttachment (Attachments h)))) h"
    unfolding readHeaderFields_def
    by (intro parsed_bind [OF parsed_ReadByte] parsed_bind [OF V] parsed_bind [OF 1] parsed_bind [OF F]
        parsed_bind [OF 2] parsed_bind [OF 3] parsed_bind [OF 4] parsed_bind [OF 5]
        parsed_bind [OF 6] parsed_bind [OF 7] 8)
  then show ?thesis by (simp add: Encode_def)
qed

lemma parsed_readVersion:
  "parsed (readVersionOrChallenge H (emptyHeader\<lparr>InitialResponseCode := AcceptCodeContinue\<rparr>))
     [1] (False, header0)"
  unfolding readVersionOrChallenge_def
proof (rule parsed_bind_last [OF parsed_ReadByte])
  have "\<not> (129 :: byte) \<le> 1" by code_simp
  then show "parsed
      (if 129 \<le> (1 :: byte)
       then if 256 - unat (1 :: byte) = 1
            then bindIO (handleChallenge H)
                   (\<lambda>_. retIO (True, emptyHeader\<lparr>InitialResponseCode := AcceptCodeContinue\<rparr>))
            else failIO (Errorf ''unsupported challenge version'')
       else if (1 :: byte) \<noteq> 1 then failIO (Errorf ''unsupported message version'')
       else retIO (False, emptyHeader\<lparr>InitialResponseCode := AcceptCodeContinue, Version := 1\<rparr>))
      [] (False, header0)"
    using parsed_ret by (simp add: header0_def)
qed


section \<open>Whatever is read was written\<close>

lemma reject_not_Ok [simp]: "reject code msg c \<noteq> (Ok x, d)"
  by (simp add: reject_def bindIO_eq_Ok)

lemma still_reject: "still Q (reject code msg)"
  by (rule still_fails) simp

lemma lax_reject: "lax Q (reject code msg)"
  by (rule lax_fails) simp

lemma lax_ReadUInt8Slice:
  "lax (\<lambda>b e. e = of_nat (length b) # b \<and> length b < 256) ReadUInt8Slice"
  unfolding ReadUInt8Slice_def
proof (rule lax_mono [OF strict_bind_lax [OF strict_ReadFull lax_ReadAllLimit]])
  fix b e
  assume "seqR (\<lambda>b e. e = b \<and> length b = 1) (\<lambda>s b e. e = b \<and> length b = unat (hd s)) b e"
  then obtain s where "e = s @ b" "length s = 1" "length b = unat (hd s)"
    by (auto simp: seqR_def)
  then show "e = of_nat (length b) # b \<and> length b < 256"
    by (cases s) auto
qed simp

lemma lax_readAddress: "lax (\<lambda>a e. e = encAddress a \<and> wireAddress (ucd H) a) (readAddress H)"
  unfolding readAddress_def
  by (rule lax_mono [OF lax_bind_still [OF lax_ReadUInt8Slice still_lift]], assumption)
    (auto simp: seqR_def encAddress_def encString_def wireAddress_def parseAddress_iff)


lemma lax_readAddrs:
  assumes "\<And>c x d. dup c \<noteq> (Ok x, d)"
  shows "lax (\<lambda>as e. e = concat (map encAddress as) \<and> newAddrs (ucd H) n seen as)
           (readAddrs H dup n seen)"
proof (induction n arbitrary: seen)
  case 0
  then show ?case by (simp add: lax_ret newAddrs_def)
next
  case (Suc n)
  let ?S = "\<lambda>a as e. \<exists>bs. as = a # bs \<and> e = concat (map encAddress bs)
      \<and> addrKey (ucd H) a \<notin> set seen \<and> newAddrs (ucd H) n (addrKey (ucd H) a # seen) bs"
  have "lax (?S a) (if addrKey (ucd H) a \<in> set seen then dup
      else bindIO (readAddrs H dup n (addrKey (ucd H) a # seen)) (\<lambda>as. retIO (a # as)))" for a
    by (rule lax_if, rule lax_fails, rule assms,
        rule lax_mono [OF lax_bind_still [OF Suc.IH still_ret [of "(=) (a # _)"]]])
      (auto simp: seqR_def)
  from lax_bind_lax [OF lax_readAddress this] show ?case
    unfolding readAddrs.simps by (rule lax_mono) (auto simp: seqR_def newAddrs_Suc)
qed

lemma lax_readToLoop:
  "lax (\<lambda>h' e. \<exists>as. h' = h\<lparr>To := To h @ as\<rparr> \<and> e = concat (map encAddress as)
        \<and> newAddrs (ucd H) n [] as) (readToLoop H n [] h)"
  unfolding readToLoop_readAddrs
  by (rule lax_mono [OF lax_bind_still [OF lax_readAddrs still_ret [of "(=) (h\<lparr>To := To h @ _\<rparr>)"]]])
    (auto simp: seqR_def)

lemma lax_readAddToLoop:
  "lax (\<lambda>h' e. \<exists>as. h' = h\<lparr>AddTo := AddTo h @ as\<rparr> \<and> e = concat (map encAddress as)
        \<and> newAddrs (ucd H) n [] as) (readAddToLoop H n [] h)"
  unfolding readAddToLoop_readAddrs
  by (rule lax_mono [OF lax_bind_still [OF lax_readAddrs still_ret [of "(=) (h\<lparr>AddTo := AddTo h @ _\<rparr>)"]]])
    (auto simp: seqR_def)

lemma newAddrs_recipientsOK:
  "newAddrs U (unat (n :: byte)) [] as \<Longrightarrow> n \<noteq> 0 \<Longrightarrow> recipientsOK U as \<and> n = of_nat (length as)"
  using unsigned_less [of n, where ?'a = nat] by (auto simp: recipientsOK_def newAddrs_def unsigned_eq_0_iff)

lemma lax_readToRecipients:
  "lax (\<lambda>h' e. \<exists>as. h' = h\<lparr>To := To h @ as\<rparr> \<and> recipientsOK (ucd H) as
        \<and> e = of_nat (length as) # concat (map encAddress as)) (readToRecipients H h)"
  unfolding readToRecipients_def
proof (rule lax_mono [OF strict_bind_lax [OF strict_ReadByte]])
  show "lax (\<lambda>h' e. n \<noteq> 0 \<and> (\<exists>as. h' = h\<lparr>To := To h @ as\<rparr> \<and> e = concat (map encAddress as)
        \<and> newAddrs (ucd H) (unat n) [] as))
      (if n = 0 then reject RejectCodeInvalid ''to count must be >= 1'' else readToLoop H (unat n) [] h)"
    for n :: byte
    by (rule lax_if [OF lax_reject lax_mono [OF lax_readToLoop]]) auto
qed (auto simp: seqR_def dest!: newAddrs_recipientsOK)

lemma lax_readAddToFrom:
  "lax (\<lambda>a e. e = encAddress a \<and> wireAddress (ucd H) a) (readAddToFrom H)"
proof -
  have "readAddToFrom H c = (Ok x, d) \<longleftrightarrow> readAddress H c = (Ok x, d)" for c x d
    by (auto simp: readAddToFrom_def bindIO_eq_Ok split: prod.splits res.splits)
  with lax_readAddress [of H] show ?thesis by (simp add: lax_def)
qed

definition addToRead :: "unicode \<Rightarrow> Header \<Rightarrow> Header \<Rightarrow> bytes \<Rightarrow> bool" where
  "addToRead U h h' e \<longleftrightarrow>
     (if hasFlag (Flags h) FlagHasAddTo then
        \<exists>f as. h' = h\<lparr>AddToFrom := Some f, AddTo := AddTo h @ as\<rparr> \<and> hasFlag (Flags h) FlagHasPid
          \<and> wireAddress U f \<and> addrKey U f \<in> set (map (addrKey U) (From h # To h)) \<and> recipientsOK U as
          \<and> e = encAddress f @ of_nat (length as) # concat (map encAddress as)
      else h' = h \<and> e = [])"

lemma lax_readAddToRecipients: "lax (addToRead (ucd H) h) (readAddToRecipients H h)"
    (is "lax ?R _")
  unfolding readAddToRecipients_def Let_def
proof (intro lax_if)
  show "lax ?R (retIO h)" if "\<not> hasFlag (Flags h) FlagHasAddTo"
    using that by (intro lax_ret) (auto simp: addToRead_def)
next
  assume f: "\<not> \<not> hasFlag (Flags h) FlagHasAddTo" "\<not> \<not> hasFlag (Flags h) FlagHasPid"
  let ?in = "\<lambda>a. addrKey (ucd H) (From h) = addrKey (ucd H) a
      \<or> list_ex (\<lambda>b. addrKey (ucd H) b = addrKey (ucd H) a) (To h)"
  let ?T = "\<lambda>a h' e. ?in a \<and> (\<exists>as. h' = h\<lparr>AddToFrom := Some a, AddTo := AddTo h @ as\<rparr>
      \<and> recipientsOK (ucd H) as \<and> e = of_nat (length as) # concat (map encAddress as))"
  let ?k = "\<lambda>a n. if n = 0 then reject RejectCodeInvalid ''add to flag set but count is 0''
      else readAddToLoop H (unat (n :: byte)) [] (h\<lparr>AddToFrom := Some a\<rparr>)"
  have "lax (\<lambda>h' e. n \<noteq> 0 \<and> (\<exists>as. h' = h\<lparr>AddToFrom := Some a, AddTo := AddTo h @ as\<rparr>
      \<and> e = concat (map encAddress as) \<and> newAddrs (ucd H) (unat n) [] as)) (?k a n)" for a n
    by (rule lax_if [OF lax_reject lax_mono [OF lax_readAddToLoop]]) auto
  note count = strict_bind_lax [OF strict_ReadByte this]
  have *: "lax (?T a) (if \<not> ?in a then reject RejectCodeInvalid ''add-to-from not in from or to''
      else bindIO ReadByte (?k a))" for a
    by (rule lax_if [OF lax_reject lax_mono [OF count]])
      (auto simp: seqR_def dest!: newAddrs_recipientsOK)
  show "lax ?R (bindIO (readAddToFrom H) (\<lambda>a.
      if \<not> ?in a then reject RejectCodeInvalid ''add-to-from not in from or to''
      else bindIO ReadByte (?k a)))"
    by (rule lax_mono [OF lax_bind_lax [OF lax_readAddToFrom *]])
      (use f in \<open>auto simp: seqR_def addToRead_def list_ex_iff image_iff; metis\<close>)
qed (rule lax_reject)

lemma strict_readTimestamp:
  "strict (\<lambda>h' e. \<exists>ts. h' = h\<lparr>Timestamp := ts\<rparr> \<and> timeOK H ts \<and> e = le64 ts)
     (readAndValidateTimestamp H h)"
  unfolding readAndValidateTimestamp_def Let_def
  by (rule strict_mono [OF strict_bind_still [OF strict_ReadFloat64
        still_if [OF still_reject still_if [OF still_reject
          still_ret [of "\<lambda>h'. timeOK H ts \<and> h' = h\<lparr>Timestamp := ts\<rparr>" for ts]]]]])
    (auto simp: seqR_def timeOK_def Let_def)

lemma lax_readPid:
  "lax (\<lambda>h' e. if hasFlag (Flags h) FlagHasPid then \<exists>p. h' = h\<lparr>Pid := p\<rparr> \<and> length p = 32 \<and> e = p
         else h' = h \<and> e = []) (readPid h)"
proof -
  have "lax (seqR (\<lambda>b e. e = b \<and> length b = 32)
      (\<lambda>b h' e. h' = h\<lparr>Pid := b @ replicate (32 - length b) 0\<rparr> \<and> e = []))
      (bindIO (ReadAllLimit 32) (\<lambda>pid. retIO (h\<lparr>Pid := pid @ replicate (32 - length pid) 0\<rparr>)))"
    by (rule lax_bind_still [OF lax_ReadAllLimit still_ret]) simp
  then show ?thesis
    unfolding readPid_def
    by (intro lax_if lax_ret; auto elim!: lax_mono simp: seqR_def)
qed

lemma lax_readTopic:
  "lax (\<lambda>h' e. if \<not> hasFlag (Flags h) FlagHasPid
         then \<exists>t. h' = h\<lparr>Topic := t\<rparr> \<and> length t < 256 \<and> e = encString t
         else h' = h \<and> e = []) (readTopic h)"
proof -
  have "lax (seqR (\<lambda>b e. e = of_nat (length b) # b \<and> length b < 256)
      (\<lambda>b h' e. h' = h\<lparr>Topic := string_of b\<rparr> \<and> e = []))
      (bindIO ReadUInt8Slice (\<lambda>topic. retIO (h\<lparr>Topic := string_of topic\<rparr>)))"
    by (rule lax_bind_still [OF lax_ReadUInt8Slice still_ret]) simp
  then have "lax (\<lambda>h' e. \<exists>t. h' = h\<lparr>Topic := t\<rparr> \<and> length t < 256 \<and> e = encString t)
      (bindIO ReadUInt8Slice (\<lambda>topic. retIO (h\<lparr>Topic := string_of topic\<rparr>)))"
    by (rule lax_mono) (auto simp: seqR_def encString_def)
  then show ?thesis
    unfolding readTopic_def
    by (intro lax_if lax_ret; auto elim!: lax_mono)
qed

lemma lax_readMediaType:
  "lax (\<lambda>(t, i) e. typeOK common i t \<and> e = encType common i t) (readMediaType common)"
  unfolding readMediaType_def
proof (rule lax_if)
  assume c: common
  have "still (\<lambda>(t, j). j = i \<and> GetCommonMediaType i = Some t)
      (case GetCommonMediaType i of
         None \<Rightarrow> reject RejectCodeInvalid ''unmapped common type ID''
       | Some mtype \<Rightarrow> retIO (mtype, i))" for i
    by (cases "GetCommonMediaType i") (simp_all add: still_reject still_ret)
  from strict_lax [OF strict_bind_still [OF strict_ReadByte this]]
  show "lax (\<lambda>(t, i) e. typeOK common i t \<and> e = encType common i t)
      (bindIO ReadByte (\<lambda>i. case GetCommonMediaType i of
         None \<Rightarrow> reject RejectCodeInvalid ''unmapped common type ID''
       | Some mtype \<Rightarrow> retIO (mtype, i)))"
    by (rule lax_mono) (use c in \<open>auto simp: seqR_def typeOK_def encType_common(1)\<close>)
next
  assume c: "\<not> common"
  have "still (\<lambda>(t, i). i = 0 \<and> t = string_of b \<and> isASCIIBytes b)
      (if \<not> isASCIIBytes b then reject RejectCodeInvalid ''media type must be US-ASCII''
       else retIO (string_of b, 0))" for b
    by (simp add: still_reject still_ret)
  from lax_bind_still [OF lax_ReadUInt8Slice this]
  show "lax (\<lambda>(t, i) e. typeOK common i t \<and> e = encType common i t)
      (bindIO ReadUInt8Slice (\<lambda>b.
        if \<not> isASCIIBytes b then reject RejectCodeInvalid ''media type must be US-ASCII''
        else retIO (string_of b, 0)))"
    by (rule lax_mono) (use c in \<open>auto simp: seqR_def typeOK_def encType_def encString_def\<close>)
qed

lemma lax_readMessageType:
  "lax (\<lambda>h' e. \<exists>i t. typeOK (hasFlag (Flags h) FlagCommonType) i t
      \<and> h' = (if hasFlag (Flags h) FlagCommonType then h\<lparr>TypeID := i, Type := t\<rparr> else h\<lparr>Type := t\<rparr>)
      \<and> e = encType (hasFlag (Flags h) FlagCommonType) i t) (readMessageType h)"
proof -
  let ?c = "hasFlag (Flags h) FlagCommonType"
  have "still (\<lambda>h'. h' = (if ?c then h\<lparr>TypeID := snd p, Type := fst p\<rparr> else h\<lparr>Type := fst p\<rparr>))
      (case p of (t, i) \<Rightarrow> if ?c then retIO (h\<lparr>TypeID := i, Type := t\<rparr>) else retIO (h\<lparr>Type := t\<rparr>))" for p
    by (cases p) (simp add: still_ret)
  note still = this
  show ?thesis unfolding readMessageType_def
    by (rule lax_mono [OF lax_bind_still [OF lax_readMediaType still]])
      (auto simp only: seqR_def split_beta append_Nil2)
qed

definition sizesRead :: "host \<Rightarrow> Header \<Rightarrow> Header \<Rightarrow> bytes \<Rightarrow> bool" where
  "sizesRead H h h' e \<longleftrightarrow>
     (\<exists>s. if hasFlag (Flags h) FlagDeflate then
            \<exists>x. h' = h\<lparr>Size := s, ExpandedSize := x\<rparr> \<and> x \<le> MaxExpandedSize H \<and> e = le32 s @ le32 x
          else h' = h\<lparr>Size := s\<rparr> \<and> e = le32 s)"

lemma strict_readSizes: "strict (sizesRead H h) (readSizes H h)"
proof -
  let ?big = "reject RejectCodeTooBig ''expanded size exceeds MAX_EXPANDED_SIZE''"
  let ?k = "\<lambda>size. if hasFlag (Flags h) FlagDeflate then
         bindIO ReadUint32 (\<lambda>expanded. if expanded > MaxExpandedSize H then ?big
           else retIO (h\<lparr>Size := size, ExpandedSize := expanded\<rparr>))
       else retIO (h\<lparr>Size := size\<rparr>)"
  have *: "exact (\<lambda>h' e. if hasFlag (Flags h) FlagDeflate
      then \<exists>x. h' = h\<lparr>Size := size, ExpandedSize := x\<rparr> \<and> x \<le> MaxExpandedSize H \<and> e = le32 x
      else h' = h\<lparr>Size := size\<rparr> \<and> e = []) (?k size)" for size
  proof (cases "hasFlag (Flags h) FlagDeflate")
    case True
    have "still (\<lambda>h'. x \<le> MaxExpandedSize H \<and> h' = h\<lparr>Size := size, ExpandedSize := x\<rparr>)
        (if x > MaxExpandedSize H then ?big else retIO (h\<lparr>Size := size, ExpandedSize := x\<rparr>))" for x
      by (rule still_if [OF still_reject still_ret]) auto
    note read = strict_exact [OF strict_bind_still [OF strict_ReadUint32 this]]
    show ?thesis
      unfolding if_P [OF True] by (rule exact_mono [OF read]) (auto simp: seqR_def)
  next
    case False
    then show ?thesis
      using still_exact [OF still_ret [of "(=) (h\<lparr>Size := size\<rparr>)" "h\<lparr>Size := size\<rparr>"]]
      by (auto elim!: exact_mono)
  qed
  show ?thesis
    unfolding readSizes_def
    by (rule strict_mono [OF strict_bind_exact [OF strict_ReadUint32 *]])
      (cases "hasFlag (Flags h) FlagDeflate"; auto simp: seqR_def sizesRead_def)
qed

lemma still_validateMessageFlags: "still (\<lambda>_. flagsOK f) (validateMessageFlags f)"
  unfolding validateMessageFlags_def
  by (intro still_if still_reject still_ret) (auto simp: flagsOK_def)

lemma still_validateAttachmentFlags:
  "still (\<lambda>_. \<not> hasFlag f attachmentReservedBitsMask) (validateAttachmentFlags f)"
  unfolding validateAttachmentFlags_def by (intro still_if still_reject still_ret)

lemma exact_ReadExpanded:
  "exact (\<lambda>w e. (\<not> b \<longrightarrow> w = 0) \<and> e = (if b then le32 w else []))
     (if b then ReadUint32 else retIO 0)"
  using strict_exact [OF strict_ReadUint32] still_exact [OF still_ret [of "(=) 0" "0 :: u32"]]
  by (auto elim!: exact_mono)

lemma strict_if: "(b \<Longrightarrow> strict R m) \<Longrightarrow> (\<not> b \<Longrightarrow> strict R n) \<Longrightarrow> strict R (if b then m else n)"
  by simp

lemma strict_reject: "strict R (reject code msg)"
  by (simp add: strict_def)

lemma strict_readAttachment:
  "strict (\<lambda>a e. e = encAttachment a \<and> attOK (ucd H) a \<and> ToLower (ucd H) (aFilename a) \<notin> set seen)
     (readAttachment H seen)"
proof -
  let ?att = "\<lambda>f t i n s x. \<lparr>aFlags = f, aTypeID = i, aType = t, aFilename = n, aSize = s,
      aExpandedSize = x, aFilepath = []\<rparr>"
  let ?sizes = "\<lambda>f t i n. bindIO ReadUint32 (\<lambda>s.
      bindIO (if hasFlag f 2 then ReadUint32 else retIO 0) (\<lambda>x. retIO (?att f t i n s x)))"
  let ?R1 = "\<lambda>f t i n a e. \<exists>s x. a = ?att f t i n s x \<and> (\<not> hasFlag f 2 \<longrightarrow> x = 0)
      \<and> e = le32 s @ (if hasFlag f 2 then le32 x else [])"
  have 1: "strict (?R1 f t i n) (?sizes f t i n)" for f t i n
    by (rule strict_mono [OF strict_bind_exact [OF strict_ReadUint32 exact_bind [OF exact_ReadExpanded
        still_exact [OF still_ret [of "(=) (?att f t i n s x)" for s x]]]]])
      (simp, (cases "hasFlag f 2"; auto simp: seqR_def))
  let ?name = "\<lambda>f t i b. if \<not> isValidAttachmentFilename (ucd H) (string_of b)
      then reject RejectCodeInvalid ''invalid attachment filename''
      else if ToLower (ucd H) (string_of b) \<in> set seen
      then reject RejectCodeInvalid ''duplicate attachment filename''
      else ?sizes f t i (string_of b)"
  let ?R2 = "\<lambda>f t i n a e. isValidAttachmentFilename (ucd H) n \<and> ToLower (ucd H) n \<notin> set seen
      \<and> ?R1 f t i n a e"
  have "strict (?R2 f t i (string_of b)) (?name f t i b)" for f t i b
    by (intro strict_if strict_reject strict_mono [OF 1]) auto
  from lax_bind_strict [OF lax_ReadUInt8Slice this]
  have "strict (\<lambda>a e. \<exists>n e'. ?R2 f t i n a e' \<and> e = encString n @ e')
      (bindIO ReadUInt8Slice (?name f t i))" for f t i
    by (rule strict_mono) (force simp: seqR_def encString_def)
  then have 2: "strict (\<lambda>a e. \<exists>n e'. ?R2 f (fst p) (snd p) n a e' \<and> e = encString n @ e')
      (case p of (t, i) \<Rightarrow> bindIO ReadUInt8Slice (?name f t i))" for f p
    by (cases p) simp
  have 3: "strict (\<lambda>a e. \<not> hasFlag f attachmentReservedBitsMask \<and> (\<exists>t i n e'.
      typeOK (hasFlag f 1) i t \<and> ?R2 f t i n a e' \<and> e = encType (hasFlag f 1) i t @ encString n @ e'))
     (bindIO (validateAttachmentFlags f) (\<lambda>_. bindIO (readAttachmentType f)
       (\<lambda>(t, i). bindIO ReadUInt8Slice (?name f t i))))" for f
    unfolding readAttachmentType_def
    by (rule strict_mono [OF lax_bind_strict [OF still_lax [OF still_validateAttachmentFlags]
          lax_bind_strict [OF lax_readMediaType 2]]])
      (auto simp: seqR_def; blast)
  show ?thesis
    unfolding readAttachment_def Let_def
    by (rule strict_mono [OF strict_bind_strict [OF strict_ReadByte 3]])
      (auto simp: seqR_def attOK_def encAttachment_def)
qed

abbreviation attKey :: "host \<Rightarrow> AttachmentHeader \<Rightarrow> string" where
  "attKey H a \<equiv> ToLower (ucd H) (aFilename a)"

lemma seqRE:
  assumes "seqR R S y e"
  obtains x e1 e2 where "e = e1 @ e2" "R x e1" "S x y e2"
  using assms unfolding seqR_def by blast

definition newAtts :: "host \<Rightarrow> nat \<Rightarrow> string list \<Rightarrow> AttachmentHeader list \<Rightarrow> bool" where
  "newAtts H n seen as \<longleftrightarrow>
     length as = n \<and> list_all (attOK (ucd H)) as \<and> distinct (map (attKey H) as)
     \<and> set (map (attKey H) as) \<inter> set seen = {}"

lemma newAtts_Cons:
  "attOK (ucd H) a \<Longrightarrow> attKey H a \<notin> set seen \<Longrightarrow> newAtts H n (attKey H a # seen) as
     \<Longrightarrow> newAtts H (Suc n) seen (a # as)"
  by (auto simp: newAtts_def)

lemma exact_readAttachmentLoop:
  "exact (\<lambda>r e. \<exists>as. newAtts H n seen as \<and> e = concat (map encAttachment as)
      \<and> r = (t + sum_list (map aSize as), x + sum_list (map attExpanded as),
             h\<lparr>Attachments := Attachments h @ as\<rparr>))
     (readAttachmentLoop H n seen t x h)"
proof (induction n arbitrary: seen t x h)
  case 0
  show ?case
    unfolding readAttachmentLoop.simps
    by (rule exact_mono [OF still_exact [OF still_ret [of "(=) (t, x, h)"]]]) (auto simp: newAtts_def)
next
  case (Suc n)
  show ?case
    unfolding readAttachmentLoop.simps
  proof (rule exact_mono [OF exact_bind [OF strict_exact [OF strict_readAttachment] Suc.IH]])
    fix r e
    let ?S = "\<lambda>a r e. \<exists>as. newAtts H n (attKey H a # seen) as \<and> e = concat (map encAttachment as)
        \<and> r = (t + aSize a + sum_list (map aSize as), x + attExpanded a + sum_list (map attExpanded as),
             (h\<lparr>Attachments := Attachments h @ [a]\<rparr>)\<lparr>Attachments :=
                Attachments (h\<lparr>Attachments := Attachments h @ [a]\<rparr>) @ as\<rparr>)"
    assume "seqR (\<lambda>a e. e = encAttachment a \<and> attOK (ucd H) a \<and> attKey H a \<notin> set seen) ?S r e"
    then obtain a as where "attOK (ucd H) a" "attKey H a \<notin> set seen"
      "newAtts H n (attKey H a # seen) as" and e: "e = encAttachment a @ concat (map encAttachment as)"
      and r: "r = (t + sum_list (map aSize (a # as)), x + sum_list (map attExpanded (a # as)),
             h\<lparr>Attachments := Attachments h @ a # as\<rparr>)"
      by (auto simp: seqR_def add.assoc)
    then have "newAtts H (Suc n) seen (a # as)" by (intro newAtts_Cons)
    with e r show "\<exists>as. newAtts H (Suc n) seen as \<and> e = concat (map encAttachment as)
        \<and> r = (t + sum_list (map aSize as), x + sum_list (map attExpanded as),
             h\<lparr>Attachments := Attachments h @ as\<rparr>)"
      by (intro exI [of _ "a # as"]) simp
  qed
qed

definition attachmentsRead :: "host \<Rightarrow> Header \<Rightarrow> Header \<Rightarrow> bytes \<Rightarrow> bool" where
  "attachmentsRead H h h' e \<longleftrightarrow>
     (\<exists>as. h' = h\<lparr>Attachments := Attachments h @ as\<rparr> \<and> newAtts H (length as) [] as \<and> length as < 256
       \<and> Size h + sum_list (map aSize as) \<le> MaxMessageSize H
       \<and> (if hasFlag (Flags h) FlagDeflate then ExpandedSize h else Size h)
          + sum_list (map attExpanded as) \<le> MaxExpandedSize H
       \<and> e = of_nat (length as) # concat (map encAttachment as))"

lemma strict_readAttachmentHeaders: "strict (attachmentsRead H h) (readAttachmentHeaders H h)"
proof -
  let ?x0 = "if hasFlag (Flags h) FlagDeflate then ExpandedSize h else Size h"
  let ?chk = "\<lambda>(t, x, h'). if t > MaxMessageSize H
      then reject RejectCodeTooBig ''total message size exceeds max''
      else if x > MaxExpandedSize H
      then reject RejectCodeTooBig ''total expanded size exceeds MAX_EXPANDED_SIZE''
      else retIO h'"
  have chk: "still (\<lambda>h'. h' = snd (snd p) \<and> fst p \<le> MaxMessageSize H
      \<and> fst (snd p) \<le> MaxExpandedSize H) (?chk p)" for p
    by (cases p) (auto intro!: still_reject still_ret)
  have len: "newAtts H (unat (hd b)) [] as \<Longrightarrow> length b = 1
      \<Longrightarrow> length as < 256 \<and> b = [of_nat (length as)]" for b :: bytes and as
    by (cases b) (auto simp: newAtts_def)
  show ?thesis
    unfolding readAttachmentHeaders_def Let_def
  proof (rule strict_mono [OF strict_bind_exact [OF strict_ReadFull
          exact_bind [OF exact_readAttachmentLoop still_exact [OF chk]]]])
    fix h' e
    let ?R = "\<lambda>b r e. \<exists>as. newAtts H (unat (hd b)) [] as \<and> e = concat (map encAttachment as)
      \<and> r = (Size h + sum_list (map aSize as), ?x0 + sum_list (map attExpanded as),
             h\<lparr>Attachments := Attachments h @ as\<rparr>)"
    assume "seqR (\<lambda>b e. e = b \<and> length b = 1) (\<lambda>b. seqR (?R b) (\<lambda>p h' e.
      (h' = snd (snd p) \<and> fst p \<le> MaxMessageSize H \<and> fst (snd p) \<le> MaxExpandedSize H) \<and> e = [])) h' e"
    then obtain b p e1 where b: "length b = 1" "e = b @ e1" and p: "?R b p e1" "h' = snd (snd p)"
      "fst p \<le> MaxMessageSize H" "fst (snd p) \<le> MaxExpandedSize H"
      by (elim seqRE conjE) (rule that; (assumption | simp only: append_Nil2))
    from p(1) obtain as where as: "newAtts H (unat (hd b)) [] as" "e1 = concat (map encAttachment as)"
      "p = (Size h + sum_list (map aSize as), ?x0 + sum_list (map attExpanded as),
            h\<lparr>Attachments := Attachments h @ as\<rparr>)" by blast
    from as(1) have "newAtts H (length as) [] as" by (simp add: newAtts_def)
    moreover from len [OF as(1) b(1)] b(2) as(2)
    have "length as < 256" "e = of_nat (length as) # concat (map encAttachment as)" by simp_all
    ultimately show "attachmentsRead H h h' e"
      unfolding attachmentsRead_def using p(2-4) [unfolded as(3) fst_conv snd_conv] by blast
  qed simp
qed

text \<open>
  Each stage sets its fields to some value, whichever way the flags go: what the value satisfies
  and which bytes it came from.
\<close>

lemma pidRead:
  assumes "if hasFlag (Flags h) FlagHasPid then \<exists>p. h' = h\<lparr>Pid := p\<rparr> \<and> length p = 32 \<and> e = p
           else h' = h \<and> e = []" and "Pid h = []"
  obtains p where "h' = h\<lparr>Pid := p\<rparr>" "pidOK h'" "e = (if hasFlag (Flags h) FlagHasPid then p else [])"
proof (rule that)
  show "h' = h\<lparr>Pid := Pid h'\<rparr>" "pidOK h'" "e = (if hasFlag (Flags h) FlagHasPid then Pid h' else [])"
    using assms by (auto simp: pidOK_def split: if_splits)
qed

lemma topicRead:
  assumes "if \<not> hasFlag (Flags h) FlagHasPid
           then \<exists>t. h' = h\<lparr>Topic := t\<rparr> \<and> length t < 256 \<and> e = encString t
           else h' = h \<and> e = []" and "Topic h = []"
  obtains t where "h' = h\<lparr>Topic := t\<rparr>" "topicOK h'"
    "e = (if \<not> hasFlag (Flags h) FlagHasPid then encString t else [])"
proof (rule that)
  show "h' = h\<lparr>Topic := Topic h'\<rparr>" "topicOK h'"
    "e = (if \<not> hasFlag (Flags h) FlagHasPid then encString (Topic h') else [])"
    using assms by (auto simp: topicOK_def split: if_splits)
qed

lemma addToReadE:
  assumes "addToRead U h h' e" "AddToFrom h = None" "AddTo h = []"
  obtains f as where "h' = h\<lparr>AddToFrom := f, AddTo := as\<rparr>" "addToOK U h'"
    "e = (if hasFlag (Flags h) FlagHasAddTo then encAddTo h' else [])"
proof (rule that)
  show "h' = h\<lparr>AddToFrom := AddToFrom h', AddTo := AddTo h'\<rparr>" "addToOK U h'"
    "e = (if hasFlag (Flags h) FlagHasAddTo then encAddTo h' else [])"
    using assms by (auto simp: addToRead_def addToOK_def encAddTo_def split: if_splits)
qed

lemma typeRead:
  assumes "typeOK c i t" "h' = (if c then h\<lparr>TypeID := i, Type := t\<rparr> else h\<lparr>Type := t\<rparr>)"
    and "TypeID h = 0"
  obtains "h' = h\<lparr>TypeID := i, Type := t\<rparr>"
  by (rule that) (use assms in \<open>auto simp: typeOK_def\<close>)

lemma sizesReadE:
  assumes "sizesRead H h h' e" "ExpandedSize h = 0"
  obtains s x where "h' = h\<lparr>Size := s, ExpandedSize := x\<rparr>" "expandedOK H h'"
    "e = le32 s @ (if hasFlag (Flags h) FlagDeflate then le32 x else [])"
proof (rule that)
  show "h' = h\<lparr>Size := Size h', ExpandedSize := ExpandedSize h'\<rparr>" "expandedOK H h'"
    "e = le32 (Size h') @ (if hasFlag (Flags h) FlagDeflate then le32 (ExpandedSize h') else [])"
    using assms by (cases "hasFlag (Flags h) FlagDeflate"; auto simp: sizesRead_def expandedOK_def)+
qed

lemma attachmentsReadE:
  assumes "attachmentsRead H h h' e" "Attachments h = []"
  obtains as where "h' = h\<lparr>Attachments := as\<rparr>" "attachmentsOK H h'"
    "e = of_nat (length as) # concat (map encAttachment as)"
  using assms
  by (auto simp: attachmentsRead_def newAtts_def attachmentsOK_def wireTotal_def expandedTotal_def cong: if_cong)

lemma readFields_stages:
  assumes "flagsOK f"
    and pid: "if hasFlag (Flags (header0\<lparr>Flags := f\<rparr>)) FlagHasPid
         then \<exists>p. h1 = header0\<lparr>Flags := f, Pid := p\<rparr> \<and> length p = 32 \<and> e1 = p
         else h1 = header0\<lparr>Flags := f\<rparr> \<and> e1 = []"
    and "wireAddress (ucd H) from"
    and to: "h2 = h1\<lparr>From := from, To := To (h1\<lparr>From := from\<rparr>) @ to\<rparr>" "recipientsOK (ucd H) to"
    and addTo: "addToRead (ucd H) h2 h3 e3"
    and "timeOK H ts"
    and topic: "if \<not> hasFlag (Flags (h3\<lparr>Timestamp := ts\<rparr>)) FlagHasPid
         then \<exists>t. h5 = h3\<lparr>Timestamp := ts, Topic := t\<rparr> \<and> length t < 256 \<and> e5 = encString t
         else h5 = h3\<lparr>Timestamp := ts\<rparr> \<and> e5 = []"
    and type: "typeOK (hasFlag (Flags h5) FlagCommonType) i t"
      "h6 = (if hasFlag (Flags h5) FlagCommonType then h5\<lparr>TypeID := i, Type := t\<rparr> else h5\<lparr>Type := t\<rparr>)"
    and sizes: "sizesRead H h6 h7 e7"
    and atts: "attachmentsRead H h7 h e8"
  shows "wireOK H h \<and> [f] @ [] @ e1 @ encAddress from
    @ (of_nat (length to) # concat (map encAddress to)) @ e3 @ le64 ts @ e5
    @ encType (hasFlag (Flags h5) FlagCommonType) i t @ e7 @ e8 = tl (Encode h)"
proof -
  note h0 = header0_def emptyHeader_def
  obtain p where 1: "h1 = header0\<lparr>Flags := f, Pid := p\<rparr>" "pidOK h1"
    "e1 = (if hasFlag f FlagHasPid then p else [])"
    by (rule pidRead [OF pid]) (simp_all add: h0 cong: if_cong)
  have 2: "h2 = header0\<lparr>Flags := f, Pid := p, From := from, To := to\<rparr>"
    using to(1) 1(1) by (simp add: h0)
  obtain af as where 3: "h3 = h2\<lparr>AddToFrom := af, AddTo := as\<rparr>" "addToOK (ucd H) h3"
    "e3 = (if hasFlag f FlagHasAddTo then encAddTo h3 else [])"
    by (rule addToReadE [OF addTo]) (simp_all add: h0 2 cong: if_cong)
  obtain tp where 5: "h5 = h3\<lparr>Timestamp := ts, Topic := tp\<rparr>" "topicOK h5"
    "e5 = (if \<not> hasFlag f FlagHasPid then encString tp else [])"
    by (rule topicRead [OF topic]) (simp_all add: h0 2 3(1) cong: if_cong)
  have 6: "h6 = h5\<lparr>TypeID := i, Type := t\<rparr>"
    by (rule typeRead [OF type]) (simp_all add: h0 2 3(1) 5(1))
  obtain s x where 7: "h7 = h6\<lparr>Size := s, ExpandedSize := x\<rparr>" "expandedOK H h7"
    "e7 = le32 s @ (if hasFlag f FlagDeflate then le32 x else [])"
    by (rule sizesReadE [OF sizes]) (simp_all add: h0 2 3(1) 5(1) 6 cong: if_cong)
  obtain ats where 8: "h = h7\<lparr>Attachments := ats\<rparr>" "attachmentsOK H h"
    "e8 = of_nat (length ats) # concat (map encAttachment ats)"
    by (rule attachmentsReadE [OF atts]) (simp_all add: h0 2 3(1) 5(1) 6 7(1))
  note fields = 2 3(1) 5(1) 6 7(1) 8(1)
  have h: "h = header0\<lparr>Flags := f, Pid := p, From := from, To := to, AddToFrom := af, AddTo := as,
      Timestamp := ts, Topic := tp, TypeID := i, Type := t, Size := s, ExpandedSize := x,
      Attachments := ats\<rparr>"
    by (simp add: fields)
  have "wireOK H h"
    using 1(2) 3(2) 5(2) 7(2) 8(2) assms(1,3,7) to(2) type(1)
    unfolding wireOK_def 1(1) fields
    by (simp add: pidOK_def addToOK_def topicOK_def expandedOK_def h0 freshRuntime_def cong: if_cong)
  moreover have "Flags h5 = f" by (simp add: fields)
  moreover have "encAddTo h3 = encAddTo h" by (simp add: fields encAddTo_def cong: option.case_cong)
  ultimately show ?thesis
    by (simp add: h Encode_def 1(3) 3(3) 5(3) 7(3) 8(3) cong: if_cong)
qed

lemma strict_readHeaderFields:
  "strict (\<lambda>h e. wireOK H h \<and> e = tl (Encode h)) (readHeaderFields H header0)"
  unfolding readHeaderFields_def
  by (rule strict_mono [OF strict_bind_strict [OF strict_ReadByte
        lax_bind_strict [OF still_lax [OF still_validateMessageFlags]
        lax_bind_strict [OF lax_readPid lax_bind_strict [OF lax_readAddress
        lax_bind_strict [OF lax_readToRecipients lax_bind_strict [OF lax_readAddToRecipients
        strict_bind_strict [OF strict_readTimestamp lax_bind_strict [OF lax_readTopic
        lax_bind_strict [OF lax_readMessageType strict_bind_strict [OF strict_readSizes
        strict_readAttachmentHeaders]]]]]]]]]]], elim seqRE conjE exE, hypsubst)
    (rule readFields_stages; (assumption | rule refl))

end
