(* ===== verification/Acceptance.thy ===== *)
theory Acceptance
  imports Codec Samples
begin

text \<open>
  What a host accepts. The predicates below say, without reference to the connection, when each
  check of \<open>readHeader\<close> passes; the lemmas show that the checks pass exactly then, and the
  theorems put them together: \<open>readHeader\<close> accepts exactly the encodings of well-formed headers
  that pass every check.
\<close>

section \<open>The checks as predicates\<close>

definition localParticipant :: "host \<Rightarrow> Header \<Rightarrow> bool" where
  "localParticipant H h \<longleftrightarrow>
     (\<exists>a \<in> set (To h @ AddTo h). EqualFold (ucd H) (Domain a) (hostDomain H))
     \<or> AddTo h \<noteq> [] \<and> EqualFold (ucd H) (Domain (From h)) (hostDomain H)"

definition authorisedPeer :: "host \<Rightarrow> string option \<Rightarrow> string \<Rightarrow> bool" where
  "authorisedPeer H peer senderDomain \<longleftrightarrow>
     SkipAuthorisedIPs H
     \<or> (\<exists>s ip ips. peer = Some s \<and> ParseIP (lib H) s = Some ip
            \<and> lookupAuthorisedIPs H senderDomain = Inr ips \<and> (\<exists>a \<in> set ips. ipEqual ip a))"

text \<open>The parent \<open>pid\<close> names, as the store holds it, when it can be retrieved in full.\<close>

definition heldParent :: "host \<Rightarrow> bytes \<Rightarrow> int \<Rightarrow> Header \<Rightarrow> bool" where
  "heldParent H pid i parent \<longleftrightarrow>
     lookupMsgIdByHash H pid = Inr i \<and> i \<noteq> 0 \<and> getMsgByID H i = Inr (Some parent)
     \<and> isMessageRetrievable H parent = Some True"

text \<open>The lookups of \<open>handleAddToPath\<close> all returned, and the parent is not held.\<close>

definition parentNotHeld :: "host \<Rightarrow> bytes \<Rightarrow> bool" where
  "parentNotHeld H pid \<longleftrightarrow>
     (\<exists>i. lookupMsgIdByHash H pid = Inr i
          \<and> (i = 0 \<or> getMsgByID H i = Inr None
             \<or> (\<exists>parent. getMsgByID H i = Inr (Some parent)
                        \<and> isMessageRetrievable H parent = Some False)))"

abbreviation localDomain :: "host \<Rightarrow> Address list \<Rightarrow> bool" where
  "localDomain H as \<equiv> hasDomainRecipient (ucd H) as (hostDomain H)"

text \<open>The header that leaves \<open>handleAddToPath\<close> when the parent is held.\<close>

definition withParent :: "Header \<Rightarrow> Header \<Rightarrow> Header" where
  "withParent h parent =
     h\<lparr>Filepath := Filepath parent, Attachments := mapPaths (Attachments h) (Attachments parent)\<rparr>"

definition addToAccepted :: "host \<Rightarrow> Header \<Rightarrow> Header \<Rightarrow> bool" where
  "addToAccepted H h h' \<longleftrightarrow>
     (\<exists>i parent batchHash h1.
        heldParent H (Pid h) i parent
        \<and> \<not> hasFlag (Flags parent) FlagTerminal \<and> \<not> timeTravels H parent h
        \<and> isOriginalParticipant (ucd H) (Some parent) (AddToFrom h)
        \<and> GetMessageHash (lib H) (files H) (withParent h parent) = Ok (batchHash, h1)
        \<and> addToBatchRecorded H i batchHash = Inr False
        \<and> h' = h1\<lparr>InitialResponseCode :=
                    if localDomain H (AddTo h) then AcceptCodeSkipData else AcceptCodeAddTo\<rparr>)
     \<or> parentNotHeld H (Pid h) \<and> (localDomain H (AddTo h) \<or> localDomain H (To h))
        \<and> h' = h\<lparr>InitialResponseCode := AcceptCodeContinue\<rparr>"

definition replyParent :: "host \<Rightarrow> bytes \<Rightarrow> Header \<Rightarrow> bool" where
  "replyParent H pid parent \<longleftrightarrow>
     (\<exists>i. lookupMsgIdByHash H pid = Inr i
          \<and> (if i \<noteq> 0 then getMsgByID H i else getMsgByBatchHash H pid) = Inr (Some parent))"

definition replyAccepted :: "host \<Rightarrow> Header \<Rightarrow> bool" where
  "replyAccepted H h \<longleftrightarrow>
     (\<exists>parent. replyParent H (Pid h) parent \<and> isMessageRetrievable H parent = Some True
        \<and> \<not> timeTravels H parent h
        \<and> isParentParticipant (ucd H) (Some parent) (Some (From h))
        \<and> \<not> hasFlag (Flags parent) FlagTerminal)"

section \<open>Each check passes exactly when its predicate holds\<close>

lemma liftL_Ok: "liftL r c = (Ok x, d) \<longleftrightarrow> r = Inr x \<and> d = c"
  by (auto simp: liftL_def retIO_def failIO_def split: sum.splits)

lemma liftIO_Ok: "liftIO r c = (Ok x, d) \<longleftrightarrow> r = Ok x \<and> d = c"
  by (auto simp: liftIO_def)

lemma retrievableIO_Ok:
  "retrievableIO H msg c = (Ok b, d) \<longleftrightarrow> isMessageRetrievable H msg = Some b \<and> d = c"
  by (auto simp: retrievableIO_def liftIO_def split: option.splits)

lemma checkLocalParticipant_Ok:
  "checkLocalParticipant H h c = (Ok x, d) \<longleftrightarrow> localParticipant H h \<and> d = c"
  by (auto simp: checkLocalParticipant_def localParticipant_def hasDomainRecipient_def list_ex_iff
      retIO_def)

lemma verifySenderIP_Ok:
  "verifySenderIP H s c = (Ok x, d) \<longleftrightarrow> authorisedPeer H (remoteHost c) s \<and> d = c"
  by (auto simp: verifySenderIP_def authorisedPeer_def list_ex_iff retIO_def failIO_def
      split: option.splits sum.splits)

lemma handleAddToParentNotStored_Ok:
  "handleAddToParentNotStored h b c = (Ok h', d) \<longleftrightarrow>
     b \<and> h' = h\<lparr>InitialResponseCode := AcceptCodeContinue\<rparr> \<and> d = c"
  by (auto simp: handleAddToParentNotStored_def retIO_def)

lemma addToHeldParent_Ok:
  "addToHeldParent H h i parent b c = (Ok h', d) \<longleftrightarrow>
     d = c \<and> \<not> hasFlag (Flags parent) FlagTerminal \<and> \<not> timeTravels H parent h
     \<and> isOriginalParticipant (ucd H) (Some parent) (AddToFrom h)
     \<and> (\<exists>batchHash h1. GetMessageHash (lib H) (files H) (withParent h parent) = Ok (batchHash, h1)
          \<and> addToBatchRecorded H i batchHash = Inr False
          \<and> h' = h1\<lparr>InitialResponseCode := if b then AcceptCodeSkipData else AcceptCodeAddTo\<rparr>)"
proof -
  let ?h = "withParent h parent"
  have "addToHeldParent H h i parent b c =
    (if hasFlag (Flags parent) FlagTerminal
     then reject RejectCodeInvalid ''add-to: parent msg is terminal'' c
     else if timeTravels H parent h then reject RejectCodeTimeTravel ''add-to: time travel detected'' c
     else if \<not> isOriginalParticipant (ucd H) (Some parent) (AddToFrom h)
     then reject RejectCodeInvalid ''add-to: add-to-from is not in from or to of parent'' c
     else bindIO (liftIO (GetMessageHash (lib H) (files H) ?h)) (\<lambda>(batchHash, h1).
          bindIO (liftL (addToBatchRecorded H i batchHash)) (\<lambda>recorded.
            if recorded then reject RejectCodeDuplicate ''add-to: batch already recorded''
            else retIO (h1\<lparr>InitialResponseCode := if b then AcceptCodeSkipData else AcceptCodeAddTo\<rparr>))) c)"
    unfolding addToHeldParent_def withParent_def Let_def by (cases b) (simp_all cong: if_cong)
  then show ?thesis
    by (cases "GetMessageHash (lib H) (files H) ?h")
      (auto simp: bindIO_eq_Ok liftL_Ok liftIO_Ok retIO_def split: if_splits)
qed

lemma handleAddToPath_Ok:
  "handleAddToPath H h c = (Ok h', d) \<longleftrightarrow>
     (if AddTo h = [] then h' = h else addToAccepted H h h') \<and> d = c"
proof (cases "AddTo h = []")
  case True
  then show ?thesis by (auto simp: handleAddToPath_def retIO_def)
next
  case False
  note lookups = handleAddToPath_def addToAccepted_def heldParent_def parentNotHeld_def Let_def
    bindIO_eq_Ok liftL_Ok retrievableIO_Ok handleAddToParentNotStored_Ok addToHeldParent_Ok
  show ?thesis
  proof (cases "lookupMsgIdByHash H (Pid h)")
    case (Inr i)
    show ?thesis
    proof (cases "i = 0 \<or> (\<exists>e. getMsgByID H i = Inl e) \<or> getMsgByID H i = Inr None")
      case True
      with False Inr show ?thesis by (auto simp: lookups)
    next
      case held: False
      then obtain parent where "i \<noteq> 0" "getMsgByID H i = Inr (Some parent)"
        by (metis not_None_eq sum.exhaust)
      with False Inr show ?thesis
        by (cases "isMessageRetrievable H parent = Some True")
          (auto simp: lookups)
    qed
  qed (use False in \<open>simp add: lookups\<close>)
qed

lemma validatePidReplyPath_Ok:
  "validatePidReplyPath H h c = (Ok x, d) \<longleftrightarrow>
     (AddTo h \<noteq> [] \<or> \<not> hasFlag (Flags h) FlagHasPid \<or> replyAccepted H h) \<and> d = c"
  by (auto simp: validatePidReplyPath_def replyAccepted_def replyParent_def bindIO_eq_Ok liftL_Ok
      retrievableIO_Ok retIO_def split: if_splits option.splits)

definition accepts :: "host \<Rightarrow> string option \<Rightarrow> Header \<Rightarrow> Header \<Rightarrow> bool" where
  "accepts H peer h h' \<longleftrightarrow>
     localParticipant H h \<and> authorisedPeer H peer (determineSenderDomain h)
     \<and> (if AddTo h \<noteq> [] then addToAccepted H h h'
        else h' = h \<and> (hasFlag (Flags h) FlagHasPid \<longrightarrow> replyAccepted H h))"

text \<open>What the checks may change in the header: never a field that is on the wire.\<close>

lemma length_mapPaths [simp]: "length (mapPaths as ps) = length as"
  by (induction as ps rule: mapPaths.induct) simp_all

lemma encAttachment_mapPaths [simp]: "map encAttachment (mapPaths as ps) = map encAttachment as"
  by (induction as ps rule: mapPaths.induct) simp_all

lemma Encode_withParent [simp]: "Encode (withParent h parent) = Encode h"
  by (simp add: Encode_def withParent_def encAddTo_def cong: option.case_cong if_cong)

lemma Encode_runtime [simp]:
  "Encode (h\<lparr>InitialResponseCode := x\<rparr>) = Encode h" "Encode (h\<lparr>messageHash := m\<rparr>) = Encode h"
  by (simp_all add: Encode_def encAddTo_def cong: option.case_cong if_cong)

lemma addToAccepted_cases:
  assumes "addToAccepted H h h'"
  obtains parent m where "h' = (withParent h parent)\<lparr>messageHash := Some m, InitialResponseCode :=
        if localDomain H (AddTo h) then AcceptCodeSkipData else AcceptCodeAddTo\<rparr>"
  | "h' = h\<lparr>InitialResponseCode := AcceptCodeContinue\<rparr>"
  using assms unfolding addToAccepted_def
  by (elim disjE exE conjE) (drule GetMessageHash_Ok(1), hypsubst, blast+)

lemma attKey_mapPaths: "map (attKey H) (mapPaths as ps) = map (attKey H) as"
  by (induction as ps rule: mapPaths.induct) simp_all

lemma accepts_frame:
  assumes "accepts H peer g h"
  shows "Encode h = Encode g \<and> Flags h = Flags g \<and> From h = From g \<and> To h = To g
      \<and> AddToFrom h = AddToFrom g \<and> AddTo h = AddTo g
      \<and> map (attKey H) (Attachments h) = map (attKey H) (Attachments g)"
    and "h = g \<or> InitialResponseCode h \<in> {AcceptCodeAddTo, AcceptCodeContinue, AcceptCodeSkipData}"
proof -
  have "h = g \<or> addToAccepted H g h" using assms by (auto simp: accepts_def split: if_splits)
  then consider "h = g" | parent m where "h = (withParent g parent)\<lparr>messageHash := Some m,
        InitialResponseCode := if localDomain H (AddTo g) then AcceptCodeSkipData else AcceptCodeAddTo\<rparr>"
    | "h = g\<lparr>InitialResponseCode := AcceptCodeContinue\<rparr>"
    by (blast elim: addToAccepted_cases)
  note shapes = this
  have "Flags h = Flags g \<and> From h = From g \<and> To h = To g
      \<and> AddToFrom h = AddToFrom g \<and> AddTo h = AddTo g
      \<and> map (attKey H) (Attachments h) = map (attKey H) (Attachments g)"
    by (cases rule: shapes) (simp_all add: withParent_def attKey_mapPaths)
  moreover have "Encode h = Encode g" by (cases rule: shapes) simp_all
  ultimately show "Encode h = Encode g \<and> Flags h = Flags g \<and> From h = From g \<and> To h = To g
      \<and> AddToFrom h = AddToFrom g \<and> AddTo h = AddTo g
      \<and> map (attKey H) (Attachments h) = map (attKey H) (Attachments g)" by simp
  show "h = g \<or> InitialResponseCode h \<in> {AcceptCodeAddTo, AcceptCodeContinue, AcceptCodeSkipData}"
    by (cases rule: shapes) simp_all
qed

lemma aSize_mapPaths: "map aSize (mapPaths as ps) = map aSize as"
  by (induction as ps rule: mapPaths.induct) simp_all

lemma accepts_sizes:
  assumes "accepts H peer g h"
  shows "Size h = Size g" "map aSize (Attachments h) = map aSize (Attachments g)"
proof -
  have "h = g \<or> addToAccepted H g h" using assms by (auto simp: accepts_def split: if_splits)
  then show "Size h = Size g" "map aSize (Attachments h) = map aSize (Attachments g)"
    by (auto elim!: addToAccepted_cases simp: withParent_def aSize_mapPaths)
qed

lemma uint_sum_list: "uint (sum_list ws) = (\<Sum>w\<leftarrow>ws. uint w) mod 2 ^ LENGTH('a)"
  for ws :: "'a::len word list"
  by (induction ws) (simp_all add: uint_word_ariths mod_add_right_eq)

lemma addToAccepted_AddTo: "addToAccepted H h h' \<Longrightarrow> AddTo h' = AddTo h"
  by (elim addToAccepted_cases) (simp_all add: withParent_def)

lemma acceptHeader_Ok:
  "acceptHeader H h c = (Ok r, d) \<longleftrightarrow>
     d = c \<and> (\<exists>h'. r = Some h' \<and> accepts H (remoteHost c) h h')"
  using addToAccepted_AddTo
  by (auto simp: acceptHeader_def accepts_def bindIO_eq_Ok checkLocalParticipant_Ok verifySenderIP_Ok
      handleAddToPath_Ok validatePidReplyPath_Ok retIO_def split: if_splits)

lemma readHeader_wireOK:
  assumes "wireOK H h" "inp c = Encode h @ r"
  shows "readHeader H c = acceptHeader H h (consume (length (Encode h)) c)"
proof -
  obtain t where e: "Encode h = 1 # t" and t: "tl (Encode h) = t"
    using assms(1) by (simp add: wireOK_def Encode_def)
  have i: "inp c = [1] @ (t @ r)" using assms(2) by (simp add: e)
  then have j: "inp (consume 1 c) = tl (Encode h) @ r" by (simp add: t)
  show ?thesis
    using parsedD [OF parsed_readVersion i, of H] parsedD [OF wireOK_stages [OF assms(1)] j]
    by (simp add: readHeader_def bindIO_def e)
qed

lemma readVersion_Ok:
  assumes "readVersionOrChallenge H (emptyHeader\<lparr>InitialResponseCode := AcceptCodeContinue\<rparr>) c
             = (Ok (handled, h0), d)" "\<not> handled"
  shows "\<exists>r. inp c = 1 # r \<and> d = consume 1 c \<and> h0 = header0"
  using assms
  by (auto simp: readVersionOrChallenge_def bindIO_eq_Ok ReadByte_def header0_def retIO_def
      split: list.splits if_splits)

text \<open>The reader and the checks together.\<close>

lemma readHeader_Some:
  "readHeader H c = (Ok (Some h'), d) \<longleftrightarrow>
     (\<exists>h r. inp c = Encode h @ r \<and> d = consume (length (Encode h)) c \<and> wireOK H h
            \<and> accepts H (remoteHost c) h h')"
proof
  assume "readHeader H c = (Ok (Some h'), d)"
  then obtain h c1 c2 h0 where v: "readVersionOrChallenge H
        (emptyHeader\<lparr>InitialResponseCode := AcceptCodeContinue\<rparr>) c = (Ok (False, h0), c1)"
    and f: "readHeaderFields H h0 c1 = (Ok h, c2)" and a: "acceptHeader H h c2 = (Ok (Some h'), d)"
    by (auto simp: readHeader_def bindIO_eq_Ok retIO_def split: if_splits)
  from readVersion_Ok [OF v] obtain r where 1: "inp c = 1 # r" "c1 = consume 1 c" "h0 = header0"
    by auto
  from strictD [OF strict_readHeaderFields f [unfolded 1(3)]] obtain r' where
    2: "inp c1 = tl (Encode h) @ r'" "c2 = consume (length (tl (Encode h))) c1" "wireOK H h"
    by metis
  from 2(3) have e: "Encode h = 1 # tl (Encode h)" by (simp add: wireOK_def Encode_def)
  have "inp c = Encode h @ r'" using 1 2(1) by (subst e) simp
  moreover have "c2 = consume (length (Encode h)) c" using 1(2) 2(2) by (subst e) simp
  ultimately show "\<exists>h r. inp c = Encode h @ r \<and> d = consume (length (Encode h)) c \<and> wireOK H h
            \<and> accepts H (remoteHost c) h h'"
    using a 2(3) by (auto simp: acceptHeader_Ok)
next
  assume "\<exists>h r. inp c = Encode h @ r \<and> d = consume (length (Encode h)) c \<and> wireOK H h
            \<and> accepts H (remoteHost c) h h'"
  then show "readHeader H c = (Ok (Some h'), d)"
    by (auto simp: readHeader_wireOK acceptHeader_Ok)
qed

section \<open>Samples\<close>

lemma sampleHeader_wireOK: "wireOK sampleHost sampleHeader"
  by code_simp

lemma sampleHeader_accepts: "accepts sampleHost (Some ''10.0.0.1'') sampleHeader sampleHeader"
proof -
  have "localParticipant sampleHost sampleHeader" by code_simp
  moreover have "authorisedPeer sampleHost (Some ''10.0.0.1'') (determineSenderDomain sampleHeader)"
    by (simp add: authorisedPeer_def sampleHost_def sampleLib_def sampleHeader_def emptyHeader_def
        determineSenderDomain_def alice_def ipEqual_def)
  ultimately show ?thesis by (simp add: accepts_def sampleHeader_def emptyHeader_def hasFlag_def)
qed

lemma readHeader_sample:
  "readHeader sampleHost (sampleConn (Encode sampleHeader @ r)) =
     (Ok (Some sampleHeader), consume (length (Encode sampleHeader)) (sampleConn (Encode sampleHeader @ r)))"
  unfolding readHeader_Some using sampleHeader_wireOK sampleHeader_accepts
  by (auto simp: sampleConn_def)

lemma sampleStore_held: "heldParent sampleStore samplePid 7 sampleParent"
  unfolding heldParent_def
  by (subst isMessageRetrievable.simps)
    (simp add: sampleStore_def sampleHost_def sampleParent_def sampleHeader_def emptyHeader_def isRegular_def)

lemma sampleStore_peer: "authorisedPeer sampleStore (Some ''10.0.0.1'') ''a.org''"
  by (simp add: authorisedPeer_def sampleStore_def sampleHost_def sampleLib_def ipEqual_def)

lemma sampleReply_wireOK: "wireOK sampleStore sampleReply"
  by code_simp

lemma sampleAddTo_wireOK: "wireOK sampleStore sampleAddTo"
  by code_simp

lemma sampleReply_checks:
  "localParticipant sampleStore sampleReply"
  "isParentParticipant (ucd sampleStore) (Some sampleParent) (Some (From sampleReply))"
  "\<not> timeTravels sampleStore sampleParent sampleReply"
  "\<not> hasFlag (Flags sampleParent) FlagTerminal" "hasFlag (Flags sampleReply) FlagHasPid"
  "determineSenderDomain sampleReply = ''a.org'' \<and> AddTo sampleReply = [] \<and> Pid sampleReply = samplePid"
  by code_simp+

lemma sampleReply_accepts: "accepts sampleStore (Some ''10.0.0.1'') sampleReply sampleReply"
  using sampleStore_held sampleStore_peer sampleReply_checks
  by (auto simp: accepts_def replyAccepted_def replyParent_def heldParent_def)

lemma readHeader_sampleReply:
  "readHeader sampleStore (sampleConn (Encode sampleReply)) =
     (Ok (Some sampleReply), consume (length (Encode sampleReply)) (sampleConn (Encode sampleReply)))"
  unfolding readHeader_Some using sampleReply_wireOK sampleReply_accepts
  by (auto simp: sampleConn_def)

text \<open>What the host makes of Alice's adding Carol: it has the payload already and answers 65.\<close>

definition sampleAddTo' :: Header where
  "sampleAddTo' = (withParent sampleAddTo sampleParent)
     \<lparr>messageHash := Some (sha256 sampleLib (Encode sampleAddTo @ [1, 2, 3, 4, 5])), InitialResponseCode := 65\<rparr>"

lemma sampleAddTo_checks:
  "localParticipant sampleStore sampleAddTo" "localDomain sampleStore (AddTo sampleAddTo)"
  "isOriginalParticipant (ucd sampleStore) (Some sampleParent) (AddToFrom sampleAddTo)"
  "\<not> timeTravels sampleStore sampleParent sampleAddTo" "AddTo sampleAddTo \<noteq> []"
  "determineSenderDomain sampleAddTo = ''a.org''" "Pid sampleAddTo = samplePid"
  by code_simp+

lemma sampleAddTo_hash:
  "GetMessageHash (lib sampleStore) (files sampleStore) (withParent sampleAddTo sampleParent)
     = Ok (sha256 sampleLib (Encode sampleAddTo @ [1, 2, 3, 4, 5]),
           (withParent sampleAddTo sampleParent)
             \<lparr>messageHash := Some (sha256 sampleLib (Encode sampleAddTo @ [1, 2, 3, 4, 5]))\<rparr>)"
proof -
  have "messageHash (withParent sampleAddTo sampleParent) = None" by code_simp
  moreover have "messageBytes (lib sampleStore) (files sampleStore) (withParent sampleAddTo sampleParent)
      = Ok (Encode sampleAddTo @ [1, 2, 3, 4, 5])"
    unfolding messageBytes_def Encode_withParent
    by (simp add: withParent_def sampleAddTo_def sampleParent_def sampleHeader_def emptyHeader_def
        hasFlag_def HashPayload_def readFile_def sampleStore_def sampleHost_def copyN_def)
  ultimately show ?thesis
    by (simp add: GetMessageHash_def Let_def) (simp add: sampleStore_def sampleHost_def)
qed

lemma readHeader_sampleAddTo:
  "readHeader sampleStore (sampleConn (Encode sampleAddTo)) =
     (Ok (Some sampleAddTo'), consume (length (Encode sampleAddTo)) (sampleConn (Encode sampleAddTo)))"
proof -
  have "addToBatchRecorded sampleStore i b = Inr False" for i b
    by (simp add: sampleStore_def sampleHost_def)
  then have "addToAccepted sampleStore sampleAddTo sampleAddTo'"
    using sampleStore_held sampleAddTo_hash sampleAddTo_checks sampleReply_checks(4)
    unfolding addToAccepted_def sampleAddTo'_def by fastforce
  then have "accepts sampleStore (Some ''10.0.0.1'') sampleAddTo sampleAddTo'"
    using sampleStore_peer sampleAddTo_checks by (simp add: accepts_def)
  then show ?thesis
    unfolding readHeader_Some using sampleAddTo_wireOK by (auto simp: sampleConn_def)
qed

lemma sampleHuge_wireOK: "wireOK sampleHost sampleHuge"
  by code_simp

section \<open>Theorems\<close>

text \<open>
  C1. A header is accepted exactly when the bytes on the connection are the encoding of a
  well-formed header (every field in its range, recipients and attachment names distinct, the
  timestamp in the window, the totals within bounds) that passes the participant, sender address,
  add-to and reply checks; exactly the encoding is taken off the connection and nothing is
  written to it.
\<close>

theorem readHeader_accepts_iff:
  "readHeader H c = (Ok (Some h'), d) \<longleftrightarrow>
     (\<exists>h r. inp c = Encode h @ r \<and> d = consume (length (Encode h)) c \<and> wireOK H h
            \<and> accepts H (remoteHost c) h h')"
  by (rule readHeader_Some)

text \<open>
  Reading back what was written: on a connection that delivers the encoding of a well-formed
  header, whatever follows it, the reader recovers every field and goes on to the checks with
  exactly that header; so the outcome (accepted, rejected with a code, or failed) is that of the
  checks.
\<close>

theorem readHeader_Encode:
  assumes "wireOK H h" "inp c = Encode h @ r"
  shows "readHeader H c = acceptHeader H h (consume (length (Encode h)) c)"
  by (rule readHeader_wireOK [OF assms])

theorem readHeader_Encode_witness:
  "readHeader sampleHost (sampleConn (Encode sampleHeader @ [7, 7]))
     = acceptHeader sampleHost sampleHeader
         (consume (length (Encode sampleHeader)) (sampleConn (Encode sampleHeader @ [7, 7])))"
  by (rule readHeader_Encode [OF sampleHeader_wireOK, where r = "[7, 7]"]) (simp add: sampleConn_def)



text \<open>
  C19. What every accepted header guarantees: the bytes taken are its encoding and nothing was
  written; no reserved flag is set; \<open>to\<close> is not empty and names nobody twice, nor does \<open>add to\<close>
  or the list of attachment names; some participant is on this host's domain; the connection
  comes from an address the sender's domain authorises, unless that check is switched off; and
  the initial response code is one of 11, 64 and 65.
\<close>

theorem accepted_header:
  assumes "readHeader H c = (Ok (Some h), d)"
  shows "inp c = Encode h @ inp d \<and> out d = out c
    \<and> \<not> hasFlag (Flags h) messageReservedBitsMask
    \<and> To h \<noteq> [] \<and> distinct (map (addrKey (ucd H)) (To h)) \<and> distinct (map (addrKey (ucd H)) (AddTo h))
    \<and> distinct (map (attKey H) (Attachments h))
    \<and> localParticipant H h
    \<and> authorisedPeer H (remoteHost c) (determineSenderDomain h)
    \<and> InitialResponseCode h \<in> {AcceptCodeAddTo, AcceptCodeContinue, AcceptCodeSkipData}"
proof -
  from assms obtain g r where g: "inp c = Encode g @ r" "d = consume (length (Encode g)) c"
    "wireOK H g" "accepts H (remoteHost c) g h"
    by (auto simp: readHeader_Some)
  have same: "Encode h = Encode g \<and> Flags h = Flags g \<and> From h = From g \<and> To h = To g
      \<and> AddToFrom h = AddToFrom g \<and> AddTo h = AddTo g
      \<and> map (attKey H) (Attachments h) = map (attKey H) (Attachments g)"
    and code: "InitialResponseCode h \<in> {AcceptCodeAddTo, AcceptCodeContinue, AcceptCodeSkipData}"
    using accepts_frame [OF g(4)] g(3) by (auto simp: wireOK_def freshRuntime_def)
  moreover have "distinct (map (addrKey (ucd H)) (AddTo g))" "To g \<noteq> []"
    "distinct (map (addrKey (ucd H)) (To g))" "\<not> hasFlag (Flags g) messageReservedBitsMask"
    "distinct (map (attKey H) (Attachments g))"
    using g(3) by (auto simp: wireOK_def addToOK_def recipientsOK_def flagsOK_def attachmentsOK_def
        split: if_splits)
  moreover have "localParticipant H h" "authorisedPeer H (remoteHost c) (determineSenderDomain h)"
    using g(4) same by (simp_all add: accepts_def localParticipant_def determineSenderDomain_def
        cong: if_cong option.case_cong)
  ultimately show ?thesis using g(1,2) by simp
qed

theorem accepted_header_witness:
  "inp (sampleConn (Encode sampleHeader @ [7])) = Encode sampleHeader @ [7] \<and> To sampleHeader \<noteq> []
   \<and> localParticipant sampleHost sampleHeader \<and> InitialResponseCode sampleHeader \<in> {11, 64, 65}"
  using accepted_header [OF readHeader_sample [of "[7]"]] by (simp add: sampleConn_def)

text \<open>
  C24. Adding recipients. An accepted header with \<open>add to\<close> recipients falls into one of two cases.
  Either its parent is held in full, is not terminal, is not newer than the message allows, has
  \<open>add to from\<close> among its original participants and has no such batch recorded: then the host
  takes over the parent's payload and answers 65 when one of the added recipients is local and 11
  otherwise. Or the parent is not held: then some recipient is local, and the answer is 64, to
  send everything.
\<close>

theorem addTo_outcome:
  assumes "readHeader H c = (Ok (Some h), d)" "AddTo h \<noteq> []"
  shows "(\<exists>i parent batchHash. heldParent H (Pid h) i parent
            \<and> \<not> hasFlag (Flags parent) FlagTerminal \<and> \<not> timeTravels H parent h
            \<and> isOriginalParticipant (ucd H) (Some parent) (AddToFrom h)
            \<and> messageHash h = Some batchHash \<and> addToBatchRecorded H i batchHash = Inr False
            \<and> Filepath h = Filepath parent
            \<and> InitialResponseCode h = (if localDomain H (AddTo h) then AcceptCodeSkipData else AcceptCodeAddTo))
      \<or> parentNotHeld H (Pid h) \<and> (localDomain H (AddTo h) \<or> localDomain H (To h))
         \<and> InitialResponseCode h = AcceptCodeContinue"
proof -
  from assms(1) obtain g where g: "accepts H (remoteHost c) g h" by (auto simp: readHeader_Some)
  with assms(2) accepts_frame(1) [OF g] have "addToAccepted H g h" by (simp add: accepts_def)
  then show ?thesis
    unfolding addToAccepted_def
  proof (elim disjE exE conjE)
    fix i parent batchHash h1
    assume held: "heldParent H (Pid g) i parent" and "\<not> hasFlag (Flags parent) FlagTerminal"
      "\<not> timeTravels H parent g" "isOriginalParticipant (ucd H) (Some parent) (AddToFrom g)"
      "addToBatchRecorded H i batchHash = Inr False"
      and m: "GetMessageHash (lib H) (files H) (withParent g parent) = Ok (batchHash, h1)"
      and h: "h = h1\<lparr>InitialResponseCode :=
        if localDomain H (AddTo g) then AcceptCodeSkipData else AcceptCodeAddTo\<rparr>"
    moreover have h1: "h1 = (withParent g parent)\<lparr>messageHash := Some batchHash\<rparr>"
      by (rule GetMessageHash_Ok(1) [OF m])
    ultimately show ?thesis by (auto simp: withParent_def timeTravels_def)
  qed auto
qed

theorem addTo_outcome_witness:
  "AddTo sampleAddTo' = [carol] \<and> InitialResponseCode sampleAddTo' = AcceptCodeSkipData
   \<and> \<not> parentNotHeld sampleStore (Pid sampleAddTo')"
proof -
  have a: "AddTo sampleAddTo' = [carol]" "InitialResponseCode sampleAddTo' = AcceptCodeSkipData"
    by (simp_all add: sampleAddTo'_def withParent_def sampleAddTo_def)
  with addTo_outcome [OF readHeader_sampleAddTo] have "\<not> parentNotHeld sampleStore (Pid sampleAddTo') \<or> False"
    using sampleStore_held
    by (auto simp: parentNotHeld_def heldParent_def sampleAddTo'_def withParent_def sampleAddTo_def)
  with a show ?thesis by simp
qed

text \<open>
  Replying. An accepted reply names a parent the host holds and can retrieve, by message hash
  or by the hash of a recorded add-to batch; its sender took part in that parent (as sender,
  recipient, added recipient or the one who added); the parent is not terminal; and the reply's
  timestamp does not precede the parent's by more than the configured tolerance.
\<close>

theorem reply_accepted:
  assumes "readHeader H c = (Ok (Some h), d)" "AddTo h = []" "hasFlag (Flags h) FlagHasPid"
  shows "\<exists>parent. replyParent H (Pid h) parent \<and> isMessageRetrievable H parent = Some True
     \<and> isParentParticipant (ucd H) (Some parent) (Some (From h))
     \<and> \<not> hasFlag (Flags parent) FlagTerminal \<and> \<not> timeTravels H parent h"
proof -
  from assms(1) obtain g where g: "accepts H (remoteHost c) g h" by (auto simp: readHeader_Some)
  with assms accepts_frame(1) [OF g] show ?thesis by (auto simp: accepts_def replyAccepted_def)
qed

theorem reply_accepted_witness:
  "\<exists>parent. replyParent sampleStore samplePid parent \<and> isMessageRetrievable sampleStore parent = Some True
     \<and> isParentParticipant (ucd sampleStore) (Some parent) (Some alice)"
  using reply_accepted [OF readHeader_sampleReply] sampleReply_checks
  by (auto simp: sampleReply_def sampleHeader_def)

text \<open>
  C38. The size limit. The running total of \<open>readAttachmentHeaders\<close> is a \<open>uint32\<close>, so what the
  check against the maximum size guarantees of an accepted header is that the exact sum of its
  declared sizes is within the maximum or at least 2^32.
\<close>

theorem accepted_size_bound:
  assumes "readHeader H c = (Ok (Some h), d)"
  shows "uint (Size h) + (\<Sum>a\<leftarrow>Attachments h. uint (aSize a)) \<le> uint (MaxMessageSize H)
       \<or> 2 ^ 32 \<le> uint (Size h) + (\<Sum>a\<leftarrow>Attachments h. uint (aSize a))"
proof -
  from assms obtain g where g: "wireOK H g" "accepts H (remoteHost c) g h" by (auto simp: readHeader_Some)
  from g(1) have "uint (wireTotal g) \<le> uint (MaxMessageSize H)"
    by (simp add: wireOK_def attachmentsOK_def word_le_def)
  moreover have "wireTotal h = wireTotal g" using accepts_sizes [OF g(2)] by (simp add: wireTotal_def)
  moreover have "uint (wireTotal h) = (uint (Size h) + (\<Sum>a\<leftarrow>Attachments h. uint (aSize a))) mod 2 ^ 32"
    by (simp add: wireTotal_def uint_word_ariths uint_sum_list mod_add_right_eq comp_def)
  moreover have "0 \<le> uint (Size h) + (\<Sum>a\<leftarrow>Attachments h. uint (aSize a))"
    by (intro add_nonneg_nonneg sum_list_nonneg) auto
  ultimately show ?thesis
    by (metis mod_pos_pos_trivial not_less)
qed

theorem accepted_size_bound_witness:
  "uint (Size sampleHeader) + (\<Sum>a\<leftarrow>Attachments sampleHeader. uint (aSize a)) \<le> uint (MaxMessageSize sampleHost)"
  using accepted_size_bound [OF readHeader_sample [of "[]"]]
  by (simp add: sampleHeader_def sampleHost_def emptyHeader_def)

text \<open>
  C39. The size limit can be passed by. A host with a maximum message size of 1000 bytes accepts,
  with the answer to send everything, a message that declares a body of 5 bytes and two
  attachments of 2^31 bytes each: the total of 4 GiB and 5 bytes is 5 as a \<open>uint32\<close>.
\<close>

theorem size_limit_bypassed:
  "uint (MaxMessageSize sampleHost) = 1000
   \<and> uint (Size sampleHuge) + (\<Sum>a\<leftarrow>Attachments sampleHuge. uint (aSize a)) = 2 ^ 32 + 5
   \<and> readHeader sampleHost (sampleConn (Encode sampleHuge))
      = (Ok (Some sampleHuge), consume (length (Encode sampleHuge)) (sampleConn (Encode sampleHuge)))
   \<and> InitialResponseCode sampleHuge = AcceptCodeContinue"
proof -
  have "accepts sampleHost (Some ''10.0.0.1'') sampleHuge sampleHuge"
    using sampleHeader_accepts
    by (simp add: accepts_def localParticipant_def sampleHuge_def determineSenderDomain_def hasFlag_def
        sampleHeader_def emptyHeader_def)
  then have "readHeader sampleHost (sampleConn (Encode sampleHuge))
      = (Ok (Some sampleHuge), consume (length (Encode sampleHuge)) (sampleConn (Encode sampleHuge)))"
    unfolding readHeader_Some using sampleHuge_wireOK by (auto simp: sampleConn_def)
  moreover have "uint (Size sampleHuge) + (\<Sum>a\<leftarrow>Attachments sampleHuge. uint (aSize a)) = 2 ^ 32 + 5"
    by code_simp
  ultimately show ?thesis
    by (simp add: sampleHuge_def sampleHeader_def emptyHeader_def sampleHost_def)
qed

text \<open>
  A timestamp that is not a number passes every time check: it is neither too old nor too far
  ahead, whatever the configured limits, and a reply that carries it never precedes its parent.
\<close>

theorem nan_timestamp_passes:
  assumes "inp c = le64 ts @ r" "f64_of_bits ts = NaN"
  shows "readAndValidateTimestamp H h c = (Ok (h\<lparr>Timestamp := ts\<rparr>), consume 8 c)
    \<and> \<not> timeTravels H parent (h\<lparr>Timestamp := ts\<rparr>)"
proof -
  have "f64_sub x NaN = NaN" "\<not> f64_less NaN x" "\<not> f64_less x NaN" for x by (cases x; simp)+
  then have "timeOK H ts" "\<not> timeTravels H parent (h\<lparr>Timestamp := ts\<rparr>)"
    using assms(2) by (simp_all add: timeOK_def timeTravels_def)
  with parsedD [OF parsed_readTimestamp assms(1)] show ?thesis by simp
qed

theorem nan_timestamp_passes_witness:
  "readAndValidateTimestamp sampleHost sampleHeader (sampleConn (le64 0x7FF8000000000000))
     = (Ok (sampleHeader\<lparr>Timestamp := 0x7FF8000000000000\<rparr>), consume 8 (sampleConn (le64 0x7FF8000000000000)))"
proof -
  have "f64_of_bits 0x7FF8000000000000 = NaN" by code_simp
  with nan_timestamp_passes [of "sampleConn (le64 0x7FF8000000000000)" _ "[]"] show ?thesis
    by (simp add: sampleConn_def)
qed

end
