(* ===== verification/Responses.thy ===== *)
theory Responses
  imports Acceptance
begin

text \<open>
  What the header exchange writes to the connection. A \<open>response_discipline\<close> is a set of response
  codes and says that a step either succeeds silently or fails having sent at most one of them; it
  is closed under sequencing, so the discipline of \<open>readHeader\<close> is that of its parts. A challenge
  is answered with a message hash or not at all.
\<close>

section \<open>Silent success, at most one code on failure\<close>

locale response_discipline =
  fixes codes :: "byte set"
begin

definition answers :: "'a res \<Rightarrow> bytes \<Rightarrow> bool" where
  "answers r w \<longleftrightarrow> w = [] \<or> (\<exists>code \<in> codes. w = [code]) \<and> (\<forall>x. r \<noteq> Ok x)"

definition disciplined :: "'a io \<Rightarrow> bool" where
  "disciplined m \<longleftrightarrow> writes answers m"

lemma disciplined_bind:
  "disciplined m \<Longrightarrow> (\<And>x. disciplined (k x)) \<Longrightarrow> disciplined (bindIO m k)"
  unfolding disciplined_def
  by (rule writes_bind [where P = answers], assumption) (auto simp: answers_def)

lemma disciplined_quiet: "quiet m \<Longrightarrow> disciplined m"
  unfolding disciplined_def by (erule writes_mono) (auto simp: answers_def)

lemma disciplined_ret: "disciplined (retIO x)"
  by (simp add: disciplined_def writes_ret answers_def)

lemma disciplined_fail: "disciplined (failIO e)"
  by (simp add: disciplined_def writes_fail answers_def)

lemma disciplined_lift: "disciplined (liftIO r)"
  by (simp add: disciplined_def writes_lift answers_def)

lemma disciplined_liftL: "disciplined (liftL r)"
  by (cases r) (simp_all add: liftL_def disciplined_ret disciplined_fail)

lemma Write_code:
  "\<exists>w. out (snd (Write [code] c)) = out c @ w \<and> (w = [] \<or> w = [code])
       \<and> (\<forall>x. fst (Write [code] c) \<noteq> Ok x \<or> w = [code])"
  by (cases "wfaults c") (auto simp: Write_def take_Cons' split: option.splits)

lemma disciplined_send: "code \<in> codes \<Longrightarrow> disciplined (bindIO (sendCode code) (\<lambda>_. failIO e))"
  unfolding disciplined_def writes_def
proof
  fix c assume code: "code \<in> codes"
  let ?r = "bindIO (sendCode code) (\<lambda>_. failIO e) c"
  obtain w where "out (snd (Write [code] c)) = out c @ w" "w = [] \<or> w = [code]"
    using Write_code by blast
  then have "out (snd ?r) = out c @ w \<and> (w = [] \<or> w = [code])"
    by (auto simp: sendCode_def rejectAccept_def bindIO_def failIO_def split: prod.splits res.splits)
  moreover have "fst ?r \<noteq> Ok x" for x
    by (auto simp: bindIO_def failIO_def split: prod.splits res.splits)
  ultimately show "\<exists>w. out (snd ?r) = out c @ w \<and> answers (fst ?r) w"
    using code unfolding answers_def by blast
qed

lemma disciplined_reject: "code \<in> codes \<Longrightarrow> disciplined (reject code msg)"
  unfolding reject_def by (rule disciplined_send)

lemma disciplined_if: "disciplined m \<Longrightarrow> disciplined n \<Longrightarrow> disciplined (if b then m else n)"
  by simp

lemma disciplined_option:
  "disciplined m \<Longrightarrow> (\<And>x. disciplined (k x)) \<Longrightarrow> disciplined (case y of None \<Rightarrow> m | Some x \<Rightarrow> k x)"
  by (cases y) simp_all

lemma disciplined_pair: "(\<And>x y. disciplined (k x y)) \<Longrightarrow> disciplined (case p of (x, y) \<Rightarrow> k x y)"
  by (cases p) simp

lemma disciplined_reads:
  "disciplined ReadByte" "disciplined (ReadFull n)" "disciplined (ReadAllLimit n)"
  "disciplined ReadUint32" "disciplined ReadFloat64"
  by (simp_all add: disciplined_quiet quiet_reads)

lemmas disciplined_intros =
  disciplined_bind disciplined_ret disciplined_fail disciplined_lift disciplined_liftL
  disciplined_if disciplined_option disciplined_pair disciplined_reads

end

section \<open>The codes of the header exchange\<close>

definition headerCodes :: "byte set" where
  "headerCodes = {RejectCodeInvalid, RejectCodeTooBig, RejectCodeParentNotFound, RejectCodePastTime,
     RejectCodeFutureTime, RejectCodeTimeTravel, RejectCodeDuplicate}"

interpretation hdr: response_discipline headerCodes .

lemma headerCodes_mem [simp]:
  "RejectCodeInvalid \<in> headerCodes" "RejectCodeTooBig \<in> headerCodes"
  "RejectCodeParentNotFound \<in> headerCodes" "RejectCodePastTime \<in> headerCodes"
  "RejectCodeFutureTime \<in> headerCodes" "RejectCodeTimeTravel \<in> headerCodes"
  "RejectCodeDuplicate \<in> headerCodes"
  by (simp_all add: headerCodes_def)

lemmas hdr_intros = hdr.disciplined_intros hdr.disciplined_reject headerCodes_mem

lemma disc_readAddress: "hdr.disciplined (readAddress H)"
  unfolding readAddress_def ReadUInt8Slice_def by (intro hdr_intros)

lemma disc_readAddToFrom: "hdr.disciplined (readAddToFrom H)"
proof -
  have q: "hdr.disciplined (bindIO (sendCode RejectCodeInvalid) (\<lambda>_. failIO e) :: Address io)" for e
    by (rule hdr.disciplined_send, rule headerCodes_mem)
  have quiet: "quiet (readAddress H)"
    unfolding readAddress_def ReadUInt8Slice_def
    by (intro writes_bind_quiet quiet_reads) (simp_all add: writes_lift)
  show ?thesis
    unfolding hdr.disciplined_def writes_def
  proof
    fix c
    obtain r d where rd: "readAddress H c = (r, d)" by fastforce
    then have "out d = out c" using quiet by (auto dest: writesD)
    then show "\<exists>w. out (snd (readAddToFrom H c)) = out c @ w \<and> hdr.answers (fst (readAddToFrom H c)) w"
      using rd q [unfolded hdr.disciplined_def writes_def, rule_format, of _ d]
      unfolding readAddToFrom_def by (cases r) (simp_all add: hdr.answers_def)
  qed
qed

lemma disc_readToLoop: "hdr.disciplined (readToLoop H n seen h)"
  by (induction n arbitrary: seen h)
    (auto simp: Let_def intro!: hdr_intros disc_readAddress)

lemma disc_readAddToLoop: "hdr.disciplined (readAddToLoop H n seen h)"
  by (induction n arbitrary: seen h)
    (auto simp: Let_def intro!: hdr_intros disc_readAddress simp del: RejectCodeInvalid_def)

lemma disc_readMediaType: "hdr.disciplined (readMediaType common)"
  unfolding readMediaType_def ReadUInt8Slice_def by (intro hdr_intros)

lemma disc_readAttachment: "hdr.disciplined (readAttachment H seen)"
  unfolding readAttachment_def Let_def readAttachmentType_def validateAttachmentFlags_def ReadUInt8Slice_def
  by (intro hdr_intros disc_readMediaType)

lemma disc_readAttachmentLoop: "hdr.disciplined (readAttachmentLoop H n seen t x h)"
  by (induction n arbitrary: seen t x h) (auto intro!: hdr_intros disc_readAttachment)

lemma disc_readHeaderFields: "hdr.disciplined (readHeaderFields H h)"
  unfolding readHeaderFields_def validateMessageFlags_def readPid_def readToRecipients_def
    readAddToRecipients_def readAndValidateTimestamp_def readTopic_def readMessageType_def
    readSizes_def readAttachmentHeaders_def ReadUInt8Slice_def Let_def
  by (intro hdr_intros disc_readAddress disc_readToLoop disc_readAddToLoop disc_readAddToFrom
      disc_readMediaType disc_readAttachmentLoop)

lemma quiet_verifySenderIP: "quiet (verifySenderIP H s)"
  by (simp add: writes_def verifySenderIP_def retIO_def failIO_def split: option.splits sum.splits)

lemma disc_acceptHeader: "hdr.disciplined (acceptHeader H h)"
  unfolding acceptHeader_def checkLocalParticipant_def handleAddToPath_def addToHeldParent_def
    handleAddToParentNotStored_def validatePidReplyPath_def retrievableIO_def Let_def
  by (intro hdr_intros hdr.disciplined_quiet quiet_verifySenderIP)

section \<open>Challenges\<close>

lemma handleChallenge_run:
  assumes "length hs = 32" "inp c = hs @ r"
  shows "handleChallenge H c =
    (case lookupOutgoing H hs (case remoteHost c of Some s \<Rightarrow> s | None \<Rightarrow> []) of
       None \<Rightarrow> failIO (Errorf ''challenge for unknown message'') (consume 32 c)
     | Some header \<Rightarrow>
         bindIO (liftIO (GetMessageHash (lib H) (files H) header)) (\<lambda>(msgHash, _). Write msgHash)
           (consume 32 c))"
  using assms by (simp add: handleChallenge_def bindIO_run [OF ReadAllLimit_run] Let_def)

lemma handleChallenge_short:
  assumes "length (inp c) < 32" "inp_end c = EOF"
  shows "handleChallenge H c = (Panic, consume (length (inp c)) c)"
  using assms by (simp add: handleChallenge_def bindIO_def ReadAllLimit_def)

lemma handleChallenge_cut:
  assumes "length (inp c) < 32" "inp_end c \<noteq> EOF"
  shows "handleChallenge H c = (Err (inp_end c), consume (length (inp c)) c)"
  using assms by (simp add: handleChallenge_def bindIO_def ReadAllLimit_def)

section \<open>Theorems\<close>

lemma readHeader_writes:
  assumes "readHeader H c = (r, d)" "inp c \<noteq> []" "hd (inp c) < 129"
  shows "\<exists>w. out d = out c @ w
    \<and> (w = [] \<or> (\<exists>code \<in> {1, 4, 6, 7, 8, 9, 10}. w = [code]) \<and> (\<forall>x. r \<noteq> Ok x))"
proof -
  let ?e = "emptyHeader\<lparr>InitialResponseCode := AcceptCodeContinue\<rparr>"
  obtain v rest where c: "inp c = v # rest" "v < 129" using assms(2,3) by (cases "inp c") auto
  have run: "readHeader H c =
     (if v \<noteq> 1 then (Err (Errorf ''unsupported message version''), consume 1 c)
      else bindIO (readHeaderFields H header0) (acceptHeader H) (consume 1 c))"
    using c not_le [of 129 v]
    by (cases "v = 1") (simp_all add: readHeader_def readVersionOrChallenge_def bindIO_assoc
        bindIO_run [OF ReadByte_run] header0_def failIO_def)
  have "hdr.disciplined (bindIO (readHeaderFields H header0) (acceptHeader H))"
    by (intro hdr.disciplined_bind disc_readHeaderFields disc_acceptHeader)
  then obtain w where
    "out (snd (bindIO (readHeaderFields H header0) (acceptHeader H) (consume 1 c))) = out c @ w"
    "hdr.answers (fst (bindIO (readHeaderFields H header0) (acceptHeader H) (consume 1 c))) w"
    unfolding hdr.disciplined_def writes_def by (metis consume_fields(3))
  then have "\<exists>w. out (snd (readHeader H c)) = out c @ w \<and> hdr.answers (fst (readHeader H c)) w"
    using run by (auto simp: hdr.answers_def split: if_splits)
  then show ?thesis
    using assms(1) unfolding hdr.answers_def by (simp add: headerCodes_def)
qed

text \<open>
  C25. Responses of the header exchange. On a connection that does not open with a challenge,
  whatever the peer sends and however the writes fail, \<open>readHeader\<close> writes nothing when it
  accepts, and at most one byte otherwise: one of the codes 1, 4, 6, 7, 8, 9 and 10.
\<close>

theorem readHeader_responds:
  assumes "readHeader H c = (r, d)" "inp c \<noteq> []" "hd (inp c) < 129"
  shows "\<exists>w. out d = out c @ w
    \<and> (w = [] \<or> (\<exists>code \<in> {1, 4, 6, 7, 8, 9, 10}. w = [code]) \<and> (\<forall>x. r \<noteq> Ok x))"
  using assms by (rule readHeader_writes)

theorem readHeader_responds_witness:
  "\<exists>w. out (snd (readHeader sampleHost (sampleConn [1, 128]))) = out (sampleConn [1, 128]) @ w
    \<and> (w = [] \<or> (\<exists>code \<in> {1, 4, 6, 7, 8, 9, 10}. w = [code])
         \<and> (\<forall>x. fst (readHeader sampleHost (sampleConn [1, 128])) \<noteq> Ok x))"
proof (rule readHeader_responds [OF surjective_pairing])
  show "hd (inp (sampleConn [1, 128])) < 129" by code_simp
qed (simp add: sampleConn_def)

text \<open>
  Challenges. A challenge of 32 bytes is answered only when those bytes are the header hash of
  a message registered as outgoing to the challenger's address, and the answer is that message's
  hash; on every other input, short ones included, nothing is written.
\<close>

theorem handleChallenge_answer:
  assumes "handleChallenge H c = (r, d)" "out d \<noteq> out c"
  shows "\<exists>hs rest h msgHash h' k. length hs = 32 \<and> inp c = hs @ rest
     \<and> lookupOutgoing H hs (case remoteHost c of Some s \<Rightarrow> s | None \<Rightarrow> []) = Some h
     \<and> GetMessageHash (lib H) (files H) h = Ok (msgHash, h')
     \<and> out d = out c @ take k msgHash \<and> (r = Ok () \<longrightarrow> out d = out c @ msgHash)"
proof (cases "length (inp c) < 32")
  case True
  then have "out d = out c"
    using assms(1) handleChallenge_short [OF True] handleChallenge_cut [OF True]
    by (cases "inp_end c = EOF") auto
  with assms(2) show ?thesis by simp
next
  case False
  define hs rest where "hs = take 32 (inp c)" and "rest = drop 32 (inp c)"
  then have i: "length hs = 32" "inp c = hs @ rest" using False by simp_all
  note run = handleChallenge_run [OF i]
  let ?ip = "case remoteHost c of Some s \<Rightarrow> s | None \<Rightarrow> []"
  obtain h where h: "lookupOutgoing H hs ?ip = Some h"
    using assms run by (cases "lookupOutgoing H hs ?ip") auto
  obtain msgHash h' where m: "GetMessageHash (lib H) (files H) h = Ok (msgHash, h')"
    using assms run h by (cases "GetMessageHash (lib H) (files H) h") (auto simp: bindIO_def liftIO_def)
  have w: "Write msgHash (consume 32 c) = (r, d)" using assms(1) run h m by simp
  then have "\<exists>k. out d = out c @ take k msgHash \<and> (r = Ok () \<longrightarrow> out d = out c @ msgHash)"
    by (auto simp: Write_def split: list.splits option.splits
        intro: exI [of _ "length msgHash"])
  with i h m show ?thesis by blast
qed

text \<open>A host with one outgoing message, and a challenge for it from the peer it is being sent to.\<close>

definition sampleSender :: host where
  "sampleSender = sampleStore\<lparr>lookupOutgoing := (\<lambda>hs ip.
     if hs = samplePid \<and> ip = ''10.0.0.1'' then Some sampleParent else None)\<rparr>"

lemma sampleSender_hash:
  "GetMessageHash (lib sampleSender) (files sampleSender) sampleParent
     = Ok (sha256 sampleLib (Encode sampleParent @ [1, 2, 3, 4, 5]),
           sampleParent\<lparr>messageHash := Some (sha256 sampleLib (Encode sampleParent @ [1, 2, 3, 4, 5]))\<rparr>)"
  by (simp add: GetMessageHash_def messageBytes_def HashPayload_def readFile_def copyN_def hasFlag_def Let_def
      sampleSender_def sampleStore_def sampleHost_def sampleParent_def sampleHeader_def emptyHeader_def)

lemma sampleSender_run:
  "handleChallenge sampleSender (sampleConn samplePid) =
     Write (sha256 sampleLib (Encode sampleParent @ [1, 2, 3, 4, 5])) (consume 32 (sampleConn samplePid))"
proof -
  have "lookupOutgoing sampleSender samplePid
      (case remoteHost (sampleConn samplePid) of Some s \<Rightarrow> s | None \<Rightarrow> []) = Some sampleParent"
    by (simp add: sampleSender_def sampleConn_def)
  then show ?thesis
    using handleChallenge_run [of samplePid "sampleConn samplePid" "[]" sampleSender] sampleSender_hash
    by (simp add: samplePid_def) (simp add: sampleConn_def)
qed

theorem handleChallenge_answer_witness:
  "\<exists>hs rest h msgHash h' k. length hs = 32 \<and> inp (sampleConn samplePid) = hs @ rest
     \<and> lookupOutgoing sampleSender hs
         (case remoteHost (sampleConn samplePid) of Some s \<Rightarrow> s | None \<Rightarrow> []) = Some h
     \<and> GetMessageHash (lib sampleSender) (files sampleSender) h = Ok (msgHash, h')
     \<and> out (snd (handleChallenge sampleSender (sampleConn samplePid)))
         = out (sampleConn samplePid) @ take k msgHash
     \<and> (fst (handleChallenge sampleSender (sampleConn samplePid)) = Ok () \<longrightarrow>
        out (snd (handleChallenge sampleSender (sampleConn samplePid)))
         = out (sampleConn samplePid) @ msgHash)"
proof (rule handleChallenge_answer [OF surjective_pairing])
  have "sha256 sampleLib (Encode sampleParent @ [1, 2, 3, 4, 5]) \<noteq> []" by (simp add: sampleLib_def)
  then show "out (snd (handleChallenge sampleSender (sampleConn samplePid))) \<noteq> out (sampleConn samplePid)"
    unfolding sampleSender_run by (simp add: Write_def sampleConn_def)
qed

lemma readHeader_short_challenge:
  assumes "inp c = 255 # hs" "length hs < 32" "inp_end c = EOF"
  shows "readHeader H c = (Panic, consume (Suc (length hs)) c)"
proof -
  have "(129 :: byte) \<le> 255" "256 - unat (255 :: byte) = 1" by (simp_all add: word_le_nat_alt)
  then show ?thesis
    using assms handleChallenge_short [of "consume 1 c" H]
    by (simp add: readHeader_def readVersionOrChallenge_def bindIO_assoc bindIO_run [OF ReadByte_run])
      (simp add: bindIO_def)
qed

text \<open>
  A challenge that ends before its 32nd byte makes the handler panic, whatever messages are
  outgoing: the conversion of the short slice to an array of 32 bytes is not guarded.
\<close>

theorem short_challenge_panics:
  assumes "inp c = 255 # hs" "length hs < 32" "inp_end c = EOF"
  shows "readHeader H c = (Panic, consume (Suc (length hs)) c)"
  using assms by (rule readHeader_short_challenge)

theorem short_challenge_panics_witness:
  "readHeader sampleSender (sampleConn [255, 9, 9]) = (Panic, consume 3 (sampleConn [255, 9, 9]))"
  using short_challenge_panics [of "sampleConn [255, 9, 9]" "[9, 9]" sampleSender]
  by (simp add: sampleConn_def)

end
