(* ===== verification/Receive.thy ===== *)
theory Receive
  imports TempFiles Responses Limiters
begin

text \<open>
  A whole incoming connection (\<open>src/cmd/fmsgd/host.go\<close>, \<open>handleConn\<close>): the header exchange on the
  message store as it is, the challenge over a second connection, the response code of SPEC 10.4,
  and the download. Also the configuration values these depend on.
\<close>

section \<open>Configuration values\<close>

text \<open>\<open>strings.TrimSpace\<close> and \<open>strings.ToUpper\<close> of ASCII text; a value of the variable with other runes
  is outside the model.\<close>

definition asciiSpace :: "char \<Rightarrow> bool" where
  "asciiSpace c \<longleftrightarrow> c = CHR '' '' \<or> (9 \<le> (of_char c :: nat) \<and> (of_char c :: nat) \<le> 13)"

definition TrimSpaceASCII :: "string \<Rightarrow> string" where
  "TrimSpaceASCII s = rev (dropWhile asciiSpace (rev (dropWhile asciiSpace s)))"

definition upperASCII :: "char \<Rightarrow> char" where
  "upperASCII c = (let n = of_char c :: nat in if 97 \<le> n \<and> n \<le> 122 then char_of (n - 32) else c)"

definition ToUpperASCII :: "string \<Rightarrow> string" where
  "ToUpperASCII s = map upperASCII s"

definition parseChallengeMode :: "string \<Rightarrow> string res" where
  "parseChallengeMode s =
     (let m = ToUpperASCII (TrimSpaceASCII s)
      in if m \<in> set ['''', ''HAS_NOT_PARTICIPATED'', ''HAVE_NOT_PARTICIPATED''] then Ok ''HAS_NOT_PARTICIPATED''
         else if m = ''ALWAYS'' then Ok ''ALWAYS''
         else if m = ''NEVER'' then Ok ''NEVER''
         else Err (Errorf ''invalid FMSG_CHALLENGE_MODE''))"

definition responseCodeName :: "byte \<Rightarrow> string" where
  "responseCodeName code =
     (case map_of [(RejectCodeInvalid, ''invalid''), (RejectCodeUndisclosed, ''undisclosed''), (RejectCodeTooBig, ''too big''),
        (RejectCodeInsufficentResources, ''insufficient resources''), (RejectCodeParentNotFound, ''parent not found''),
        (RejectCodePastTime, ''past time''), (RejectCodeFutureTime, ''future time''), (RejectCodeTimeTravel, ''time travel''),
        (RejectCodeDuplicate, ''duplicate''), (AcceptCodeAddTo, ''accept add to''), (RejectCodeUserUnknown, ''user unknown''),
        (RejectCodeUserFull, ''user full''), (RejectCodeUserNotAccepting, ''user not accepting''),
        (RejectCodeUserDuplicate, ''user duplicate''), (RejectCodeUserUndisclosed, ''user undisclosed''),
        (RejectCodeAccept, ''accept'')] code of
        Some n \<Rightarrow> n
      | None \<Rightarrow> ''unknown('' @ decimal (unat code) @ '')'')"

definition MinNetIODeadline :: duration where [simp]: "MinNetIODeadline = 6 * second"

text \<open>\<open>overflow\<close> stands for the conversion of a duration that does not fit.\<close>

definition calcNetIODuration :: "duration \<Rightarrow> int \<Rightarrow> f64 \<Rightarrow> duration" where
  "calcNetIODuration overflow sizeInBytes bytesPerSecond =
     (let rate = f64_div (f64_int sizeInBytes) bytesPerSecond;
          d = toDuration overflow (f64_mul rate (f64_int second))
      in if d < MinNetIODeadline then MinNetIODeadline else d)"

section \<open>The challenge\<close>

text \<open>
  \<open>dialPeer\<close>: a TLS connection to an address under a server name, as it will behave, and whether
  closing it succeeds. \<open>wConn2\<close> keeps the second connection as it was left.
\<close>

record server = receiver +
  dialPeer :: "string \<Rightarrow> string \<Rightarrow> (conn \<times> bool) lookup"

record session = world +
  wConn2 :: "conn option"

type_synonym 'a sess = "(session, 'a) st"

definition receiverOf :: "server \<Rightarrow> receiver" where
  "receiverOf S = receiver.truncate S"

text \<open>The host as the header exchange sees it: its lookups answer from the store at that moment.\<close>

definition asLookup :: "'a res \<Rightarrow> 'a lookup" where
  "asLookup r = (case r of Ok x \<Rightarrow> Inr x | Err e \<Rightarrow> Inl e | Panic \<Rightarrow> Inl StoreErr | Diverge \<Rightarrow> Inl StoreErr)"

definition hostAt :: "server \<Rightarrow> session \<Rightarrow> host" where
  "hostAt S w =
     (let E = storeEnvOf (receiverOf S); fs = ents (wDisk w); s = wDb w
      in host.truncate S
        \<lparr>files := fs,
         lookupMsgIdByHash := (\<lambda>h. asLookup (fst (lookupMsgIdByHashDb h s))),
         getMsgByID := (\<lambda>i. asLookup (fst (getMsgByIDDb E fs i s))),
         getMsgByBatchHash := (\<lambda>h. asLookup (fst (getMsgByBatchHashDb E fs h s))),
         addToBatchRecorded := (\<lambda>i h. asLookup (fst (addToBatchRecordedDb i h s)))\<rparr>)"

definition shouldChallenge :: "server \<Rightarrow> Header \<Rightarrow> bool sess" where
  "shouldChallenge S h =
     (if challengeMode S = ''NEVER'' then retIO False
      else if challengeMode S = ''ALWAYS'' then retIO True
      else if challengeMode S = ''HAS_NOT_PARTICIPATED'' then
        (if \<not> hasFlag (Flags h) FlagHasPid \<or> length (Pid h) = 0 then retIO True
         else bindIO (onDb (threadHasFromDomain (uni (lib S)) (Pid h) (hostDomain S))) (\<lambda>participated.
              retIO (\<not> participated)))
      else failIO (Errorf ''unknown challenge mode''))"

definition challengeOn :: "bytes \<Rightarrow> bytes io" where
  "challengeOn hash =
     bindIO (Write [255]) (\<lambda>_.
     bindIO (Write hash) (\<lambda>_.
     bindIO (ReadAllLimit 32) (\<lambda>resp.
       if length resp \<noteq> 32 then failIO (Errorf ''challenge response size'') else retIO resp)))"

definition challenge :: "server \<Rightarrow> Header \<Rightarrow> string \<Rightarrow> Header sess" where
  "challenge S h senderDomain =
     bindIO (getS (\<lambda>w. remoteHost (wConn w))) (\<lambda>remote.
       case remote of
         None \<Rightarrow> failIO (Errorf ''failed to parse remote address for challenge'')
       | Some ip \<Rightarrow>
           (case dialPeer S ip (''fmsg.'' @ senderDomain) of
              Inl e \<Rightarrow> failIO e
            | Inr (conn2, closes) \<Rightarrow>
                let (hash, h1) = GetHeaderHash (lib S) h;
                    (r, c2) = challengeOn hash conn2
                in bindIO (modS (\<lambda>w. w\<lparr>wConn2 := Some c2\<rparr>)) (\<lambda>_.
                   bindIO (liftIO r) (\<lambda>resp.
                     if \<not> closes then failIO NetErr
                     else retIO (h1\<lparr>ChallengeHash := resp, ChallengeCompleted := True\<rparr>)))))"

section \<open>The connection\<close>

definition resolvePostChallengeCode :: "byte \<Rightarrow> bool \<Rightarrow> bool \<Rightarrow> byte" where
  "resolvePostChallengeCode initialCode challengeCompleted allLocalDup =
     (if initialCode = AcceptCodeAddTo then AcceptCodeAddTo
      else if challengeCompleted \<and> allLocalDup then RejectCodeDuplicate
      else if initialCode = AcceptCodeSkipData then AcceptCodeSkipData
      else AcceptCodeContinue)"

text \<open>How the connection was ended: closed, reset (\<open>abortConn\<close>), or not at all, after a recovered panic.\<close>

datatype connEnd = Closed | Aborted | LeftOpen

definition closedWithoutData :: "conn \<Rightarrow> err \<Rightarrow> bool" where
  "closedWithoutData c e \<longleftrightarrow> nread c = 0 \<and> (e = EOF \<or> e = ECONNRESET)"

definition sendThen :: "byte \<Rightarrow> connEnd sess \<Rightarrow> connEnd sess" where
  "sendThen code k =
     bindIO (tryIO (onConn (sendCode code))) (\<lambda>r. case r of Inl _ \<Rightarrow> retIO Aborted | Inr _ \<Rightarrow> k)"

definition onWorld :: "(world, 'a) st \<Rightarrow> 'a sess" where
  "onWorld m w = (case m (world.truncate w) of (r, v) \<Rightarrow> (r, world.extend v (world.more w)))"

definition downloadThenClose :: "server \<Rightarrow> Header \<Rightarrow> bool \<Rightarrow> connEnd sess" where
  "downloadThenClose S h skipData =
     bindIO (tryIO (onWorld (downloadMessage (receiverOf S) h skipData))) (\<lambda>r.
       case r of Inl _ \<Rightarrow> retIO Aborted | Inr _ \<Rightarrow> retIO Closed)"

definition respond :: "server \<Rightarrow> Header \<Rightarrow> byte \<Rightarrow> connEnd sess" where
  "respond S h code =
     (if code = AcceptCodeAddTo then
        bindIO (getS (\<lambda>w. ents (wDisk w))) (\<lambda>fs.
        bindIO (tryIO (onDb (storeMsgHeaderOnly (storeEnvOf (receiverOf S)) fs (storeClock S) h))) (\<lambda>r.
          case r of
            Inl _ \<Rightarrow> sendThen RejectCodeUndisclosed (retIO Closed)
          | Inr _ \<Rightarrow> sendThen AcceptCodeAddTo (retIO Closed)))
      else if code = RejectCodeDuplicate then
        bindIO (ignoreErr (onConn (sendCode RejectCodeDuplicate))) (\<lambda>_. retIO Closed)
      else if code = AcceptCodeSkipData then sendThen AcceptCodeSkipData (downloadThenClose S h True)
      else sendThen AcceptCodeContinue (downloadThenClose S h False))"

text \<open>The identity the recipients' duplicates are looked up by: the parent's for an added recipient.\<close>

definition dupHashOf :: "Header \<Rightarrow> bytes" where
  "dupHashOf h = (if hasFlag (Flags h) FlagHasAddTo then Pid h else ChallengeHash h)"

definition dupCheck :: "server \<Rightarrow> Header \<Rightarrow> (err + bool) sess" where
  "dupCheck S h =
     (if ChallengeCompleted h \<and> InitialResponseCode h \<noteq> AcceptCodeAddTo
      then tryIO (allLocalRecipientsHaveMessageHash (receiverOf S) (dupHashOf h)
             (fst (localRecipients (uni (lib S)) (hostDomain S) h)))
      else retIO (Inr False))"

definition afterHeader :: "server \<Rightarrow> Header \<Rightarrow> connEnd sess" where
  "afterHeader S h =
     bindIO (tryIO (shouldChallenge S h)) (\<lambda>d. case d of
       Inl _ \<Rightarrow> retIO Aborted
     | Inr doChallenge \<Rightarrow>
         bindIO (if doChallenge then tryIO (challenge S h (determineSenderDomain h)) else retIO (Inr h)) (\<lambda>r. case r of
           Inl _ \<Rightarrow> retIO Aborted
         | Inr h1 \<Rightarrow>
             bindIO (dupCheck S h1) (\<lambda>dup. case dup of
               Inl _ \<Rightarrow> sendThen RejectCodeUndisclosed (retIO Closed)
             | Inr allLocalDup \<Rightarrow>
                 respond S h1 (resolvePostChallengeCode (InitialResponseCode h1) (ChallengeCompleted h1) allLocalDup))))"

definition handleBody :: "server \<Rightarrow> connEnd sess" where
  "handleBody S =
     bindIO (getS (hostAt S)) (\<lambda>H.
     bindIO (tryIO (onConn (readHeader H))) (\<lambda>r. case r of
       Inl e \<Rightarrow>
         bindIO (getS wConn) (\<lambda>c.
           if closedWithoutData c e then retIO Aborted
           else if wroteResponse c then retIO Closed else retIO Aborted)
     | Inr None \<Rightarrow> retIO Closed
     | Inr (Some header) \<Rightarrow> afterHeader S header))"

text \<open>A panic is recovered from; the connection is then neither closed nor reset.\<close>

definition handleConn :: "server \<Rightarrow> connEnd sess" where
  "handleConn S w = (case handleBody S w of (Panic, w') \<Rightarrow> (Ok LeftOpen, w') | r \<Rightarrow> r)"

end
