(* ===== verification/ReceiveProps.thy ===== *)
theory ReceiveProps
  imports Receive
begin

text \<open>
  What a whole connection does: the bytes its peer gets, what it may leave in the store, and how it
  ends.
\<close>

section \<open>Steps that write nothing\<close>

definition mute :: "session \<Rightarrow> session \<Rightarrow> bool" where
  "mute w w' \<longleftrightarrow> wConn w' = wConn w \<and> reads (wDb w) (wDb w') \<and> wDisk w' = wDisk w"

interpretation mt: step_relation mute
  by unfold_locales (auto simp: mute_def intro: rd.rel_trans)

lemma mt_onDb: "rd.keep m \<Longrightarrow> mt.keep (onDb m)"
  by (rule mt.keepI) (auto simp: onDb_def mute_def split: prod.split dest: rd.keepD)

lemmas mt_intros = mt.keep_intros mt_onDb rd_hasAddr rd_lookups

lemma mt_shouldChallenge: "mt.keep (shouldChallenge S h)"
  unfolding shouldChallenge_def by (intro mt_intros)

lemma mt_challenge: "mt.keep (challenge S h d)"
  unfolding challenge_def Let_def by (intro mt_intros mt.keep_mod) (simp add: mute_def)

lemma mt_allHaveHash: "mt.keep (allHaveHash R x as)"
  by (induction as) (auto intro!: mt_intros)

lemma mt_dupCheck: "mt.keep (dupCheck S h)"
  unfolding dupCheck_def allLocalRecipientsHaveMessageHash_def by (intro mt_intros mt_allHaveHash)

lemma challenge_Ok:
  assumes "challenge S h d w = (Ok h1, w')"
  shows "\<exists>resp hash. h1 = h\<lparr>HeaderHash := hash, ChallengeHash := resp, ChallengeCompleted := True\<rparr> \<and> length resp = 32"
proof -
  from assms obtain c2 x y resp where h1: "h1 = (snd (GetHeaderHash (lib S) h))\<lparr>ChallengeHash := resp, ChallengeCompleted := True\<rparr>"
    and r: "challengeOn x c2 = (Ok resp, y)"
    unfolding challenge_def Let_def
    by (auto elim!: bindIO_OkE split: option.splits sum.splits prod.splits if_splits)
  from r have "length resp = 32" by (auto simp: challengeOn_def elim!: bindIO_OkE split: if_splits)
  moreover have "snd (GetHeaderHash (lib S) h) = h\<lparr>HeaderHash := HeaderHash (snd (GetHeaderHash (lib S) h))\<rparr>"
    by (simp add: GetHeaderHash_def Let_def split: option.split)
  ultimately show ?thesis using h1 by metis
qed

section \<open>Downloads in a session\<close>

lemma onWorld_Ok: "onWorld m w = (r, w') \<longleftrightarrow> (\<exists>v. m (world.truncate w) = (r, v) \<and> w' = world.extend v (world.more w))"
  by (auto simp: onWorld_def split: prod.splits)

lemma truncate_fields [simp]: "wConn (world.truncate w) = wConn w" "wDb (world.truncate w) = wDb w" "wDisk (world.truncate w) = wDisk w"
  "wConn (world.extend v m) = wConn v" "wDb (world.extend v m) = wDb v" "wDisk (world.extend v m) = wDisk v"
  by (simp_all add: world.defs)

lemma receiverOf_fields [simp]: "lib (receiverOf S) = lib S" "hostDomain (receiverOf S) = hostDomain S"
  by (simp_all add: receiverOf_def receiver.defs)

lemma storedOutcome_tabs:
  assumes "storedOutcome R addrs codes h s s'" "wfTables (tabs s) (seq s)" "AckLost \<notin> set (dbfaults s)"
    and "RejectCodeAccept \<notin> set codes"
  shows "tabs s' = tabs s"
proof -
  from assms(1) obtain h' t fs where t: "reads s t"
    and "if RejectCodeAccept \<in> set codes
       then storeMsgDetail (storeEnvOf R) fs (storeClock R) h' (localOutcomeOf R addrs codes) t = (Ok (), s')
       else s' = t \<or> (\<exists>lo e. storeMsgDetail (storeEnvOf R) fs (storeClock R) h' lo t = (Err e, s'))"
    unfolding storedOutcome_def by blast
  then have st: "s' = t \<or> (\<exists>lo e. storeMsgDetail (storeEnvOf R) fs (storeClock R) h' lo t = (Err e, s'))"
    using assms(4) by simp
  have "wfTables (tabs t) (seq t)" "AckLost \<notin> set (dbfaults t)" "tabs t = tabs s"
    using t assms(2,3) by (auto simp: reads_def)
  with st show ?thesis using wfTransaction_atomic [OF wf_storeMsgDetail] by fastforce
qed

lemma downloadMessage_codes:
  assumes "downloadMessage R h skip w = (Ok u, w')"
  shows "\<exists>codes. length codes = length (fst (localRecipients (uni (lib R)) (hostDomain R) h))
    \<and> set codes \<subseteq> recipientCodes \<and> out (wConn w') = out (wConn w) @ codes
    \<and> (wfTables (tabs (wDb w)) (seq (wDb w)) \<and> AckLost \<notin> set (dbfaults (wDb w)) \<and> RejectCodeAccept \<notin> set codes
         \<longrightarrow> tabs (wDb w') = tabs (wDb w))"
proof -
  define w0 where "w0 = world.extend w (download.fields h [] [] [] [] [] False)"
  obtain x where x: "downloadBody R skip w0 = (Ok u, x)" and w': "w' = world.truncate x"
    using assms by (auto simp: downloadMessage_def w0_def split: prod.splits)
  have l0: "lHeader w0 = h" "wConn w0 = wConn w" "wDb w0 = wDb w" "lCodes w0 = []" "lAcceptedTo w0 = []" "lAcceptedAddTo w0 = []"
    by (simp_all add: w0_def download.defs world.defs)
  have "wConn w' = wConn x" "wDb w' = wDb x" by (simp_all add: w')
  with downloadBody_Ok [OF x l0(4-6)] show ?thesis unfolding l0 using storedOutcome_tabs by metis
qed

section \<open>The conversation\<close>

lemma sendCode_Ok: "onConn (sendCode c) w = (Ok u, w') \<Longrightarrow>
    out (wConn w') = out (wConn w) @ [c] \<and> wDb w' = wDb w \<and> wDisk w' = wDisk w"
  unfolding sendCode_def by (rule rejectAccept_Ok)

lemma sendThen_Closed:
  assumes "sendThen c k w = (Ok Closed, w')"
  shows "\<exists>v. out (wConn v) = out (wConn w) @ [c] \<and> wDb v = wDb w \<and> wDisk v = wDisk w \<and> k v = (Ok Closed, w')"
  using assms unfolding sendThen_def
  by (auto elim!: bindIO_OkE simp: tryIO_Ok dest!: sendCode_Ok split: sum.splits)

lemma downloadThenClose_Closed:
  assumes "downloadThenClose S h skip w = (Ok Closed, w')"
  shows "\<exists>v. downloadMessage (receiverOf S) h skip (world.truncate w) = (Ok (), v) \<and> wConn w' = wConn v \<and> wDb w' = wDb v"
  using assms unfolding downloadThenClose_def
  by (auto elim!: bindIO_OkE simp: tryIO_Ok onWorld_Ok split: sum.splits)

lemma ignore_sendCode: "\<exists>ws. out (wConn (snd (ignoreErr (onConn (sendCode c)) w))) = out (wConn w) @ ws \<and> (ws = [] \<or> ws = [c])"
  by (auto simp: onConn_def sendCode_def rejectAccept_def Write_def take_Cons' split: list.splits option.splits)

text \<open>The answers of a connection that is closed in order.\<close>

definition conversation :: "server \<Rightarrow> Header \<Rightarrow> bytes \<Rightarrow> bool" where
  "conversation S h ws \<longleftrightarrow>
     (\<forall>c \<in> set (take 1 ws). c \<in> {AcceptCodeAddTo, AcceptCodeSkipData} \<longrightarrow> InitialResponseCode h = c) \<and> (ws = [] \<or> (\<exists>c \<in> {RejectCodeUndisclosed, RejectCodeDuplicate, AcceptCodeAddTo}. ws = [c])
     \<or> (\<exists>c codes. c \<in> {AcceptCodeContinue, AcceptCodeSkipData} \<and> ws = c # codes \<and> set codes \<subseteq> recipientCodes
          \<and> length codes = length (fst (localRecipients (uni (lib S)) (hostDomain S) h))))"

text \<open>
  Whether the peer was told that the message, or the recipients it adds, are in the store; unless it was, no
  table is to have changed.
\<close>

definition toldStored :: "bytes \<Rightarrow> bool" where
  "toldStored ws \<longleftrightarrow> ws = [AcceptCodeAddTo] \<or> RejectCodeAccept \<in> set (drop 1 ws)"

definition honest :: "session \<Rightarrow> session \<Rightarrow> bytes \<Rightarrow> bool" where
  "honest w w' ws \<longleftrightarrow> (wfTables (tabs (wDb w)) (seq (wDb w)) \<and> AckLost \<notin> set (dbfaults (wDb w)) \<and> \<not> toldStored ws
     \<longrightarrow> tabs (wDb w') = tabs (wDb w))"

lemma honest_same: "tabs (wDb w') = tabs (wDb w) \<Longrightarrow> honest w w' ws"
  by (simp add: honest_def)

lemma honest_mute: "mute w v \<Longrightarrow> honest v w' ws \<Longrightarrow> honest w w' ws"
  by (auto simp: honest_def mute_def reads_def)

lemma respond_download:
  assumes "sendThen c (downloadThenClose S h skip) w = (Ok Closed, w')" "c \<in> {AcceptCodeContinue, AcceptCodeSkipData}"
    and "c = AcceptCodeSkipData \<Longrightarrow> InitialResponseCode h = c"
  shows "\<exists>ws. out (wConn w') = out (wConn w) @ ws \<and> conversation S h ws \<and> honest w w' ws"
proof -
  from sendThen_Closed [OF assms(1)] obtain v where v: "out (wConn v) = out (wConn w) @ [c]" "wDb v = wDb w"
    and k: "downloadThenClose S h skip v = (Ok Closed, w')" by blast
  from downloadThenClose_Closed [OF k] obtain x where x: "downloadMessage (receiverOf S) h skip (world.truncate v) = (Ok (), x)"
    "wConn w' = wConn x" "wDb w' = wDb x" by blast
  from downloadMessage_codes [OF x(1)] obtain codes where c: "length codes = length (fst (localRecipients (uni (lib S)) (hostDomain S) h))"
    "set codes \<subseteq> recipientCodes" "out (wConn x) = out (wConn v) @ codes"
    and d: "wfTables (tabs (wDb v)) (seq (wDb v)) \<and> AckLost \<notin> set (dbfaults (wDb v)) \<and> RejectCodeAccept \<notin> set codes
         \<longrightarrow> tabs (wDb x) = tabs (wDb v)" by auto
  have "honest w w' (c # codes)" using d unfolding honest_def toldStored_def v(2) x(3) by simp
  then show ?thesis using c v x(2) assms(2,3) unfolding conversation_def by (intro exI [of _ "c # codes"]) auto
qed

lemma respond_code:
  assumes "sendThen c (retIO Closed) v = (Ok Closed, w')" "c \<in> {RejectCodeUndisclosed, AcceptCodeAddTo}"
    and "c = AcceptCodeAddTo \<Longrightarrow> InitialResponseCode h = c"
  shows "out (wConn w') = out (wConn v) @ [c] \<and> conversation S h [c] \<and> wDb w' = wDb v"
  using sendThen_Closed [OF assms(1)] assms(2,3) unfolding conversation_def by auto

text \<open>What is caught is an error or a result.\<close>

lemma try_cases:
  assumes "bindIO (tryIO m) k w = (Ok y, w')"
  obtains (err) e v where "m w = (Err e, v)" "k (Inl e) v = (Ok y, w')"
  | (ok) x v where "m w = (Ok x, v)" "k (Inr x) v = (Ok y, w')"
proof -
  from assms obtain r v where "tryIO m w = (Ok r, v)" "k r v = (Ok y, w')" by (rule bindIO_OkE)
  then show thesis using that by (cases r) (auto simp: tryIO_Ok)
qed

lemma resolve_initial:
  "resolvePostChallengeCode c b d = AcceptCodeAddTo \<Longrightarrow> c = AcceptCodeAddTo"
  "resolvePostChallengeCode c b d = AcceptCodeSkipData \<Longrightarrow> c = AcceptCodeSkipData"
  by (cases "c = 11"; cases "c = 65"; cases "b \<and> d"; simp add: resolvePostChallengeCode_def)+

lemma respond_Closed:
  assumes "respond S h code w = (Ok Closed, w')" "code = resolvePostChallengeCode (InitialResponseCode h) b d"
  shows "\<exists>ws. out (wConn w') = out (wConn w) @ ws \<and> conversation S h ws \<and> honest w w' ws"
proof -
  have init: "code = AcceptCodeAddTo \<Longrightarrow> InitialResponseCode h = AcceptCodeAddTo"
    "code = AcceptCodeSkipData \<Longrightarrow> InitialResponseCode h = AcceptCodeSkipData"
    using assms(2) resolve_initial by metis+
  consider (addTo) "code = AcceptCodeAddTo" | (dup) "code = RejectCodeDuplicate" | (skip) "code = AcceptCodeSkipData"
    | (cont) "code \<notin> {AcceptCodeAddTo, RejectCodeDuplicate, AcceptCodeSkipData}" by auto
  then show ?thesis
  proof cases
    case addTo
    with assms(1) have "bindIO (tryIO (onDb (storeMsgHeaderOnly (storeEnvOf (receiverOf S)) (ents (wDisk w)) (storeClock S) h))) (\<lambda>r.
          case r of
            Inl _ \<Rightarrow> sendThen RejectCodeUndisclosed (retIO Closed)
          | Inr _ \<Rightarrow> sendThen AcceptCodeAddTo (retIO Closed)) w = (Ok Closed, w')"
      by (simp only: respond_def refl if_True bind_getS)
    then show ?thesis
    proof (cases rule: try_cases)
      case (err e v)
      from err(1) have s: "storeMsgHeaderOnly (storeEnvOf (receiverOf S)) (ents (wDisk w)) (storeClock S) h (wDb w) = (Err e, wDb v)"
        and wc: "wConn v = wConn w" by (auto simp: onDb_Ok)
      from s have "honest w v ws" for ws
        using wfTransaction_atomic [OF wf_storeMsgHeaderOnly] unfolding honest_def by fastforce
      with respond_code [OF err(2) [unfolded sum.case], of h S] wc show ?thesis unfolding honest_def by auto
    next
      case (ok x v)
      from ok(1) have wc: "wConn v = wConn w" by (auto simp: onDb_Ok)
      have "honest w w' [AcceptCodeAddTo]" by (simp add: honest_def toldStored_def)
      with respond_code [OF ok(2) [unfolded sum.case], of h S] addTo init(1) wc show ?thesis by auto
    qed
  next
    case dup
    then have "w' = snd (ignoreErr (onConn (sendCode RejectCodeDuplicate)) w)"
      using assms(1) unfolding respond_def by (auto elim!: bindIO_OkE dest: arg_cong [of _ _ snd])
    moreover have "wDb (snd (ignoreErr (onConn (sendCode RejectCodeDuplicate)) w)) = wDb w"
      by (auto simp: onConn_def split: prod.split)
    moreover have "conversation S h ws" if "ws = [] \<or> ws = [RejectCodeDuplicate]" for ws
      using that by (elim disjE) (simp_all add: conversation_def)
    ultimately show ?thesis using ignore_sendCode [of RejectCodeDuplicate w] honest_same by metis
  next
    case skip
    then show ?thesis using assms(1) respond_download [of AcceptCodeSkipData S h True] init(2) unfolding respond_def by simp
  next
    case cont
    then show ?thesis using assms(1) respond_download [of AcceptCodeContinue S h False] unfolding respond_def by simp
  qed
qed

lemma conversation_challenged:
  assumes "challenge S h d w = (Ok h1, w')"
  shows "conversation S h1 = conversation S h"
proof -
  from challenge_Ok [OF assms] obtain resp hash
    where "h1 = h\<lparr>HeaderHash := hash, ChallengeHash := resp, ChallengeCompleted := True\<rparr>" by blast
  then have "InitialResponseCode h1 = InitialResponseCode h" "localRecipients U D h1 = localRecipients U D h" for U D
    by (simp_all add: localRecipients_def)
  then show ?thesis unfolding conversation_def by (intro ext) simp
qed

lemma afterHeader_Closed:
  assumes "afterHeader S h w = (Ok Closed, w')"
  shows "\<exists>ws. out (wConn w') = out (wConn w) @ ws \<and> conversation S h ws \<and> honest w w' ws"
  using assms unfolding afterHeader_def
proof (cases rule: try_cases)
  case (err e v)
  then show ?thesis by (simp add: retIO_def)
next
  case (ok doChallenge w1)
  note should = ok(1)
  from ok(2) [unfolded sum.case] show ?thesis
  proof (rule bindIO_OkE)
    fix r w2 assume r: "(if doChallenge then tryIO (challenge S h (determineSenderDomain h)) else retIO (Inr h)) w1 = (Ok r, w2)"
      and k: "(case r of Inl e \<Rightarrow> retIO Aborted
           | Inr h1 \<Rightarrow> bindIO (dupCheck S h1) (\<lambda>dup. case dup of
               Inl _ \<Rightarrow> sendThen RejectCodeUndisclosed (retIO Closed)
             | Inr allLocalDup \<Rightarrow>
                 respond S h1 (resolvePostChallengeCode (InitialResponseCode h1) (ChallengeCompleted h1) allLocalDup))) w2
         = (Ok Closed, w')"
    from k obtain h1 where h1: "r = Inr h1" by (cases r) (auto simp: retIO_def)
    have c: "conversation S h1 = conversation S h"
      using r h1 by (cases doChallenge) (auto simp: tryIO_Ok retIO_def conversation_challenged)
    have "mt.keep (if doChallenge then tryIO (challenge S h (determineSenderDomain h)) else retIO (Inr h))"
      by (auto intro: mt.keep_try mt_challenge mt.keep_ret)
    from mt.keepD [OF mt_shouldChallenge should] mt.keepD [OF this r] have m2: "mute w w2" by (rule mt.rel_trans)
    from k [unfolded h1 sum.case] show ?thesis
    proof (rule bindIO_OkE)
      fix dup w3 assume dup: "dupCheck S h1 w2 = (Ok dup, w3)"
        and d: "(case dup of Inl _ \<Rightarrow> sendThen RejectCodeUndisclosed (retIO Closed)
             | Inr allLocalDup \<Rightarrow>
                 respond S h1 (resolvePostChallengeCode (InitialResponseCode h1) (ChallengeCompleted h1) allLocalDup)) w3
           = (Ok Closed, w')"
      have m: "mute w w3" by (rule mt.rel_trans [OF m2 mt.keepD [OF mt_dupCheck dup]])
      have "\<exists>ws. out (wConn w') = out (wConn w3) @ ws \<and> conversation S h1 ws \<and> honest w3 w' ws"
      proof (cases dup)
        case (Inl e)
        from respond_code [OF d [unfolded Inl sum.case], of h1 S] show ?thesis using honest_same by force
      next
        case (Inr b)
        show ?thesis by (rule respond_Closed [OF d [unfolded Inr sum.case] refl])
      qed
      then show ?thesis using m c honest_mute [OF m] by (auto simp: mute_def)
    qed
  qed
qed

section \<open>Theorems\<close>

lemma handleConn_body: "handleConn S w = (Ok Closed, w') \<Longrightarrow> handleBody S w = (Ok Closed, w')"
  by (auto simp: handleConn_def split: prod.splits res.splits)

lemma readHeader_no_challenge:
  assumes "readHeader H c = (Ok r, d)" "inp c \<noteq> []" "hd (inp c) < 129"
  shows "r \<noteq> None"
proof -
  from assms(1) obtain b h0 c1 where v: "readVersionOrChallenge H (emptyHeader\<lparr>InitialResponseCode := AcceptCodeContinue\<rparr>) c
      = (Ok (b, h0), c1)" and k: "(if b then retIO None else bindIO (readHeaderFields H h0) (acceptHeader H)) c1 = (Ok r, d)"
    unfolding readHeader_def by (auto elim!: bindIO_OkE)
  obtain x xs where i: "inp c = x # xs" using assms(2) by (cases "inp c") auto
  then have "bindIO ReadByte (\<lambda>v. if v \<ge> 129 then
         (if 256 - unat v = 1 then bindIO (handleChallenge H) (\<lambda>_. retIO (True, emptyHeader\<lparr>InitialResponseCode := AcceptCodeContinue\<rparr>))
          else failIO (Errorf ''unsupported challenge version''))
       else if v \<noteq> 1 then failIO (Errorf ''unsupported message version'')
       else retIO (False, emptyHeader\<lparr>InitialResponseCode := AcceptCodeContinue\<rparr>\<lparr>Version := v\<rparr>)) c = (Ok (b, h0), c1)"
    using v by (simp only: readVersionOrChallenge_def)
  moreover have "\<not> x \<ge> 129" using assms(3) i by (simp add: not_le)
  ultimately have "\<not> b"
    using i by (auto simp: ReadByte_def retIO_def failIO_def elim!: bindIO_OkE split: if_splits)
  then show ?thesis using k by (auto simp: acceptHeader_Ok elim!: bindIO_OkE)
qed

lemma readHeader_addTo:
  assumes "readHeader H c = (Ok (Some h), d)"
  shows "AddTo h \<noteq> [] \<longleftrightarrow> hasFlag (Flags h) FlagHasAddTo"
    and "InitialResponseCode h \<in> {AcceptCodeAddTo, AcceptCodeSkipData} \<Longrightarrow> hasFlag (Flags h) FlagHasAddTo"
proof -
  from assms obtain g where g: "wireOK H g" "accepts H (remoteHost c) g h" by (auto simp: readHeader_Some)
  have w: "AddTo g \<noteq> [] \<longleftrightarrow> hasFlag (Flags g) FlagHasAddTo" "InitialResponseCode g = AcceptCodeContinue"
    using g(1) by (cases "hasFlag (Flags g) FlagHasAddTo",
      simp_all add: wireOK_def addToOK_def freshRuntime_def recipientsOK_def del: FlagHasAddTo_def)
  have f: "AddTo h = AddTo g" "Flags h = Flags g" using accepts_frame [OF g(2)] by auto
  show "AddTo h \<noteq> [] \<longleftrightarrow> hasFlag (Flags h) FlagHasAddTo" using w(1) f by simp
  assume "InitialResponseCode h \<in> {AcceptCodeAddTo, AcceptCodeSkipData}"
  then have "AddTo g \<noteq> []" using g(2) w(2) by (auto simp: accepts_def split: if_splits)
  then show "hasFlag (Flags h) FlagHasAddTo" using w(1) f by simp
qed

lemma handleBody_Closed:
  assumes "handleBody S w = (Ok Closed, w')" "inp (wConn w) \<noteq> []" "hd (inp (wConn w)) < 129"
  shows "(\<exists>e c ws. readHeader (hostAt S w) (wConn w) = (Err e, c) \<and> out (wConn w') = out (wConn w) @ ws
            \<and> (ws = [] \<or> (\<exists>code \<in> {1, 4, 6, 7, 8, 9, 10}. ws = [code])) \<and> wDb w' = wDb w)
       \<or> (\<exists>h c ws. readHeader (hostAt S w) (wConn w) = (Ok (Some h), c) \<and> out (wConn w') = out (wConn w) @ ws
            \<and> conversation S h ws \<and> honest w w' ws)"
proof -
  have "bindIO (tryIO (onConn (readHeader (hostAt S w)))) (\<lambda>r. case r of
       Inl e \<Rightarrow>
         bindIO (getS wConn) (\<lambda>c.
           if closedWithoutData c e then retIO Aborted
           else if wroteResponse c then retIO Closed else retIO Aborted)
     | Inr None \<Rightarrow> retIO Closed
     | Inr (Some header) \<Rightarrow> afterHeader S header) w = (Ok Closed, w')"
    using assms(1) by (simp add: handleBody_def bindIO_def [of "getS _"] getS_def)
  then show ?thesis
  proof (cases rule: try_cases)
    case (err e w1)
    then obtain c where c: "readHeader (hostAt S w) (wConn w) = (Err e, c)" "w1 = w\<lparr>wConn := c\<rparr>"
      by (auto simp: onConn_Ok)
    from readHeader_writes [OF c(1) assms(2,3)] obtain ws where "out c = out (wConn w) @ ws"
      "ws = [] \<or> (\<exists>code \<in> {1, 4, 6, 7, 8, 9, 10}. ws = [code])" by blast
    moreover have "w' = w1" using err(2) by (auto simp: getS_def retIO_def elim!: bindIO_OkE split: if_splits)
    ultimately show ?thesis using c by auto
  next
    case (ok r w1)
    then obtain c where c: "readHeader (hostAt S w) (wConn w) = (Ok r, c)" "w1 = w\<lparr>wConn := c\<rparr>"
      by (auto simp: onConn_Ok)
    from readHeader_writes [OF c(1) assms(2,3)] have oc: "out c = out (wConn w)" by auto
    from readHeader_no_challenge [OF c(1) assms(2,3)] obtain h where h: "r = Some h" by blast
    from afterHeader_Closed [OF ok(2) [unfolded h sum.case option.case]] obtain ws
      where "out (wConn w') = out (wConn w1) @ ws" "conversation S h ws" "honest w1 w' ws" by blast
    then show ?thesis using c oc h unfolding honest_def by fastforce
  qed
qed

lemma handleConn_cases:
  assumes "handleConn S w = (Ok Closed, w')" "inp (wConn w) \<noteq> []" "hd (inp (wConn w)) < 129"
  obtains (rejected) ws where "out (wConn w') = out (wConn w) @ ws"
      "ws = [] \<or> (\<exists>code \<in> {1, 4, 6, 7, 8, 9, 10}. ws = [code])" "wDb w' = wDb w"
  | (accepted) h c ws where "readHeader (hostAt S w) (wConn w) = (Ok (Some h), c)"
      "out (wConn w') = out (wConn w) @ ws" "conversation S h ws" "honest w w' ws"
  using handleBody_Closed [OF handleConn_body [OF assms(1)] assms(2,3)] that by blast

lemma handleConn_short_challenge:
  assumes "inp (wConn w) = 255 # hs" "length hs < 32" "inp_end (wConn w) = EOF"
  shows "handleConn S w = (Ok LeftOpen, w\<lparr>wConn := consume (Suc (length hs)) (wConn w)\<rparr>)"
  using readHeader_short_challenge [OF assms]
  by (simp add: handleConn_def handleBody_def bindIO_def getS_def tryIO_def onConn_def)

lemma readHeader_empty: "inp c = [] \<Longrightarrow> readHeader H c = (Err (inp_end c), c)"
  by (simp add: readHeader_def readVersionOrChallenge_def bindIO_def ReadByte_def)

text \<open>A server over the sample host, and a connection to it.\<close>

definition sampleServer :: server where
  "sampleServer = receiver.extend sampleReceiver (server.fields (\<lambda>ip name. Inl NetErr))"

definition sampleSession :: "bytes \<Rightarrow> session" where
  "sampleSession b = world.extend (sampleWorld\<lparr>wConn := sampleConn b\<rparr>) (session.fields None)"

lemma sampleSession_fields [simp]: "wConn (sampleSession b) = sampleConn b" "wDb (sampleSession b) = sampleDb []"
  by (simp_all add: sampleSession_def sampleWorld_def world.defs session.defs)

text \<open>A reserved flag is refused with the code for an invalid message, and the connection is closed.\<close>

lemma sampleSession_run:
  "\<exists>w'. handleConn sampleServer (sampleSession [1, 128]) = (Ok Closed, w') \<and> out (wConn w') = [1]"
proof -
  have "readHeader H (sampleConn [1, 128]) = (Err (Errorf ''reserved message flag bits set''), (consume 2 (sampleConn [1, 128]))\<lparr>out := [1], wroteResponse := True\<rparr>)" for H
    by (simp add: readHeader_def readVersionOrChallenge_def readHeaderFields_def validateMessageFlags_def hasFlag_def
        bindIO_def ReadByte_def sampleConn_def reject_def sendCode_def rejectAccept_def Write_def failIO_def retIO_def
        consume_def word_le_nat_alt)
  then show ?thesis
    by (simp add: handleConn_def handleBody_def bindIO_def getS_def tryIO_def onConn_def closedWithoutData_def
        consume_def sampleConn_def retIO_def)
qed

text \<open>
  C2. The protocol of a connection. On a connection that does not open with a challenge, whatever the
  peer sends and whatever fails on the way, a host that ends up closing the connection in order has
  written nothing; or one response code, of the header exchange, 3, 10 or 11; or, for a header it
  accepted, 64 or 65 and then exactly one per-recipient code for each recipient on its domain.
\<close>
theorem connection_protocol:
  assumes "handleConn S w = (Ok Closed, w')" "inp (wConn w) \<noteq> []" "hd (inp (wConn w)) < 129"
  shows "\<exists>ws. out (wConn w') = out (wConn w) @ ws
    \<and> (ws = [] \<or> (\<exists>code \<in> {1, 3, 4, 6, 7, 8, 9, 10, 11}. ws = [code])
       \<or> (\<exists>h c code codes. readHeader (hostAt S w) (wConn w) = (Ok (Some h), c)
            \<and> code \<in> {64, 65} \<and> ws = code # codes \<and> set codes \<subseteq> recipientCodes
            \<and> length codes = length (fst (localRecipients (uni (lib S)) (hostDomain S) h))))"
  using assms
proof (cases rule: handleConn_cases)
  case (accepted h c ws)
  then show ?thesis unfolding conversation_def by (intro exI [of _ ws]) auto
next
  case (rejected ws)
  then show ?thesis by (intro exI [of _ ws]) auto
qed

theorem connection_protocol_witness:
  "\<exists>w'. handleConn sampleServer (sampleSession [1, 128]) = (Ok Closed, w') \<and> out (wConn w') = [1]
     \<and> (\<exists>code \<in> {1, 3, 4, 6, 7, 8, 9, 10, 11}. out (wConn w') = [code])"
proof -
  obtain w' where w': "handleConn sampleServer (sampleSession [1, 128]) = (Ok Closed, w')" "out (wConn w') = [1]"
    using sampleSession_run by blast
  have "inp (wConn (sampleSession [1, 128])) = [1, 128]" "out (wConn (sampleSession [1, 128])) = []"
    by (simp_all add: sampleConn_def)
  with connection_protocol [OF w'(1)] w' show ?thesis by auto
qed



text \<open>
  C40. A recovered panic leaks the connection. A challenge that ends before its 32nd byte is neither
  answered nor closed nor reset: the handler's recovery returns without closing it.
\<close>
theorem short_challenge_left_open:
  assumes "inp (wConn w) = 255 # hs" "length hs < 32" "inp_end (wConn w) = EOF"
  shows "handleConn S w = (Ok LeftOpen, w\<lparr>wConn := consume (Suc (length hs)) (wConn w)\<rparr>)"
  using assms by (rule handleConn_short_challenge)

theorem short_challenge_left_open_witness:
  "fst (handleConn sampleServer (sampleSession [255, 9, 9])) = Ok LeftOpen"
  using short_challenge_left_open [of "sampleSession [255, 9, 9]" "[9, 9]" sampleServer]
  by (simp add: sampleConn_def)

text \<open>
  Health checks. A connection that is closed or reset before its first byte is reset, with
  nothing written and no state touched.
\<close>
theorem empty_connection_aborted:
  assumes "inp (wConn w) = []" "nread (wConn w) = 0" "inp_end (wConn w) \<in> {EOF, ECONNRESET}"
  shows "handleConn S w = (Ok Aborted, w)"
  using assms readHeader_empty [OF assms(1), of "hostAt S w"]
  by (auto simp: handleConn_def handleBody_def bindIO_def getS_def tryIO_def onConn_def closedWithoutData_def retIO_def)

theorem empty_connection_aborted_witness:
  "handleConn sampleServer (sampleSession []) = (Ok Aborted, sampleSession [])"
  by (rule empty_connection_aborted) (simp_all add: sampleConn_def)

end
