(* ===== verification/SenderProps.thy ===== *)
theory SenderProps
  imports Sender ReceiveProps
begin

text \<open>
  What a delivery records and what it leaves alone. \<open>tx\<close> is the discipline of the steps of one
  transaction: rows change only as a relation allows, whatever fails, and a rollback goes back to
  tables that are related as well. The receiving host's order of codes is the sender's.
\<close>

section \<open>Rows\<close>

lemma mapRows_same [simp]:
  "msgs (mapRows tbl f t) = msgs t" "batches (mapRows tbl f t) = batches t" "atts (mapRows tbl f t) = atts t"
  "notifies (mapRows tbl f t) = notifies t"
  by (cases tbl; simp add: mapRows_def)+

lemma rowsOf_mapRows: "rowsOf tbl' (mapRows tbl f t) = (if tbl' = tbl then map f (rowsOf tbl t) else rowsOf tbl' t)"
  by (cases tbl; cases tbl') (simp_all add: mapRows_def rowsOf_def)

lemma recordRcpt_same [simp]:
  "rId (recordRcpt a i n c d r) = rId r" "rMsg (recordRcpt a i n c d r) = rMsg r"
  "rBatch (recordRcpt a i n c d r) = rBatch r" "rAddr (recordRcpt a i n c d r) = rAddr r"
  by (simp_all add: recordRcpt_def)

text \<open>Tables that differ only in rows of recipients, row by row as \<open>chg\<close> allows, and in notices.\<close>

definition rowwise :: "(rcptRow \<Rightarrow> rcptRow \<Rightarrow> bool) \<Rightarrow> tables \<Rightarrow> tables \<Rightarrow> bool" where
  "rowwise chg t t' \<longleftrightarrow> msgs t' = msgs t \<and> batches t' = batches t \<and> atts t' = atts t
     \<and> (\<forall>tbl. list_all2 chg (rowsOf tbl t) (rowsOf tbl t'))"

locale row_change =
  fixes chg :: "rcptRow \<Rightarrow> rcptRow \<Rightarrow> bool"
  assumes chg_refl [simp]: "chg r r"
    and chg_trans: "chg r s \<Longrightarrow> chg s t \<Longrightarrow> chg r t"
begin

lemma rowwise_refl [simp]: "rowwise chg t t"
  by (simp add: rowwise_def list_all2_refl)

lemma rowwise_trans: "rowwise chg t u \<Longrightarrow> rowwise chg u v \<Longrightarrow> rowwise chg t v"
  unfolding rowwise_def by (auto intro: list_all2_trans [where ?P1.0 = chg and ?P2.0 = chg, OF chg_trans])

lemma rowwise_mapRows: "(\<And>r. chg r (f r)) \<Longrightarrow> rowwise chg t (mapRows tbl f t)"
  by (auto simp: rowwise_def rowsOf_mapRows list_all2_conv_all_nth)

definition tx :: "sending \<Rightarrow> sending \<Rightarrow> bool" where
  "tx w w' \<longleftrightarrow> (\<forall>base. rowwise chg base (tabs (wDb w)) \<and> rowwise chg base (sBase w)
     \<longrightarrow> rowwise chg base (tabs (wDb w')) \<and> rowwise chg base (sBase w'))"

lemma tx_refl: "tx w w"
  by (simp add: tx_def)

lemma tx_trans: "tx u v \<Longrightarrow> tx v w \<Longrightarrow> tx u w"
  by (simp add: tx_def)

lemma tx_idle: "tabs (wDb w') = tabs (wDb w) \<Longrightarrow> sBase w' = sBase w \<Longrightarrow> tx w w'"
  by (simp add: tx_def)

lemma tx_step: "rowwise chg (tabs (wDb w)) (tabs (wDb w')) \<Longrightarrow> sBase w' = sBase w \<Longrightarrow> tx w w'"
  unfolding tx_def using rowwise_trans by auto

lemma tx_rollback: "tx w (snd (txRollback w))"
  by (simp add: txRollback_def tx_def modS_def rollback_def)

lemma tx_commit: "tx w (snd (txCommit w))"
  by (auto simp: txCommit_def tx_def rollback_def Let_def split: list.splits dbfault.splits)

end

lemma inTx_exec_cases:
  "tabs (wDb (snd (inTx (exec (\<lambda>t. Some (u t))) w))) \<in> {tabs (wDb w), u (tabs (wDb w))}
   \<and> sBase (snd (inTx (exec (\<lambda>t. Some (u t))) w)) = sBase w"
  by (auto simp: inTx_def onDb_def exec_def stmt_def split: list.splits)

lemma inTx_query_same:
  "tabs (wDb (snd (inTx (query q) w))) = tabs (wDb w) \<and> sBase (snd (inTx (query q) w)) = sBase w"
  by (auto simp: inTx_def onDb_def query_def stmt_def split: list.splits)

sublocale row_change < tr: step_relation tx
  by unfold_locales (rule tx_refl, rule tx_trans)

context row_change begin

lemma tr_idle: "(\<And>w. tabs (wDb (snd (m w))) = tabs (wDb w) \<and> sBase (snd (m w)) = sBase w) \<Longrightarrow> tr.keep m"
  by (rule tr.keepI) (simp add: tx_idle)

lemma tr_now: "tr.keep (getNow S)"
  by (rule tr_idle) (simp add: getNow_def)

lemma tr_update:
  assumes "\<And>r. chg r (recordRcpt a i n c d r)"
  shows "tr.keep (updateRecipient tbl a i n c d)"
proof (rule tr.keepI)
  fix w
  have "rowwise chg (tabs (wDb w)) (tabs (wDb (snd (updateRecipient tbl a i n c d w))))"
    and "sBase (snd (updateRecipient tbl a i n c d w)) = sBase w"
    using inTx_exec_cases [of "mapRows tbl (recordRcpt a i n c d)" w] rowwise_mapRows [OF assms, of "tabs (wDb w)" tbl]
    unfolding updateRecipient_def snd_ignoreErr by auto
  then show "tx w (snd (updateRecipient tbl a i n c d w))" by (rule tx_step)
qed

lemma tr_updateLocked:
  assumes "\<And>a r. a \<in> set as \<Longrightarrow> chg r (recordRcpt a i n c d r)"
  shows "tr.keep (updateLocked tbl as i n c d)"
  using assms by (induction as) (auto intro!: tr.keep_intros tr_update)

lemma tr_notify: "tr.keep (updateNotify k n c d)"
proof (rule tr.keepI)
  fix w
  let ?u = "\<lambda>t. t\<lparr>notifies := map (recordNotify k n c d) (notifies t)\<rparr>"
  have "rowwise chg t (?u t)" for t
    by (auto simp: rowwise_def rowsOf_def list_all2_refl split: rcptTable.split)
  then have "rowwise chg (tabs (wDb w)) (tabs (wDb (snd (updateNotify k n c d w))))"
    and "sBase (snd (updateNotify k n c d w)) = sBase w"
    using inTx_exec_cases [of ?u w] unfolding updateNotify_def by (auto simp: retIO_def)
  then show "tx w (snd (updateNotify k n c d w))" by (rule tx_step)
qed

lemma tr_recordCodes:
  assumes "\<And>a c r. ((a, True), c) \<in> set rcs \<Longrightarrow> chg r (recordRcpt a i n (uint c) (c = RejectCodeAccept) r)"
  shows "tr.keep (recordCodes tbl i n rcs)"
  using assms by (induction tbl i n rcs rule: recordCodes.induct) (auto intro!: tr.keep_intros tr_update)

lemma tr_commit: "tr.keep txCommit" and tr_rollback: "tr.keep txRollback"
  by (auto intro!: tr.keepI tx_commit tx_rollback)

lemma tr_onConn: "tr.keep (onConn m)" and tr_onDisk: "tr.keep (onDisk m')"
  by (rule tr_idle, simp add: onConn_def split: prod.split)+ (rule tr_idle, simp add: onDisk_def split: prod.split)

lemma tr_copy: "tr.keep (copyNToConn n src)"
  unfolding copyNToConn_def by (intro tr.keep_intros tr_onConn)

lemma tr_sendMsgData: "tr.keep (sendMsgData h)"
proof -
  have "tr.keep (sendAttachments as)" for as
    by (induction as) (auto intro!: tr.keep_intros tr_copy tr_onDisk)
  then show ?thesis unfolding sendMsgData_def by (intro tr.keep_intros tr_copy tr_onDisk)
qed

lemma tr_mod: "(\<And>w. wDb (f w) = wDb w \<and> sBase (f w) = sBase w) \<Longrightarrow> tr.keep (modS f)"
  by (rule tr_idle) (simp add: modS_def)

lemma tr_locks: "tr.keep (lockPendingRecipients S tbl i d b n)" "tr.keep (lockPendingNotify S b d n)"
  unfolding lockPendingRecipients_def lockPendingNotify_def
  by (rule tr_idle, rule inTx_query_same) (intro tr.keep_intros tr_idle inTx_query_same)

end

section \<open>What the peer said\<close>

text \<open>The answers by which a peer takes over a recipient: code 11 to an add-to, or an accept at its place.\<close>

definition saidDelivered :: "Header \<Rightarrow> (string \<times> bool) list \<Rightarrow> bytes \<Rightarrow> string \<Rightarrow> bool" where
  "saidDelivered h recips ans addr \<longleftrightarrow>
     (\<exists>rest. ans = 11 # rest \<and> hasFlag (Flags h) FlagHasAddTo)
     \<or> (\<exists>c codes rest i. c \<in> {64, 65} \<and> ans = c # codes @ rest \<and> length codes = length recips
          \<and> i < length recips \<and> recips ! i = (addr, True) \<and> codes ! i = RejectCodeAccept)"

definition outcomeRow :: "sender \<Rightarrow> int \<Rightarrow> string list \<Rightarrow> (string \<Rightarrow> bool) \<Rightarrow> rcptRow \<Rightarrow> rcptRow \<Rightarrow> bool" where
  "outcomeRow S msgID locked said r r' \<longleftrightarrow>
     r' = r \<or> rMsg r = msgID \<and> ToLower (uni (lib S)) (rAddr r) \<in> ToLower (uni (lib S)) ` set locked
        \<and> rId r' = rId r \<and> rMsg r' = rMsg r \<and> rBatch r' = rBatch r \<and> rAddr r' = rAddr r
        \<and> (rDelivered r' = rDelivered r \<or> said (rAddr r))"

interpretation oc: row_change "outcomeRow S msgID locked said" for S msgID locked said
  by unfold_locales (auto simp: outcomeRow_def)

lemma outcome_record:
  assumes "ToLower (uni (lib S)) a \<in> ToLower (uni (lib S)) ` set locked" "d \<Longrightarrow> said a"
  shows "outcomeRow S i locked said r (recordRcpt a i n c d r)"
  using assms by (auto simp: outcomeRow_def recordRcpt_def)

text \<open>What the peer will say is not changed by what is written.\<close>

definition sameInp :: "sending \<Rightarrow> sending \<Rightarrow> bool" where
  "sameInp w w' \<longleftrightarrow> inp (wConn w') = inp (wConn w)"

interpretation si: step_relation sameInp
  by unfold_locales (auto simp: sameInp_def)

lemma si_Write: "si.keep (onConn (Write b))"
  by (rule si.keepI) (auto simp: sameInp_def onConn_def Write_def split: prod.split list.split option.split)

lemma si_onDisk: "si.keep (onDisk m)"
  by (rule si.keepI) (simp add: sameInp_def onDisk_def split: prod.split)

lemma si_copy: "si.keep (copyNToConn n src)"
  unfolding copyNToConn_def by (intro si.keep_intros si_Write)

lemma si_sendMsgData: "si.keep (sendMsgData h)"
proof -
  have "si.keep (sendAttachments as)" for as
    by (induction as) (auto intro!: si.keep_intros si_copy si_onDisk)
  then show ?thesis unfolding sendMsgData_def by (intro si.keep_intros si_copy si_onDisk)
qed

lemma si_getNow: "si.keep (getNow S)"
  by (rule si.keepI) (simp add: sameInp_def getNow_def)

lemma ReadFull_Ok: "ReadFull n c = (Ok bs, c') \<longleftrightarrow> n \<le> length (inp c) \<and> bs = take n (inp c) \<and> c' = consume n c"
  by (auto simp: ReadFull_def)

lemma try_ReadFull:
  "tryIO (onConn (ReadFull n)) w = (Ok (Inr bs), w') \<longleftrightarrow>
     n \<le> length (inp (wConn w)) \<and> bs = take n (inp (wConn w)) \<and> w' = w\<lparr>wConn := consume n (wConn w)\<rparr>"
  by (auto simp: tryIO_Ok onConn_Ok ReadFull_Ok)

section \<open>The steps of a delivery\<close>

lemma domainRecips_locked:
  "(a, True) \<in> set (domainRecips S h d locked) \<Longrightarrow> ToLower (uni (lib S)) a \<in> ToLower (uni (lib S)) ` set locked"
  by (auto simp: domainRecips_def Let_def split: if_splits)

lemma readCodes_tx:
  assumes "recips = domainRecips S h d locked" "inp (wConn w) = rest" "c0 \<in> {64, 65}"
    and "\<And>a. saidDelivered h recips (c0 # rest) a \<Longrightarrow> said a"
  shows "oc.tx S i locked said w (snd (readCodes S tbl i c0 recips k w))"
  unfolding readCodes_def
proof (rule oc.tr.rel_bind)
  show "oc.tx S i locked said w (snd (tryIO (onConn (ReadFull (length recips))) w))"
    by (intro oc.tr.keepE oc.tr.keep_try oc.tr_onConn)
next
  fix r w1 assume r: "tryIO (onConn (ReadFull (length recips))) w = (Ok r, w1)"
  show "oc.tx S i locked said w1 (snd ((case r of
       Inl _ \<Rightarrow> retIO None
     | Inr codes \<Rightarrow>
         bindIO (getNow S) (\<lambda>now.
         bindIO (recordCodes tbl i now (zip recips codes)) (\<lambda>_.
         bindIO (updateNotify k now (uint c0) True) (\<lambda>_.
         bindIO txCommit (\<lambda>c. retIO (Some c)))))) w1))"
  proof (cases r)
    case (Inr codes)
    from r Inr have c: "length recips \<le> length rest" "codes = take (length recips) rest"
      using assms(2) by (auto simp: try_ReadFull)
    have "outcomeRow S i locked said x (recordRcpt a i n (uint v) (v = RejectCodeAccept) x)"
      if m: "((a, True), v) \<in> set (zip recips codes)" for a v n x
    proof (rule outcome_record)
      show "ToLower (uni (lib S)) a \<in> ToLower (uni (lib S)) ` set locked"
        using set_zip_leftD [OF m] domainRecips_locked unfolding assms(1) by blast
    next
      assume v: "v = RejectCodeAccept"
      from m obtain j where j: "j < length recips" "recips ! j = (a, True)" "codes ! j = v"
        by (auto simp: set_zip)
      have "saidDelivered h recips (c0 # rest) a"
        unfolding saidDelivered_def using assms(3) c j v
        by (intro disjI2 exI [of _ c0] exI [of _ codes] exI [of _ "drop (length recips) rest"] exI [of _ j]) auto
      then show "said a" by (rule assms(4))
    qed
    then show ?thesis unfolding Inr sum.case
      by (intro oc.tr.keepE oc.tr.keep_bind oc.tr_now oc.tr_recordCodes oc.tr_notify oc.tr_commit oc.tr.keep_ret)
  qed (simp add: oc.tx_refl)
qed

lemma recordAll_tx:
  assumes "\<And>a. a \<in> set locked \<Longrightarrow> ok \<Longrightarrow> said a"
  shows "oc.tr.keep S i locked said (recordAll tbl i now c ok locked k)"
  unfolding recordAll_def
  by (intro oc.tr.keep_bind oc.tr_updateLocked oc.tr_notify oc.tr_commit oc.tr.keep_ret outcome_record)
    (use assms in auto)

text \<open>An address the peer took over, by its whole answer; the codes after 65 count for an add-to alone.\<close>

definition tookOver :: "Header \<Rightarrow> (string \<times> bool) list \<Rightarrow> string list \<Rightarrow> bytes \<Rightarrow> string \<Rightarrow> bool" where
  "tookOver h recips locked ans a \<longleftrightarrow> saidDelivered h recips ans a \<and> (hd ans = 11 \<longrightarrow> a \<in> set locked)"

lemma onResponse_tx:
  assumes "recips = domainRecips S h d locked" "inp (wConn w) = rest"
  shows "oc.tx S i locked (tookOver h recips locked (c0 # rest)) w (snd (onResponse S h tbl i recips locked k c0 w))"
proof -
  let ?said = "tookOver h recips locked (c0 # rest)"
  have rc: "oc.tx S i locked ?said v (snd (readCodes S tbl i c0 recips k v))"
    if "c0 \<in> {64, 65}" "inp (wConn v) = rest" for v
    by (rule readCodes_tx [OF assms(1) that(2,1)]) (use that(1) in \<open>auto simp: tookOver_def\<close>)
  have data: "oc.tx S i locked ?said v (snd (bindIO (tryIO (sendMsgData h)) (\<lambda>r. case r of
      Inl _ \<Rightarrow> retIO None | Inr _ \<Rightarrow> readCodes S tbl i c0 recips k) v))" if "c0 = 64" "inp (wConn v) = rest" for v
  proof (rule oc.tr.rel_bind)
    show "oc.tx S i locked ?said v (snd (tryIO (sendMsgData h) v))"
      by (intro oc.tr.keepE oc.tr.keep_try oc.tr_sendMsgData)
  next
    fix r x assume "tryIO (sendMsgData h) v = (Ok r, x)"
    then have "inp (wConn x) = rest"
      using si.keepD [OF si.keep_try [OF si_sendMsgData]] that(2) by (auto simp: sameInp_def)
    then show "oc.tx S i locked ?said x (snd ((case r of Inl _ \<Rightarrow> retIO None | Inr _ \<Rightarrow> readCodes S tbl i c0 recips k) x))"
      using rc that(1) by (cases r) (simp_all add: oc.tx_refl retIO_def)
  qed
  have all: "oc.tr.keep S i locked ?said (recordAll tbl i n c0 ok locked k)"
    if "ok \<Longrightarrow> c0 = 11 \<and> hasFlag (Flags h) FlagHasAddTo" for n ok
    by (rule recordAll_tx) (use that in \<open>auto simp: tookOver_def saidDelivered_def\<close>)
  show ?thesis unfolding onResponse_def
  proof (rule oc.tr.rel_bind)
    show "oc.tx S i locked ?said w (snd (getNow S w))" by (rule oc.tr.keepE [OF oc.tr_now])
  next
    fix now v assume n: "getNow S w = (Ok now, v)"
    then have v: "inp (wConn v) = rest" using si.keepD [OF si_getNow n] assms(2) by (simp add: sameInp_def)
    show "oc.tx S i locked ?said v (snd ((let isAddToMsg = hasFlag (Flags h) FlagHasAddTo
     in if c0 = AcceptCodeContinue then
          bindIO (tryIO (sendMsgData h)) (\<lambda>r. case r of
            Inl _ \<Rightarrow> retIO None
          | Inr _ \<Rightarrow> readCodes S tbl i c0 recips k)
        else if c0 = AcceptCodeSkipData then
          (if isAddToMsg then readCodes S tbl i c0 recips k else retIO None)
        else if c0 = AcceptCodeAddTo then
          (if isAddToMsg then recordAll tbl i now c0 True locked k else retIO None)
        else if 1 \<le> c0 \<and> c0 \<le> 10 then recordAll tbl i now c0 False locked k
        else retIO None) v))"
      unfolding Let_def
      using data [OF _ v] rc [OF _ v] oc.tr.keepE [OF all [of True], of v] oc.tr.keepE [OF all [of False], of v]
      by (simp only: AcceptCodeContinue_def AcceptCodeSkipData_def AcceptCodeAddTo_def split: if_split)
        (auto simp: oc.tx_refl retIO_def)
  qed
qed

lemma exchange_tx:
  assumes "recips = domainRecips S h d locked" "inp (wConn w) = ans"
  shows "oc.tx S i locked (tookOver h recips locked ans) w (snd (exchange S h tbl i recips locked k w))"
  unfolding exchange_def
proof (rule oc.tr.rel_bind)
  show "oc.tx S i locked (tookOver h recips locked ans) w (snd (tryIO (onConn (Write (Encode h))) w))"
    by (intro oc.tr.keepE oc.tr.keep_try oc.tr_onConn)
next
  fix r w1 assume "tryIO (onConn (Write (Encode h))) w = (Ok r, w1)"
  then have i1: "inp (wConn w1) = ans"
    using si.keepD [OF si.keep_try [OF si_Write]] assms(2) by (auto simp: sameInp_def)
  show "oc.tx S i locked (tookOver h recips locked ans) w1 (snd ((case r of Inl _ \<Rightarrow> retIO None
     | Inr _ \<Rightarrow> bindIO (tryIO (onConn (ReadFull 1))) (\<lambda>r. case r of Inl _ \<Rightarrow> retIO None
         | Inr resp \<Rightarrow> onResponse S h tbl i recips locked k (hd resp))) w1))"
  proof (cases r)
    case (Inr u)
    show ?thesis unfolding Inr sum.case
    proof (rule oc.tr.rel_bind)
      show "oc.tx S i locked (tookOver h recips locked ans) w1 (snd (tryIO (onConn (ReadFull 1)) w1))"
        by (intro oc.tr.keepE oc.tr.keep_try oc.tr_onConn)
    next
      fix q w2 assume q: "tryIO (onConn (ReadFull 1)) w1 = (Ok q, w2)"
      show "oc.tx S i locked (tookOver h recips locked ans) w2 (snd ((case q of Inl _ \<Rightarrow> retIO None
         | Inr resp \<Rightarrow> onResponse S h tbl i recips locked k (hd resp)) w2))"
      proof (cases q)
        case (Inr resp)
        with q i1 obtain c0 rest where "ans = c0 # rest" "hd resp = c0" "inp (wConn w2) = rest"
          by (cases ans) (auto simp: try_ReadFull)
        then show ?thesis using onResponse_tx [OF assms(1)] unfolding Inr sum.case by metis
      qed (simp add: oc.tx_refl retIO_def)
    qed
  qed (simp add: oc.tx_refl retIO_def)
qed

section \<open>A unit\<close>

lemma bind_try: "bindIO (tryIO m) k s =
    (case m s of (Ok x, t) \<Rightarrow> k (Inr x) t | (Err e, t) \<Rightarrow> k (Inl e) t | (Panic, t) \<Rightarrow> (Panic, t) | (Diverge, t) \<Rightarrow> (Diverge, t))"
  by (simp add: bindIO_def tryIO_def split: prod.split res.split)

lemma txBegin_run:
  "(\<exists>w1. txBegin w = (Ok (), w1) \<and> tabs (wDb w1) = tabs (wDb w) \<and> sBase w1 = tabs (wDb w) \<and> \<not> sAborted w1
      \<and> sOut w1 = sOut w \<and> sPeers w1 = sPeers w)
   \<or> (\<exists>e w1. txBegin w = (Err e, w1) \<and> tabs (wDb w1) = tabs (wDb w) \<and> sOut w1 = sOut w \<and> sPeers w1 = sPeers w)"
  by (auto simp: txBegin_def bindIO_def onDb_def stmt_def retIO_def modS_def split: list.splits)

lemma inTx_query_run:
  "(\<exists>w1. inTx (query q) w = (Ok (q (tabs (wDb w))), w1) \<and> tabs (wDb w1) = tabs (wDb w) \<and> sBase w1 = sBase w)
   \<or> (\<exists>e w1. inTx (query q) w = (Err e, w1) \<and> tabs (wDb w1) = tabs (wDb w) \<and> sBase w1 = sBase w)"
  by (auto simp: inTx_def onDb_def query_def stmt_def split: list.splits)

lemma lockPendingNotify_run:
  "(\<exists>x w1. lockPendingNotify S b d n w = (Ok x, w1) \<and> tabs (wDb w1) = tabs (wDb w) \<and> sBase w1 = sBase w)
   \<or> (\<exists>e w1. lockPendingNotify S b d n w = (Err e, w1) \<and> tabs (wDb w1) = tabs (wDb w) \<and> sBase w1 = sBase w)"
proof (cases "b = 0")
  case False
  show ?thesis unfolding lockPendingNotify_def if_not_P [OF False] using inTx_query_run by fast
qed (simp add: lockPendingNotify_def retIO_def)

lemma rollback_tabs: "tabs (wDb (snd (txRollback w))) = sBase w"
  by (simp add: txRollback_def modS_def rollback_def)

text \<open>Whatever fails, the rows after a unit are those before it, or as the body may change the rows it locked.\<close>

lemma withLocks_rows:
  assumes body: "\<And>now locked k. locked = map rAddr (lockedRows S tbl (MsgID target) (tDomain target) b now (tabs (wDb w))) \<Longrightarrow>
      oc.tr.keep S (MsgID target) locked (said locked) (body now locked k)"
  shows "\<exists>now locked. locked = map rAddr (lockedRows S tbl (MsgID target) (tDomain target) b now (tabs (wDb w)))
    \<and> rowwise (outcomeRow S (MsgID target) locked (said locked)) (tabs (wDb w)) (tabs (wDb (snd (withLocks S target tbl b body w))))"
proof -
  let ?rows = "\<lambda>now. map rAddr (lockedRows S tbl (MsgID target) (tDomain target) b now (tabs (wDb w)))"
  have same: ?thesis if "tabs (wDb (snd (withLocks S target tbl b body w))) = tabs (wDb w)"
    using that oc.rowwise_refl by metis
  from txBegin_run [of w] show ?thesis
  proof (elim disjE exE conjE)
    fix e w1 assume "txBegin w = (Err e, w1)" "tabs (wDb w1) = tabs (wDb w)"
    then show ?thesis by (intro same) (simp add: withLocks_def bind_try retIO_def)
  next
    fix w1 assume b1: "txBegin w = (Ok (), w1)" and w1: "tabs (wDb w1) = tabs (wDb w)" "sBase w1 = tabs (wDb w)"
    define now w2 where "now = clockAt S (sTicks w1)" and "w2 = w1\<lparr>sTicks := Suc (sTicks w1)\<rparr>"
    have n: "bindIO (getNow S) m w1 = m now w2" for m :: "float64 \<Rightarrow> unit sd"
      by (simp add: getNow_def bindIO_def now_def w2_def)
    have w2: "tabs (wDb w2) = tabs (wDb w)" "sBase w2 = tabs (wDb w)" using w1 by (simp_all add: w2_def)
    note run = withLocks_def bind_try b1 n sum.case prod.case res.case
    from inTx_query_run [of "\<lambda>t. map rAddr (lockedRows S tbl (MsgID target) (tDomain target) b now t)" w2] show ?thesis
    proof (elim disjE exE conjE)
      fix e w3 assume "inTx (query (\<lambda>t. map rAddr (lockedRows S tbl (MsgID target) (tDomain target) b now t))) w2 = (Err e, w3)"
        and "sBase w3 = sBase w2"
      then show ?thesis using w2 by (intro same) (simp add: run lockPendingRecipients_def rollback_tabs)
    next
      fix w3 assume l: "inTx (query (\<lambda>t. map rAddr (lockedRows S tbl (MsgID target) (tDomain target) b now t))) w2
          = (Ok (map rAddr (lockedRows S tbl (MsgID target) (tDomain target) b now (tabs (wDb w2)))), w3)"
        and w3: "tabs (wDb w3) = tabs (wDb w2)" "sBase w3 = sBase w2"
      have l': "lockPendingRecipients S tbl (MsgID target) (tDomain target) b now w2 = (Ok (?rows now), w3)"
        using l w2 by (simp add: lockPendingRecipients_def)
      obtain r w4 x where k: "(if tbl = MsgAddTo then lockPendingNotify S b (tDomain target) now else retIO 0) w3 = (r, w4)"
        "r = Ok x \<or> (\<exists>e. r = Err e)" and w4: "tabs (wDb w4) = tabs (wDb w)" "sBase w4 = tabs (wDb w)"
        using lockPendingNotify_run [of S b "tDomain target" now w3] w2 w3 by (cases tbl) (force simp: retIO_def)+
      let ?body = "bindIO (body now (?rows now) x) (\<lambda>committed. if committed then retIO () else txRollback)"
      have fin: "withLocks S target tbl b body w = (case r of Err e \<Rightarrow> txRollback w4
          | _ \<Rightarrow> if ?rows now = [] \<and> x = 0 then txRollback w4 else ?body w4)"
        using k(2) by (auto simp: run l' k(1))
      show ?thesis
      proof (cases "(\<exists>e. r = Err e) \<or> (?rows now = [] \<and> x = 0)")
        case True
        then have "withLocks S target tbl b body w = txRollback w4" using fin k(2) by (auto split: res.splits)
        then show ?thesis using w4 by (intro same) (simp add: rollback_tabs)
      next
        case False
        then have f: "withLocks S target tbl b body w = ?body w4" using fin k(2) by auto
        have "oc.tr.keep S (MsgID target) (?rows now) (said (?rows now)) ?body"
          by (intro oc.tr.keep_bind body oc.tr.keep_if oc.tr.keep_ret oc.tr_rollback) simp
        then have "oc.tx S (MsgID target) (?rows now) (said (?rows now)) w4 (snd (?body w4))" by (rule oc.tr.keepE)
        then have "rowwise (outcomeRow S (MsgID target) (?rows now) (said (?rows now))) (tabs (wDb w)) (tabs (wDb (snd (?body w4))))"
          using w4 by (simp add: oc.tx_def)
        then show ?thesis using f by auto
      qed
    qed
  qed
qed

definition peerOf :: "sender \<Rightarrow> string \<Rightarrow> (string \<times> conn) option" where
  "peerOf S domain = (case lookupAuthorisedIPs S domain of Inl _ \<Rightarrow> None | Inr as \<Rightarrow> dialTargetIPs S as (''fmsg.'' @ domain))"

definition answerOf :: "sender \<Rightarrow> string \<Rightarrow> bytes" where
  "answerOf S domain = (case peerOf S domain of None \<Rightarrow> [] | Some (_, c) \<Rightarrow> inp c)"

lemma GetHeaderHash_fields:
  "Flags (snd (GetHeaderHash L h)) = Flags h" "To (snd (GetHeaderHash L h)) = To h" "AddTo (snd (GetHeaderHash L h)) = AddTo h"
  "Encode (snd (GetHeaderHash L h)) = Encode h"
  by (simp_all add: GetHeaderHash_def Encode_def encAddTo_def Let_def split: option.split)

lemma sendUnit_tx:
  "oc.tr.keep S (MsgID target) locked (tookOver h (domainRecips S h (tDomain target) locked) locked (answerOf S (tDomain target)))
     (sendUnit S target h tbl locked k)"
proof -
  obtain hash h1 where g: "GetHeaderHash (lib S) h = (hash, h1)" by fastforce
  then have f: "Flags h1 = Flags h" "To h1 = To h" "AddTo h1 = AddTo h" using GetHeaderHash_fields [of "lib S" h] by simp_all
  have r: "domainRecips S h = domainRecips S h1" and t: "tookOver h = tookOver h1"
    by (simp_all add: fun_eq_iff domainRecips_def tookOver_def saidDelivered_def f cong: if_cong)
  show ?thesis
  proof (cases "peerOf S (tDomain target)")
    case None
    then show ?thesis by (simp add: sendUnit_def g peerOf_def oc.tr.keep_ret split: sum.splits)
  next
    case (Some p)
    obtain ip c where p: "p = (ip, c)" by fastforce
    let ?f = "\<lambda>w. w\<lparr>wConn := c, sOut := registerOutgoing hash h1 ip (sOut w)\<rparr>"
    let ?g = "\<lambda>w. w\<lparr>sOut := removeOutgoingIP hash ip (sOut w), sPeers := sPeers w @ [(tDomain target, wConn w)]\<rparr>"
    let ?recips = "domainRecips S h1 (tDomain target) locked" and ?said = "tookOver h1 (domainRecips S h1 (tDomain target) locked) locked (inp c)"
    have s: "sendUnit S target h tbl locked k = bindIO (modS ?f) (\<lambda>_.
        bindIO (exchange S h1 tbl (MsgID target) ?recips locked k) (\<lambda>outcome. bindIO (modS ?g) (\<lambda>_. retIO outcome)))"
      using Some p by (simp add: sendUnit_def g peerOf_def r split: sum.splits)
    have "oc.tx S (MsgID target) locked ?said w (snd (bindIO (exchange S h1 tbl (MsgID target) ?recips locked k)
        (\<lambda>outcome. bindIO (modS ?g) (\<lambda>_. retIO outcome)) (?f w)))" for w
    proof -
      have "oc.tx S (MsgID target) locked ?said (?f w) (snd (bindIO (exchange S h1 tbl (MsgID target) ?recips locked k)
        (\<lambda>outcome. bindIO (modS ?g) (\<lambda>_. retIO outcome)) (?f w)))"
        by (intro oc.tr.rel_bind exchange_tx [OF refl] oc.tr.keepE oc.tr.keep_bind oc.tr_mod oc.tr.keep_ret) simp_all
      then show ?thesis by (rule oc.tx_trans [rotated]) (simp add: oc.tx_idle)
    qed
    then have "oc.tr.keep S (MsgID target) locked ?said (sendUnit S target h tbl locked k)"
      unfolding s by (intro oc.tr.keepI) simp
    then show ?thesis using Some p by (simp add: r t answerOf_def)
  qed
qed

lemma recordRetryable_tx: "oc.tr.keep S i locked said (recordRetryableFailure S tbl locked i k)"
  unfolding recordRetryableFailure_def
  by (intro oc.tr.keep_bind oc.tr_now oc.tr_updateLocked oc.tr_notify oc.tr_commit outcome_record) auto

lemma deliverUnit_rows:
  "\<exists>now locked. locked = map rAddr (lockedRows S tbl (MsgID target) (tDomain target) batch now (tabs (wDb w)))
    \<and> rowwise (outcomeRow S (MsgID target) locked
         (tookOver h (domainRecips S h (tDomain target) locked) locked (answerOf S (tDomain target))))
        (tabs (wDb w)) (tabs (wDb (snd (deliverUnit S target h tbl batch w))))"
  unfolding deliverUnit_def
  by (rule withLocks_rows [where said = "\<lambda>locked. tookOver h (domainRecips S h (tDomain target) locked) locked (answerOf S (tDomain target))"])
    (intro oc.tr.keep_bind sendUnit_tx oc.tr.keep_option oc.tr.keep_ret recordRetryable_tx)

text \<open>A unit the protocol forbids to send is recorded, and delivered to nobody.\<close>

lemma recordUnitInvalid_rows:
  "\<exists>now locked. locked = map rAddr (lockedRows S tbl (MsgID target) (tDomain target) batch now (tabs (wDb w)))
    \<and> rowwise (outcomeRow S (MsgID target) locked (\<lambda>_. False))
        (tabs (wDb w)) (tabs (wDb (snd (recordUnitInvalid S target tbl batch w))))"
  unfolding recordUnitInvalid_def
  by (rule withLocks_rows [where said = "\<lambda>_ _. False"])
    (intro oc.tr.keep_bind oc.tr_updateLocked oc.tr_notify oc.tr_commit outcome_record, auto)


section \<open>Codes in order\<close>

lemma domainRecips_order:
  assumes "AddTo h = [] \<or> hasFlag (Flags h) FlagHasAddTo"
  shows "map fst (domainRecips S h domain locked) = map ToString (fst (localRecipients (uni (lib S)) domain h))"
  using assms by (auto simp: domainRecips_def localRecipients_def Let_def)

end
