(* ===== verification/Sealed.thy ===== *)
theory Sealed
  imports Finalize SenderProps
begin

text \<open>
  What is sealed stays as it is. Once a message is sent, or a batch of added recipients has its hash,
  no operation of the host changes its content, its identity or the list of its recipients:
  not storing what is received, not sealing drafts and not delivering.
\<close>

section \<open>Tables that keep what is sealed\<close>

text \<open>All of a sent row but the link to its parent, which may be found later.\<close>

definition sameIdentity :: "msgRow \<Rightarrow> msgRow \<Rightarrow> bool" where
  "sameIdentity m m' \<longleftrightarrow> m'\<lparr>mPid := None, mPsha := None\<rparr> = m\<lparr>mPid := None, mPsha := None\<rparr>
     \<and> (nullable (mPsha m) \<noteq> [] \<longrightarrow> mPsha m' = mPsha m)"

definition rcptsOf :: "int \<Rightarrow> tables \<Rightarrow> (int \<times> string) list" where
  "rcptsOf i t = map (\<lambda>r. (rId r, rAddr r)) (filter (\<lambda>r. rMsg r = i) (tos t))"

definition attsOf :: "int \<Rightarrow> tables \<Rightarrow> attRow list" where
  "attsOf i t = filter (\<lambda>r. tMsg r = i) (atts t)"

definition addedOf :: "int \<Rightarrow> tables \<Rightarrow> (int \<times> string) list" where
  "addedOf b t = map (\<lambda>r. (rId r, rAddr r)) (filter (\<lambda>r. rBatch r = b) (addTos t))"

definition keepsMsg :: "tables \<Rightarrow> tables \<Rightarrow> msgRow \<Rightarrow> bool" where
  "keepsMsg t t' m \<longleftrightarrow> (\<exists>m' \<in> set (msgs t'). sameIdentity m m')
     \<and> rcptsOf (mId m) t' = rcptsOf (mId m) t \<and> attsOf (mId m) t' = attsOf (mId m) t"

definition keepsBatch :: "tables \<Rightarrow> tables \<Rightarrow> batchRow \<Rightarrow> bool" where
  "keepsBatch t t' b \<longleftrightarrow> b \<in> set (batches t') \<and> addedOf (bId b) t' = addedOf (bId b) t"

definition sealedKept :: "tables \<Rightarrow> tables \<Rightarrow> bool" where
  "sealedKept t t' \<longleftrightarrow> (\<forall>m \<in> set (msgs t). mTime m \<noteq> None \<longrightarrow> keepsMsg t t' m)
     \<and> (\<forall>b \<in> set (batches t). bSha b \<noteq> None \<longrightarrow> keepsBatch t t' b)"

lemma sameIdentity_refl [simp]: "sameIdentity m m"
  by (simp add: sameIdentity_def)

lemma sameIdentity_self: "m \<in> set ms \<Longrightarrow> \<exists>m' \<in> set ms. sameIdentity m m'"
  using sameIdentity_refl by blast

lemma sameIdentity_fields: "sameIdentity m m' \<Longrightarrow> mId m' = mId m \<and> mTime m' = mTime m \<and> mSha m' = mSha m \<and> mWire m' = mWire m"
  unfolding sameIdentity_def by (cases m; cases m') simp

lemma sameIdentity_trans: "sameIdentity a b \<Longrightarrow> sameIdentity b c \<Longrightarrow> sameIdentity a c"
  unfolding sameIdentity_def by (cases "nullable (mPsha a) = []") auto

lemma sealedKept_refl [simp]: "sealedKept t t"
  by (auto simp: sealedKept_def keepsMsg_def keepsBatch_def intro: sameIdentity_refl)

lemma sealedKept_trans:
  assumes "sealedKept t u" "sealedKept u v"
  shows "sealedKept t v"
proof -
  have "keepsMsg t v m" if m: "m \<in> set (msgs t)" "mTime m \<noteq> None" for m
  proof -
    from assms(1) m obtain m' where m': "m' \<in> set (msgs u)" "sameIdentity m m'"
      and e: "rcptsOf (mId m) u = rcptsOf (mId m) t" "attsOf (mId m) u = attsOf (mId m) t"
      by (auto simp: sealedKept_def keepsMsg_def)
    note f = sameIdentity_fields [OF m'(2)]
    with assms(2) m'(1) m(2) have "keepsMsg u v m'" by (auto simp: sealedKept_def)
    then show ?thesis using e f sameIdentity_trans [OF m'(2)] by (auto simp: keepsMsg_def)
  qed
  moreover have "keepsBatch t v b" if "b \<in> set (batches t)" "bSha b \<noteq> None" for b
    using assms that by (auto simp: sealedKept_def keepsBatch_def)
  ultimately show ?thesis by (simp add: sealedKept_def)
qed

section \<open>Statements\<close>

text \<open>An update of rows in place, and rows that are appended to what is not sealed.\<close>

lemma keeps_updMsgs:
  assumes "\<And>m. m \<in> set (msgs t) \<Longrightarrow> mTime m \<noteq> None \<Longrightarrow> sameIdentity m (g m)"
  shows "sealedKept t (t\<lparr>msgs := map g (msgs t)\<rparr>)"
  using assms by (auto simp: sealedKept_def keepsMsg_def keepsBatch_def rcptsOf_def attsOf_def addedOf_def intro: sameIdentity_self)

lemma keeps_updBatches:
  assumes "\<And>b. b \<in> set (batches t) \<Longrightarrow> bSha b \<noteq> None \<Longrightarrow> g b = b"
  shows "sealedKept t (t\<lparr>batches := map g (batches t)\<rparr>)"
proof -
  have "b \<in> g ` set (batches t)" if "b \<in> set (batches t)" "bSha b \<noteq> None" for b
    using assms [OF that] that(1) by (metis imageI)
  then show ?thesis by (auto simp: sealedKept_def keepsMsg_def keepsBatch_def rcptsOf_def attsOf_def addedOf_def intro: sameIdentity_self)
qed

lemma keeps_newMsg: "sealedKept t (t\<lparr>msgs := msgs t @ [m]\<rparr>)"
  using sameIdentity_self [of _ "msgs t"] by (fastforce simp: sealedKept_def keepsMsg_def keepsBatch_def rcptsOf_def attsOf_def addedOf_def)

lemma keeps_newBatch: "sealedKept t (t\<lparr>batches := batches t @ [b]\<rparr>)"
  by (auto simp: sealedKept_def keepsMsg_def keepsBatch_def rcptsOf_def attsOf_def addedOf_def intro: sameIdentity_self)

lemma sent_msgAt: "wfTables t q \<Longrightarrow> msgAt t i = Some m \<Longrightarrow> m' \<in> set (msgs t) \<Longrightarrow> mId m' = i \<Longrightarrow> m' = m"
  using find_unique [of mId "msgs t" m' "\<lambda>_. True"] wfD(1) [of t q] by (simp add: msgAt_def keysOK_def)

lemma sealed_batchAt: "wfTables t q \<Longrightarrow> batchAt t i = Some b \<Longrightarrow> b' \<in> set (batches t) \<Longrightarrow> bId b' = i \<Longrightarrow> b' = b"
  using find_unique [of bId "batches t" b' "\<lambda>_. True"] wfD(1) [of t q] by (simp add: batchAt_def keysOK_def)

lemma keeps_newTo:
  assumes "wfTables t q" "msgAt t (rMsg r) = Some m" "mTime m = None"
  shows "sealedKept t (t\<lparr>tos := tos t @ [r]\<rparr>)"
proof -
  have "rMsg r \<noteq> mId m'" if "m' \<in> set (msgs t)" "mTime m' \<noteq> None" for m'
    using sent_msgAt [OF assms(1,2) that(1)] that(2) assms(3) by auto
  then show ?thesis by (auto simp: sealedKept_def keepsMsg_def keepsBatch_def rcptsOf_def attsOf_def addedOf_def intro: sameIdentity_self)
qed

lemma keeps_newAtt:
  assumes "wfTables t q" "msgAt t (tMsg r) = Some m" "mTime m = None"
  shows "sealedKept t (t\<lparr>atts := atts t @ [r]\<rparr>)"
proof -
  have "tMsg r \<noteq> mId m'" if "m' \<in> set (msgs t)" "mTime m' \<noteq> None" for m'
    using sent_msgAt [OF assms(1,2) that(1)] that(2) assms(3) by auto
  then show ?thesis by (auto simp: sealedKept_def keepsMsg_def keepsBatch_def rcptsOf_def attsOf_def addedOf_def intro: sameIdentity_self)
qed

lemma keeps_newAddTo:
  assumes "wfTables t q" "batchAt t (rBatch r) = Some b" "bSha b = None"
  shows "sealedKept t (t\<lparr>addTos := addTos t @ [r]\<rparr>)"
proof -
  have "rBatch r \<noteq> bId b'" if "b' \<in> set (batches t)" "bSha b' \<noteq> None" for b'
    using sealed_batchAt [OF assms(1,2) that(1)] that(2) assms(3) by auto
  then show ?thesis by (auto simp: sealedKept_def keepsMsg_def keepsBatch_def rcptsOf_def attsOf_def addedOf_def intro: sameIdentity_self)
qed

lemma parentLinkOK_same: "parentLinkOK t m p = Some m' \<Longrightarrow> sameIdentity m m'"
  by (auto simp: parentLinkOK_def sameIdentity_def nullable_def split: option.splits if_splits)

lemma keeps_link:
  assumes "updRows (\<lambda>m. if P m then parentLinkOK t m p else Some m) (msgs t) = Some ms"
  shows "sealedKept t (t\<lparr>msgs := ms\<rparr>)"
proof -
  from updRows_Some [OF assms] have ms: "ms = map (\<lambda>m. the (if P m then parentLinkOK t m p else Some m)) (msgs t)"
    and ok: "\<And>m. m \<in> set (msgs t) \<Longrightarrow> P m \<Longrightarrow> parentLinkOK t m p \<noteq> None"
    by (auto split: if_splits)
  show ?thesis unfolding ms by (rule keeps_updMsgs) (use ok parentLinkOK_same in \<open>fastforce split: if_split\<close>)
qed

lemma keeps_sealBatchRow: "sealBatchRow P i hash data t = Some t' \<Longrightarrow> sealedKept t t'"
proof -
  assume "sealBatchRow P i hash data t = Some t'"
  then obtain j bs where bs: "updRows (\<lambda>b. if bId b \<noteq> i then Some b
        else if bSha b \<noteq> None \<and> (bSha b \<noteq> Some hash \<or> bWire b \<noteq> Some j) then None
        else Some (b\<lparr>bSha := Some hash, bWire := Some j\<rparr>)) (batches t) = Some bs" and t': "t' = t\<lparr>batches := bs\<rparr>"
    by (auto simp: sealBatchRow_def split: option.splits)
  have b: "b\<lparr>bSha := Some hash, bWire := Some j\<rparr> = b" if "bSha b = Some hash" "bWire b = Some j" for b :: batchRow
    using that by (cases b) simp
  show ?thesis
    using updRows_Some [OF bs] unfolding t' by (auto intro!: keeps_updBatches simp: b split: if_splits)
qed

lemma keeps_finalizeMsgRow: "finalizeMsgRow P i time hash snap t = Some t' \<Longrightarrow> sealedKept t t'"
proof (erule finalizeMsgRow_Some)
  fix w ms
  assume t': "t\<lparr>msgs := ms\<rparr> = t'" and ms: "updRows (\<lambda>m. if mId m \<noteq> i then Some m else if mTime m \<noteq> None then None
       else Some (m\<lparr>mTime := Some time, mSha := Some hash, mWire := w\<rparr>)) (msgs t) = Some ms"
  show ?thesis using updRows_Some [OF ms] unfolding t' [symmetric] by (auto intro!: keeps_updMsgs split: if_splits)
qed

text \<open>Sealing a draft.\<close>

definition sealsRow :: "tables \<Rightarrow> (msgRow \<Rightarrow> msgRow) \<Rightarrow> msgRow \<Rightarrow> msgRow \<Rightarrow> bool" where
  "sealsRow t f m g \<longleftrightarrow> (mTime m = None \<or> f m = m)
     \<and> (case mPid m of None \<Rightarrow> g = f m | Some p \<Rightarrow> parentLinkOK t (f m) p = Some g)"

lemma sealMsgRow_Some:
  assumes "sealMsgRow P i time hash snap h t = Some t'"
  obtains w g where "jsonb P snap = Some w" "t' = t\<lparr>msgs := map g (msgs t)\<rparr>" "\<not> list_ex (\<lambda>m. mId m \<noteq> i \<and> mSha m = Some hash) (msgs t)"
    "\<And>m. mId m \<noteq> i \<Longrightarrow> g m = m"
    "\<And>m. m \<in> set (msgs t) \<Longrightarrow> mId m = i \<Longrightarrow> sealsRow t (sealedRow time hash w h) m (g m)"
proof -
  let ?f = "\<lambda>w m. if mId m \<noteq> i then Some m
               else let m' = sealedRow time hash w h m
                    in if mTime m \<noteq> None \<and> m' \<noteq> m then None
                       else case mPid m of None \<Rightarrow> Some m' | Some p \<Rightarrow> parentLinkOK t m' p"
  from assms obtain w ms where w: "jsonb P snap = Some w" and new: "\<not> list_ex (\<lambda>m. mId m \<noteq> i \<and> mSha m = Some hash) (msgs t)"
    and ms: "updRows (?f w) (msgs t) = Some ms" and t': "t' = t\<lparr>msgs := ms\<rparr>"
    by (auto simp: sealMsgRow_def split: option.splits if_splits)
  note u = updRows_Some [OF ms]
  show thesis
  proof (rule that [OF w _ new, of "\<lambda>m. the (?f w m)"])
    show "t' = t\<lparr>msgs := map (\<lambda>m. the (?f w m)) (msgs t)\<rparr>" using u t' by simp
    fix m
    show "the (?f w m) = m" if "mId m \<noteq> i" using that by simp
    show "sealsRow t (sealedRow time hash w h) m (the (?f w m))" if "m \<in> set (msgs t)" "mId m = i"
    proof -
      from u that(1) obtain y where "?f w m = Some y" by auto
      with that(2) show ?thesis by (auto simp: sealsRow_def Let_def split: if_splits option.splits)
    qed
  qed
qed

lemma sealsRow_fields:
  assumes "sealsRow t (sealedRow time hash w h) m g"
  shows "mId g = mId m" "mTerminal g = mTerminal m" "mTime g = Some time" "mSha g = Some hash" "mWire g = Some w"
    "mWireHeader g = Some (Encode h)" "mFrom g = mFrom m" "mPath g = mPath m" "mTopic g = mTopic m" "mType g = mType m"
    "mPid g = mPid m" "replyOK t g" "mTime m \<noteq> None \<Longrightarrow> sameIdentity m g"
proof -
  have m: "mTime m = None \<or> sealedRow time hash w h m = m" using assms by (simp add: sealsRow_def)
  have "g = sealedRow time hash w h m \<and> mPid m = None \<or> (\<exists>p. mPid m = Some p \<and> parentLinkOK t (sealedRow time hash w h m) p = Some g)"
    using assms by (simp add: sealsRow_def split: option.splits)
  moreover have "mPid (sealedRow time hash w h m) = mPid m" by (simp add: sealedRow_def)
  ultimately have i: "sameIdentity (sealedRow time hash w h m) g" and r: "replyOK t g" and p: "mPid g = mPid m"
    by (auto dest: parentLinkOK_same parentLinkOK_Some(5) parentLinkOK_linked simp: replyOK_def)
  show "replyOK t g" "mPid g = mPid m" by (rule r, rule p)
  have "g\<lparr>mPid := None, mPsha := None\<rparr> = (sealedRow time hash w h m)\<lparr>mPid := None, mPsha := None\<rparr>"
    using i by (simp add: sameIdentity_def)
  then show "mId g = mId m" "mTerminal g = mTerminal m" "mTime g = Some time" "mSha g = Some hash" "mWire g = Some w"
    "mWireHeader g = Some (Encode h)" "mFrom g = mFrom m" "mPath g = mPath m" "mTopic g = mTopic m" "mType g = mType m"
    by (cases g; cases m; simp add: sealedRow_def)+
  show "mTime m \<noteq> None \<Longrightarrow> sameIdentity m g" using m i by auto
qed

lemma keeps_sealMsgRow: "sealMsgRow P i time hash snap h t = Some t' \<Longrightarrow> sealedKept t t'"
proof (erule sealMsgRow_Some)
  fix w g
  assume t': "t' = t\<lparr>msgs := map g (msgs t)\<rparr>" and o: "\<And>m. mId m \<noteq> i \<Longrightarrow> g m = m"
    and r: "\<And>m. m \<in> set (msgs t) \<Longrightarrow> mId m = i \<Longrightarrow> sealsRow t (sealedRow time hash w h) m (g m)"
  have "sameIdentity m (g m)" if "m \<in> set (msgs t)" "mTime m \<noteq> None" for m
    using o sealsRow_fields(13) [OF r [OF that(1)] that(2)] by (cases "mId m = i") auto
  then show ?thesis unfolding t' by (rule keeps_updMsgs)
qed

lemma keeps_postponeBatch: "postponeBatch b time t = Some t' \<Longrightarrow> sealedKept t t'"
  by (auto simp: postponeBatch_def intro!: keeps_updBatches)

lemma wf_postponeBatch: "wf.pres (exec (postponeBatch b time))"
  by (rule wf.pres_exec) (auto simp: postponeBatch_def intro!: wf_updBatches)

lemma wf_sealMsgRow: "wf.pres (exec (sealMsgRow P i time hash snap h))"
proof (rule wf.pres_exec)
  fix t q t'
  assume w: "wfTables t q" and u: "sealMsgRow P i time hash snap h t = Some t'"
  from u show "wfTables t' q"
  proof (rule sealMsgRow_Some)
    fix v g
    assume t': "t' = t\<lparr>msgs := map g (msgs t)\<rparr>" and new: "\<not> list_ex (\<lambda>m. mId m \<noteq> i \<and> mSha m = Some hash) (msgs t)"
      and o: "\<And>m. mId m \<noteq> i \<Longrightarrow> g m = m"
      and r: "\<And>m. m \<in> set (msgs t) \<Longrightarrow> mId m = i \<Longrightarrow> sealsRow t (sealedRow time hash v h) m (g m)"
    have g: "mId (g m) = mId m \<and> mTerminal (g m) = mTerminal m \<and> (mTime m \<noteq> None \<longrightarrow> mTime (g m) \<noteq> None \<and> mSha (g m) = mSha m)"
      if "m \<in> set (msgs t)" for m
    proof (cases "mId m = i")
      case True
      note row = sealsRow_fields [OF r [OF that True]]
      show ?thesis using row(1-4) sameIdentity_fields row(13) by auto
    qed (simp add: o)
    have s: "mSha (g y) = Some hash" if "y \<in> set (msgs t)" "mId y = i" for y using sealsRow_fields(4) [OF r [OF that]] .
    have n: "mSha y \<noteq> Some hash" if "y \<in> set (msgs t)" "mId y \<noteq> i" for y using new that by (auto simp: list_ex_iff)
    have "hashesUnique (map g (msgs t))"
    proof (rule hashesI)
      fix m m' h'
      assume "m \<in> set (map g (msgs t))" "m' \<in> set (map g (msgs t))" and h: "mSha m = Some h'" "mSha m' = Some h'"
      then obtain x x' where x: "x \<in> set (msgs t)" "x' \<in> set (msgs t)" "m = g x" "m' = g x'" by auto
      consider "mId x = i" "mId x' = i" | "mId x \<noteq> i" "mId x' \<noteq> i" | "mId x \<noteq> i" "mId x' = i" | "mId x = i" "mId x' \<noteq> i" by blast
      then have "mId x = mId x'"
      proof cases
        case 2
        then show ?thesis using x h o hashesD [of "msgs t" x x' h'] wfD(2) [OF w] by (simp add: hashesOK_def)
      qed (use x h s n o in auto)
      then show "mId m = mId m'" using x g by simp
    qed
    then have "hashesOK (t\<lparr>msgs := map g (msgs t)\<rparr>)" by (simp add: hashesOK_def)
    moreover have "replyOK t (g m)" if "m \<in> set (msgs t)" "replyOK t m" for m
      using o sealsRow_fields(12) [OF r [OF that(1)]] that(2) by (cases "mId m = i") auto
    ultimately show "wfTables t' q" using g unfolding t' by (intro wf_updMsgs [OF w]) blast+
  qed
qed

section \<open>Operations\<close>

text \<open>Well-formed tables that keep what was sealed in \<open>t0\<close>.\<close>

interpretation im: table_invariant "\<lambda>t q. wfTables t q \<and> sealedKept t0 t" for t0
  by unfold_locales (simp add: wfTables_Suc)

lemma im_pres:
  assumes "wf.pres f" "\<And>s. wfTables (tabs s) (seq s) \<Longrightarrow> sealedKept (tabs s) (tabs (snd (f s)))"
  shows "im.pres t0 f"
  unfolding im.pres_def im.holds_def
  using wf.presD [OF assms(1), unfolded wf.holds_def] assms(2) sealedKept_trans by blast

lemma exec_tabs: "tabs (snd (exec u s)) = tabs s \<or> u (tabs s) = Some (tabs (snd (exec u s)))" for s :: db
  by (auto simp: exec_def stmt_def split: list.splits option.split)

lemma insertId_tabs: "tabs (snd (insertId u s)) = tabs s \<or> u (seq s) (tabs s) = Some (tabs (snd (insertId u s)))" for s :: db
  by (auto simp: insertId_def stmt_def split: list.splits option.split)

lemma insertId_keeps:
  "(\<And>t'. u (seq s) (tabs s) = Some t' \<Longrightarrow> sealedKept (tabs s) t') \<Longrightarrow> sealedKept (tabs s) (tabs (snd (insertId u s)))" for s :: db
  using insertId_tabs [of u s] by auto

lemma snd_bind_ret: "snd (bindIO m (\<lambda>_. retIO x) s) = snd (m s)"
  by (simp add: bindIO_def retIO_def split: prod.split res.split)

lemma wf_single: "wf.pres (bindIO m (\<lambda>_. retIO x)) \<Longrightarrow> wf.pres m"
  unfolding wf.pres_def snd_bind_ret .

lemma im_exec:
  assumes "wf.pres (exec u)" "\<And>t q t'. wfTables t q \<Longrightarrow> u t = Some t' \<Longrightarrow> sealedKept t t'"
  shows "im.pres t0 (exec u)"
proof (rule im_pres [OF assms(1)])
  fix s :: db assume "wfTables (tabs s) (seq s)"
  then show "sealedKept (tabs s) (tabs (snd (exec u s)))" using assms(2) exec_tabs [of u s] by auto
qed

lemma im_updates:
  "im.pres t0 (exec (sealBatchRow P i hash data))" "im.pres t0 (exec (finalizeMsgRow P i time hash snap))"
  "im.pres t0 (exec (sealMsgRow P i time hash2 snap2 h))" "im.pres t0 (exec (postponeBatch b time))"
  by (rule im_exec, rule wf_statements wf_sealMsgRow wf_postponeBatch,
      erule keeps_sealBatchRow keeps_finalizeMsgRow keeps_sealMsgRow keeps_postponeBatch)+

lemma im_links: "im.pres t0 (setParentID i p)" "im.pres t0 (setPendingChildrenParentID p hash)"
  using wf_setParentID [of i p] wf_setPendingChildrenParentID [of p hash]
  unfolding setParentID_def setPendingChildrenParentID_def
  by (erule_tac im_exec, auto intro: keeps_link)+

lemma im_newMsg: "im.pres t0 (insertMsg h ph)"
proof (rule im_pres [OF wf_insertMsg])
  fix s :: db
  show "sealedKept (tabs s) (tabs (snd (insertMsg h ph s)))"
    unfolding insertMsg_def by (rule insertId_keeps) (auto simp: keeps_newMsg split: if_splits)
qed

lemma im_newBatch: "im.pres t0 (insertAddToBatch i sender now)"
proof (rule im_pres [OF wf_insertAddToBatch])
  fix s :: db
  show "sealedKept (tabs s) (tabs (snd (insertAddToBatch i sender now s)))"
    unfolding insertAddToBatch_def by (rule insertId_keeps) (auto simp: keeps_newBatch split: if_splits option.splits)
qed

lemma im_newTo: "im.pres t0 (insertTo ignore i a d c)"
proof (rule im_pres [OF wf_insertTo])
  fix s :: db assume w: "wfTables (tabs s) (seq s)"
  show "sealedKept (tabs s) (tabs (snd (insertTo ignore i a d c s)))"
    unfolding insertTo_def snd_bind_ret
    by (rule insertId_keeps) (auto intro!: keeps_newTo [OF w] simp: newRcpt_def split: if_splits option.splits)
qed

lemma im_newAddTo: "im.pres t0 (insertAddTo ignore i b a d c)"
proof (rule im_pres [OF wf_insertAddTo])
  fix s :: db assume w: "wfTables (tabs s) (seq s)"
  show "sealedKept (tabs s) (tabs (snd (insertAddTo ignore i b a d c s)))"
    unfolding insertAddTo_def snd_bind_ret
    by (rule insertId_keeps) (auto intro!: keeps_newAddTo [OF w] simp: newRcpt_def split: if_splits option.splits)
qed

lemma im_newAtts: "im.pres t0 (insertAttachments i n as)"
proof (induction as arbitrary: n)
  case (Cons a as)
  note wf_single [OF wf_insertAttachments [of i n "[a]", unfolded insertAttachments.simps]]
  then have "wf.pres (exec (\<lambda>t.
       if \<not> (varchar255 (aType a) \<and> varchar255 (aFilename a) \<and> pgText (aFilepath a) \<and> int4 (uint (aSize a)))
          \<or> list_ex (\<lambda>r. tMsg r = i \<and> tFilename r = aFilename a) (atts t)
          \<or> (case msgAt t i of None \<Rightarrow> True | Some m \<Rightarrow> mTime m \<noteq> None) then None
       else Some (t\<lparr>atts := atts t @ [\<lparr>tMsg = i, tPosition = int n, tFlags = uint (aFlags a), tType = aType a,
              tFilename = aFilename a, tFilesize = uint (aSize a), tFilepath = aFilepath a\<rparr>]\<rparr>)))" .
  then show ?case
    unfolding insertAttachments.simps
    by (intro im.pres_bind im_exec Cons) (auto intro!: keeps_newAtt split: if_splits option.splits)
qed auto

lemma im_inserts: "im.pres t0 (insertTos ignore i f as)" "im.pres t0 (insertAddTos ignore i b f as)"
  by (induction as) (auto intro: im_newTo im_newAddTo)

lemmas im_statements = im_newMsg im_newBatch im_inserts im_newAtts im_updates im_links

lemma im_storeBatch: "im.pres t0 (storeBatch E fs ignore i outcome h)"
  unfolding storeBatch_def sealReceivedBatch_def Let_def
  by (auto intro!: im.pres_bind im_statements split: prod.splits)

lemma im_attach: "im.pres t0 (attachAddToRecipients E fs now i h)"
  unfolding attachAddToRecipients_def by (auto intro!: im.pres_bind im_statements im_storeBatch)

lemma im_resolve: "im.pres t0 (resolveMsgParentLinks i h ph req)"
  unfolding resolveMsgParentLinks_def resolveStoredParent_def resolvePendingChildLinks_def lookupParentID_def
  by (auto intro!: im.pres_bind im_statements)

lemma im_existing: "im.pres t0 (existingMsgIDForAddTo h x)"
  unfolding existingMsgIDForAddTo_def by auto

lemma im_storeMsgDetail: "im.pres t0 (storeMsgDetail E fs now h lo)"
  unfolding storeMsgDetail_def Let_def
  by (intro im.pres_transaction im.pres_bind im.pres_ret)
     (auto intro!: im.pres_bind im.pres_ret im_statements im_existing im_attach im_storeBatch im_resolve split: prod.splits)

lemma im_storeMsgHeaderOnly: "im.pres t0 (storeMsgHeaderOnly E fs now h)"
  unfolding storeMsgHeaderOnly_def
  by (intro im.pres_transaction im.pres_bind im.pres_ret) (auto intro!: im.pres_bind im_existing im_attach split: prod.splits)

lemma im_load: "im.pres t0 (load F i)"
  unfolding load_def by (auto intro!: im.pres_bind split: option.splits)

lemma im_FinalizeBatch: "im.pres t0 (FinalizeBatch F fs i b)"
proof -
  have r: "im.pres t0 (representation F fs i s)" for s
    unfolding representation_def by (auto intro!: im.pres_bind im.pres_ret im.pres_query split: option.splits)
  have l: "im.pres t0 (lockBatch b i)"
    unfolding lockBatch_def by (auto intro!: im.pres_bind im.pres_ret im.pres_query split: option.splits)
  have c: "im.pres t0 (if P then f else g)" if "im.pres t0 f" "im.pres t0 g" for P and f g :: "'a qio" using that by simp
  show ?thesis
    unfolding FinalizeBatch_def sealBatch_def case_prod_beta
    by (intro im.pres_bind im.pres_ret im.pres_query im_load im_updates r l c)
qed

lemma im_finalizeBatches: "im.pres t0 (finalizeBatches F fs i time bs)"
  by (induction bs) (auto intro!: im.pres_bind im_updates im_FinalizeBatch)

lemma im_parentHashOf: "im.pres t0 (parentHashOf s)"
  unfolding parentHashOf_def by (auto intro!: im.pres_bind im.pres_ret im.pres_query split: option.splits)

text \<open>The same of steps on the whole world.\<close>

definition dbKept :: "finalizing \<Rightarrow> finalizing \<Rightarrow> bool" where
  "dbKept w w' \<longleftrightarrow> (\<forall>t0. im.holds t0 (wDb w) \<longrightarrow> im.holds t0 (wDb w'))"

interpretation dk: step_relation dbKept
  by unfold_locales (auto simp: dbKept_def)

lemma dk_onDb: "(\<And>t0. im.pres t0 f) \<Longrightarrow> dk.keep (onDb f)"
proof (rule dk.keepI)
  fix w :: finalizing assume f: "\<And>t0. im.pres t0 f"
  obtain r d where "f (wDb w) = (r, d)" by fastforce
  then show "dbKept w (snd (onDb f w))" using im.presD(1) [OF f, of _ "wDb w"] by (simp add: dbKept_def onDb_def)
qed

lemma dk_idle: "dk.keep (onDisk f)" "dk.keep (modS (\<lambda>w. w\<lparr>newFiles := g w\<rparr>))"
  by (rule dk.keepI, simp add: dbKept_def onDisk_def modS_def split: prod.split)+

lemma dk_Finalize: "dk.keep (Finalize F i time)"
  unfolding Finalize_def sealDraft_def case_prod_beta
  by (intro dk.keep_bind dk.keep_if dk.keep_ret dk_idle dk_onDb im_load im_parentHashOf im_updates im_finalizeBatches im.pres_query)

section \<open>Deliveries\<close>

definition sameRcpt :: "rcptRow \<Rightarrow> rcptRow \<Rightarrow> bool" where
  "sameRcpt r r' \<longleftrightarrow> rId r' = rId r \<and> rMsg r' = rMsg r \<and> rBatch r' = rBatch r \<and> rAddr r' = rAddr r"

lemma rowwise_keeps:
  assumes "rowwise sameRcpt t t'"
  shows "sealedKept t t'"
proof -
  have r: "map (\<lambda>r. (rId r, rAddr r)) (filter P rs') = map (\<lambda>r. (rId r, rAddr r)) (filter P rs)"
    if "list_all2 sameRcpt rs rs'" "\<And>r r'. sameRcpt r r' \<Longrightarrow> P r' = P r" for P rs rs'
    using that(1)
  proof (induction rule: list_all2_induct)
    case (Cons x xs y ys)
    then show ?case using that(2) [OF Cons(1)] by (simp add: sameRcpt_def)
  qed simp
  have a: "list_all2 sameRcpt (rowsOf tbl t) (rowsOf tbl t')" for tbl using assms by (simp add: rowwise_def)
  have "list_all2 sameRcpt (tos t) (tos t')" "list_all2 sameRcpt (addTos t) (addTos t')"
    using a [of MsgTo] a [of MsgAddTo] by (simp_all add: rowsOf_def)
  from r [OF this(1), of "\<lambda>r. rMsg r = i" for i] r [OF this(2), of "\<lambda>r. rBatch r = i" for i]
  have "rcptsOf i t' = rcptsOf i t" "addedOf i t' = addedOf i t" for i
    by (simp_all add: rcptsOf_def addedOf_def sameRcpt_def)
  moreover have "msgs t' = msgs t" "batches t' = batches t" "atts t' = atts t" using assms by (simp_all add: rowwise_def)
  ultimately show ?thesis by (auto simp: sealedKept_def keepsMsg_def keepsBatch_def attsOf_def intro: sameIdentity_self)
qed

lemma rowwise_mono: "rowwise chg t t' \<Longrightarrow> (\<And>r r'. chg r r' \<Longrightarrow> chg' r r') \<Longrightarrow> rowwise chg' t t'"
  unfolding rowwise_def by (auto intro: list_all2_mono)

lemma outcome_sameRcpt: "outcomeRow S i locked said r r' \<Longrightarrow> sameRcpt r r'"
  by (auto simp: outcomeRow_def sameRcpt_def)

definition rowsKept :: "sending \<Rightarrow> sending \<Rightarrow> bool" where
  "rowsKept w w' \<longleftrightarrow> rowwise sameRcpt (tabs (wDb w)) (tabs (wDb w'))"

interpretation same: row_change sameRcpt
  by unfold_locales (auto simp: sameRcpt_def)

interpretation ks: step_relation rowsKept
  by unfold_locales (auto simp: rowsKept_def intro: same.rowwise_trans)

lemma ks_idle: "(\<And>w. tabs (wDb (snd (m w))) = tabs (wDb w)) \<Longrightarrow> ks.keep m"
  by (rule ks.keepI) (simp add: rowsKept_def)

lemma outcome_kept: "\<exists>now locked. P now locked \<and> rowwise (outcomeRow S i locked (said locked)) t t' \<Longrightarrow> rowwise sameRcpt t t'"
  by (elim exE conjE, rule rowwise_mono) (simp, rule outcome_sameRcpt)

lemma ks_units: "ks.keep (deliverUnit S target h tbl b)" "ks.keep (recordUnitInvalid S target tbl b)"
proof -
  show "ks.keep (deliverUnit S target h tbl b)"
    by (rule ks.keepI) (simp only: rowsKept_def outcome_kept [OF deliverUnit_rows])
  show "ks.keep (recordUnitInvalid S target tbl b)"
    by (rule ks.keepI) (simp only: rowsKept_def outcome_kept [OF recordUnitInvalid_rows])
qed

lemma ks_onDb: "(\<And>s. tabs (snd (m s)) = tabs s) \<Longrightarrow> ks.keep (onDb m)"
  by (rule ks_idle) (simp add: onDb_def split: prod.split, metis snd_conv)

text \<open>Statements that only read.\<close>

definition reads :: "'a qio \<Rightarrow> bool" where
  "reads m \<longleftrightarrow> (\<forall>s. tabs (snd (m s)) = tabs s)"

lemma reads_basic: "reads (retIO x)" "reads (failIO e)" "reads (liftIO r)" "reads (query q)"
  by (auto simp: reads_def retIO_def failIO_def liftIO_def query_def stmt_def split: list.split)

lemma reads_bind: "reads m \<Longrightarrow> (\<And>x. reads (k x)) \<Longrightarrow> reads (bindIO m k)"
  unfolding reads_def bindIO_def by (auto split: prod.split res.split) (metis snd_conv)+

lemma reads_if: "reads m \<Longrightarrow> reads n \<Longrightarrow> reads (if b then m else n)"
  by simp

lemma reads_stmt: "reads m \<Longrightarrow> reads (stmt m)"
  by (auto simp: reads_def stmt_def split: list.split)

lemmas reads_intros = reads_bind reads_if reads_basic reads_stmt

lemma reads_loads: "reads (loadUnits E fs i)" "reads (isStoredMsgTerminal hash)" "reads (parentPendingForDomain S hash d)"
proof -
  have "reads (loadMsgFields E fs i)" "reads (loadAddToBatches E i)"
    unfolding loadMsgFields_def loadAddToBatches_def Let_def
    by (auto intro!: reads_intros split: option.split)
  then show "reads (loadUnits E fs i)" unfolding loadUnits_def by (intro reads_intros)
qed (auto simp: isStoredMsgTerminal_def parentPendingForDomain_def intro!: reads_intros)

lemma ks_reads: "reads m \<Longrightarrow> ks.keep (onDb m)"
  by (rule ks_onDb) (simp add: reads_def)

lemma ks_local: "ks.keep (markLocalDelivered S target)"
proof -
  have "ks.keep (onDb (exec (\<lambda>t. Some (mapRows tbl f t))))" if f: "\<And>r. sameRcpt r (f r)" for tbl f
  proof (rule ks.keepI)
    fix w :: sending
    have "rowwise sameRcpt (tabs (wDb w)) (mapRows tbl f (tabs (wDb w)))" by (rule same.rowwise_mapRows [OF f])
    then show "rowsKept w (snd (onDb (exec (\<lambda>t. Some (mapRows tbl f t))) w))"
      using exec_tabs [of "\<lambda>t. Some (mapRows tbl f t)" "wDb w"]
      by (auto simp: rowsKept_def onDb_def split: prod.split)
  qed
  moreover have "ks.keep (getNow S)" by (rule ks_idle) (simp add: getNow_def)
  ultimately show ?thesis
    unfolding markLocalDelivered_def by (intro ks.keep_bind ks.keep_ignore) (auto simp: sameRcpt_def)
qed

lemma ks_batches: "ks.keep (deliverBatches S target terminal bs)"
  by (induction bs) (auto intro!: ks.keep_intros ks_units split: sum.split)

lemma ks_deliverMessage: "ks.keep (deliverMessage S target)"
  unfolding deliverMessage_def deliverOriginal_def case_prod_beta
  by (intro ks.keep_if ks_local ks.keep_intros ks_reads reads_loads ks_batches ks_units)

text \<open>
  C12. What is sent or sealed never changes. Whatever statement, file operation or exchange fails,
  neither storing a received message, in full or its header alone, nor sealing a draft or a batch, nor
  delivering a message changes a sent message, but for the link to its parent, or a sealed batch, or
  adds, removes or reorders its recipients or attachments.
\<close>
theorem sealed_never_changes:
  assumes "wfTables (tabs s) (seq s)"
  shows "sealedKept (tabs s) (tabs (snd (storeMsgDetail E fs now h lo s)))
    \<and> sealedKept (tabs s) (tabs (snd (storeMsgHeaderOnly E fs now h s)))
    \<and> sealedKept (tabs s) (tabs (snd (FinalizeBatch F fs i b s)))
    \<and> (\<forall>w. wDb w = s \<longrightarrow> sealedKept (tabs s) (tabs (wDb (snd (Finalize F i timestamp w)))))
    \<and> (\<forall>w. wDb w = s \<longrightarrow> sealedKept (tabs s) (tabs (wDb (snd (deliverMessage S target w)))))"
proof (intro conjI allI impI)
  have h: "im.holds (tabs s) s" using assms by (simp add: im.holds_def)
  note d = im.presD(1) [OF _ h, unfolded im.holds_def]
  show "sealedKept (tabs s) (tabs (snd (storeMsgDetail E fs now h lo s)))" using d [OF im_storeMsgDetail] by blast
  show "sealedKept (tabs s) (tabs (snd (storeMsgHeaderOnly E fs now h s)))" using d [OF im_storeMsgHeaderOnly] by blast
  show "sealedKept (tabs s) (tabs (snd (FinalizeBatch F fs i b s)))" using d [OF im_FinalizeBatch] by blast
  show "sealedKept (tabs s) (tabs (wDb (snd (Finalize F i timestamp w))))" if "wDb w = s" for w
    using dk.keepE [OF dk_Finalize, of w F i timestamp] h that unfolding dbKept_def im.holds_def by blast
  show "sealedKept (tabs s) (tabs (wDb (snd (deliverMessage S target w))))" if "wDb w = s" for w
    using ks.keepE [OF ks_deliverMessage, of w S target] that by (auto simp: rowsKept_def intro: rowwise_keeps)
qed

end
