(* ===== verification/FinalizeProps.thy ===== *)
theory FinalizeProps
  imports Sealed
begin

text \<open>
  What sealing leaves: the row of the message and of each batch, whose hash is that of the bytes on
  disk behind its snapshot; that a sealed draft can be committed; and that the sender finds it.
\<close>

section \<open>Loading\<close>

lemma reads_Ok: "reads m \<Longrightarrow> m s = (Ok x, s') \<Longrightarrow> tabs s' = tabs s"
  unfolding reads_def by (metis snd_conv)

lemma reads_load: "reads (load F i)" "reads (parentHashOf x)" "reads (representation F fs i x)" "reads (lockBatch b i)"
  unfolding load_def parentHashOf_def representation_def lockBatch_def
  by (auto intro!: reads_intros split: option.split)

lemma storedOf_Ok:
  "storedOf m = Ok x \<Longrightarrow> sTime x = mTime m \<and> sPid x = mPid m \<and> sHash x = nullable (mSha m) \<and> sPrepared x = nullable (mWire m)
     \<and> AddressOf (mFrom m) = Ok (From (sHeader x)) \<and> Pid (sHeader x) = nullable (mPsha m) \<and> Topic (sHeader x) = mTopic m
     \<and> Type (sHeader x) = mType m \<and> Filepath (sHeader x) = mPath m \<and> AddTo (sHeader x) = [] \<and> AddToFrom (sHeader x) = None"
  by (auto simp: storedOf_def Let_def emptyHeader_def)

lemma load_Ok:
  assumes "load F i s = (Ok x, s')"
  obtains m where "msgAt (tabs s) i = Some m" "tabs s' = tabs s" "sTime x = mTime m" "sPid x = mPid m"
    "sHash x = nullable (mSha m)" "sPrepared x = nullable (mWire m)" "AddressOf (mFrom m) = Ok (From (sHeader x))"
    "Topic (sHeader x) = mTopic m" "Type (sHeader x) = mType m" "AddTo (sHeader x) = []"
    "addressesOf (map rAddr (filter (\<lambda>r. rMsg r = i) (tos (tabs s)))) = Ok (To (sHeader x))"
proof -
  from assms obtain m y s1 s2 to as where m: "msgAt (tabs s) i = Some m" and y: "storedOf m = Ok y"
    and x: "x = y\<lparr>sHeader := (sHeader y)\<lparr>To := to, Attachments := as\<rparr>\<rparr>"
    and to: "addressesOf (map rAddr (filter (\<lambda>r. rMsg r = i) (tos (tabs s)))) = Ok to"
    unfolding load_def
    by (auto elim!: bindIO_OkE dest!: query_Ok split: option.splits
        simp: eq_commute [of "Ok _" "storedOf _"] eq_commute [of "Ok _" "addressesOf _"])
  show thesis
    using that [OF m reads_Ok [OF reads_load(1) assms]] storedOf_Ok [OF y] to by (simp add: x)
qed

section \<open>Batches\<close>

lemma sealBatch_Ok:
  assumes "sealBatch F fs i b x row s = (Ok hash, s')"
  obtains h sender added h' data where "fst (representation F fs i x s) = Ok h"
    "AddressOf (bFrom row) = Ok sender" "addressesOf (batchAddrs (tabs s) b) = Ok added" "added \<noteq> []" "length added \<le> 255"
    "GetMessageHash (sLib F) fs (batchHeader (sHash x) row sender added h) = Ok (hash, h')"
    "MarshalPrepared (sJson F) h' = Ok data" "sealBatchRow (sPg F) b hash data (tabs s) = Some (tabs s')"
proof -
  from assms obtain h s1 s2 sender addrs added h' data where
    r: "representation F fs i x s = (Ok h, s1)" and "AddressOf (bFrom row) = Ok sender"
    "query (\<lambda>t. batchAddrs t b) s1 = (Ok addrs, s2)" "addressesOf addrs = Ok added" "added \<noteq> []" "length added \<le> 255"
    "GetMessageHash (sLib F) fs (batchHeader (sHash x) row sender added h) = Ok (hash, h')"
    "MarshalPrepared (sJson F) h' = Ok data" "exec (sealBatchRow (sPg F) b hash data) s2 = (Ok (), s')"
    unfolding sealBatch_def
    by (auto elim!: bindIO_OkE simp: not_less eq_commute [of "Ok _" "AddressOf _"] eq_commute [of "Ok _" "addressesOf _"]
        eq_commute [of "Ok _" "MarshalPrepared _ _"] eq_commute [of "Ok _" "GetMessageHash _ _ _"] split: if_splits)
  moreover from reads_Ok [OF reads_load(3) r] have "tabs s1 = tabs s" .
  ultimately show thesis using that [of h sender added h' data] by (auto dest!: query_Ok exec_Ok)
qed

text \<open>What sealing one batch comes to: nothing for a draft or a sealed batch, else its hash and snapshot.\<close>

lemma FinalizeBatch_Ok:
  assumes "FinalizeBatch F fs i b s = (Ok hash, s')"
  obtains (draft) m where "msgAt (tabs s) i = Some m" "mTime m = None" "hash = []" "tabs s' = tabs s"
  | (before) row where "row \<in> set (batches (tabs s))" "bId row = b" "bMsg row = i"
      "hash = nullable (bSha row)" "hash \<noteq> []" "tabs s' = tabs s"
  | (sealed) m row x s1 where "msgAt (tabs s) i = Some m" "mTime m \<noteq> None" "length (nullable (mSha m)) = 32"
      "row \<in> set (batches (tabs s))" "bId row = b" "bMsg row = i" "nullable (bSha row) = []"
      "tabs s1 = tabs s" "sPrepared x = nullable (mWire m)" "sHash x = nullable (mSha m)" "sealBatch F fs i b x row s1 = (Ok hash, s')"
proof -
  from assms obtain x s0 where l: "load F i s = (Ok x, s0)"
    and r: "(if sTime x = None then retIO []
       else if length (sHash x) \<noteq> 32 then failIO (Errorf ''message has no finalized identity'')
       else bindIO (lockBatch b i) (\<lambda>row.
            if nullable (bSha row) \<noteq> [] then retIO (nullable (bSha row)) else sealBatch F fs i b x row)) s0 = (Ok hash, s')"
    unfolding FinalizeBatch_def by (auto elim: bindIO_OkE)
  from l show thesis
  proof (rule load_Ok)
    fix m assume m: "msgAt (tabs s) i = Some m" "tabs s0 = tabs s" "sTime x = mTime m" "sHash x = nullable (mSha m)"
      "sPrepared x = nullable (mWire m)"
    show thesis
    proof (cases "mTime m")
      case None
      then show thesis using draft [OF m(1)] r m by simp
    next
      case (Some t)
      from r Some m obtain row s1 where n: "length (nullable (mSha m)) = 32" and row: "lockBatch b i s0 = (Ok row, s1)"
        and r1: "(if nullable (bSha row) \<noteq> [] then retIO (nullable (bSha row)) else sealBatch F fs i b x row) s1 = (Ok hash, s')"
        by (auto elim: bindIO_OkE split: if_splits)
      have s1: "tabs s1 = tabs s" using reads_Ok [OF reads_load(4) row] m(2) by simp
      have in_t: "row \<in> set (batches (tabs s))" "bId row = b" "bMsg row = i"
        using row m(2) by (auto simp: lockBatch_def find_Some_iff elim!: bindIO_OkE dest!: query_Ok split: option.splits)
      show thesis
      proof (cases "nullable (bSha row) = []")
        case False
        then show thesis using before [OF in_t] r1 s1 by simp
      next
        case True
        then show thesis using sealed [OF m(1) _ n in_t True s1 m(5,4)] r1 Some by simp
      qed
    qed
  qed
qed

text \<open>The bytes behind a batch are its own header and the payload of the message.\<close>

lemma GetMessageHash_fresh:
  "GetMessageHash L fs h = Ok (hash, h') \<Longrightarrow> messageHash h = None \<Longrightarrow>
     \<exists>m. messageBytes L fs h = Ok m \<and> hash = sha256 L m \<and> h' = h\<lparr>messageHash := Some hash\<rparr>"
  by (auto simp: GetMessageHash_def Let_def)

lemma messageBytes_batchHeader:
  assumes "messageBytes L fs (batchHeader hash row sender added h) = Ok m"
  shows "\<exists>payload. messageBytes L fs h = Ok (Encode h @ payload) \<and> m = Encode (batchHeader hash row sender added h) @ payload"
proof -
  have "hasFlag (Flags h OR FlagHasPid OR FlagHasAddTo) FlagDeflate = hasFlag (Flags h) FlagDeflate"
    by (simp add: hasFlag_other)
  then show ?thesis using assms by (auto simp: messageBytes_def batchHeader_def Clone_def)
qed

lemma UnmarshalPrepared_Ok:
  "UnmarshalPrepared L fs J data expected = Ok h \<Longrightarrow>
     length expected = 32 \<and> (\<exists>m. messageBytes L fs h = Ok m \<and> expected = sha256 L m \<and> messageHash h = Some expected)"
proof -
  assume "UnmarshalPrepared L fs J data expected = Ok h"
  then obtain h0 where g: "GetMessageHash L fs (Clone h0) = Ok (expected, h)" and n: "length expected = 32"
    by (auto simp: UnmarshalPrepared_def split: option.splits if_splits)
  have "messageHash (Clone h0) = None" by (simp add: Clone_def)
  with GetMessageHash_fresh [OF g] obtain m where m: "messageBytes L fs (Clone h0) = Ok m" "expected = sha256 L m"
    "h = (Clone h0)\<lparr>messageHash := Some expected\<rparr>" by blast
  have "messageBytes L fs h = messageBytes L fs (Clone h0)"
    by (simp add: m(3) messageBytes_def Encode_def encAddTo_def cong: option.case_cong if_cong)
  then show ?thesis using m n by simp
qed

lemma sealBatchRow_Some:
  assumes "sealBatchRow P b hash data t = Some t'"
  obtains w g where "jsonb P data = Some w" "t' = t\<lparr>batches := map g (batches t)\<rparr>" "\<And>r. bId r \<noteq> b \<Longrightarrow> g r = r"
    "\<And>r. r \<in> set (batches t) \<Longrightarrow> bId r = b \<Longrightarrow> g r = r\<lparr>bSha := Some hash, bWire := Some w\<rparr> \<and> (bSha r = None \<or> g r = r)"
proof -
  let ?f = "\<lambda>w r. if bId r \<noteq> b then Some r
        else if bSha r \<noteq> None \<and> (bSha r \<noteq> Some hash \<or> bWire r \<noteq> Some w) then None
        else Some (r\<lparr>bSha := Some hash, bWire := Some w\<rparr>)"
  from assms obtain w bs where w: "jsonb P data = Some w" and bs: "updRows (?f w) (batches t) = Some bs" and t': "t' = t\<lparr>batches := bs\<rparr>"
    by (auto simp: sealBatchRow_def split: option.splits)
  have same: "r\<lparr>bSha := Some hash, bWire := Some w\<rparr> = r" if "bSha r = Some hash" "bWire r = Some w" for r :: batchRow
    using that by (cases r) simp
  show thesis
  proof (rule that [OF w, of "\<lambda>r. the (?f w r)"])
    show "t' = t\<lparr>batches := map (\<lambda>r. the (?f w r)) (batches t)\<rparr>" using updRows_Some [OF bs] t' by simp
    fix r :: batchRow
    show "the (?f w r) = r" if "bId r \<noteq> b" using that by simp
    show "the (?f w r) = r\<lparr>bSha := Some hash, bWire := Some w\<rparr> \<and> (bSha r = None \<or> the (?f w r) = r)"
      if "r \<in> set (batches t)" "bId r = b"
      using updRows_Some [OF bs] that same [of r] by (auto split: if_splits)
  qed
qed

text \<open>
  C16. A batch is hashed over the payload of its message. When a batch of a sent message that has its own
  snapshot is sealed, the new hash is that of the batch's header, with the message's hash as its parent,
  followed by exactly the payload bytes that the message's hash covers, and the row keeps that hash.
\<close>
theorem batch_hash_covers_payload:
  assumes "FinalizeBatch F fs i b s = (Ok hash, s')" "wfTables (tabs s) (seq s)"
    and "msgAt (tabs s) i = Some m" "mTime m \<noteq> None" "nullable (mWire m) \<noteq> []" "batchAt (tabs s) b = Some row" "bSha row = None"
  shows "\<exists>h payload sender added. mSha m = Some (sha256 (sLib F) (Encode h @ payload))
    \<and> messageBytes (sLib F) fs h = Ok (Encode h @ payload)
    \<and> AddressOf (bFrom row) = Ok sender \<and> addressesOf (batchAddrs (tabs s) b) = Ok added
    \<and> hash = sha256 (sLib F) (Encode (batchHeader (nullable (mSha m)) row sender added h) @ payload)
    \<and> (\<exists>row'. batchAt (tabs s') b = Some row' \<and> bSha row' = Some hash \<and> bWire row' \<noteq> None \<and> bTime row' = bTime row)"
  using assms(1)
proof (cases rule: FinalizeBatch_Ok)
  case (draft m')
  then show ?thesis using assms(3,4) by simp
next
  case (before row')
  then have "row' = row" using sealed_batchAt [OF assms(2,6)] by blast
  then show ?thesis using before assms(7) by (simp add: nullable_def)
next
  case (sealed m' row' x s1)
  have m: "m' = m" using sealed(1) assms(3) by simp
  have row: "row' = row" using sealed sealed_batchAt [OF assms(2,6)] by blast
  from sealed(11) show ?thesis
  proof (rule sealBatch_Ok)
    fix h sender added h' data
    assume r: "fst (representation F fs i x s1) = Ok h" and a: "AddressOf (bFrom row') = Ok sender"
      "addressesOf (batchAddrs (tabs s1) b) = Ok added"
      and g: "GetMessageHash (sLib F) fs (batchHeader (sHash x) row' sender added h) = Ok (hash, h')"
      and u: "sealBatchRow (sPg F) b hash data (tabs s1) = Some (tabs s')"
    have "UnmarshalPrepared (sLib F) fs (sJson F) (sPrepared x) (sHash x) = Ok h"
      using r sealed(9) assms(5) m by (simp add: representation_def liftIO_def)
    from UnmarshalPrepared_Ok [OF this] obtain bytes where b: "messageBytes (sLib F) fs h = Ok bytes" "sHash x = sha256 (sLib F) bytes"
      and n: "length (sHash x) = 32" by blast
    have "messageHash (batchHeader (sHash x) row' sender added h) = None" by (simp add: batchHeader_def Clone_def)
    from GetMessageHash_fresh [OF g this] obtain bb where
      bb: "messageBytes (sLib F) fs (batchHeader (sHash x) row' sender added h) = Ok bb" "hash = sha256 (sLib F) bb" by blast
    from messageBytes_batchHeader [OF bb(1)] obtain payload where
      p: "messageBytes (sLib F) fs h = Ok (Encode h @ payload)" "bb = Encode (batchHeader (sHash x) row' sender added h) @ payload" by blast
    have sha: "mSha m = Some (sHash x)" using n sealed(10) m by (auto simp: nullable_def split: option.splits)
    have "\<exists>row'. batchAt (tabs s') b = Some row' \<and> bSha row' = Some hash \<and> bWire row' \<noteq> None \<and> bTime row' = bTime row"
      using u [unfolded sealed(8)]
    proof (rule sealBatchRow_Some)
      fix w g
      assume t': "tabs s' = (tabs s)\<lparr>batches := map g (batches (tabs s))\<rparr>" and o: "\<And>r. bId r \<noteq> b \<Longrightarrow> g r = r"
        and g: "\<And>r. r \<in> set (batches (tabs s)) \<Longrightarrow> bId r = b \<Longrightarrow> g r = r\<lparr>bSha := Some hash, bWire := Some w\<rparr> \<and> (bSha r = None \<or> g r = r)"
      note in_t = batchAt_Some [OF assms(6)]
      have k: "bId (g r) = bId r" if "r \<in> set (batches (tabs s))" for r using o g [OF that] by (cases "bId r = b") auto
      have "find (\<lambda>r. bId r = b) (map g rs) = map_option g (find (\<lambda>r. bId r = b) rs)" if "set rs \<subseteq> set (batches (tabs s))" for rs
        using that k by (induction rs) auto
      then have "batchAt (tabs s') b = Some (g row)" using assms(6) by (simp add: batchAt_def t')
      then show ?thesis using g in_t by auto
    qed
    then show ?thesis using p bb(2) a sha b row sealed(8)
      by (intro exI [of _ h] exI [of _ payload] exI [of _ sender] exI [of _ added]) (simp add: nullable_def)
  qed
qed

section \<open>All batches of a message\<close>

text \<open>Rows of other messages are left alone; a batch that has a hash has a snapshot.\<close>

definition batchKeys :: "tables \<Rightarrow> (int \<times> int) list" where
  "batchKeys t = map (\<lambda>r. (bId r, bMsg r)) (batches t)"

definition othersKept :: "int \<Rightarrow> tables \<Rightarrow> tables \<Rightarrow> bool" where
  "othersKept i t t' \<longleftrightarrow> msgs t' = msgs t \<and> batchKeys t' = batchKeys t \<and> filter (\<lambda>r. bMsg r \<noteq> i) (batches t') = filter (\<lambda>r. bMsg r \<noteq> i) (batches t)"

definition hashedFinal :: "int \<Rightarrow> tables \<Rightarrow> bool" where
  "hashedFinal i t \<longleftrightarrow> (\<forall>r \<in> set (batches t). bMsg r = i \<longrightarrow> bSha r \<noteq> None \<longrightarrow> finalBatch r)"

lemma othersKept_trans: "othersKept i t u \<Longrightarrow> othersKept i u v \<Longrightarrow> othersKept i t v"
  by (simp add: othersKept_def)

lemma filter_map_same: "(\<And>r. r \<in> set rs \<Longrightarrow> P (g r) = P r \<and> (P r \<longrightarrow> g r = r)) \<Longrightarrow> filter P (map g rs) = filter P rs"
  by (induction rs) auto

lemma othersKept_map:
  assumes "\<And>r. r \<in> set (batches t) \<Longrightarrow> bId (g r) = bId r \<and> bMsg (g r) = bMsg r \<and> (bMsg r \<noteq> i \<longrightarrow> g r = r)"
  shows "othersKept i t (t\<lparr>batches := map g (batches t)\<rparr>)"
  using filter_map_same [of "batches t" "\<lambda>r. bMsg r \<noteq> i" g] assms by (simp add: othersKept_def batchKeys_def)

text \<open>One batch of a sent message: afterwards it has its hash.\<close>

lemma FinalizeBatch_seals:
  assumes "FinalizeBatch F fs i b s = (Ok hash, s')" "wfTables (tabs s) (seq s)" "hashedFinal i (tabs s)"
    and "msgAt (tabs s) i = Some m" "mTime m \<noteq> None" "\<And>x. length (sha256 (sLib F) x) = 32"
  shows "othersKept i (tabs s) (tabs s') \<and> hashedFinal i (tabs s') \<and> set (unsealed i (tabs s')) \<subseteq> set (unsealed i (tabs s)) - {b}"
  using assms(1)
proof (cases rule: FinalizeBatch_Ok)
  case (draft m')
  then show ?thesis using assms(4,5) by simp
next
  case (before row)
  have "bSha r \<noteq> None" if "r \<in> set (batches (tabs s))" "bId r = b" for r
  proof -
    have "distinct (map bId (batches (tabs s)))" using wfD(1) [OF assms(2)] by (simp add: keysOK_def)
    then have "r = row" using that before(1,2) by (auto simp: distinct_map dest: inj_onD)
    then show ?thesis using before(4,5) by (auto simp: nullable_def split: option.splits)
  qed
  then have "b \<notin> set (unsealed i (tabs s))" by (auto simp: unsealed_def simp del: not_None_eq)
  then show ?thesis using before assms(3) by (auto simp: othersKept_def)
next
  case (sealed m' row x s1)
  from sealed(11) show ?thesis
  proof (rule sealBatch_Ok)
    fix h sender added h' data
    assume g: "GetMessageHash (sLib F) fs (batchHeader (sHash x) row sender added h) = Ok (hash, h')"
      and u: "sealBatchRow (sPg F) b hash data (tabs s1) = Some (tabs s')"
    have "messageHash (batchHeader (sHash x) row sender added h) = None" by (simp add: batchHeader_def Clone_def)
    with GetMessageHash_fresh [OF g] assms(6) have n: "length hash = 32" by auto
    have same: "r = row" if "r \<in> set (batches (tabs s))" "bId r = b" for r
    proof -
      have "distinct (map bId (batches (tabs s)))" using wfD(1) [OF assms(2)] by (simp add: keysOK_def)
      then show ?thesis using that sealed(4,5) by (auto simp: distinct_map dest: inj_onD)
    qed
    show ?thesis using u [unfolded sealed(8)]
    proof (rule sealBatchRow_Some)
      fix w g
      assume t': "tabs s' = (tabs s)\<lparr>batches := map g (batches (tabs s))\<rparr>" and o: "\<And>r. bId r \<noteq> b \<Longrightarrow> g r = r"
        and g: "\<And>r. r \<in> set (batches (tabs s)) \<Longrightarrow> bId r = b \<Longrightarrow> g r = r\<lparr>bSha := Some hash, bWire := Some w\<rparr> \<and> (bSha r = None \<or> g r = r)"
      have e: "g r = (if bId r = b then r\<lparr>bSha := Some hash, bWire := Some w\<rparr> else r)" if "r \<in> set (batches (tabs s))" for r
        using o g [OF that] by simp
      have o': "othersKept i (tabs s) (tabs s')"
        unfolding t' by (rule othersKept_map) (use e same sealed(6) in auto)
      have "finalBatch (g r)" if "r \<in> set (batches (tabs s))" "bMsg (g r) = i" "bSha (g r) \<noteq> None" for r
      proof (cases "bId r = b")
        case False
        then show ?thesis using assms(3) that e [OF that(1)] by (auto simp: hashedFinal_def)
      qed (simp add: e [OF that(1)] finalBatch_def n)
      then have "hashedFinal i (tabs s')" unfolding t' hashedFinal_def by auto
      moreover have "set (unsealed i (tabs s')) \<subseteq> set (unsealed i (tabs s)) - {b}"
      proof
        fix y assume "y \<in> set (unsealed i (tabs s'))"
        then obtain r where r: "r \<in> set (batches (tabs s))" "y = bId (g r)" "bMsg (g r) = i" "bSha (g r) = None"
          by (auto simp: unsealed_def t')
        then have "bId r \<noteq> b" using e [OF r(1)] by auto
        then show "y \<in> set (unsealed i (tabs s)) - {b}" using r o by (auto simp: unsealed_def)
      qed
      ultimately show ?thesis using o' by blast
    qed
  qed
qed

lemma postponeBatch_keeps:
  assumes "exec (postponeBatch b time) s = (Ok u, s')" "wfTables (tabs s) (seq s)" "row \<in> set (batches (tabs s))" "bId row = b" "bMsg row = i"
  shows "othersKept i (tabs s) (tabs s')" "hashedFinal i (tabs s) \<Longrightarrow> hashedFinal i (tabs s')" "unsealed i (tabs s') = unsealed i (tabs s)"
proof -
  let ?g = "\<lambda>r. if bId r = b \<and> bSha r = None then r\<lparr>bTime := laterTime (bTime r) time\<rparr> else r"
  have t': "tabs s' = (tabs s)\<lparr>batches := map ?g (batches (tabs s))\<rparr>"
    using exec_Ok [OF assms(1)] by (simp add: postponeBatch_def)
  have same: "r = row" if "r \<in> set (batches (tabs s))" "bId r = b" for r
  proof -
    have "distinct (map bId (batches (tabs s)))" using wfD(1) [OF assms(2)] by (simp add: keysOK_def)
    then show ?thesis using that assms(3,4) by (auto simp: distinct_map dest: inj_onD)
  qed
  show "othersKept i (tabs s) (tabs s')" unfolding t' by (rule othersKept_map) (use same assms(5) in auto)
  show "hashedFinal i (tabs s')" if "hashedFinal i (tabs s)" using that unfolding t' hashedFinal_def by auto
  have "map bId (filter (\<lambda>r. bMsg r = i \<and> bSha r = None) (map ?g rs)) = map bId (filter (\<lambda>r. bMsg r = i \<and> bSha r = None) rs)" for rs
    by (induction rs) auto
  then show "unsealed i (tabs s') = unsealed i (tabs s)" unfolding t' unsealed_def by simp
qed

lemma finalizeBatches_seals:
  assumes "finalizeBatches F fs i time bs s = (Ok u, s')" "wfTables (tabs s) (seq s)" "hashedFinal i (tabs s)"
    and "msgAt (tabs s) i = Some m" "mTime m \<noteq> None" "\<And>x. length (sha256 (sLib F) x) = 32" "(\<lambda>b. (b, i)) ` set bs \<subseteq> set (batchKeys (tabs s))"
  shows "othersKept i (tabs s) (tabs s') \<and> hashedFinal i (tabs s') \<and> set (unsealed i (tabs s')) \<subseteq> set (unsealed i (tabs s)) - set bs"
  using assms(1-5,7)
proof (induction bs arbitrary: s)
  case Nil
  then show ?case by (simp add: othersKept_def)
next
  case (Cons b bs)
  from Cons.prems(1) obtain s1 hash s2 where p: "exec (postponeBatch b time) s = (Ok (), s1)"
    and f: "FinalizeBatch F fs i b s1 = (Ok hash, s2)" and r: "finalizeBatches F fs i time bs s2 = (Ok u, s')"
    by (auto elim!: bindIO_OkE)
  obtain row where row: "row \<in> set (batches (tabs s))" "bId row = b" "bMsg row = i"
    using Cons.prems(6) by (auto simp: batchKeys_def)
  note k1 = postponeBatch_keeps [OF p Cons.prems(2) row]
  have w1: "wfTables (tabs s1) (seq s1)"
    using wf.presD(1) [OF wf_postponeBatch [of b time], of s] Cons.prems(2) p by (simp add: wf.holds_def)
  have "msgAt (tabs s1) i = Some m" using k1(1) Cons.prems(4) by (simp add: msgAt_def othersKept_def)
  from FinalizeBatch_seals [OF f w1 k1(2) [OF Cons.prems(3)] this Cons.prems(5) assms(6)]
  have k2: "othersKept i (tabs s1) (tabs s2)" "hashedFinal i (tabs s2)" "set (unsealed i (tabs s2)) \<subseteq> set (unsealed i (tabs s1)) - {b}" by blast+
  note k = othersKept_trans [OF k1(1) k2(1)]
  have "wf.pres (FinalizeBatch F fs i b)" for F fs
    using im_FinalizeBatch unfolding wf.pres_def im.pres_def im.holds_def wf.holds_def by (metis sealedKept_refl)
  from wf.presD(1) [OF this, of s1] have w2: "wfTables (tabs s2) (seq s2)" using w1 f by (simp add: wf.holds_def) (metis snd_conv)
  have "othersKept i (tabs s2) (tabs s') \<and> hashedFinal i (tabs s') \<and> set (unsealed i (tabs s')) \<subseteq> set (unsealed i (tabs s2)) - set bs"
    by (rule Cons.IH [OF r w2 k2(2) _ Cons.prems(5)]) (use k Cons.prems(4,6) in \<open>auto simp: othersKept_def msgAt_def\<close>)
  then show ?case using othersKept_trans [OF k] k2(3) k1(3) by auto
qed

section \<open>Drafts\<close>

lemma ApplyCommonTypes_fields:
  "From (snd (ApplyCommonTypes h)) = From h" "To (snd (ApplyCommonTypes h)) = To h" "AddTo (snd (ApplyCommonTypes h)) = AddTo h"
  "Pid (snd (ApplyCommonTypes h)) = Pid h" "Topic (snd (ApplyCommonTypes h)) = Topic h" "Type (snd (ApplyCommonTypes h)) = Type h"
  "Timestamp (snd (ApplyCommonTypes h)) = Timestamp h"
  by (simp_all add: ApplyCommonTypes_def Let_def split: option.split)

text \<open>Preparing keeps the fields of a message and hashes what is then on disk.\<close>

definition sameMessage :: "Header \<Rightarrow> Header \<Rightarrow> bool" where
  "sameMessage h h' \<longleftrightarrow> From h' = From h \<and> To h' = To h \<and> AddTo h' = AddTo h \<and> Pid h' = Pid h \<and> Topic h' = Topic h
     \<and> Type h' = Type h \<and> Timestamp h' = Timestamp h"

lemma prepareIn_hash:
  assumes "prepareIn L tmp dir input d = (Ok (h, dir'), e)"
  shows "\<exists>f path n x as m. GetMessageHash L (ents e) (snd (ApplyCommonTypes (input\<lparr>Flags := f, Filepath := path, Size := n,
      ExpandedSize := x\<rparr>\<lparr>Attachments := as\<rparr>))) = Ok (m, h)"
  using assms unfolding prepareIn_def Let_def
proof (elim bindIO_OkE, unfold split_paired_all split_conv, elim bindIO_OkE, unfold split_paired_all split_conv, elim bindIO_OkE)
  fix path n' x d1 as d2 m h3 d3 u1 d4 u2 d5
  let ?h2 = "snd (ApplyCommonTypes (input\<lparr>Flags := (if x > 0 then (Flags input AND NOT FlagDeflate) OR FlagDeflate
      else Flags input AND NOT FlagDeflate), Filepath := path, Size := n', ExpandedSize := x\<rparr>\<lparr>Attachments := as\<rparr>))"
  assume g: "hashOnDisk L ?h2 d2 = (Ok (m, h3), d3)" and s: "syncDirectory dir d3 = (Ok u1, d4)"
    "syncDirectory (Dir dir) d4 = (Ok u2, d5)" "retIO (h3, dir) d5 = (Ok (h, dir'), e)"
  then have "ents e = ents d2" "h3 = h" by (auto dest!: syncDirectory_Ok)
  with g have "GetMessageHash L (ents e) ?h2 = Ok (m, h)" by simp
  then show ?thesis by (intro exI)
qed

lemma Prepare_fields:
  assumes "Prepare L tmp input d = (Ok (h, dir), e)"
  shows "sameMessage input h \<and> (\<exists>m. messageBytes L (ents e) h = Ok m \<and> messageHash h = Some (sha256 L m))"
proof -
  obtain d1 dir' where "prepareIn L tmp dir' (Clone input) d1 = (Ok (h, dir), e)"
    using assms by (auto simp: Prepare_def Let_def elim!: bindIO_OkE split: if_splits)
  from prepareIn_hash [OF this] obtain f path n x as m where
    g2: "GetMessageHash L (ents e) (snd (ApplyCommonTypes ((Clone input)\<lparr>Flags := f, Filepath := path, Size := n,
      ExpandedSize := x\<rparr>\<lparr>Attachments := as\<rparr>))) = Ok (m, h)" by blast
  define h2 where "h2 = snd (ApplyCommonTypes ((Clone input)\<lparr>Flags := f, Filepath := path, Size := n,
    ExpandedSize := x\<rparr>\<lparr>Attachments := as\<rparr>))"
  have g: "GetMessageHash L (ents e) h2 = Ok (m, h)" using g2 by (simp only: h2_def)
  have n: "messageHash h2 = None" by (simp add: h2_def ApplyCommonTypes_payload Clone_def)
  from GetMessageHash_fresh [OF g n] obtain b where b: "messageBytes L (ents e) h2 = Ok b" "m = sha256 L b"
    "h = h2\<lparr>messageHash := Some m\<rparr>" by blast
  have "messageBytes L fs (h2\<lparr>messageHash := Some m\<rparr>) = messageBytes L fs h2" for fs
    by (simp add: messageBytes_def Encode_def encAddTo_def cong: option.case_cong if_cong)
  then show ?thesis using b by (simp add: sameMessage_def h2_def ApplyCommonTypes_fields Clone_def)
qed

lemma parentHashOf_Ok:
  "parentHashOf x s = (Ok h, s') \<Longrightarrow> tabs s' = tabs s \<and> seq s' = seq s \<and> From h = From (sHeader x) \<and> To h = To (sHeader x)
     \<and> AddTo h = AddTo (sHeader x) \<and> Topic h = Topic (sHeader x) \<and> Type h = Type (sHeader x) \<and> Timestamp h = Timestamp (sHeader x)"
  by (auto simp: parentHashOf_def elim!: bindIO_OkE dest!: query_Ok split: option.splits if_splits)

lemma load_seq: "load F i s = (Ok x, s') \<Longrightarrow> seq s' = seq s"
  unfolding load_def by (auto elim!: bindIO_OkE dest!: query_Ok split: option.splits)

definition draftOf :: "int \<Rightarrow> float64 \<Rightarrow> tables \<Rightarrow> msgRow \<Rightarrow> Header \<Rightarrow> bool" where
  "draftOf i timestamp t m h \<longleftrightarrow> msgAt t i = Some m \<and> mTime m = None \<and> nullable (mSha m) = []
     \<and> AddressOf (mFrom m) = Ok (From h) \<and> addressesOf (map rAddr (filter (\<lambda>r. rMsg r = i) (tos t))) = Ok (To h) \<and> AddTo h = []
     \<and> Topic h = mTopic m \<and> Type h = mType m \<and> Timestamp h = timestamp"

lemma sealDraft_Ok:
  assumes "sealDraft F i timestamp h w = (Ok hash, w')" "messageHash h = Some hh"
  obtains snap s1 where "hash = hh" "MarshalPrepared (sJson F) h = Ok snap" "wDisk w' = wDisk w" "newFiles w' = newFiles w"
    "sealMsgRow (sPg F) i timestamp hash snap h (tabs (wDb w)) = Some (tabs s1)" "seq s1 = seq (wDb w)"
    "finalizeBatches F (ents (wDisk w)) i timestamp (unsealed i (tabs s1)) s1 = (Ok (), wDb w')"
proof -
  have g: "GetMessageHash L fs h = Ok (hh, h)" for L fs using assms(2) by (simp add: GetMessageHash_def)
  from assms(1) have r: "bindIO (liftIO (MarshalPrepared (sJson F) h)) (\<lambda>snapshot.
       bindIO (onDb (exec (sealMsgRow (sPg F) i timestamp hh snapshot h))) (\<lambda>_.
       bindIO (onDb (query (unsealed i))) (\<lambda>bs.
       bindIO (onDb (finalizeBatches F (ents (wDisk w)) i timestamp bs)) (\<lambda>_. retIO hh)))) w = (Ok hash, w')"
    by (simp add: sealDraft_def g bindIO_def [of "getS _"] bindIO_def [of "liftIO (Ok _)"] getS_def liftIO_def)
  then obtain snap u w1 bs w2 v w3 where snap: "MarshalPrepared (sJson F) h = Ok snap"
    and e: "onDb (exec (sealMsgRow (sPg F) i timestamp hh snap h)) w = (Ok u, w1)"
    and q: "onDb (query (unsealed i)) w1 = (Ok bs, w2)" and f: "onDb (finalizeBatches F (ents (wDisk w)) i timestamp bs) w2 = (Ok v, w3)"
    and x: "w' = w3" "hash = hh"
    by (auto elim!: bindIO_OkE simp: eq_commute [of "Ok _" "MarshalPrepared _ _"])
  note d = onDb_def prod.case_eq_if
  from e have e': "exec (sealMsgRow (sPg F) i timestamp hh snap h) (wDb w) = (Ok u, wDb w1)" "wDisk w1 = wDisk w" "newFiles w1 = newFiles w"
    by (auto simp: d prod_eq_iff)
  from q have q': "query (unsealed i) (wDb w1) = (Ok bs, wDb w2)" "wDisk w2 = wDisk w1" "newFiles w2 = newFiles w1"
    by (auto simp: d prod_eq_iff)
  from f have f': "finalizeBatches F (ents (wDisk w)) i timestamp bs (wDb w2) = (Ok v, wDb w3)" "wDisk w3 = wDisk w2" "newFiles w3 = newFiles w2"
    by (auto simp: d prod_eq_iff)
  show thesis
    using that [of snap "wDb w2"] snap x exec_Ok [OF e'(1)] query_Ok [OF q'(1)] e'(2,3) q'(2,3) f' by simp
qed

text \<open>What is read of the draft, and its payload as \<open>Prepare\<close> leaves it.\<close>

definition preparesDraft :: "finalizer \<Rightarrow> int \<Rightarrow> float64 \<Rightarrow> finalizing \<Rightarrow> Header \<Rightarrow> Header \<Rightarrow> string \<Rightarrow> finalizing \<Rightarrow> bool" where
  "preparesDraft F i timestamp w draft h dir w' \<longleftrightarrow>
     (\<exists>x s. load F i (wDb w) = (Ok x, s) \<and> fst (parentHashOf (x\<lparr>sHeader := (sHeader x)\<lparr>Timestamp := timestamp\<rparr>\<rparr>) s) = Ok draft)
     \<and> Prepare (sLib F) (tempDirs F) draft (wDisk w) = (Ok (h, dir), wDisk w')"

lemma Finalize_Ok:
  assumes "Finalize F i timestamp w = (Ok hash, w')"
  obtains m draft h dir bytes snap s1 where "draftOf i timestamp (tabs (wDb w)) m draft" "sameMessage draft h"
    "preparesDraft F i timestamp w draft h dir w'" "newFiles w' = newFiles w @ [dir]"
    "messageBytes (sLib F) (ents (wDisk w')) h = Ok bytes" "hash = sha256 (sLib F) bytes" "messageHash h = Some hash"
    "MarshalPrepared (sJson F) h = Ok snap" "sealMsgRow (sPg F) i timestamp hash snap h (tabs (wDb w)) = Some (tabs s1)"
    "seq s1 = seq (wDb w)" "finalizeBatches F (ents (wDisk w')) i timestamp (unsealed i (tabs s1)) s1 = (Ok (), wDb w')"
proof -
  let ?st = "\<lambda>x. x\<lparr>sHeader := (sHeader x)\<lparr>Timestamp := timestamp\<rparr>\<rparr>"
  from assms obtain x w1 draft w2 h dir w3 where l: "onDb (load F i) w = (Ok x, w1)" and n: "sTime x = None" "sHash x = []"
    and p: "onDb (parentHashOf (?st x)) w1 = (Ok draft, w2)"
    and pr: "onDisk (Prepare (sLib F) (tempDirs F) draft) w2 = (Ok (h, dir), w3)"
    and sl: "sealDraft F i timestamp h (w3\<lparr>newFiles := newFiles w3 @ [dir]\<rparr>) = (Ok hash, w')"
    unfolding Finalize_def
    by (auto elim!: bindIO_OkE simp: modS_def split: if_splits prod.splits)
  note d = onDb_def onDisk_def prod.case_eq_if
  from l have l': "load F i (wDb w) = (Ok x, wDb w1)" "wDisk w1 = wDisk w" "newFiles w1 = newFiles w" by (auto simp: d prod_eq_iff)
  from p have p': "parentHashOf (?st x) (wDb w1) = (Ok draft, wDb w2)" "wDisk w2 = wDisk w1" "newFiles w2 = newFiles w1"
    by (auto simp: d prod_eq_iff)
  from pr have pr': "Prepare (sLib F) (tempDirs F) draft (wDisk w2) = (Ok (h, dir), wDisk w3)" "wDb w3 = wDb w2" "newFiles w3 = newFiles w2"
    by (auto simp: d prod_eq_iff)
  note q = parentHashOf_Ok [OF p'(1)]
  from Prepare_fields [OF pr'(1)] obtain bytes where b: "sameMessage draft h" "messageBytes (sLib F) (ents (wDisk w3)) h = Ok bytes"
    "messageHash h = Some (sha256 (sLib F) bytes)" by blast
  from l'(1) show thesis
  proof (rule load_Ok)
    fix m assume "msgAt (tabs (wDb w)) i = Some m" "tabs (wDb w1) = tabs (wDb w)" "sTime x = mTime m" "sHash x = nullable (mSha m)"
      "AddressOf (mFrom m) = Ok (From (sHeader x))" "Topic (sHeader x) = mTopic m" "Type (sHeader x) = mType m" "AddTo (sHeader x) = []"
      "addressesOf (map rAddr (filter (\<lambda>r. rMsg r = i) (tos (tabs (wDb w))))) = Ok (To (sHeader x))"
    then have m: "draftOf i timestamp (tabs (wDb w)) m draft" and t: "tabs (wDb w3) = tabs (wDb w)" "seq (wDb w3) = seq (wDb w)"
      using n q pr'(2) load_seq [OF l'(1)] by (simp_all add: draftOf_def)
    from sl b(3) show thesis
    proof (rule sealDraft_Ok)
      fix snap s1
      assume "hash = sha256 (sLib F) bytes" "MarshalPrepared (sJson F) h = Ok snap"
        "wDisk w' = wDisk (w3\<lparr>newFiles := newFiles w3 @ [dir]\<rparr>)" "newFiles w' = newFiles (w3\<lparr>newFiles := newFiles w3 @ [dir]\<rparr>)"
        "sealMsgRow (sPg F) i timestamp hash snap h (tabs (wDb (w3\<lparr>newFiles := newFiles w3 @ [dir]\<rparr>))) = Some (tabs s1)"
        "seq s1 = seq (wDb (w3\<lparr>newFiles := newFiles w3 @ [dir]\<rparr>))"
        "finalizeBatches F (ents (wDisk (w3\<lparr>newFiles := newFiles w3 @ [dir]\<rparr>))) i timestamp (unsealed i (tabs s1)) s1 = (Ok (), wDb w')"
      moreover have "preparesDraft F i timestamp w draft h dir w3" using pr' p' l' by (auto simp: preparesDraft_def)
      ultimately show thesis
        using that [OF m b(1)] b pr' p' l' t by (simp add: preparesDraft_def)
    qed
  qed
qed

section \<open>Sealed messages\<close>

lemma FinalizeBatch_msgs: "FinalizeBatch F fs i b s = (Ok hash, s') \<Longrightarrow> msgs (tabs s') = msgs (tabs s)"
proof (erule FinalizeBatch_Ok)
  fix m row x s1 assume t: "tabs s1 = tabs s" and "sealBatch F fs i b x row s1 = (Ok hash, s')"
  then show ?thesis by (elim sealBatch_Ok sealBatchRow_Some) simp
qed simp_all

lemma finalizeBatches_msgs: "finalizeBatches F fs i time bs s = (Ok u, s') \<Longrightarrow> msgs (tabs s') = msgs (tabs s)"
proof (induction bs arbitrary: s)
  case (Cons b bs)
  from Cons.prems obtain s1 hash s2 where p: "exec (postponeBatch b time) s = (Ok (), s1)"
    and f: "FinalizeBatch F fs i b s1 = (Ok hash, s2)" and r: "finalizeBatches F fs i time bs s2 = (Ok u, s')"
    by (auto elim!: bindIO_OkE)
  have "msgs (tabs s1) = msgs (tabs s)"
    using exec_Ok [OF p] by (auto simp: postponeBatch_def dest!: sym [of _ "tabs s1"])
  then show ?case using FinalizeBatch_msgs [OF f] Cons.IH [OF r] by simp
qed simp

text \<open>The row of a sealed message.\<close>

definition sealedAs :: "finalizer \<Rightarrow> int \<Rightarrow> float64 \<Rightarrow> bytes \<Rightarrow> Header \<Rightarrow> msgRow \<Rightarrow> msgRow \<Rightarrow> bool" where
  "sealedAs F i timestamp hash h m m' \<longleftrightarrow> mId m' = i \<and> mTime m' = Some timestamp \<and> mSha m' = Some hash
     \<and> mWireHeader m' = Some (Encode h) \<and> mWire m' \<noteq> None \<and> mWire m' = jsonb (sPg F) (encJSON (sJson F) 1 (Clone h))
     \<and> mFrom m' = mFrom m \<and> mTopic m' = mTopic m \<and> mType m' = mType m \<and> mTerminal m' = mTerminal m \<and> mPid m' = mPid m"

lemma sealMsgRow_at:
  assumes "sealMsgRow P i time hash snap h t = Some t'" "wfTables t q" "msgAt t i = Some m"
  obtains w m' where "jsonb P snap = Some w" "msgAt t' i = Some m'" "sealsRow t (sealedRow time hash w h) m m'"
    "filter (\<lambda>x. mId x \<noteq> i) (msgs t') = filter (\<lambda>x. mId x \<noteq> i) (msgs t)" "batches t' = batches t"
proof -
  from assms(1) show thesis
  proof (rule sealMsgRow_Some)
    fix w g assume w: "jsonb P snap = Some w" and t': "t' = t\<lparr>msgs := map g (msgs t)\<rparr>" and o: "\<And>m. mId m \<noteq> i \<Longrightarrow> g m = m"
      and r: "\<And>m. m \<in> set (msgs t) \<Longrightarrow> mId m = i \<Longrightarrow> sealsRow t (sealedRow time hash w h) m (g m)"
    note in_t = msgAt_Some [OF assms(3)]
    have k: "mId (g x) = mId x" if "x \<in> set (msgs t)" for x
      using o sealsRow_fields(1) [OF r [OF that]] by (cases "mId x = i") auto
    have "find (\<lambda>x. mId x = i) (map g ms) = map_option g (find (\<lambda>x. mId x = i) ms)" if "set ms \<subseteq> set (msgs t)" for ms
      using that k by (induction ms) auto
    then have "msgAt t' i = Some (g m)" using assms(3) by (simp add: msgAt_def t')
    moreover have "filter (\<lambda>x. mId x \<noteq> i) (msgs t') = filter (\<lambda>x. mId x \<noteq> i) (msgs t)"
      unfolding t' using filter_map_same [of "msgs t" "\<lambda>x. mId x \<noteq> i" g] k o by simp
    ultimately show thesis using that [OF w, of "g m"] r in_t by (simp add: t')
  qed
qed

lemma Finalize_seals:
  assumes "Finalize F i timestamp w = (Ok hash, w')" "wfTables (tabs (wDb w)) (seq (wDb w))"
  obtains m m' draft h dir bytes where "draftOf i timestamp (tabs (wDb w)) m draft" "sameMessage draft h"
    "preparesDraft F i timestamp w draft h dir w'" "newFiles w' = newFiles w @ [dir]"
    "messageBytes (sLib F) (ents (wDisk w')) h = Ok bytes" "hash = sha256 (sLib F) bytes" "MarshalPrepared (sJson F) h = Ok (encJSON (sJson F) 1 (Clone h))"
    "msgAt (tabs (wDb w')) i = Some m'" "sealedAs F i timestamp hash h m m'"
    "filter (\<lambda>x. mId x \<noteq> i) (msgs (tabs (wDb w'))) = filter (\<lambda>x. mId x \<noteq> i) (msgs (tabs (wDb w)))"
  using assms(1)
proof (rule Finalize_Ok)
  fix m draft h dir bytes snap s1
  assume d: "draftOf i timestamp (tabs (wDb w)) m draft" "sameMessage draft h"
    "preparesDraft F i timestamp w draft h dir w'" "newFiles w' = newFiles w @ [dir]"
    "messageBytes (sLib F) (ents (wDisk w')) h = Ok bytes" "hash = sha256 (sLib F) bytes"
    and j: "MarshalPrepared (sJson F) h = Ok snap" and u: "sealMsgRow (sPg F) i timestamp hash snap h (tabs (wDb w)) = Some (tabs s1)"
    and f: "finalizeBatches F (ents (wDisk w')) i timestamp (unsealed i (tabs s1)) s1 = (Ok (), wDb w')"
  have j': "snap = encJSON (sJson F) 1 (Clone h)" using j by (simp add: MarshalPrepared_def split: if_splits)
  have m: "msgAt (tabs (wDb w)) i = Some m" using d(1) by (simp add: draftOf_def)
  from u assms(2) m show thesis
  proof (rule sealMsgRow_at)
    fix v m' assume v: "jsonb (sPg F) snap = Some v" and m': "msgAt (tabs s1) i = Some m'"
      and r: "sealsRow (tabs (wDb w)) (sealedRow timestamp hash v h) m m'"
      and o: "filter (\<lambda>x. mId x \<noteq> i) (msgs (tabs s1)) = filter (\<lambda>x. mId x \<noteq> i) (msgs (tabs (wDb w)))"
    note k = finalizeBatches_msgs [OF f]
    have "sealedAs F i timestamp hash h m m'"
      using sealsRow_fields [OF r] v msgAt_Some [OF m] by (simp add: sealedAs_def j' del: not_None_eq)
    then show thesis using that [OF d] j j' m' o k by (simp add: msgAt_def)
  qed
qed

text \<open>
  C13. What sealing a draft leaves. When \<open>Finalize\<close> succeeds, the row was a draft and is now sent at the given
  time; its hash is that of the bytes of the prepared message as they are on disk, its header and its
  snapshot are that message's, which has the draft's sender, recipients, topic and type; the payload
  directory is reported to the caller and no other message is touched.
\<close>
theorem finalized_message:
  assumes "Finalize F i timestamp w = (Ok hash, w')" "wfTables (tabs (wDb w)) (seq (wDb w))"
  shows "\<exists>m m' draft h dir bytes. draftOf i timestamp (tabs (wDb w)) m draft \<and> sameMessage draft h
    \<and> messageBytes (sLib F) (ents (wDisk w')) h = Ok bytes \<and> hash = sha256 (sLib F) bytes
    \<and> msgAt (tabs (wDb w')) i = Some m' \<and> sealedAs F i timestamp hash h m m' \<and> newFiles w' = newFiles w @ [dir]
    \<and> filter (\<lambda>x. mId x \<noteq> i) (msgs (tabs (wDb w'))) = filter (\<lambda>x. mId x \<noteq> i) (msgs (tabs (wDb w)))"
  by (rule Finalize_seals [OF assms]) blast

text \<open>
  C15. A sealed draft can be committed. With a 32 byte digest, if the tables satisfied what the schema
  checks at commit and no batch of the draft had a hash without a snapshot, they satisfy it when
  \<open>Finalize\<close> succeeds: the message and every one of its batches are sealed.
\<close>
theorem finalized_commits:
  assumes "Finalize F i timestamp w = (Ok hash, w')" "wfTables (tabs (wDb w)) (seq (wDb w))"
    and "commitOK (tabs (wDb w))" "hashedFinal i (tabs (wDb w))" "\<And>x. length (sha256 (sLib F) x) = 32"
  shows "commitOK (tabs (wDb w')) \<and> unsealed i (tabs (wDb w')) = []"
  using assms(1)
proof (rule Finalize_Ok)
  fix m draft h dir bytes snap s1
  assume d: "draftOf i timestamp (tabs (wDb w)) m draft" and hash: "hash = sha256 (sLib F) bytes"
    and u: "sealMsgRow (sPg F) i timestamp hash snap h (tabs (wDb w)) = Some (tabs s1)" and q: "seq s1 = seq (wDb w)"
    and f: "finalizeBatches F (ents (wDisk w')) i timestamp (unsealed i (tabs s1)) s1 = (Ok (), wDb w')"
  have m: "msgAt (tabs (wDb w)) i = Some m" using d by (simp add: draftOf_def)
  have w1: "wfTables (tabs s1) (seq s1)"
  proof -
    let ?s = "\<lparr>tabs = tabs (wDb w), seq = seq (wDb w), dbfaults = []\<rparr>"
    have "exec (sealMsgRow (sPg F) i timestamp hash snap h) ?s = (Ok (), ?s\<lparr>tabs := tabs s1\<rparr>)"
      using u by (simp add: exec_def stmt_def)
    then show ?thesis using wf.presD(1) [OF wf_sealMsgRow, of ?s "sPg F" i timestamp hash snap h] assms(2) q by (simp add: wf.holds_def)
  qed
  from u assms(2) m show ?thesis
  proof (rule sealMsgRow_at)
    fix v m' assume m': "msgAt (tabs s1) i = Some m'" and r: "sealsRow (tabs (wDb w)) (sealedRow timestamp hash v h) m m'"
      and o: "filter (\<lambda>x. mId x \<noteq> i) (msgs (tabs s1)) = filter (\<lambda>x. mId x \<noteq> i) (msgs (tabs (wDb w)))"
      and b: "batches (tabs s1) = batches (tabs (wDb w))"
    have s: "mTime m' \<noteq> None" "mSha m' = Some hash" "mWire m' \<noteq> None" using sealsRow_fields [OF r] by auto
    have hf: "hashedFinal i (tabs s1)" using assms(4) b by (simp add: hashedFinal_def)
    have ks: "(\<lambda>b. (b, i)) ` set (unsealed i (tabs s1)) \<subseteq> set (batchKeys (tabs s1))" by (auto simp: unsealed_def batchKeys_def)
    from finalizeBatches_seals [OF f w1 hf m' s(1) assms(5) ks] have k: "othersKept i (tabs s1) (tabs (wDb w'))"
      "hashedFinal i (tabs (wDb w'))" and n: "unsealed i (tabs (wDb w')) = []" by auto
    let ?t = "tabs (wDb w')"
    have fin: "finalBatch x" if "x \<in> set (batches ?t)" "bMsg x = i" for x
      using k(2) n that by (auto simp: hashedFinal_def unsealed_def filter_empty_conv)
    have same: "x \<in> set (batches ?t) \<longleftrightarrow> x \<in> set (batches (tabs (wDb w)))" if "bMsg x \<noteq> i" for x
    proof -
      have "set (filter (\<lambda>r. bMsg r \<noteq> i) (batches ?t)) = set (filter (\<lambda>r. bMsg r \<noteq> i) (batches (tabs (wDb w))))"
        using k(1) b by (simp add: othersKept_def)
      then show ?thesis using that by auto
    qed
    have "sentMsgOK ?t x" if "x \<in> set (msgs ?t)" "mTime x \<noteq> None" for x
    proof (cases "mId x = i")
      case True
      have "x = m'" using sent_msgAt [OF w1 m' _ True] that k(1) by (simp add: othersKept_def)
      then show ?thesis using s fin hash assms(5) True by (auto simp: sentMsgOK_def list_all_iff)
    next
      case False
      have "set (filter (\<lambda>x. mId x \<noteq> i) (msgs ?t)) = set (filter (\<lambda>x. mId x \<noteq> i) (msgs (tabs (wDb w))))"
        using o k(1) by (simp add: othersKept_def)
      then have "x \<in> set (msgs (tabs (wDb w)))" using that(1) False by auto
      then have "sentMsgOK (tabs (wDb w)) x" using assms(3) that(2) by (auto simp: commitOK_def list_all_iff)
      then show ?thesis using same False unfolding sentMsgOK_def list_ex_iff list_all_iff by metis
    qed
    then show ?thesis using n by (auto simp: commitOK_def list_all_iff)
  qed
qed

section \<open>The way to the sender\<close>

text \<open>What the JSON codec and the database's \<open>jsonb\<close> give back for a header: the documented round trip.\<close>

definition readsBack :: "finalizer \<Rightarrow> Header \<Rightarrow> bool" where
  "readsBack F h \<longleftrightarrow> validStrings h \<and> jsonLaw (sJson F) (Clone h)
     \<and> (\<forall>j. jsonb (sPg F) (encJSON (sJson F) 1 (Clone h)) = Some j
          \<longrightarrow> j \<noteq> [] \<and> decJSON (sJson F) j = decJSON (sJson F) (encJSON (sJson F) 1 (Clone h)))"

lemma UnmarshalPrepared_doc: "decJSON J a = decJSON J b \<Longrightarrow> UnmarshalPrepared L fs J a x = UnmarshalPrepared L fs J b x"
  by (simp add: UnmarshalPrepared_def)

text \<open>
  C14. The sender gets what was sealed. With a 32 byte digest, and if the snapshot of the prepared message
  reads back, then on the disk and the tables that \<open>Finalize\<close> leaves the sender loads, for that message,
  a wire form with the draft's sender, recipients, topic and type whose bytes have exactly the hash
  that was returned.
\<close>
theorem finalized_deliverable:
  assumes "Finalize F i timestamp w = (Ok hash, w')" "wfTables (tabs (wDb w)) (seq (wDb w))" "dbfaults (wDb w') = []"
    and "\<And>x. length (sha256 (sLib F) x) = 32"
    and "\<And>draft h dir. preparesDraft F i timestamp w draft h dir w' \<Longrightarrow> readsBack F h"
  shows "\<exists>m m' draft g bytes. draftOf i timestamp (tabs (wDb w)) m draft \<and> msgAt (tabs (wDb w')) i = Some m' \<and> sameMessage draft g
    \<and> messageBytes (sLib F) (ents (wDisk w')) g = Ok bytes \<and> hash = sha256 (sLib F) bytes
    \<and> loadMsgFields (storeEnv.truncate F) (ents (wDisk w')) i (wDb w')
        = (Ok \<lparr>parentPid = nullable (mPsha m'), storedHash = hash, wireForm = Some g, isTerminal = mTerminal m\<rparr>, wDb w')"
  using assms(1,2)
proof (rule Finalize_seals)
  fix m m' draft h dir bytes
  assume d: "draftOf i timestamp (tabs (wDb w)) m draft" "sameMessage draft h"
    and p: "preparesDraft F i timestamp w draft h dir w'"
    and b: "messageBytes (sLib F) (ents (wDisk w')) h = Ok bytes" "hash = sha256 (sLib F) bytes"
    and j: "MarshalPrepared (sJson F) h = Ok (encJSON (sJson F) 1 (Clone h))"
    and m': "msgAt (tabs (wDb w')) i = Some m'" "sealedAs F i timestamp hash h m m'"
  let ?g = "h\<lparr>HeaderHash := None, StoredWire := [], messageHash := Some (sha256 (sLib F) bytes)\<rparr>"
  from assms(5) [OF p] have l: "validStrings h" "jsonLaw (sJson F) (Clone h)" by (simp_all add: readsBack_def)
  from m'(2) obtain v where v: "jsonb (sPg F) (encJSON (sJson F) 1 (Clone h)) = Some v" "mWire m' = Some v" by (auto simp: sealedAs_def)
  then have n: "v \<noteq> []" "decJSON (sJson F) v = decJSON (sJson F) (encJSON (sJson F) 1 (Clone h))"
    using assms(5) [OF p] by (auto simp: readsBack_def)
  have u: "UnmarshalPrepared (sLib F) (ents (wDisk w')) (sJson F) v hash = Ok ?g"
    unfolding UnmarshalPrepared_doc [OF n(2)] using UnmarshalPrepared_marshalled [OF l(2,1) j b(1), of hash] b(2) assms(4) by simp
  have f: "mSha m' = Some hash" "mTerminal m' = mTerminal m" using m'(2) by (simp_all add: sealedAs_def)
  have "find (\<lambda>y. mId y = i \<and> mTime y \<noteq> None) (msgs (tabs (wDb w'))) = Some m'"
    using m' by (auto simp: msgAt_def sealedAs_def find_Some_iff)
  then have "loadMsgFields (storeEnv.truncate F) (ents (wDisk w')) i (wDb w')
      = (Ok \<lparr>parentPid = nullable (mPsha m'), storedHash = hash, wireForm = Some ?g, isTerminal = mTerminal m\<rparr>, wDb w')"
    using assms(3,4) b(2) u n(1) v(2) f
    by (simp add: loadMsgFields_def query_def stmt_def bindIO_def nullable_def retIO_def liftIO_def storeEnv.defs Let_def)
  moreover have "messageBytes (sLib F) (ents (wDisk w')) ?g = Ok bytes"
    using b(1) by (simp add: messageBytes_def Encode_def encAddTo_def cong: option.case_cong if_cong)
  moreover have "sameMessage draft ?g" using d(2) by (simp add: sameMessage_def)
  ultimately have "draftOf i timestamp (tabs (wDb w)) m draft \<and> msgAt (tabs (wDb w')) i = Some m' \<and> sameMessage draft ?g
    \<and> messageBytes (sLib F) (ents (wDisk w')) ?g = Ok bytes \<and> hash = sha256 (sLib F) bytes
    \<and> loadMsgFields (storeEnv.truncate F) (ents (wDisk w')) i (wDb w')
        = (Ok \<lparr>parentPid = nullable (mPsha m'), storedHash = hash, wireForm = Some ?g, isTerminal = mTerminal m\<rparr>, wDb w')"
    using d(1) b(2) m'(1) by (intro conjI)
  then show ?thesis by (intro exI)
qed

end
