(* ===== verification/SenderRetry.thy ===== *)
theory SenderRetry
  imports SenderProps
begin

text \<open>
  Deliveries that get no answer: what is recorded then, and when the recipients are due again; and
  what the map of messages in flight holds while a delivery is under way and afterwards.
\<close>

section \<open>Steps that record nothing\<close>

definition unrecorded :: "sending \<Rightarrow> sending \<Rightarrow> bool" where
  "unrecorded w w' \<longleftrightarrow> wDb w' = wDb w \<and> sBase w' = sBase w \<and> sAborted w' = sAborted w"

interpretation ur: step_relation unrecorded
  by unfold_locales (auto simp: unrecorded_def)

lemma ur_idle: "(\<And>w. unrecorded w (snd (m w))) \<Longrightarrow> ur.keep m"
  by (rule ur.keepI)

lemma ur_parts: "ur.keep (onConn m)" "ur.keep (onDisk n)" "ur.keep (getNow S)"
  by (rule ur_idle, simp add: unrecorded_def onConn_def onDisk_def getNow_def split: prod.split)+

lemma ur_sendMsgData: "ur.keep (sendMsgData h)"
proof -
  have c: "ur.keep (copyNToConn n src)" for n src
    unfolding copyNToConn_def by (intro ur.keep_intros ur_parts)
  have "ur.keep (sendAttachments as)" for as
    by (induction as) (auto intro!: ur.keep_intros c ur_parts)
  then show ?thesis unfolding sendMsgData_def by (intro ur.keep_intros c ur_parts)
qed

text \<open>Steps that end with a result or an error.\<close>

definition settles :: "('s, 'a) st \<Rightarrow> bool" where
  "settles m \<longleftrightarrow> (\<forall>s. fst (m s) \<noteq> Panic \<and> fst (m s) \<noteq> Diverge)"

lemma settles_bind: "settles m \<Longrightarrow> (\<And>x. settles (k x)) \<Longrightarrow> settles (bindIO m k)"
  unfolding settles_def bindIO_def by (auto split: prod.split res.split) (metis fst_conv)+

lemma settles_basic: "settles (retIO x)" "settles (failIO e)"
  by (simp_all add: settles_def retIO_def failIO_def)

lemma settles_Write: "settles (onConn (Write b))"
  by (auto simp: settles_def onConn_def Write_def split: prod.splits list.splits option.splits)

lemma settles_osOpen: "settles (onDisk (osOpen p))"
  by (auto simp: settles_def onDisk_def osOpen_def faultable_def getEnts_def bindIO_def retIO_def failIO_def
      split: prod.splits list.splits option.splits fentry.splits)

lemma settles_sendMsgData: "settles (sendMsgData h)"
proof -
  have c: "settles (copyNToConn n src)" for n src
    by (auto simp: copyNToConn_def settles_basic intro!: settles_bind settles_Write split: option.split)
  have "settles (sendAttachments as)" for as
    by (induction as) (auto simp: settles_basic intro!: settles_bind c settles_osOpen)
  then show ?thesis unfolding sendMsgData_def by (intro settles_bind c settles_osOpen)
qed

lemma try_settles: "settles m \<Longrightarrow> \<exists>r s'. tryIO m s = (Ok r, s')"
  by (cases "m s"; cases "fst (m s)") (auto simp: tryIO_def settles_def dest: spec [of _ s])

section \<open>No answer\<close>

text \<open>The answers that record nothing: none, an unknown code, a code for add-tos only, too few codes.\<close>

definition unanswered :: "Header \<Rightarrow> nat \<Rightarrow> bytes \<Rightarrow> bool" where
  "unanswered h n ans \<longleftrightarrow>
     (case ans of
        [] \<Rightarrow> True
      | c # rest \<Rightarrow>
          if c \<in> {64, 65} \<and> (c = 65 \<longrightarrow> hasFlag (Flags h) FlagHasAddTo) then length rest < n
          else c \<notin> {1, 2, 3, 4, 5, 6, 7, 8, 9, 10} \<and> (c = 11 \<longrightarrow> \<not> hasFlag (Flags h) FlagHasAddTo))"

lemma small_code: "(1 :: byte) \<le> c \<and> c \<le> 10 \<longleftrightarrow> c \<in> {1, 2, 3, 4, 5, 6, 7, 8, 9, 10}"
proof -
  have "1 \<le> unat c \<and> unat c \<le> 10 \<longleftrightarrow> unat c \<in> {1, 2, 3, 4, 5, 6, 7, 8, 9, 10}"
    by (simp only: insert_iff empty_iff simp_thms) presburger
  then show ?thesis by (simp add: word_le_nat_alt word_unat_eq_iff)
qed

lemma readCodes_short:
  assumes "length (inp (wConn w)) < length recips"
  shows "\<exists>w'. readCodes S tbl i c recips k w = (Ok None, w') \<and> unrecorded w w'"
  using assms by (auto simp: readCodes_def bind_try onConn_def ReadFull_def retIO_def unrecorded_def)

lemma onResponse_unanswered:
  assumes "unanswered h (length recips) (c # inp (wConn w))"
  shows "\<exists>w'. onResponse S h tbl i recips locked k c w = (Ok None, w') \<and> unrecorded w w'"
proof -
  define v where "v = w\<lparr>sTicks := Suc (sTicks w)\<rparr>"
  have g: "bindIO (getNow S) m w = m (clockAt S (sTicks w)) v" for m :: "float64 \<Rightarrow> bool option sd"
    by (simp add: getNow_def bindIO_def v_def)
  have v: "unrecorded w v" "inp (wConn v) = inp (wConn w)" by (simp_all add: v_def unrecorded_def)
  let ?isAddTo = "hasFlag (Flags h) FlagHasAddTo"
  consider (data) "c = 64" | (skip) "c = 65" "?isAddTo" | (other) "c \<noteq> 64" "\<not> (c = 65 \<and> ?isAddTo)" by blast
  then show ?thesis
  proof cases
    case data
    obtain r x where r: "tryIO (sendMsgData h) v = (Ok r, x)" using try_settles [OF settles_sendMsgData] by blast
    note run = bindIO_run [where m = "tryIO (sendMsgData h)", OF r]
    from ur.keepD [OF ur.keep_try [OF ur_sendMsgData] r] si.keepD [OF si.keep_try [OF si_sendMsgData] r]
    have x: "unrecorded v x" "inp (wConn x) = inp (wConn v)" by (simp_all add: sameInp_def)
    show ?thesis
    proof (cases r)
      case (Inl e)
      then show ?thesis using data ur.rel_trans [OF v(1) x(1)] by (simp add: onResponse_def g run retIO_def)
    next
      case (Inr u)
      have "length (inp (wConn x)) < length recips" using assms data x v by (simp add: unanswered_def)
      from readCodes_short [OF this, of S tbl i 64 k] obtain y
        where "readCodes S tbl i 64 recips k x = (Ok None, y)" "unrecorded x y" by blast
      moreover have "unrecorded w y" using ur.rel_trans [OF v(1) ur.rel_trans [OF x(1)]] calculation(2) .
      ultimately show ?thesis using data Inr by (simp add: onResponse_def g run)
    qed
  next
    case skip
    have "length (inp (wConn v)) < length recips" using assms skip v by (simp add: unanswered_def)
    from readCodes_short [OF this, of S tbl i 65 k] obtain y
      where "readCodes S tbl i 65 recips k v = (Ok None, y)" "unrecorded v y" by blast
    moreover have "unrecorded w y" using ur.rel_trans [OF v(1)] calculation(2) .
    ultimately show ?thesis using skip by (simp add: onResponse_def g)
  next
    case other
    then have "c \<notin> {1, 2, 3, 4, 5, 6, 7, 8, 9, 10}" "c = 11 \<longrightarrow> \<not> ?isAddTo"
      using assms by (auto simp: unanswered_def split: if_splits)
    then have "onResponse S h tbl i recips locked k c w = (Ok None, v)"
      using other small_code [of c] by (auto simp: onResponse_def g Let_def retIO_def)
    then show ?thesis using v(1) by blast
  qed
qed

lemma exchange_unanswered:
  assumes "unanswered h (length recips) (inp (wConn w))"
  shows "\<exists>w'. exchange S h tbl i recips locked k w = (Ok None, w') \<and> unrecorded w w'"
proof -
  obtain r v where r: "tryIO (onConn (Write (Encode h))) w = (Ok r, v)" using try_settles [OF settles_Write] by blast
  note run = bindIO_run [where m = "tryIO (onConn (Write (Encode h)))", OF r]
  from ur.keepD [OF ur.keep_try [OF ur_parts(1)] r] si.keepD [OF si.keep_try [OF si_Write] r]
  have v: "unrecorded w v" "inp (wConn v) = inp (wConn w)" by (simp_all add: sameInp_def)
  show ?thesis
  proof (cases r)
    case (Inl e)
    then show ?thesis using v(1) by (simp add: exchange_def run retIO_def)
  next
    case (Inr u)
    show ?thesis
    proof (cases "inp (wConn v)")
      case Nil
      then have "tryIO (onConn (ReadFull 1)) v = (Ok (Inl (inp_end (wConn v))), v\<lparr>wConn := consume 0 (wConn v)\<rparr>)"
        by (simp add: tryIO_def onConn_def ReadFull_def)
      note run' = bindIO_run [where m = "tryIO (onConn (ReadFull 1))", OF this]
      show ?thesis using Inr v(1) run' by (simp add: exchange_def run run' [simplified] retIO_def unrecorded_def)
    next
      case (Cons c rest)
      define x where "x = v\<lparr>wConn := consume 1 (wConn v)\<rparr>"
      have t: "tryIO (onConn (ReadFull 1)) v = (Ok (Inr [c]), x)" unfolding try_ReadFull using Cons by (simp add: x_def)
      have x: "inp (wConn x) = rest" "unrecorded v x" using Cons by (simp_all add: x_def unrecorded_def)
      have "unanswered h (length recips) (c # inp (wConn x))" using assms v(2) Cons x(1) by simp
      from onResponse_unanswered [OF this, of S tbl i locked k] obtain y
        where "onResponse S h tbl i recips locked k c x = (Ok None, y)" "unrecorded x y" by blast
      moreover have "unrecorded w y" using ur.rel_trans [OF v(1) ur.rel_trans [OF x(2)]] calculation(2) .
      moreover note run' = bindIO_run [where m = "tryIO (onConn (ReadFull 1))", OF t]
      ultimately show ?thesis using Inr by (simp add: exchange_def run run' [simplified])
    qed
  qed
qed

section \<open>Failures are recorded\<close>

definition intact :: "sending \<Rightarrow> bool" where
  "intact w \<longleftrightarrow> dbfaults (wDb w) = [] \<and> \<not> sAborted w"

definition setTabs :: "tables \<Rightarrow> sending \<Rightarrow> sending" where
  "setTabs t w = w\<lparr>wDb := (wDb w)\<lparr>tabs := t\<rparr>\<rparr>"

lemma setTabs_simps [simp]: "tabs (wDb (setTabs t w)) = t" "intact (setTabs t w) = intact w"
  "setTabs t (setTabs u w) = setTabs t w" "setTabs (tabs (wDb w)) w = w"
  by (simp_all add: setTabs_def intact_def)

lemma exec_intact: "intact w \<Longrightarrow> inTx (exec (\<lambda>t. Some (u t))) w = (Ok (), setTabs (u (tabs (wDb w))) w)"
  by (simp add: inTx_def onDb_def exec_def stmt_def intact_def setTabs_def)

lemma update_intact: "intact w \<Longrightarrow> updateRecipient tbl a i n c d w
    = (Ok (), setTabs (mapRows tbl (recordRcpt a i n c d) (tabs (wDb w))) w)"
  by (simp add: updateRecipient_def ignoreErr_def exec_intact)

lemma notify_intact: "intact w \<Longrightarrow> \<exists>t. updateNotify k n c d w = (Ok (), setTabs t w) \<and> rowsOf tbl t = rowsOf tbl (tabs (wDb w))"
  by (cases "k = 0"; cases tbl)
    (auto simp: updateNotify_def retIO_def ignoreErr_def exec_intact rowsOf_def intro: exI [of _ "tabs (wDb w)"])

lemma commit_intact: "intact w \<Longrightarrow> txCommit w = (Ok True, w)"
  by (simp add: txCommit_def intact_def Let_def)

definition failedRow :: "int \<Rightarrow> string set \<Rightarrow> float64 \<Rightarrow> rcptRow \<Rightarrow> rcptRow" where
  "failedRow i as now r =
     (if rMsg r = i \<and> rAddr r \<in> as
      then r\<lparr>rLastAttempt := Some now, rCode := Some (- 1), rAttempts := rAttempts r + 1\<rparr> else r)"

lemma updateLocked_intact:
  assumes "intact w" "distinct as"
  shows "\<exists>t. updateLocked tbl as i n (- 1) False w = (Ok (), setTabs t w)
    \<and> rowsOf tbl t = map (failedRow i (set as) n) (rowsOf tbl (tabs (wDb w)))"
  using assms
proof (induction as arbitrary: w)
  case Nil
  have "map (failedRow i {} n) rs = rs" for rs by (rule map_idI) (simp add: failedRow_def)
  then show ?case by (auto simp: retIO_def intro: exI [of _ "tabs (wDb w)"])
next
  case (Cons a as)
  let ?w = "setTabs (mapRows tbl (recordRcpt a i n (- 1) False) (tabs (wDb w))) w"
  from Cons.IH [of ?w] Cons.prems obtain t where t: "updateLocked tbl as i n (- 1) False ?w = (Ok (), setTabs t ?w)"
    "rowsOf tbl t = map (failedRow i (set as) n) (rowsOf tbl (tabs (wDb ?w)))" by auto
  have "failedRow i (set as) n (recordRcpt a i n (- 1) False r) = failedRow i (set (a # as)) n r" for r
    using Cons.prems(2) by (auto simp: failedRow_def recordRcpt_def)
  then have "rowsOf tbl t = map (failedRow i (set (a # as)) n) (rowsOf tbl (tabs (wDb w)))"
    using t(2) by (simp add: rowsOf_mapRows)
  then show ?case using t(1) Cons.prems by (auto simp: bindIO_def update_intact)
qed

lemma recordRetryable_intact:
  assumes "intact w" "distinct locked"
  shows "\<exists>now w'. recordRetryableFailure S tbl locked i k w = (Ok True, w')
    \<and> rowsOf tbl (tabs (wDb w')) = map (failedRow i (set locked) now) (rowsOf tbl (tabs (wDb w)))"
proof -
  define now v where "now = clockAt S (sTicks w)" and "v = w\<lparr>sTicks := Suc (sTicks w)\<rparr>"
  have g: "bindIO (getNow S) m w = m now v" for m :: "float64 \<Rightarrow> bool sd"
    by (simp add: getNow_def bindIO_def v_def now_def)
  have v: "intact v" "tabs (wDb v) = tabs (wDb w)" using assms(1) by (simp_all add: v_def intact_def)
  from updateLocked_intact [OF v(1) assms(2)] obtain t where t: "updateLocked tbl locked i now (- 1) False v = (Ok (), setTabs t v)"
    "rowsOf tbl t = map (failedRow i (set locked) now) (rowsOf tbl (tabs (wDb v)))" by blast
  from notify_intact [of "setTabs t v" k now "- 1" False tbl] v(1) obtain t' where n: "updateNotify k now (- 1) False (setTabs t v) = (Ok (), setTabs t' v)"
    "rowsOf tbl t' = rowsOf tbl t" by auto
  have "recordRetryableFailure S tbl locked i k w = (Ok True, setTabs t' v)"
    unfolding recordRetryableFailure_def g using t(1) n(1) commit_intact [of "setTabs t' v"] v(1) by (simp add: bindIO_def)
  then show ?thesis using t(2) n(2) v(2) by auto
qed

lemma lockedRows_distinct:
  assumes "wfTables t q"
  shows "distinct (map rAddr (lockedRows S tbl i d b n t))"
proof -
  have d: "distinct (map rAddr (filter P rs))"
    if "distinct (map (\<lambda>r. (f r, rAddr r)) rs)" "\<And>r. P r \<Longrightarrow> f r = c" for f :: "rcptRow \<Rightarrow> int" and c P rs
    using that by (auto simp: distinct_map inj_on_def)
  have u: "distinct (map (\<lambda>r. (rMsg r, rAddr r)) (tos t))" "distinct (map (\<lambda>r. (rBatch r, rAddr r)) (addTos t))"
    using wfD(5) [OF assms] by (simp_all add: uniqueOK_def)
  show ?thesis unfolding lockedRows_def rowsOf_def
    by (cases tbl) (simp_all only: rcptTable.case, rule d [OF u(1), of _ i], simp, rule d [OF u(2), of _ b], simp)
qed

section \<open>Theorems\<close>

text \<open>The steps up to the locks when no statement fails.\<close>

lemma withLocks_intact:
  assumes "dbfaults (wDb w) = []"
    and "locked = map rAddr (lockedRows S tbl (MsgID target) (tDomain target) b (clockAt S (sTicks w)) (tabs (wDb w)))" "locked \<noteq> []"
  shows "\<exists>now k v. withLocks S target tbl b body w = bindIO (body now locked k) (\<lambda>c. if c then retIO () else txRollback) v
    \<and> intact v \<and> tabs (wDb v) = tabs (wDb w) \<and> sOut v = sOut w \<and> sPeers v = sPeers w"
proof -
  define now v where "now = clockAt S (sTicks w)"
    and "v = w\<lparr>sBase := tabs (wDb w), sAborted := False, sTicks := Suc (sTicks w)\<rparr>"
  have b: "bindIO (tryIO txBegin) m w = m (Inr ()) (w\<lparr>sBase := tabs (wDb w), sAborted := False\<rparr>)" for m :: "err + unit \<Rightarrow> unit sd"
    using assms(1) by (simp add: tryIO_def txBegin_def bindIO_def onDb_def stmt_def retIO_def modS_def)
  have g: "bindIO (getNow S) m (w\<lparr>sBase := tabs (wDb w), sAborted := False\<rparr>) = m now v" for m :: "float64 \<Rightarrow> unit sd"
    by (simp add: getNow_def bindIO_def v_def now_def)
  have q: "inTx (query f) v = (Ok (f (tabs (wDb v))), v)" for f :: "tables \<Rightarrow> 'x"
    using assms(1) by (simp add: inTx_def onDb_def query_def stmt_def v_def)
  have l: "lockPendingRecipients S tbl (MsgID target) (tDomain target) b now v = (Ok locked, v)"
    unfolding lockPendingRecipients_def q using assms(2) by (simp add: now_def v_def)
  obtain k where k: "(if tbl = MsgAddTo then lockPendingNotify S b (tDomain target) now else retIO 0) v = (Ok k, v)"
    by (cases "tbl = MsgAddTo"; cases "b = 0") (auto simp: lockPendingNotify_def retIO_def q)
  have "withLocks S target tbl b body w = bindIO (body now locked k) (\<lambda>c. if c then retIO () else txRollback) v"
    unfolding withLocks_def b using assms(3) by (simp only: sum.case g bind_try l k prod.case res.case) simp
  moreover have "intact v" using assms(1) by (simp add: v_def intact_def)
  moreover have "tabs (wDb v) = tabs (wDb w)" "sOut v = sOut w" "sPeers v = sPeers w" by (simp_all add: v_def)
  ultimately show ?thesis by blast
qed


end
