(* ===== verification/EndToEnd.thy ===== *)
theory EndToEnd
  imports SenderRetry
begin

text \<open>
  Two hosts together: what one answers is what the other records, and a challenge of a message under
  way comes back with that message's hash.
\<close>

section \<open>Answers\<close>

lemma conversation_answers:
  assumes "conversation R h ws" "ws \<noteq> []"
    and "InitialResponseCode h \<in> {AcceptCodeAddTo, AcceptCodeSkipData} \<Longrightarrow> hasFlag (Flags h) FlagHasAddTo"
    and "n = length (fst (localRecipients (uni (lib R)) (hostDomain R) h))"
  shows "\<not> unanswered h n ws"
proof -
  from assms(2) obtain c rest where ws: "ws = c # rest" by (cases ws) auto
  have i: "c \<in> {11, 65} \<Longrightarrow> hasFlag (Flags h) FlagHasAddTo" using assms(1,3) ws by (auto simp: conversation_def)
  from assms(1,2) consider (code) "c \<in> {3, 10, 11}" | (codes) "c \<in> {64, 65}" "length rest = n"
    using ws assms(4) by (auto simp: conversation_def)
  then show ?thesis
  proof cases
    case code
    then show ?thesis using i ws by (auto simp: unanswered_def)
  next
    case codes
    then show ?thesis using i ws by (auto simp: unanswered_def)
  qed
qed


section \<open>Challenges\<close>

lemma challengeOn_run:
  assumes "wfaults c = []" "inp c = resp" "length resp = 32"
  shows "\<exists>c'. challengeOn hash c = (Ok resp, c') \<and> out c' = out c @ 255 # hash"
  using assms by (auto simp: challengeOn_def bindIO_def Write_def ReadAllLimit_def retIO_def)

lemma readHeader_challenge:
  assumes "inp c = 255 # hs" "length hs = 32" "wfaults c = []" "remoteHost c = Some addr"
    and "lookupOutgoing H hs addr = Some h" "GetMessageHash (lib H) (files H) h = Ok (mh, h')"
  shows "\<exists>d. readHeader H c = (Ok None, d) \<and> out d = out c @ mh"
proof -
  have c: "inp (consume 1 c) = hs @ []" using assms(1) by simp
  have "\<exists>d. handleChallenge H (consume 1 c) = (Ok (), d) \<and> out d = out c @ mh"
    unfolding handleChallenge_run [OF assms(2) c] using assms(3-6) by (simp add: bindIO_def liftIO_def Write_def)
  then obtain d where d: "handleChallenge H (consume 1 c) = (Ok (), d)" "out d = out c @ mh" by blast
  have "(129 :: byte) \<le> 255" "256 - unat (255 :: byte) = 1" by (simp_all add: word_le_nat_alt)
  then have "readHeader H c = (Ok None, d)"
    using assms(1) d(1)
    by (simp add: readHeader_def readVersionOrChallenge_def bindIO_assoc bindIO_run [OF ReadByte_run])
      (simp add: bindIO_def retIO_def)
  then show ?thesis using d(2) by blast
qed

text \<open>
  C7. A challenge of a delivery under way succeeds. While a host delivers a message to a peer, under
  that peer's address and no other message under the same header hash, a challenge from that
  address for the hash of the header the peer has read is answered with the message's hash, and the
  peer's challenge ends with that hash in its header.
\<close>
theorem challenge_round_trip:
  assumes delivering: "lookupOutgoing A = lookupOutgoingMap (registerOutgoing hash h1 addr m)"
      "GetHeaderHash (lib A) h = (hash, h1)" "m hash = None" "length hash = 32"
    and sent: "GetMessageHash (lib A) (files A) h1 = Ok (mh, h2)" "length mh = 32"
    and read: "GetHeaderHash (lib R) hr = (hash, hr1)"
    and wires: "inp cA = 255 # hash" "out cA = []" "wfaults cA = []" "remoteHost cA = Some addr"
      "remoteHost (wConn w) = Some peer" "dialPeer R peer (''fmsg.'' @ domain) = Inr (c2, True)"
      "out c2 = []" "wfaults c2 = []" "inp c2 = out (snd (readHeader A cA))"
  shows "\<exists>w' c. challenge R hr domain w = (Ok (hr1\<lparr>ChallengeHash := mh, ChallengeCompleted := True\<rparr>), w')
    \<and> wConn2 w' = Some c \<and> out c = inp cA"
proof -
  have "lookupOutgoing A hash addr = Some h1"
    by (simp add: delivering(1) lookupOutgoingMap_def registerOutgoing_def delivering(3))
  from readHeader_challenge [OF wires(1) delivering(4) wires(3,4) this sent(1)]
  have "inp c2 = mh" using wires(2,9) by auto
  from challengeOn_run [OF wires(8) this sent(2), of hash] obtain c where
    c: "challengeOn hash c2 = (Ok mh, c)" "out c = 255 # hash" using wires(7) by auto
  then show ?thesis
    using wires(1,5,6) by (simp add: challenge_def read Let_def retIO_def liftIO_def bindIO_def getS_def modS_def)
qed

section \<open>The registry afterwards\<close>

definition registryKept :: "sending \<Rightarrow> sending \<Rightarrow> bool" where
  "registryKept w w' \<longleftrightarrow> sOut w' = sOut w"

interpretation rk: step_relation registryKept
  by unfold_locales (auto simp: registryKept_def)

lemma rk_parts: "rk.keep (onConn m)" "rk.keep (onDisk d)" "rk.keep (onDb q)" "rk.keep (getNow S)" "rk.keep txCommit"
  "rk.keep txRollback" "rk.keep txBegin"
  by (auto intro!: rk.keepI simp: registryKept_def onConn_def onDisk_def onDb_def getNow_def txCommit_def txRollback_def
      txBegin_def bindIO_def modS_def Let_def split: prod.splits list.splits dbfault.splits res.splits)

lemma rk_inTx: "rk.keep (inTx q)"
  by (rule rk.keepI) (auto simp: registryKept_def inTx_def onDb_def split: prod.splits res.splits)

lemma rk_updates: "rk.keep (updateRecipient tbl a i n c d)" "rk.keep (updateLocked tbl as i n c d)" "rk.keep (updateNotify k n c d)"
  "rk.keep (recordCodes tbl i n rcs)"
proof -
  show u: "rk.keep (updateRecipient tbl a i n c d)" for a c d
    unfolding updateRecipient_def by (intro rk.keep_ignore rk_inTx)
  show "rk.keep (updateLocked tbl as i n c d)" by (induction as) (auto intro!: rk.keep_intros u)
  show "rk.keep (updateNotify k n c d)" unfolding updateNotify_def by (intro rk.keep_intros rk_inTx)
  show "rk.keep (recordCodes tbl i n rcs)"
    by (induction tbl i n rcs rule: recordCodes.induct) (auto intro!: rk.keep_intros u [unfolded updateRecipient_def] simp: updateRecipient_def rk_inTx)
qed

lemma rk_exchange: "rk.keep (exchange S h tbl i recips locked k)"
proof -
  have c: "rk.keep (copyNToConn n src)" for n src
    unfolding copyNToConn_def by (intro rk.keep_intros rk_parts)
  have a: "rk.keep (sendAttachments as)" for as
    by (induction as) (auto intro!: rk.keep_intros c rk_parts)
  show ?thesis unfolding exchange_def onResponse_def readCodes_def recordAll_def sendMsgData_def Let_def
    by (intro rk.keep_intros rk_parts rk_updates c a)
qed

lemma rk_withLocks:
  assumes "\<And>now locked k. rk.keep (body now locked k)"
  shows "rk.keep (withLocks S target tbl b body)"
  unfolding withLocks_def lockPendingRecipients_def lockPendingNotify_def
  by (intro rk.keep_intros rk_parts rk_inTx assms)

text \<open>Steps that always come to a result: what they try may fail.\<close>

definition always :: "('s, 'a) st \<Rightarrow> bool" where
  "always m \<longleftrightarrow> (\<forall>s. \<exists>x t. m s = (Ok x, t))"

lemma always_bind:
  assumes "always m" "\<And>x. always (k x)"
  shows "always (bindIO m k)"
  unfolding always_def
proof
  fix s
  obtain x t where "m s = (Ok x, t)" using assms(1) unfolding always_def by blast
  moreover obtain y u where "k x t = (Ok y, u)" using assms(2) unfolding always_def by blast
  ultimately show "\<exists>x t. bindIO m k s = (Ok x, t)" by (simp add: bindIO_def)
qed

lemma always_try: "settles m \<Longrightarrow> always (tryIO m)"
  unfolding always_def by (intro allI try_settles)

lemma always_ignore: "settles m \<Longrightarrow> always (ignoreErr m)"
  unfolding always_def ignoreErr_def settles_def
proof
  fix s assume m: "\<forall>s. fst (m s) \<noteq> Panic \<and> fst (m s) \<noteq> Diverge"
  obtain r t where "m s = (r, t)" by fastforce
  with m [rule_format, of s] show "\<exists>x t. (case m s of (Err e, s') \<Rightarrow> (Ok (), s') | r \<Rightarrow> r) = (Ok x, t)"
    by (cases r) auto
qed

lemma always_basic: "always (retIO x)" "always (getNow S)" "always (modS f)" "always txCommit"
  by (auto simp: always_def retIO_def getNow_def modS_def txCommit_def Let_def split: list.split dbfault.split)

lemma settles_inTx: "settles (inTx (exec u))" "settles (inTx (query q))"
  by (auto simp: settles_def inTx_def onDb_def exec_def query_def stmt_def split: list.split option.split prod.splits res.splits)

lemma settles_ReadFull: "settles (onConn (ReadFull n))"
  by (auto simp: settles_def onConn_def ReadFull_def)

lemma always_exchange: "always (exchange S h tbl i recips locked k)"
proof -
  have u: "always (updateRecipient tbl a i n c d)" for a n c d
    unfolding updateRecipient_def by (intro always_ignore settles_inTx)
  have l: "always (updateLocked tbl as i n c d)" for as n c d
    by (induction as) (auto intro!: always_bind u simp: always_basic)
  have k: "always (updateNotify k n c d)" for n c d
    by (simp add: updateNotify_def always_basic always_ignore settles_inTx)
  have r: "always (recordCodes tbl i n rcs)" for n rcs
    by (induction tbl i n rcs rule: recordCodes.induct)
      (auto intro!: always_bind always_ignore settles_inTx simp: always_basic updateRecipient_def)
  show ?thesis unfolding exchange_def onResponse_def readCodes_def recordAll_def Let_def
    by (auto intro!: always_bind always_try l k r settles_sendMsgData settles_ReadFull settles_Write simp: always_basic split: sum.split)
qed

lemma register_remove: "lookupOutgoingMap (removeOutgoingIP hash ip (registerOutgoing hash h ip m)) k a
    = (if k = hash \<and> a = ip then None else lookupOutgoingMap m k a)"
  by (auto simp: lookupOutgoingMap_def removeOutgoingIP_def registerOutgoing_def Let_def split: option.splits)

text \<open>What a unit leaves behind: nothing but the end of the delivery it made.\<close>

definition registryAfter :: "sender \<Rightarrow> pendingTarget \<Rightarrow> Header \<Rightarrow> outgoingMap \<Rightarrow> outgoingMap \<Rightarrow> bool" where
  "registryAfter S target h m m' \<longleftrightarrow>
     (\<forall>k a. lookupOutgoingMap m' k a = lookupOutgoingMap m k a
        \<or> k = fst (GetHeaderHash (lib S) h) \<and> (\<exists>c. peerOf S (tDomain target) = Some (a, c)) \<and> lookupOutgoingMap m' k a = None)"

interpretation ra: step_relation "\<lambda>w w'. registryAfter S target h (sOut w) (sOut w')" for S target h
  by unfold_locales (simp_all add: registryAfter_def, metis)

lemma ra_kept: "rk.keep m \<Longrightarrow> ra.keep S target h m"
proof (rule ra.keepI)
  fix s assume "rk.keep m"
  from rk.keepE [OF this, of s] show "registryAfter S target h (sOut s) (sOut (snd (m s)))"
    by (simp add: registryKept_def registryAfter_def)
qed

lemma ra_sendUnit: "ra.keep S target h (sendUnit S target h tbl locked k)"
proof (rule ra.keepI)
  fix w
  obtain hash h1 where g: "GetHeaderHash (lib S) h = (hash, h1)" by fastforce
  show "registryAfter S target h (sOut w) (sOut (snd (sendUnit S target h tbl locked k w)))"
  proof (cases "peerOf S (tDomain target)")
    case None
    then show ?thesis by (auto simp: sendUnit_def peerOf_def retIO_def registryAfter_def split: sum.splits prod.splits)
  next
    case (Some p)
    obtain ip c where p: "p = (ip, c)" by fastforce
    let ?w = "w\<lparr>wConn := c, sOut := registerOutgoing hash h1 ip (sOut w)\<rparr>"
    let ?x = "exchange S h1 tbl (MsgID target) (domainRecips S h (tDomain target) locked) locked k"
    have s: "sendUnit S target h tbl locked k w = bindIO ?x (\<lambda>outcome.
        bindIO (modS (\<lambda>w. w\<lparr>sOut := removeOutgoingIP hash ip (sOut w), sPeers := sPeers w @ [(tDomain target, wConn w)]\<rparr>))
          (\<lambda>_. retIO outcome)) ?w"
      using Some p by (simp add: sendUnit_def g peerOf_def split: sum.splits)
    obtain r x where x: "?x ?w = (Ok r, x)" using always_exchange unfolding always_def by blast
    have "sOut x = sOut ?w" using rk.keepD [OF rk_exchange x] by (simp add: registryKept_def)
    then have "sOut (snd (sendUnit S target h tbl locked k w)) = removeOutgoingIP hash ip (sOut ?w)"
      unfolding s using x by (simp add: bindIO_def modS_def retIO_def)
    then show ?thesis using Some p g by (auto simp: registryAfter_def register_remove)
  qed
qed

text \<open>
  C8. A delivery leaves nothing in the map of messages in flight. Whatever fails, after a delivery every
  message is found under every address exactly as before it, except that this message is no longer
  found under the address it was delivered to.
\<close>
theorem delivery_unregisters:
  "registryAfter S target h (sOut w) (sOut (snd (deliverUnit S target h tbl batch w)))"
proof -
  have "ra.keep S target h (deliverUnit S target h tbl batch)"
    unfolding deliverUnit_def withLocks_def lockPendingRecipients_def lockPendingNotify_def recordRetryableFailure_def
    by (intro ra.keep_intros ra_sendUnit ra_kept [OF rk_parts(4)] ra_kept [OF rk_parts(5)] ra_kept [OF rk_parts(6)]
        ra_kept [OF rk_parts(7)] ra_kept [OF rk_inTx] ra_kept [OF rk_updates(2)] ra_kept [OF rk_updates(3)])
  then show ?thesis by (rule ra.keepE)
qed

end
