(* ===== verification/Due.thy ===== *)
theory Due
  imports Sender StoreInv
begin

text \<open>
  When recipients are due: the back-off between attempts, and the (message, domain) pairs that are
  found pending.
\<close>

section \<open>Back-off\<close>

lemma f64_less_shift: "f64_less (Fin a e) (f64_int b) \<longleftrightarrow> a * 2 ^ nat e < b" "f64_less (f64_int b) (Fin a e) \<longleftrightarrow> b < a * 2 ^ nat e"
  if "0 \<le> e"
  using that by (simp_all add: f64_int_def)

lemma backoff_int:
  assumes "RetryInterval S = f64_int i" "RetryMaxAge S = f64_int m" "0 \<le> i" "i < 2 ^ 53"
  shows "backoff S k = (if m < i * 2 ^ nat (k - 1) then f64_int m else Fin i (max (k - 1) 0))"
proof -
  have "bitlen \<bar>i\<bar> \<le> 53" using assms(3,4) by (simp add: bitlen_le_iff_power)
  moreover have "bitlen (1 :: int) \<le> 53" by (simp add: bitlen_le_iff_power)
  moreover have n: "nat (max (k - 1) 0) = nat (k - 1)" by simp
  ultimately have "f64_mul (RetryInterval S) (f64_round 1 (max (k - 1) 0)) = Fin i (max (k - 1) 0)"
    by (simp add: assms(1) f64_int_def f64_round_def)
  then show ?thesis
    by (simp add: backoff_def assms(2) pgLessF_def f64_less_shift n Let_def)
qed

text \<open>A number is compared by its value, however mantissa and exponent share it.\<close>

lemma f64_less_value: "0 \<le> e \<Longrightarrow> f64_less (Fin i e) x \<longleftrightarrow> f64_less (f64_int (i * 2 ^ nat e)) x"
proof (cases x)
  case (Fin b e2)
  assume e: "0 \<le> e"
  consider "e \<le> e2" | "e2 < e" "0 \<le> e2" | "e2 < 0" by linarith
  then show ?thesis
  proof cases
    case 1
    then have "(2 :: int) ^ nat e2 = 2 ^ nat (e2 - e) * 2 ^ nat e" using e by (simp flip: power_add nat_add_distrib)
    moreover have "i < b * 2 ^ nat (e2 - e) \<longleftrightarrow> i * 2 ^ nat e < b * 2 ^ nat (e2 - e) * 2 ^ nat e" by simp
    ultimately show ?thesis using 1 e by (simp only: Fin f64_int_def f64_less.simps Let_def) (simp add: mult.assoc)
  next
    case 2
    then have "(2 :: int) ^ nat e = 2 ^ nat (e - e2) * 2 ^ nat e2" by (simp flip: power_add nat_add_distrib)
    moreover have "i * 2 ^ nat (e - e2) < b \<longleftrightarrow> i * 2 ^ nat (e - e2) * 2 ^ nat e2 < b * 2 ^ nat e2" by simp
    ultimately show ?thesis using 2 by (simp only: Fin f64_int_def f64_less.simps Let_def) (simp add: mult.assoc)
  next
    case 3
    then have "(2 :: int) ^ nat (e - e2) = 2 ^ nat e * 2 ^ nat (- e2)" using e by (simp flip: power_add nat_add_distrib)
    then show ?thesis using 3 e by (simp add: Fin f64_int_def mult.assoc)
  qed
qed (simp_all add: f64_int_def)


section \<open>Pending targets\<close>

abbreviation targetKey :: "sender \<Rightarrow> pendingTarget \<Rightarrow> int \<times> string" where
  "targetKey S t \<equiv> (MsgID t, ToLower (uni (lib S)) (tDomain t))"

lemma addTargets_sound:
  "t \<in> set (addTargets S seen rows) \<Longrightarrow>
     (MsgID t, tDomain t) \<in> set rows \<and> \<not> EqualFold (uni (lib S)) (tDomain t) (hostDomain S) \<and> targetKey S t \<notin> set seen"
  by (induction S seen rows rule: addTargets.induct) (auto simp: Let_def split: if_splits)

lemma addTargets_distinct: "distinct (map (targetKey S) (addTargets S seen rows))"
proof (induction S seen rows rule: addTargets.induct)
  case (2 S seen msgID domain rows)
  have "targetKey S t \<noteq> (msgID, ToLower (uni (lib S)) domain)"
    if "t \<in> set (addTargets S ((msgID, ToLower (uni (lib S)) domain) # seen) rows)" for t
    using addTargets_sound [OF that] unfolding list.set by blast
  then have "(msgID, ToLower (uni (lib S)) domain) \<notin> targetKey S ` set (addTargets S ((msgID, ToLower (uni (lib S)) domain) # seen) rows)"
    by (intro notI) (erule imageE, metis)
  with 2 show ?case
    by (cases "EqualFold (uni (lib S)) domain (hostDomain S)"; cases "(msgID, ToLower (uni (lib S)) domain) \<in> set seen")
      (simp_all only: addTargets.simps Let_def if_True if_False list.map distinct.simps set_map pendingTarget.simps
        refl simp_thms not_False_eq_True)
qed simp

lemma addTargets_complete:
  "(i, d) \<in> set rows \<Longrightarrow> \<not> EqualFold (uni (lib S)) d (hostDomain S) \<Longrightarrow>
     (i, ToLower (uni (lib S)) d) \<in> set seen \<union> targetKey S ` set (addTargets S seen rows)"
  by (induction S seen rows rule: addTargets.induct) (auto simp: Let_def split: if_splits)

lemma findPendingTargets_run:
  assumes "findPendingTargets S w = (Ok ts, w')" "now = clockAt S (sTicks w)"
  shows "ts = addTargets S [] (dueDomains S now (tabs (wDb w)) @ dueNotices S now (tabs (wDb w)))"
  using assms
  by (auto simp: findPendingTargets_def getNow_def onDb_def query_def stmt_def elim!: bindIO_OkE split: list.splits if_splits)

text \<open>
  C9. What is pending is found once. The targets found name each message and remote domain at most
  once, never this host's domain; each is owed to a recipient that is due or a notice that is due, and
  every recipient that is due on another domain is among them.
\<close>
theorem pending_targets_found:
  assumes "findPendingTargets S w = (Ok ts, w')" "now = clockAt S (sTicks w)"
  shows "distinct (map (\<lambda>t. (MsgID t, ToLower (uni (lib S)) (tDomain t))) ts)
    \<and> (\<forall>t \<in> set ts. \<not> EqualFold (uni (lib S)) (tDomain t) (hostDomain S)
          \<and> (MsgID t, tDomain t) \<in> set (dueDomains S now (tabs (wDb w)) @ dueNotices S now (tabs (wDb w))))
    \<and> (\<forall>tbl. \<forall>r \<in> set (rowsOf tbl (tabs (wDb w))). \<forall>d. pendingRow S now tbl (tabs (wDb w)) r \<longrightarrow> afterLastAt (rAddr r) = Some d
             \<longrightarrow> \<not> EqualFold (uni (lib S)) d (hostDomain S)
             \<longrightarrow> (\<exists>t \<in> set ts. MsgID t = rMsg r \<and> ToLower (uni (lib S)) (tDomain t) = ToLower (uni (lib S)) d))"
proof -
  note ts = findPendingTargets_run [OF assms]
  have due: "(rMsg r, d) \<in> set (dueDomains S now t)"
    if "r \<in> set (rowsOf tbl t)" "pendingRow S now tbl t r" "afterLastAt (rAddr r) = Some d" for tbl t r d
    using that unfolding dueDomains_def by (cases tbl) (force simp: rowsOf_def List.map_filter_def)+
  have "\<exists>t \<in> set ts. MsgID t = rMsg r \<and> ToLower (uni (lib S)) (tDomain t) = ToLower (uni (lib S)) d"
    if "r \<in> set (rowsOf tbl (tabs (wDb w)))" "pendingRow S now tbl (tabs (wDb w)) r" "afterLastAt (rAddr r) = Some d"
      "\<not> EqualFold (uni (lib S)) d (hostDomain S)" for tbl r d
  proof -
    have "(rMsg r, d) \<in> set (dueDomains S now (tabs (wDb w)) @ dueNotices S now (tabs (wDb w)))" using due [OF that(1-3)] by simp
    from addTargets_complete [OF this that(4), of "[]"] show ?thesis unfolding ts by force
  qed
  moreover have "\<not> EqualFold (uni (lib S)) (tDomain t) (hostDomain S)
      \<and> (MsgID t, tDomain t) \<in> set (dueDomains S now (tabs (wDb w)) @ dueNotices S now (tabs (wDb w)))" if "t \<in> set ts" for t
    using addTargets_sound [OF that [unfolded ts]] by blast
  moreover have "distinct (map (\<lambda>t. (MsgID t, ToLower (uni (lib S)) (tDomain t))) ts)"
    unfolding ts by (rule addTargets_distinct)
  ultimately show ?thesis by blast
qed

section \<open>Batches\<close>

text \<open>
  C11. A delivery of one batch ends the other. The update after an accept names the message and the
  address and not the batch: whichever batch was delivered, the same recipient's row of every
  other batch of the message is recorded as delivered as well, and is never due again.
\<close>
theorem delivery_ends_other_batches:
  assumes "dbfaults (wDb w) = []" "\<not> sAborted w" "r \<in> set (addTos (tabs (wDb w)))" "rMsg r = msgID" "rAddr r = addr"
  shows "\<exists>r' \<in> set (addTos (tabs (wDb (snd (updateRecipient MsgAddTo addr msgID now 200 True w))))).
    rId r' = rId r \<and> rBatch r' = rBatch r \<and> rDelivered r' = Some now
    \<and> (\<forall>later t. \<not> pendingRow S later MsgAddTo t r')"
proof -
  let ?r = "recordRcpt addr msgID now 200 True r"
  have "addTos (tabs (wDb (snd (updateRecipient MsgAddTo addr msgID now 200 True w))))
      = map (recordRcpt addr msgID now 200 True) (addTos (tabs (wDb w)))"
    using assms(1,2) by (simp add: updateRecipient_def ignoreErr_def inTx_def onDb_def exec_def stmt_def mapRows_def)
  moreover have "rId ?r = rId r \<and> rBatch ?r = rBatch r \<and> rDelivered ?r = Some now"
    using assms(4,5) by (simp add: recordRcpt_def)
  ultimately show ?thesis using assms(3) by (intro bexI [of _ ?r]) (auto simp: pendingRow_def)
qed

end
