(* ===== verification/Run.thy ===== *)
theory Run
  imports EndToEnd Due
begin

text \<open>Whole runs: a message from Alice's host to Bob's, accepted, downloaded and answered; deliveries.\<close>

section \<open>A connection that carries a message\<close>

lemma hostAt_fields [simp]:
  "lib (hostAt S w) = lib S" "hostDomain (hostAt S w) = hostDomain S" "clock (hostAt S w) = clock S"
  "PastTimeDelta (hostAt S w) = PastTimeDelta S" "FutureTimeDelta (hostAt S w) = FutureTimeDelta S"
  "MaxMessageSize (hostAt S w) = MaxMessageSize S" "MaxExpandedSize (hostAt S w) = MaxExpandedSize S"
  "SkipAuthorisedIPs (hostAt S w) = SkipAuthorisedIPs S" "lookupAuthorisedIPs (hostAt S w) = lookupAuthorisedIPs S"
  by (simp_all add: hostAt_def Let_def host.defs)

lemma sampleServer_fields [simp]:
  "lib sampleServer = sampleLib" "hostDomain sampleServer = ''b.org''" "clock sampleServer = clock sampleHost"
  "PastTimeDelta sampleServer = PastTimeDelta sampleHost" "FutureTimeDelta sampleServer = FutureTimeDelta sampleHost"
  "MaxMessageSize sampleServer = MaxMessageSize sampleHost" "MaxExpandedSize sampleServer = MaxExpandedSize sampleHost"
  "SkipAuthorisedIPs sampleServer = SkipAuthorisedIPs sampleHost"
  "lookupAuthorisedIPs sampleServer = lookupAuthorisedIPs sampleHost" "challengeMode sampleServer = ''NEVER''"
  "receiverOf sampleServer = sampleReceiver"
  by (simp_all add: sampleServer_def receiverOf_def receiver.defs host.defs server.defs sampleReceiver_def sampleHost_def)

lemma wireOK_host:
  assumes "lib H = lib H'" "clock H = clock H'" "PastTimeDelta H = PastTimeDelta H'" "FutureTimeDelta H = FutureTimeDelta H'"
    "MaxMessageSize H = MaxMessageSize H'" "MaxExpandedSize H = MaxExpandedSize H'"
  shows "wireOK H h = wireOK H' h"
  using assms by (simp add: wireOK_def timeOK_def expandedOK_def attachmentsOK_def cong: if_cong)

lemma sampleHeader_at: "wireOK (hostAt sampleServer w) sampleHeader"
  using sampleHeader_wireOK wireOK_host [of "hostAt sampleServer w" sampleHost sampleHeader] by (simp add: sampleHost_def)

lemma sampleHeader_accepts_at: "accepts (hostAt sampleServer w) (Some ''10.0.0.1'') sampleHeader sampleHeader"
  using sampleHeader_accepts by (simp add: accepts_def localParticipant_def authorisedPeer_def sampleHost_def sampleHeader_def emptyHeader_def hasFlag_def)

definition sampleBytes :: bytes where
  "sampleBytes = Encode sampleHeader @ [1, 2, 3, 4, 5]"

lemma sampleBytes_fields: "sampleBytes \<noteq> []" "hd sampleBytes = 1"
  by (simp_all add: sampleBytes_def Encode_def sampleHeader_def emptyHeader_def)

lemma readHeader_at: "readHeader (hostAt sampleServer w) (sampleConn sampleBytes)
    = (Ok (Some sampleHeader), consume (length (Encode sampleHeader)) (sampleConn sampleBytes))"
  unfolding readHeader_Some using sampleHeader_at sampleHeader_accepts_at
  by (auto simp: sampleConn_def sampleBytes_def)

text \<open>What is left of the world once the header is read and 64 is sent.\<close>

definition sampleAsked :: world where
  "sampleAsked = sampleWorld\<lparr>wConn := (consume (length (Encode sampleHeader)) (sampleConn sampleBytes))\<lparr>out := [64], wroteResponse := True\<rparr>\<rparr>"

definition sampleTaking :: download where
  "sampleTaking = world.extend sampleAsked (download.fields sampleHeader [] [] [] [] [] False)"

lemma sampleHeader_fields: "Flags sampleHeader = 4" "To sampleHeader = [bob]" "AddTo sampleHeader = []" "From sampleHeader = alice"
  "Type sampleHeader = ''application/json''" "Size sampleHeader = 5" "Attachments sampleHeader = []" "StoredWire sampleHeader = []"
  "ChallengeCompleted sampleHeader = False" "messageHash sampleHeader = None" "InitialResponseCode sampleHeader = 64" "Pid sampleHeader = []"
  by (simp_all add: sampleHeader_def emptyHeader_def)

lemma sampleTaking_fields: "lHeader sampleTaking = sampleHeader" "lCodes sampleTaking = []" "lAcceptedTo sampleTaking = []"
    "lAcceptedAddTo sampleTaking = []" "lWireDir sampleTaking = []" "wDb sampleTaking = sampleDb []"
    "inp (wConn sampleTaking) = [1, 2, 3, 4, 5]" "wfaults (wConn sampleTaking) = []" "wDisk sampleTaking = \<lparr>ents = Map.empty, dfaults = []\<rparr>"
    "inp_end (wConn sampleTaking) = EOF"
  by (simp_all add: sampleTaking_def sampleAsked_def sampleWorld_def download.defs world.defs sampleConn_def sampleBytes_def)

abbreviation sampleTaken :: download where
  "sampleTaken \<equiv> sampleTaking\<lparr>wConn := consume 5 (wConn sampleTaking), wDisk := \<lparr>ents = [''/tmp/x'' \<mapsto> Regular [1, 2, 3, 4, 5]], dfaults = []\<rparr>\<rparr>"

lemma sampleHeader_prepared:
  "prepareMessageData sampleReceiver sampleHeader False sampleTaking = (Ok (sampleHeader\<lparr>Filepath := ''/tmp/x''\<rparr>, [''/tmp/x'']), sampleTaken)"
  by (simp add: prepareMessageData_def downloadPart_def sampleHeader_fields sample_host sampleTaking_fields
      onDisk_def createTemp_def faultable_def getEnts_def setEnt_def bindIO_def retIO_def onErr_def
      copyNFromConn_def onConn_def appendFile_def osFlush_def Let_def)

lemma sampleHeader_local: "localRecipients (uni (lib sampleReceiver)) (hostDomain sampleReceiver) sampleHeader = ([bob], 1)"
  by (simp add: localRecipients_def sampleHeader_fields sampleReceiver_def host.defs sampleHost_def bob_def Let_def)

lemma sampleHeader_downloads: "\<exists>w'. downloadMessage sampleReceiver sampleHeader False sampleAsked = (Ok (), w')"
proof -
  let ?h = "sampleHeader\<lparr>Filepath := ''/tmp/x''\<rparr>"
  obtain hash h1 where g: "GetMessageHash (lib sampleReceiver) (ents (wDisk sampleTaken)) ?h = Ok (hash, h1)" and
    h1: "h1 = ?h\<lparr>messageHash := Some hash\<rparr>"
    by (simp add: GetMessageHash_def messageBytes_def HashPayload_def readFile_def copyN_def hasFlag_def Let_def sampleHeader_fields
        sample_host)
  have g2: "GetMessageHash (lib sampleReceiver) fs h1 = Ok (hash, h1)" for fs
    by (simp add: GetMessageHash_def h1)
  define v where "v = sampleTaken\<lparr>lHeader := h1\<rparr>"
  have vh: "verifyHash sampleReceiver (sampleTaken\<lparr>lHeader := ?h\<rparr>) = (Ok (hash, hash), v)"
    using g g2 by (simp add: verifyHash_def canonicalMsgHash_def sampleHeader_fields bindIO_def liftIO_def retIO_def modS_def getS_def
      hasFlag_def h1 v_def)
  have "fst (deliverVerified sampleReceiver [bob] 1 hash v) = Ok ()"
    by (simp add: deliverVerified_def Let_def onDisk_def osOpen_def faultable_def getEnts_def bindIO_def retIO_def
        deliverTo_def sampleValidate setCode_def storeAcceptedMessage_def onConn_def rejectAccept_def Write_def
        sampleTaking_fields sampleDb_def modS_def getS_def v_def h1)
  then have "fst (deferIO (deliverVerified sampleReceiver [bob] 1 hash) cleanupWire v) = Ok ()"
    by (simp only: fst_deferIO [OF returns_cleanupWire])
  then have "fst (deferIO (bindIO (modS (\<lambda>w. w\<lparr>lHeader := ?h\<rparr>)) (\<lambda>_.
       bindIO (verifyHash sampleReceiver) (\<lambda>(_, dupHash).
       deferIO (deliverVerified sampleReceiver [bob] 1 dupHash) cleanupWire))) (onDisk (cleanupFiles [''/tmp/x''])) sampleTaken) = Ok ()"
    unfolding fst_deferIO [OF returns_onDisk [OF returns_cleanupFiles]] bind_modS
    by (simp add: bindIO_run vh)
  then have "fst (downloadBody sampleReceiver False sampleTaking) = Ok ()"
    by (simp add: downloadBody_def sampleTaking_fields sampleHeader_local bindIO_run sampleHeader_prepared)
  then show ?thesis by (simp add: downloadMessage_def sampleTaking_def split: prod.split) (metis fst_conv)
qed

lemma sampleRun_connection:
  "\<exists>w'. handleConn sampleServer (sampleSession sampleBytes) = (Ok Closed, w') \<and> out (wConn w') \<noteq> []"
proof -
  let ?w = "sampleSession sampleBytes"
  define w1 where "w1 = ?w\<lparr>wConn := consume (length (Encode sampleHeader)) (sampleConn sampleBytes)\<rparr>"
  define w2 where "w2 = w1\<lparr>wConn := (consume (length (Encode sampleHeader)) (sampleConn sampleBytes))\<lparr>out := [64], wroteResponse := True\<rparr>\<rparr>"
  have r: "tryIO (onConn (readHeader (hostAt sampleServer ?w))) ?w = (Ok (Inr (Some sampleHeader)), w1)"
    using readHeader_at [of ?w] by (simp add: tryIO_def onConn_def w1_def)
  obtain v where v: "downloadMessage sampleReceiver sampleHeader False sampleAsked = (Ok (), v)" using sampleHeader_downloads by blast
  have t: "world.truncate w2 = sampleAsked"
    by (simp add: w2_def w1_def sampleAsked_def sampleSession_def world.defs session.defs sampleWorld_def)
  from downloadMessage_codes [OF v] have o: "out (wConn v) \<noteq> []" by (auto simp: sampleAsked_def)
  have d: "downloadThenClose sampleServer sampleHeader False w2 = (Ok Closed, world.extend v (world.more w2))"
    using v by (simp add: downloadThenClose_def bindIO_def tryIO_def onWorld_def t retIO_def)
  have s: "tryIO (onConn (sendCode 64)) w1 = (Ok (Inr ()), w2)"
    by (simp add: tryIO_def onConn_def sendCode_def rejectAccept_def Write_def w1_def w2_def consume_def sampleConn_def)
  have "respond sampleServer sampleHeader 64 w1 = (Ok Closed, world.extend v (world.more w2))"
    using d s by (simp add: respond_def sendThen_def bindIO_def)
  then have "afterHeader sampleServer sampleHeader w1 = (Ok Closed, world.extend v (world.more w2))"
    by (simp add: afterHeader_def shouldChallenge_def tryIO_def retIO_def bindIO_def dupCheck_def sampleHeader_fields resolvePostChallengeCode_def)
  then have "handleBody sampleServer ?w = (Ok Closed, world.extend v (world.more w2))"
    using r by (simp add: handleBody_def bindIO_def getS_def)
  then show ?thesis using o by (simp add: handleConn_def)
qed

section \<open>Deliveries\<close>

text \<open>Alice's host, owing message 1 to Bob, whose host is reached over the connection \<open>peer\<close>.\<close>

definition sampleOwed :: rcptRow where
  "sampleOwed = \<lparr>rId = 2, rMsg = 1, rBatch = 0, rAddr = ''@bob@b.org'', rDelivered = None, rLastAttempt = None, rCode = None, rAttempts = 0\<rparr>"

definition sampleSent :: msgRow where
  "sampleSent = \<lparr>mId = 1, mVersion = 1, mPid = None, mNoReply = False, mImportant = False, mDeflate = False, mTerminal = False,
     mTime = Some 0, mFrom = ''@alice@a.org'', mTopic = ''hi'', mType = ''application/json'', mSha = Some (replicate 32 7),
     mPsha = None, mSize = 5, mPath = ''/m'', mWireHeader = None, mWire = Some [123]\<rparr>"

definition sampleTabs :: tables where
  "sampleTabs = \<lparr>msgs = [sampleSent], tos = [sampleOwed], batches = [], addTos = [], atts = [], notifies = []\<rparr>"

definition sampleSender' :: "(string \<times> conn) option \<Rightarrow> sender" where
  "sampleSender' peer = receiver.extend (sampleReceiver\<lparr>hostDomain := ''a.org'',
       lookupAuthorisedIPs := (\<lambda>d. if d = ''b.org'' then Inr [[10, 0, 0, 2]] else Inr [])\<rparr>)
     (sender.fields (f64_int 20) (f64_int 86400) (\<lambda>i name. peer) (\<lambda>n. 0) [])"

definition sampleSending :: sending where
  "sampleSending = world.extend (sampleWorld\<lparr>wDb := \<lparr>tabs = sampleTabs, seq = 3, dbfaults = []\<rparr>\<rparr>)
     (sending.fields initOutgoing 0 False sampleTabs [])"

abbreviation sampleTarget :: pendingTarget where
  "sampleTarget \<equiv> \<lparr>MsgID = 1, tDomain = ''b.org''\<rparr>"

lemma sampleSender'_fields [simp]:
  "lib (sampleSender' p) = sampleLib" "hostDomain (sampleSender' p) = ''a.org''" "RetryInterval (sampleSender' p) = f64_int 20"
  "RetryMaxAge (sampleSender' p) = f64_int 86400" "dialTLS (sampleSender' p) i n = p" "clockAt (sampleSender' p) k = 0" "heldRows (sampleSender' p) = []"
  "lookupAuthorisedIPs (sampleSender' p) ''b.org'' = Inr [[10, 0, 0, 2]]"
  by (simp_all add: sampleSender'_def sender.defs receiver.defs host.defs sampleReceiver_def sampleHost_def)

lemma sampleSending_fields [simp]:
  "wDb sampleSending = \<lparr>tabs = sampleTabs, seq = 3, dbfaults = []\<rparr>" "sTicks sampleSending = 0"
  by (simp_all add: sampleSending_def sending.defs world.defs)

lemma wf_sampleTabs: "wfTables sampleTabs 3"
  by (simp add: sampleTabs_def sampleSent_def sampleOwed_def wfTables_def wf_defs hashesUnique_def msgAt_def replyOK_def)

lemma sample_young: "young (sampleSender' p) 0 0"
  using bitlen_le_iff_power [of 0 53] by (simp add: young_def elapsed_def f64_of_bits_def f64_round_def pgLessF_def f64_int_def)

lemma sampleOwed_pending: "pendingRow (sampleSender' p) 0 MsgTo sampleTabs sampleOwed"
  using sample_young by (simp add: pendingRow_def sampleOwed_def sampleTabs_def sampleSent_def msgAt_def retryable_def dueAgain_def)

lemma sampleOwed_domain: "afterLastAt (rAddr sampleOwed) = Some ''b.org''"
  by code_simp

lemma sample_locked: "map rAddr (lockedRows (sampleSender' p) MsgTo 1 ''b.org'' 0 0 sampleTabs) = [''@bob@b.org'']"
  using sampleOwed_pending [of p] sampleOwed_domain
  by (simp add: lockedRows_def rowsOf_def sampleTabs_def ofDomain_def) (simp add: sampleOwed_def)

section \<open>Applied\<close>

lemma sampleBytes_input: "inp (sampleConn b) = b" "out (sampleConn b) = []"
  by (simp_all add: sampleConn_def)



text \<open>Alice's host, delivering, is challenged by Bob's.\<close>

definition sampleAddress :: bytes where
  "sampleAddress = sha256 sampleLib (Encode sampleHeader)"

definition sampleDelivering :: Header where
  "sampleDelivering = sampleHeader\<lparr>Filepath := ''/m'', HeaderHash := Some sampleAddress\<rparr>"

definition sampleDigest :: bytes where
  "sampleDigest = sha256 sampleLib (Encode sampleHeader @ [1, 2, 3, 4, 5])"

definition sampleOrigin :: host where
  "sampleOrigin = sampleHost\<lparr>files := [''/m'' \<mapsto> Regular [1, 2, 3, 4, 5]],
     lookupOutgoing := lookupOutgoingMap (registerOutgoing sampleAddress sampleDelivering ''10.0.0.2'' Map.empty)\<rparr>"

abbreviation sampleCall :: conn where
  "sampleCall \<equiv> (sampleConn (255 # sampleAddress))\<lparr>remoteHost := Some ''10.0.0.2''\<rparr>"

definition sampleChallenger :: server where
  "sampleChallenger = receiver.extend sampleReceiver (server.fields (\<lambda>ip name. Inr (sampleConn sampleDigest, True)))"

lemma sampleHash_lengths: "length sampleAddress = 32" "length sampleDigest = 32"
  by (simp_all add: sampleAddress_def sampleDigest_def sampleLib_def)

lemma sampleOrigin_fields [simp]:
  "lib sampleOrigin = sampleLib" "files sampleOrigin = [''/m'' \<mapsto> Regular [1, 2, 3, 4, 5]]"
  "lookupOutgoing sampleOrigin = lookupOutgoingMap (registerOutgoing sampleAddress sampleDelivering ''10.0.0.2'' Map.empty)"
  by (simp_all add: sampleOrigin_def sampleHost_def)

lemma sampleDelivering_hash: "GetMessageHash sampleLib [''/m'' \<mapsto> Regular [1, 2, 3, 4, 5]] sampleDelivering
    = Ok (sampleDigest, sampleDelivering\<lparr>messageHash := Some sampleDigest\<rparr>)"
proof -
  have "Encode sampleDelivering = Encode sampleHeader"
    by (simp add: sampleDelivering_def Encode_def encAddTo_def Let_def sampleHeader_fields hasFlag_def)
  then show ?thesis
    by (simp add: GetMessageHash_def messageBytes_def HashPayload_def readFile_def copyN_def hasFlag_def Let_def
        sampleDelivering_def sampleHeader_fields sampleDigest_def)
qed

lemma challenge_round_trip_witness:
  "\<exists>w' c. challenge sampleChallenger sampleHeader ''a.org'' (sampleSession [])
      = (Ok (sampleHeader\<lparr>HeaderHash := Some sampleAddress, ChallengeHash := sampleDigest, ChallengeCompleted := True\<rparr>), w')
    \<and> wConn2 w' = Some c \<and> out c = 255 # sampleAddress"
proof -
  have g: "GetHeaderHash sampleLib h = (sampleAddress, h\<lparr>HeaderHash := Some sampleAddress\<rparr>)"
    if "h = sampleHeader \<or> h = sampleHeader\<lparr>Filepath := ''/m''\<rparr>" for h
    using that by (auto simp: GetHeaderHash_def sampleAddress_def sampleHeader_def emptyHeader_def Encode_def encAddTo_def Let_def
        cong: if_cong)
  have s: "GetHeaderHash (lib sampleOrigin) (sampleHeader\<lparr>Filepath := ''/m''\<rparr>) = (sampleAddress, sampleDelivering)"
    using g [of "sampleHeader\<lparr>Filepath := ''/m''\<rparr>"] by (simp add: sampleDelivering_def)
  have c: "remoteHost (wConn (sampleSession [])) = Some ''10.0.0.1''"
    "dialPeer sampleChallenger ''10.0.0.1'' (''fmsg.'' @ ''a.org'') = Inr (sampleConn sampleDigest, True)" "lib sampleChallenger = sampleLib"
    by (simp_all add: sampleConn_def sampleChallenger_def server.defs receiver.defs host.defs sampleReceiver_def sampleHost_def)
  have l: "lookupOutgoing sampleOrigin sampleAddress ''10.0.0.2'' = Some sampleDelivering"
    by (simp add: lookupOutgoingMap_def registerOutgoing_def)
  have i: "inp sampleCall = 255 # sampleAddress" "out sampleCall = []" "wfaults sampleCall = []" "remoteHost sampleCall = Some ''10.0.0.2''"
    by (simp_all add: sampleConn_def)
  have d: "out (snd (readHeader sampleOrigin sampleCall)) = sampleDigest"
    using readHeader_challenge [OF i(1) sampleHash_lengths(1) i(3,4) l] sampleDelivering_hash i(2) by auto
  have "\<exists>w' c. challenge sampleChallenger sampleHeader ''a.org'' (sampleSession [])
      = (Ok (sampleHeader\<lparr>HeaderHash := Some sampleAddress\<rparr>\<lparr>ChallengeHash := sampleDigest, ChallengeCompleted := True\<rparr>), w')
    \<and> wConn2 w' = Some c \<and> out c = inp sampleCall"
  proof (rule challenge_round_trip [OF _ s _ sampleHash_lengths(1) _ sampleHash_lengths(2) _ i c(1,2)])
    show "GetMessageHash (lib sampleOrigin) (files sampleOrigin) sampleDelivering
        = Ok (sampleDigest, sampleDelivering\<lparr>messageHash := Some sampleDigest\<rparr>)"
      using sampleDelivering_hash by simp
    show "GetHeaderHash (lib sampleChallenger) sampleHeader = (sampleAddress, sampleHeader\<lparr>HeaderHash := Some sampleAddress\<rparr>)"
      using g [of sampleHeader] c(3) by simp
    show "lookupOutgoing sampleOrigin = lookupOutgoingMap (registerOutgoing sampleAddress sampleDelivering ''10.0.0.2'' Map.empty)"
      by simp
    show "inp (sampleConn sampleDigest) = out (snd (readHeader sampleOrigin sampleCall))" unfolding d by (simp add: sampleConn_def)
  qed (simp_all add: sampleConn_def)
  then show ?thesis by (simp add: i(1))
qed


lemma sample_due: "dueDomains (sampleSender' p) 0 sampleTabs = [(1, ''b.org'')]" "dueNotices (sampleSender' p) 0 sampleTabs = []"
  using sampleOwed_pending [of p] sampleOwed_domain
  by (simp_all add: dueDomains_def dueNotices_def List.map_filter_def sampleTabs_def) (simp add: sampleOwed_def)

lemma sample_found: "\<exists>w'. findPendingTargets (sampleSender' None) sampleSending
    = (Ok (addTargets (sampleSender' None) [] [(1, ''b.org'')]), w')"
  by (simp add: findPendingTargets_def getNow_def onDb_def query_def stmt_def bindIO_def retIO_def sample_due)

lemma pending_targets_found_witness:
  "\<exists>ts w'. findPendingTargets (sampleSender' None) sampleSending = (Ok ts, w')
    \<and> distinct (map (\<lambda>t. (MsgID t, ToLower (uni (lib (sampleSender' None))) (tDomain t))) ts)"
proof -
  obtain w' where "findPendingTargets (sampleSender' None) sampleSending = (Ok (addTargets (sampleSender' None) [] [(1, ''b.org'')]), w')"
    using sample_found by blast
  from pending_targets_found [OF this refl] this show ?thesis by blast
qed

definition sampleAdded :: sending where
  "sampleAdded = sampleSending\<lparr>wDb := \<lparr>tabs = sampleTabs\<lparr>addTos := [sampleOwed\<lparr>rBatch := 5\<rparr>, sampleOwed\<lparr>rId := 3, rBatch := 6\<rparr>]\<rparr>,
     seq = 7, dbfaults = []\<rparr>\<rparr>"

lemma delivery_ends_other_batches_witness:
  "\<exists>r' \<in> set (addTos (tabs (wDb (snd (updateRecipient MsgAddTo ''@bob@b.org'' 1 0 200 True sampleAdded))))).
    rId r' = 3 \<and> rBatch r' = 6 \<and> rDelivered r' = Some 0"
proof -
  let ?r = "sampleOwed\<lparr>rId := 3, rBatch := 6\<rparr>"
  have "dbfaults (wDb sampleAdded) = []" "\<not> sAborted sampleAdded" "?r \<in> set (addTos (tabs (wDb sampleAdded)))"
    by (simp_all add: sampleAdded_def sampleSending_def sending.defs world.defs)
  moreover have "rMsg ?r = 1" "rAddr ?r = ''@bob@b.org''" "rId ?r = 3" "rBatch ?r = 6" by (simp_all add: sampleOwed_def)
  ultimately show ?thesis
    using delivery_ends_other_batches [of sampleAdded ?r 1 "''@bob@b.org''" 0 undefined] by metis
qed

end
