(* ===== verification/FinalizeRun.thy ===== *)
theory FinalizeRun
  imports FinalizeProps Run
begin

text \<open>A draft with a batch of added recipients, sealed: every step of it evaluated.\<close>

section \<open>The draft\<close>

definition sealedBody :: string where
  "sealedBody = ''/d/.fmsg-wire-0/body''"

definition sealedHeader :: Header where
  "sealedHeader = draftHeader\<lparr>Filepath := sealedBody\<rparr>"

definition preparedHash :: bytes where
  "preparedHash = sha256 sampleLib (Encode sealedHeader @ [1, 2, 3])"

definition preparedDisk :: disk where
  "preparedDisk = \<lparr>ents = (ents draftDisk)(''/d/.fmsg-wire-0'' \<mapsto> Directory, sealedBody \<mapsto> Regular [1, 2, 3]), dfaults = []\<rparr>"

text \<open>A codec that reads back the one document in use.\<close>

definition sampleSealer :: finalizer where
  "sampleSealer = storeEnv.extend \<lparr>sLib = sampleLib, sJson = \<lparr>encJSON = (\<lambda>v h. [123]), decJSON = (\<lambda>b. Ok (1, Some sealedHeader))\<rparr>,
     sPg = \<lparr>jsonb = Some\<rparr>, sDomain = ''a.org''\<rparr> (finalizer.fields numberedTemp (\<lambda>a b. True))"

lemma sampleSealer_fields [simp]:
  "sLib sampleSealer = sampleLib" "tempDirs sampleSealer = numberedTemp" "jsonb (sPg sampleSealer) = Some"
  "encJSON (sJson sampleSealer) v h = [123]" "decJSON (sJson sampleSealer) b = Ok (1, Some sealedHeader)"
  by (simp_all add: sampleSealer_def storeEnv.defs finalizer.defs)

definition draftRow :: msgRow where
  "draftRow = \<lparr>mId = 1, mVersion = 1, mPid = None, mNoReply = False, mImportant = False, mDeflate = False, mTerminal = False,
     mTime = None, mFrom = ''@a@a.org'', mTopic = [], mType = ''text/x'', mSha = None, mPsha = None, mSize = 3,
     mPath = ''/d/m'', mWireHeader = None, mWire = None\<rparr>"

definition draftTo :: rcptRow where
  "draftTo = newRcpt 2 1 0 ''@b@b.org'' None None"

definition draftBatch :: batchRow where
  "draftBatch = \<lparr>bId = 3, bMsg = 1, bFrom = ''@a@a.org'', bTime = 0, bSha = None, bWire = None\<rparr>"

definition draftAdded :: rcptRow where
  "draftAdded = newRcpt 4 1 3 ''@c@c.org'' None None"

definition draftTabs :: tables where
  "draftTabs = \<lparr>msgs = [draftRow], tos = [draftTo], batches = [draftBatch], addTos = [draftAdded], atts = [], notifies = []\<rparr>"

definition drafting :: finalizing where
  "drafting = world.extend (sampleWorld\<lparr>wDisk := draftDisk, wDb := \<lparr>tabs = draftTabs, seq = 5, dbfaults = []\<rparr>\<rparr>) (finalizing.fields [])"

lemma drafting_fields [simp]:
  "wDb drafting = \<lparr>tabs = draftTabs, seq = 5, dbfaults = []\<rparr>" "wDisk drafting = draftDisk" "newFiles drafting = []"
  by (simp_all add: drafting_def world.defs finalizing.defs)

lemma draft_addresses: "AddressOf ''@c@c.org'' = Ok \<lparr>User = ''c'', Domain = ''c.org''\<rparr>" "AddressOf ''@a@a.org'' = Ok \<lparr>User = ''a'', Domain = ''a.org''\<rparr>" "AddressOf ''@b@b.org'' = Ok \<lparr>User = ''b'', Domain = ''b.org''\<rparr>"
  by code_simp+

lemma Prepare_sample: "Prepare sampleLib numberedTemp draftHeader draftDisk
    = (Ok (sealedHeader\<lparr>messageHash := Some preparedHash\<rparr>, ''/d/.fmsg-wire-0''), preparedDisk)"
  using draft_temp [unfolded draftDisk_def] draft_small draft_common
  by (simp add: Prepare_def prepareIn_def preparePart_def copyPart_def thenClose_def Let_def Clone_def
      draftHeader_def draftDisk_def emptyHeader_def hasFlag_def mkdirTemp_def osStat_def osOpen_def
      osCreateExcl_def copyNTo_def readAllOf_def appendFile_def osFlush_def onErr_def syncDirectory_def
      hashOnDisk_def faultable_def bindIO_def getEnts_def setEnt_def retIO_def draft_paths
      ApplyCommonTypes_def GetMessageHash_def messageBytes_def HashPayload_def readFile_def copyN_def
      sealedHeader_def preparedHash_def preparedDisk_def sealedBody_def)

lemma load_sample: "load sampleSealer 1 (wDb drafting)
    = (Ok \<lparr>sHeader = draftHeader, sTime = None, sPid = None, sHash = [], sPrepared = []\<rparr>, wDb drafting)"
  by (simp add: load_def query_def stmt_def bindIO_def retIO_def liftIO_def msgAt_def draftTabs_def draftRow_def draftTo_def newRcpt_def
      storedOf_def scanUint_def Let_def draft_addresses nullable_def draftHeader_def emptyHeader_def)

section \<open>The message sealed\<close>

definition sealedDraft :: msgRow where
  "sealedDraft = sealedRow 0 preparedHash [123] (sealedHeader\<lparr>messageHash := Some preparedHash\<rparr>) draftRow"

definition sealedTabs :: tables where
  "sealedTabs = draftTabs\<lparr>msgs := [sealedDraft]\<rparr>"

definition sealedDb :: db where
  "sealedDb = \<lparr>tabs = sealedTabs, seq = 5, dbfaults = []\<rparr>"

lemma seal_sample: "sealMsgRow (sPg sampleSealer) 1 0 preparedHash [123] (sealedHeader\<lparr>messageHash := Some preparedHash\<rparr>) draftTabs = Some sealedTabs"
  by (simp add: sealMsgRow_def sealedTabs_def sealedDraft_def draftTabs_def draftRow_def)

lemma preparedHash_length: "length preparedHash = 32"
  by (simp add: preparedHash_def sampleLib_def)

lemma sealedDraft_fields: "mId sealedDraft = 1" "mTime sealedDraft = Some 0" "mSha sealedDraft = Some preparedHash" "mWire sealedDraft = Some [123]"
    "mVersion sealedDraft = 1" "mSize sealedDraft = 3" "mFrom sealedDraft = ''@a@a.org''" "mPid sealedDraft = None" "mPsha sealedDraft = None"
    "mNoReply sealedDraft = False" "mImportant sealedDraft = False" "mTerminal sealedDraft = False"
  by (simp_all add: sealedDraft_def sealedRow_def draftRow_def sealedHeader_def draftHeader_def emptyHeader_def)

lemma sealedDb_fields: "tabs sealedDb = sealedTabs" "seq sealedDb = 5" "dbfaults sealedDb = []"
    "msgAt sealedTabs 1 = Some sealedDraft" "batchAt sealedTabs 3 = Some draftBatch" "batchAddrs sealedTabs 3 = [''@c@c.org'']"
    "bSha draftBatch = None" "bFrom draftBatch = ''@a@a.org''" "bId draftBatch = 3" "bMsg draftBatch = 1" "batches sealedTabs = [draftBatch]"
  by (simp_all add: sealedDb_def sealedTabs_def draftTabs_def msgAt_def sealedDraft_fields draftBatch_def batchAt_def batchAddrs_def draftAdded_def newRcpt_def)

lemma wf_sealed: "wfTables sealedTabs 5"
  by (simp add: wfTables_def wf_defs hashesUnique_def replyOK_def sealedTabs_def draftTabs_def sealedDraft_fields draftBatch_def draftAdded_def draftTo_def newRcpt_def preparedHash_length)

lemma wf_draft: "wfTables draftTabs 5"
  by (simp add: wfTables_def wf_defs hashesUnique_def replyOK_def draftTabs_def draftRow_def draftBatch_def draftAdded_def draftTo_def newRcpt_def)

section \<open>The batch sealed\<close>

abbreviation alice' :: Address where
  "alice' \<equiv> \<lparr>User = ''a'', Domain = ''a.org''\<rparr>"

definition addedHeader :: Header where
  "addedHeader = batchHeader preparedHash draftBatch alice' [\<lparr>User = ''c'', Domain = ''c.org''\<rparr>]
     (sealedHeader\<lparr>HeaderHash := None, StoredWire := [], messageHash := Some preparedHash\<rparr>)"

definition addedHash :: bytes where
  "addedHash = sha256 sampleLib (Encode addedHeader @ [1, 2, 3])"

definition sealedBatch :: batchRow where
  "sealedBatch = draftBatch\<lparr>bSha := Some addedHash, bWire := Some [123]\<rparr>"

definition bothSealed :: db where
  "bothSealed = sealedDb\<lparr>tabs := sealedTabs\<lparr>batches := [sealedBatch]\<rparr>\<rparr>"

lemma addedHash_length: "length addedHash = 32"
  by (simp add: addedHash_def sampleLib_def)

lemma addedHeader_fields: "messageHash addedHeader = None" "Type addedHeader = ''text/x''" "Size addedHeader = 3" "Filepath addedHeader = sealedBody"
    "Attachments addedHeader = []" "Flags addedHeader = 3" "Timestamp addedHeader = 0"
  by (simp_all add: addedHeader_def batchHeader_def Clone_def sealedHeader_def draftHeader_def emptyHeader_def draftBatch_def)

lemma zero_time: "f64_of_bits 0 = Fin 0 (- 1074)"
  by code_simp

lemma prepared_file: "ents preparedDisk sealedBody = Some (Regular [1, 2, 3])"
  by (simp add: preparedDisk_def)

lemma hash_added: "GetMessageHash sampleLib (ents preparedDisk) addedHeader = Ok (addedHash, addedHeader\<lparr>messageHash := Some addedHash\<rparr>)"
  by (simp add: GetMessageHash_def messageBytes_def HashPayload_def readFile_def copyN_def hasFlag_def Let_def
      addedHeader_fields prepared_file addedHash_def)

lemma hash_prepared: "GetMessageHash sampleLib (ents preparedDisk) (Clone sealedHeader)
    = Ok (preparedHash, sealedHeader\<lparr>HeaderHash := None, StoredWire := [], messageHash := Some preparedHash\<rparr>)"
proof -
  have "Encode (Clone sealedHeader) = Encode sealedHeader" by (simp add: Encode_def encAddTo_def Clone_def cong: option.case_cong if_cong)
  moreover have "messageHash (Clone sealedHeader) = None" "Flags (Clone sealedHeader) = 0" "Filepath (Clone sealedHeader) = sealedBody"
      "Size (Clone sealedHeader) = 3" "Attachments (Clone sealedHeader) = []"
    by (simp_all add: Clone_def sealedHeader_def draftHeader_def emptyHeader_def)
  ultimately have "messageBytes sampleLib (ents preparedDisk) (Clone sealedHeader) = Ok (Encode sealedHeader @ [1, 2, 3])"
      and m: "messageHash (Clone sealedHeader) = None"
    by (simp_all add: messageBytes_def HashPayload_def readFile_def copyN_def hasFlag_def Let_def prepared_file)
  then have "GetMessageHash sampleLib (ents preparedDisk) (Clone sealedHeader) = Ok (preparedHash, (Clone sealedHeader)\<lparr>messageHash := Some preparedHash\<rparr>)"
    by (simp add: GetMessageHash_def preparedHash_def Let_def)
  also have "(Clone sealedHeader)\<lparr>messageHash := Some preparedHash\<rparr> = sealedHeader\<lparr>HeaderHash := None, StoredWire := [], messageHash := Some preparedHash\<rparr>"
    by (simp add: Clone_def sealedHeader_def draftHeader_def emptyHeader_def)
  finally show ?thesis .
qed

lemma unmarshal_prepared: "UnmarshalPrepared sampleLib (ents preparedDisk) (sJson sampleSealer) b preparedHash
    = Ok (sealedHeader\<lparr>HeaderHash := None, StoredWire := [], messageHash := Some preparedHash\<rparr>)"
  by (simp add: UnmarshalPrepared_def hash_prepared preparedHash_length)

lemma sealed_rest: "mTopic sealedDraft = []" "mType sealedDraft = ''text/x''" "mPath sealedDraft = ''/d/m''"
  by (simp_all add: sealedDraft_def sealedRow_def draftRow_def)

lemma sealed_lists: "tos sealedTabs = [draftTo]" "atts sealedTabs = []"
  by (simp_all add: sealedTabs_def draftTabs_def)

lemma load_sealed: "load sampleSealer 1 sealedDb = (Ok \<lparr>sHeader = draftHeader, sTime = Some 0, sPid = None,
     sHash = preparedHash, sPrepared = [123]\<rparr>, sealedDb)"
  by (simp add: load_def query_def stmt_def bindIO_def retIO_def liftIO_def sealedDb_fields sealedDraft_fields storedOf_def
      scanUint_def draft_addresses nullable_def sealed_rest sealed_lists draftTo_def newRcpt_def draftHeader_def emptyHeader_def)

lemma FinalizeBatch_sample: "FinalizeBatch sampleSealer (ents preparedDisk) 1 3 sealedDb = (Ok addedHash, bothSealed)"
proof -
  have l: "lockBatch 3 1 sealedDb = (Ok draftBatch, sealedDb)"
    by (simp add: lockBatch_def query_def stmt_def bindIO_def retIO_def sealedDb_fields)
  have j: "MarshalPrepared (sJson sampleSealer) (addedHeader\<lparr>messageHash := Some addedHash\<rparr>) = Ok [123]"
    by (simp add: MarshalPrepared_def finiteTime_def addedHeader_fields zero_time)
  have u: "sealBatchRow (sPg sampleSealer) 3 addedHash [123] sealedTabs = Some (sealedTabs\<lparr>batches := [sealedBatch]\<rparr>)"
    by (simp add: sealBatchRow_def sealedDb_fields sealedBatch_def)
  have "sealBatch sampleSealer (ents preparedDisk) 1 3 \<lparr>sHeader = draftHeader, sTime = Some 0, sPid = None, sHash = preparedHash, sPrepared = [123]\<rparr>
      draftBatch sealedDb = (Ok addedHash, bothSealed)"
    by (simp add: sealBatch_def representation_def query_def exec_def stmt_def bindIO_def retIO_def liftIO_def unmarshal_prepared
        sealedDb_fields draft_addresses hash_added [unfolded addedHeader_def] j [unfolded addedHeader_def] u bothSealed_def)
  then show ?thesis using l preparedHash_length
    by (simp add: FinalizeBatch_def load_sealed bindIO_def nullable_def sealedDb_fields)
qed

section \<open>The draft finalized\<close>

definition afterFinalize :: finalizing where
  "afterFinalize = drafting\<lparr>wDb := bothSealed, wDisk := preparedDisk, newFiles := [''/d/.fmsg-wire-0'']\<rparr>"

lemma postpone_sample: "postponeBatch 3 0 sealedTabs = Some sealedTabs"
proof -
  have "laterTime 0 0 = 0" by (simp add: laterTime_def)
  then show ?thesis by (simp add: postponeBatch_def sealedTabs_def draftTabs_def draftBatch_def)
qed

lemma Finalize_sample: "Finalize sampleSealer 1 0 drafting = (Ok preparedHash, afterFinalize)"
proof -
  have s: "\<lparr>tabs = sealedTabs, seq = 5, dbfaults = []\<rparr> = sealedDb" by (simp add: sealedDb_def)
  have j: "MarshalPrepared (sJson sampleSealer) (sealedHeader\<lparr>messageHash := Some preparedHash\<rparr>) = Ok [123]"
    by (simp add: MarshalPrepared_def finiteTime_def zero_time sealedHeader_def draftHeader_def emptyHeader_def)
  have p: "exec (postponeBatch 3 0) sealedDb = (Ok (), sealedDb)"
    by (simp add: exec_def stmt_def sealedDb_fields postpone_sample)
  have b: "finalizeBatches sampleSealer (ents preparedDisk) 1 0 [3] sealedDb = (Ok (), bothSealed)"
    by (simp add: bindIO_def p FinalizeBatch_sample retIO_def)
  have x: "exec (sealMsgRow (sPg sampleSealer) 1 0 preparedHash [123] (sealedHeader\<lparr>messageHash := Some preparedHash\<rparr>)) (wDb drafting)
      = (Ok (), sealedDb)"
    by (simp add: exec_def stmt_def seal_sample [unfolded sampleSealer_fields] s)
  have u: "query (unsealed 1) sealedDb = (Ok [3], sealedDb)"
    by (simp add: query_def stmt_def sealedDb_fields unsealed_def)
  define v where "v = drafting\<lparr>wDb := \<lparr>tabs = draftTabs, seq = 5, dbfaults = []\<rparr>, wDisk := preparedDisk, newFiles := [''/d/.fmsg-wire-0'']\<rparr>"
  have v: "wDb v = wDb drafting" "wDisk v = preparedDisk" by (simp_all add: v_def)
  have "sealDraft sampleSealer 1 0 (sealedHeader\<lparr>messageHash := Some preparedHash\<rparr>) v = (Ok preparedHash, v\<lparr>wDb := bothSealed\<rparr>)"
    using j x u b v
    by (simp add: sealDraft_def getS_def bindIO_def liftIO_def GetMessageHash_def retIO_def onDb_def)
  moreover have "Finalize sampleSealer 1 0 drafting = sealDraft sampleSealer 1 0 (sealedHeader\<lparr>messageHash := Some preparedHash\<rparr>) v"
  proof -
    have d: "draftHeader\<lparr>Timestamp := 0\<rparr> = draftHeader" "Pid draftHeader = []" by (simp_all add: draftHeader_def emptyHeader_def)
    show ?thesis
      using load_sample Prepare_sample d
      by (simp add: Finalize_def onDb_def bindIO_def parentHashOf_def retIO_def onDisk_def modS_def v_def)
  qed
  ultimately show ?thesis by (simp add: v_def afterFinalize_def)
qed

section \<open>Witnesses\<close>

lemma wf_drafting: "wfTables (tabs (wDb drafting)) (seq (wDb drafting))"
  using wf_draft by simp

theorem sealed_never_changes_witness:
  "wfTables (tabs sealedDb) (seq sealedDb) \<and> snd (FinalizeBatch sampleSealer (ents preparedDisk) 1 3 sealedDb) = bothSealed
   \<and> sealedKept (tabs sealedDb) (tabs bothSealed)"
proof -
  have "wfTables (tabs sealedDb) (seq sealedDb)" using wf_sealed by (simp add: sealedDb_fields)
  from this sealed_never_changes [OF this, of undefined "ents preparedDisk" undefined undefined undefined sampleSealer 1 3]
  show ?thesis by (simp add: FinalizeBatch_sample)
qed

theorem batch_hash_covers_payload_witness:
  "\<exists>h payload. FinalizeBatch sampleSealer (ents preparedDisk) 1 3 sealedDb = (Ok addedHash, bothSealed)
    \<and> preparedHash = sha256 sampleLib (Encode h @ payload) \<and> messageBytes sampleLib (ents preparedDisk) h = Ok (Encode h @ payload)"
  using batch_hash_covers_payload [OF FinalizeBatch_sample, of sealedDraft draftBatch] wf_sealed FinalizeBatch_sample
  by (simp add: sealedDb_fields sealedDraft_fields nullable_def) blast

theorem finalized_message_witness:
  "\<exists>m' h bytes. Finalize sampleSealer 1 0 drafting = (Ok preparedHash, afterFinalize)
    \<and> messageBytes sampleLib (ents preparedDisk) h = Ok bytes \<and> preparedHash = sha256 sampleLib bytes
    \<and> msgAt (tabs bothSealed) 1 = Some m' \<and> mSha m' = Some preparedHash \<and> mTime m' = Some 0"
  using finalized_message [OF Finalize_sample wf_drafting] Finalize_sample by (auto simp: sealedAs_def afterFinalize_def)

theorem finalized_commits_witness:
  "Finalize sampleSealer 1 0 drafting = (Ok preparedHash, afterFinalize) \<and> unsealed 1 draftTabs = [3]
   \<and> commitOK (tabs bothSealed) \<and> unsealed 1 (tabs bothSealed) = []"
proof -
  have "commitOK (tabs (wDb drafting))" "hashedFinal 1 (tabs (wDb drafting))"
    by (simp_all add: commitOK_def hashedFinal_def draftTabs_def draftRow_def draftBatch_def)
  moreover have "length (sha256 (sLib sampleSealer) x) = 32" for x by (simp add: sampleLib_def)
  moreover have "unsealed 1 draftTabs = [3]" by (simp add: unsealed_def draftTabs_def draftBatch_def)
  ultimately show ?thesis
    using finalized_commits [OF Finalize_sample wf_drafting] Finalize_sample by (simp add: afterFinalize_def)
qed

lemma readsBack_sample:
  assumes "preparesDraft sampleSealer 1 0 drafting draft h dir afterFinalize"
  shows "readsBack sampleSealer h"
proof -
  have d: "draftHeader\<lparr>Timestamp := 0\<rparr> = draftHeader" by (simp add: draftHeader_def emptyHeader_def)
  from assms have "draft = draftHeader" and p: "Prepare sampleLib numberedTemp draft draftDisk = (Ok (h, dir), wDisk afterFinalize)"
    using load_sample d by (auto simp: preparesDraft_def parentHashOf_def retIO_def)
  then have h: "h = sealedHeader\<lparr>messageHash := Some preparedHash\<rparr>" using Prepare_sample by simp
  have v: "validStrings h" "validStrings (Clone h)" unfolding h by code_simp+
  have "jsonForm (Clone h) = sealedHeader"
    unfolding jsonForm_valid [OF v(2)] by (simp add: h Clone_def sealedHeader_def draftHeader_def emptyHeader_def)
  then show ?thesis using v(1) by (simp add: readsBack_def jsonLaw_def)
qed

theorem finalized_deliverable_witness:
  "\<exists>g bytes. Finalize sampleSealer 1 0 drafting = (Ok preparedHash, afterFinalize)
    \<and> messageBytes sampleLib (ents preparedDisk) g = Ok bytes \<and> preparedHash = sha256 sampleLib bytes
    \<and> fst (loadMsgFields (storeEnv.truncate sampleSealer) (ents preparedDisk) 1 bothSealed)
        = Ok \<lparr>parentPid = [], storedHash = preparedHash, wireForm = Some g, isTerminal = False\<rparr>"
proof -
  have n: "length (sha256 (sLib sampleSealer) x) = 32" for x by (simp add: sampleLib_def)
  have f: "dbfaults (wDb afterFinalize) = []" by (simp add: afterFinalize_def bothSealed_def sealedDb_def)
  from finalized_deliverable [OF Finalize_sample wf_drafting f n] readsBack_sample
  obtain m m' draft g bytes where d: "draftOf 1 0 (tabs (wDb drafting)) m draft" and a: "msgAt (tabs (wDb afterFinalize)) 1 = Some m'"
    and g: "messageBytes (sLib sampleSealer) (ents (wDisk afterFinalize)) g = Ok bytes" "preparedHash = sha256 (sLib sampleSealer) bytes"
    and l: "loadMsgFields (storeEnv.truncate sampleSealer) (ents (wDisk afterFinalize)) 1 (wDb afterFinalize)
      = (Ok \<lparr>parentPid = nullable (mPsha m'), storedHash = preparedHash, wireForm = Some g, isTerminal = mTerminal m\<rparr>, wDb afterFinalize)"
    by blast
  have s: "wDb afterFinalize = bothSealed" "wDisk afterFinalize = preparedDisk" by (simp_all add: afterFinalize_def)
  have "m' = sealedDraft" using a by (simp add: s bothSealed_def msgAt_def sealedTabs_def sealedDraft_fields)
  moreover have "mTerminal m = False" using d by (simp add: draftOf_def msgAt_def draftTabs_def draftRow_def) (auto simp: draftRow_def)
  ultimately show ?thesis using g l Finalize_sample by (auto simp: s nullable_def sealedDraft_fields)
qed

end
