(* ===== verification/Schedule.thy ===== *)
theory Schedule
  imports Run "HOL-Library.Multiset"
begin

text \<open>
  The loop that delivers (\<open>src/cmd/fmsgd/sender.go\<close>, \<open>processPendingMessages\<close> and \<open>startSender\<close>) as a
  step relation: polls on a timer or on a notification of the database, one goroutine for each target
  found, at most as many at a time as the semaphore has slots. What deliveries and other processes do
  to the world meanwhile is left open: it may change in any way between two steps. The process panics at
  its start if \<open>MaxConcurrentSend\<close> is negative or \<open>PollInterval\<close> is not positive; that is outside the relation.
\<close>

section \<open>Steps\<close>

text \<open>
  \<open>Idle\<close> waits in the \<open>select\<close>, \<open>Batching\<close> sleeps after a notification, \<open>Polling\<close> is about to call
  \<open>findPendingTargets\<close>, \<open>Dispatching\<close> has these targets left to start.
\<close>

datatype phase = Idle | Batching | Polling | Dispatching "pendingTarget list"

record scheduler =
  phase :: phase
  notified :: bool
  running :: "pendingTarget list"
  shared :: sending

datatype event = Notify | Ticked | Woken | Slept | Poll "pendingTarget list res" | Start pendingTarget | Return
  | Finish pendingTarget | Change sending

text \<open>\<open>slots\<close> is \<open>MaxConcurrentSend\<close>, the capacity of the semaphore; \<open>notified\<close> the channel of one element.\<close>

inductive sched :: "nat \<Rightarrow> sender \<Rightarrow> scheduler \<Rightarrow> event \<Rightarrow> scheduler \<Rightarrow> bool" for slots S where
  notify: "sched slots S s Notify (s\<lparr>notified := True\<rparr>)"
| ticked: "phase s = Idle \<Longrightarrow> sched slots S s Ticked (s\<lparr>phase := Polling\<rparr>)"
| woken: "phase s = Idle \<Longrightarrow> notified s \<Longrightarrow> sched slots S s Woken (s\<lparr>phase := Batching, notified := False\<rparr>)"
| slept: "phase s = Batching \<Longrightarrow> sched slots S s Slept (s\<lparr>phase := Polling\<rparr>)"
| poll: "phase s = Polling \<Longrightarrow> findPendingTargets S (shared s) = (r, w) \<Longrightarrow>
    sched slots S s (Poll r) (s\<lparr>phase := (case r of Ok ts \<Rightarrow> Dispatching ts | _ \<Rightarrow> Idle), shared := w\<rparr>)"
| start: "phase s = Dispatching (t # ts) \<Longrightarrow> length (running s) < slots \<Longrightarrow>
    sched slots S s (Start t) (s\<lparr>phase := Dispatching ts, running := running s @ [t]\<rparr>)"
| return: "phase s = Dispatching [] \<Longrightarrow> sched slots S s Return (s\<lparr>phase := Idle\<rparr>)"
| finish: "t \<in> set (running s) \<Longrightarrow> sched slots S s (Finish t) (s\<lparr>running := remove1 t (running s)\<rparr>)"
| change: "sched slots S s (Change w) (s\<lparr>shared := w\<rparr>)"

inductive_cases sched_elims: "sched slots S s e s'"

fun execution :: "nat \<Rightarrow> sender \<Rightarrow> scheduler \<Rightarrow> event list \<Rightarrow> scheduler \<Rightarrow> bool" where
  "execution slots S s [] s' = (s = s')"
| "execution slots S s (e # es) s' = (\<exists>m. sched slots S s e m \<and> execution slots S m es s')"

text \<open>The sender polls once before it waits.\<close>

definition startSender :: "sending \<Rightarrow> scheduler" where
  "startSender w = \<lparr>phase = Polling, notified = False, running = [], shared = w\<rparr>"

lemma execution_append: "execution slots S s (es @ fs) s' \<longleftrightarrow> (\<exists>m. execution slots S s es m \<and> execution slots S m fs s')"
  by (induction es arbitrary: s) auto

lemma execution_invariant:
  assumes "\<And>s e s'. sched slots S s e s' \<Longrightarrow> I s \<Longrightarrow> I s'"
  shows "execution slots S s es s' \<Longrightarrow> I s \<Longrightarrow> I s'"
  by (induction es arbitrary: s) (use assms in auto)

section \<open>Dispatch\<close>

text \<open>What the polls of an execution found, what was started and what has ended; what is left to start.\<close>

definition foundBy :: "event \<Rightarrow> pendingTarget list" where
  "foundBy e = (case e of Poll r \<Rightarrow> (case r of Ok ts \<Rightarrow> ts | _ \<Rightarrow> []) | _ \<Rightarrow> [])"

definition startedBy :: "event \<Rightarrow> pendingTarget list" where
  "startedBy e = (case e of Start t \<Rightarrow> [t] | _ \<Rightarrow> [])"

definition finishedBy :: "event \<Rightarrow> pendingTarget list" where
  "finishedBy e = (case e of Finish t \<Rightarrow> [t] | _ \<Rightarrow> [])"

definition left :: "scheduler \<Rightarrow> pendingTarget list" where
  "left s = (case phase s of Dispatching ts \<Rightarrow> ts | _ \<Rightarrow> [])"

lemma sched_slots: "sched slots S s e s' \<Longrightarrow> length (running s) \<le> slots \<Longrightarrow> length (running s') \<le> slots"
  by (erule sched.cases) (auto simp: length_remove1)

lemma sched_left: "sched slots S s e s' \<Longrightarrow> left s @ foundBy e = startedBy e @ left s'"
  by (erule sched.cases) (auto simp: left_def foundBy_def startedBy_def split: res.splits)

lemma sched_running: "sched slots S s e s' \<Longrightarrow> mset (running s') + mset (finishedBy e) = mset (running s) + mset (startedBy e)"
  by (erule sched.cases) (auto simp: finishedBy_def startedBy_def)

lemma execution_left: "execution slots S s es s' \<Longrightarrow> left s @ concat (map foundBy es) = concat (map startedBy es) @ left s'"
proof (induction es arbitrary: s)
  case (Cons e es)
  then obtain m where m: "sched slots S s e m" "execution slots S m es s'" by auto
  have "left s @ concat (map foundBy (e # es)) = startedBy e @ left m @ concat (map foundBy es)"
    using arg_cong [OF sched_left [OF m(1)], of "\<lambda>x. x @ concat (map foundBy es)"] by simp
  then show ?case using Cons.IH [OF m(2)] by simp
qed simp

lemma execution_running: "execution slots S s es s' \<Longrightarrow>
    mset (running s') + mset (concat (map finishedBy es)) = mset (running s) + mset (concat (map startedBy es))"
proof (induction es arbitrary: s)
  case (Cons e es)
  then obtain m where m: "sched slots S s e m" "execution slots S m es s'" by auto
  have "mset (running s') + mset (concat (map finishedBy (e # es))) = mset (finishedBy e) + (mset (running m) + mset (concat (map startedBy es)))"
    using Cons.IH [OF m(2)] by simp
  then show ?case using sched_running [OF m(1)] by (simp add: ac_simps)
qed simp

section \<open>Notifications\<close>

text \<open>A notification that no poll has followed.\<close>

definition owed :: "scheduler \<Rightarrow> bool" where
  "owed s \<longleftrightarrow> notified s \<or> phase s \<in> {Batching, Polling}"

definition polls :: "event \<Rightarrow> bool" where
  "polls e \<longleftrightarrow> (\<exists>r. e = Poll r)"

text \<open>The steps the sender takes by itself: no timer, no notification, nothing another process does.\<close>

definition internal :: "event \<Rightarrow> bool" where
  "internal e \<longleftrightarrow> (case e of Notify \<Rightarrow> False | Ticked \<Rightarrow> False | Change w \<Rightarrow> False | _ \<Rightarrow> True)"

definition work :: "scheduler \<Rightarrow> nat" where
  "work s = length (running s) + (if notified s then 2 else 0)
     + (case phase s of Batching \<Rightarrow> 1 | Dispatching ts \<Rightarrow> 2 * length ts + 1 | _ \<Rightarrow> 0)"

lemma sched_owed: "sched slots S s e s' \<Longrightarrow> \<not> polls e \<Longrightarrow> owed s \<Longrightarrow> owed s'"
  by (erule sched.cases) (auto simp: owed_def polls_def)

lemma execution_owed: "execution slots S s es s' \<Longrightarrow> \<not> list_ex polls es \<Longrightarrow> owed s \<Longrightarrow> owed s'"
  by (induction es arbitrary: s) (auto dest: sched_owed)

lemma sched_work: "sched slots S s e s' \<Longrightarrow> internal e \<Longrightarrow> \<not> polls e \<Longrightarrow> work s' < work s"
  by (erule sched.cases) (auto simp: work_def internal_def polls_def length_remove1 dest: length_pos_if_in_set)

lemma execution_work: "execution slots S s es s' \<Longrightarrow> list_all (\<lambda>e. internal e \<and> \<not> polls e) es \<Longrightarrow> work s' + length es \<le> work s"
proof (induction es arbitrary: s)
  case (Cons e es)
  then obtain m where m: "sched slots S s e m" "execution slots S m es s'" "internal e" "\<not> polls e" by auto
  then show ?case using Cons.IH [OF m(2)] Cons.prems(2) sched_work [OF m(1,3,4)] by simp
qed simp

text \<open>Nothing but a free slot is waited for, and every delivery under way holds one.\<close>

lemma sched_enabled:
  assumes "owed s" "0 < slots"
  shows "\<exists>e s'. internal e \<and> sched slots S s e s'"
proof (cases "phase s")
  case Idle
  then have "sched slots S s Woken (s\<lparr>phase := Batching, notified := False\<rparr>)" using assms(1) by (simp add: owed_def woken)
  then show ?thesis by (intro exI [of _ Woken]) (auto simp: internal_def)
next
  case Batching
  from slept [OF this] show ?thesis by (intro exI [of _ Slept]) (auto simp: internal_def)
next
  case Polling
  obtain r w where "findPendingTargets S (shared s) = (r, w)" by fastforce
  from poll [OF Polling this] show ?thesis by (intro exI [of _ "Poll r"]) (auto simp: internal_def)
next
  case (Dispatching ts)
  show ?thesis
  proof (cases ts)
    case Nil
    from return [OF Dispatching [unfolded Nil]] show ?thesis by (intro exI [of _ Return]) (auto simp: internal_def)
  next
    case (Cons t rest)
    show ?thesis
    proof (cases "length (running s) < slots")
      case True
      from start [OF Dispatching [unfolded Cons] True] show ?thesis by (intro exI [of _ "Start t"]) (auto simp: internal_def)
    next
      case False
      then have "hd (running s) \<in> set (running s)" using assms(2) by (cases "running s") auto
      from finish [OF this] show ?thesis by (intro exI [of _ "Finish (hd (running s))"]) (auto simp: internal_def)
    qed
  qed
qed

section \<open>Theorems\<close>

text \<open>
  C17. Bounded dispatch. However the sender is notified and whatever happens meanwhile, at most
  \<open>MaxConcurrentSend\<close> deliveries run at a time, those that run are those started that have not ended,
  and every target a poll found is started exactly once, in the order found, before the next poll.
\<close>
theorem dispatch_bounded:
  assumes "execution slots S (startSender w) es s"
  shows "length (running s) \<le> slots
    \<and> mset (running s) + mset (concat (map finishedBy es)) = mset (concat (map startedBy es))
    \<and> concat (map foundBy es) = concat (map startedBy es) @ left s
    \<and> (\<forall>es1 r es2. es = es1 @ Poll r # es2 \<longrightarrow> concat (map foundBy es1) = concat (map startedBy es1))"
proof -
  have "concat (map foundBy es1) = concat (map startedBy es1)" if "es = es1 @ Poll r # es2" for es1 r es2
  proof -
    from assms that obtain m t where m: "execution slots S (startSender w) es1 m" "sched slots S m (Poll r) t"
      by (auto simp: execution_append)
    from m(2) have "left m = []" by (auto simp: left_def elim: sched_elims)
    then show ?thesis using execution_left [OF m(1)] by (simp add: startSender_def left_def)
  qed
  moreover
  have "length (running s) \<le> slots"
    using execution_invariant [of slots S "\<lambda>s. length (running s) \<le> slots", OF _ assms] sched_slots by (simp add: startSender_def)
  ultimately show ?thesis
    using execution_left [OF assms] execution_running [OF assms] by (simp add: startSender_def left_def)
qed

text \<open>
  C18. No notification is lost. After a notification of the database, as long as no poll has followed it,
  the sender can take a step by itself and can take no more than \<open>work\<close> of them: it polls.
\<close>
theorem notification_polled:
  assumes "execution slots S s (es @ [Notify]) m" "execution slots S m fs s'" "\<not> list_ex polls fs" "0 < slots"
  shows "(\<exists>e t. internal e \<and> sched slots S s' e t)
    \<and> (\<forall>gs t. execution slots S s' gs t \<and> list_all (\<lambda>e. internal e \<and> \<not> polls e) gs \<longrightarrow> length gs \<le> work s')"
proof -
  have "owed m" using assms(1) by (auto simp: execution_append owed_def elim: sched_elims)
  from execution_owed [OF assms(2,3) this] have "owed s'" .
  from sched_enabled [OF this assms(4)] execution_work show ?thesis by fastforce
qed

section \<open>Witnesses\<close>

abbreviation toBob :: pendingTarget where
  "toBob \<equiv> \<lparr>MsgID = 1, tDomain = ''b.org''\<rparr>"

lemma sample_targets: "addTargets (sampleSender' None) [] [(1, ''b.org'')] = [toBob]"
proof -
  have "\<not> EqualFold U ''b.org'' ''a.org''" for U
    by (subst EqualFold_ascii) (simp_all add: is_ascii_def ToLower_def toLowerRune_def char_of_def)
  then show ?thesis by (simp add: Let_def)
qed

lemma sample_execution:
  obtains m s where "execution 1 (sampleSender' None) (startSender sampleSending) [Poll (Ok [toBob]), Start toBob, Notify] m"
    "execution 1 (sampleSender' None) m [Return] s" "running s = [toBob]"
proof -
  let ?S = "sampleSender' None"
  obtain w where w: "findPendingTargets ?S sampleSending = (Ok [toBob], w)" using sample_found unfolding sample_targets by blast
  define a where "a = (startSender sampleSending)\<lparr>phase := Dispatching [toBob], shared := w\<rparr>"
  define b where "b = a\<lparr>phase := Dispatching [], running := running a @ [toBob]\<rparr>"
  have "sched 1 ?S (startSender sampleSending) (Poll (Ok [toBob])) a"
    using poll [of "startSender sampleSending" ?S "Ok [toBob]" w 1] w by (simp add: startSender_def a_def)
  moreover have "sched 1 ?S a (Start toBob) b"
    unfolding b_def by (rule start) (simp_all add: a_def startSender_def)
  moreover have "sched 1 ?S b Notify (b\<lparr>notified := True\<rparr>)" by (rule notify)
  moreover have "sched 1 ?S (b\<lparr>notified := True\<rparr>) Return (b\<lparr>notified := True, phase := Idle\<rparr>)"
    using return [of "b\<lparr>notified := True\<rparr>" 1 ?S] by (simp add: b_def)
  moreover have "running (b\<lparr>notified := True, phase := Idle\<rparr>) = [toBob]" by (simp add: b_def a_def startSender_def)
  ultimately show thesis using that by fastforce
qed

theorem dispatch_bounded_witness:
  "\<exists>s. execution 1 (sampleSender' None) (startSender sampleSending) [Poll (Ok [toBob]), Start toBob, Notify] s
    \<and> length (running s) \<le> 1 \<and> left s = []"
proof (rule sample_execution)
  fix m s assume m: "execution 1 (sampleSender' None) (startSender sampleSending) [Poll (Ok [toBob]), Start toBob, Notify] m"
  from dispatch_bounded [OF m] have "length (running m) \<le> 1 \<and> left m = []" by (simp add: foundBy_def startedBy_def)
  with m show ?thesis by blast
qed

theorem notification_polled_witness:
  "\<exists>m s. execution 1 (sampleSender' None) (startSender sampleSending) ([Poll (Ok [toBob]), Start toBob] @ [Notify]) m
    \<and> execution 1 (sampleSender' None) m [Return] s \<and> running s = [toBob] \<and> (\<exists>e t. internal e \<and> sched 1 (sampleSender' None) s e t)"
proof (rule sample_execution)
  fix m s assume m: "execution 1 (sampleSender' None) (startSender sampleSending) [Poll (Ok [toBob]), Start toBob, Notify] m"
    and s: "execution 1 (sampleSender' None) m [Return] s" and r: "running s = [toBob]"
  have m': "execution 1 (sampleSender' None) (startSender sampleSending) ([Poll (Ok [toBob]), Start toBob] @ [Notify]) m" using m by simp
  have "\<not> list_ex polls [Return]" by (simp add: polls_def)
  from notification_polled [OF m' s this] have "\<exists>e t. internal e \<and> sched 1 (sampleSender' None) s e t" by simp
  with m' s r show ?thesis by blast
qed

end
