(* ===== verification/Dns.thy ===== *)
theory Dns
  imports Acceptance Receive
begin

text \<open>
  Address resolution (\<open>src/cmd/fmsgd/dns.go\<close>): the addresses a domain authorises, whether a validating
  resolver vouches for them, and the check of the host's own address at start-up. The resolver
  configuration, the exchange with a DNS server (\<open>miekg/dns\<close>), \<open>net.LookupIP\<close>, the HTTP client and the
  environment are parameters, at the moment they are used.
\<close>

section \<open>White space\<close>

text \<open>\<open>unicode.IsSpace\<close> and \<open>strings.TrimSpace\<close>, on the bytes of the string.\<close>

definition IsSpace :: "rune \<Rightarrow> bool" where
  "IsSpace r \<longleftrightarrow> (9 \<le> r \<and> r \<le> 13) \<or> (8192 \<le> r \<and> r \<le> 8202) \<or> r \<in> set [32, 133, 160, 5760, 8232, 8233, 8239, 8287, 12288]"

function trimLeft :: "int list \<Rightarrow> int list" where
  "trimLeft [] = []"
| "trimLeft (b0 # bs) =
     (case decode_rune b0 bs of
        Some (r, k) \<Rightarrow> if IsSpace r then trimLeft (drop k bs) else b0 # bs
      | None \<Rightarrow> b0 # bs)"
  by pat_completeness auto
termination by (relation "measure length") auto

function trimRight :: "int list \<Rightarrow> int list" where
  "trimRight [] = []"
| "trimRight (b0 # bs) =
     (case decode_rune b0 bs of
        Some (r, k) \<Rightarrow> (let t = trimRight (drop k bs) in if t = [] \<and> IsSpace r then [] else b0 # take k bs @ t)
      | None \<Rightarrow> b0 # trimRight bs)"
  by pat_completeness auto
termination by (relation "measure length") auto

definition TrimSpace :: "string \<Rightarrow> string" where
  "TrimSpace s = map char_of (trimRight (trimLeft (char_codes s)))"

section \<open>Resolvers\<close>

record dnsReply =
  rcode :: int
  authenticatedData :: bool

record resolver =
  resolvConf :: "(string list \<times> string) lookup"
  fqdn :: "string \<Rightarrow> string"
  exchangeDNS :: "string \<Rightarrow> u16 \<Rightarrow> string \<Rightarrow> dnsReply option lookup"
  LookupIP :: "string \<Rightarrow> ip list lookup"
  httpGet :: "string \<Rightarrow> (bytes lookup \<times> int) lookup"
  getenv :: "string \<Rightarrow> string"

definition TypeA :: u16 where "TypeA = 1"
definition TypeAAAA :: u16 where "TypeAAAA = 28"

definition dnssecRequired :: "resolver \<Rightarrow> bool" where
  "dnssecRequired R \<longleftrightarrow> getenv R ''FMSG_REQUIRE_DNSSEC'' = ''true''"

definition JoinHostPort :: "string \<Rightarrow> string \<Rightarrow> string" where
  "JoinHostPort h port = (if CHR '':'' \<in> set h then ''['' @ h @ '']:'' @ port else h @ '':'' @ port)"

text \<open>The servers in turn, with the last error; a name error is an answer too.\<close>

fun askServers :: "resolver \<Rightarrow> string \<Rightarrow> u16 \<Rightarrow> string \<Rightarrow> err option \<Rightarrow> string list \<Rightarrow> bool lookup" where
  "askServers R question qtype port lastErr [] =
     Inl (case lastErr of None \<Rightarrow> Errorf ''no DNS resolvers configured'' | Some e \<Rightarrow> e)"
| "askServers R question qtype port lastErr (server # servers) =
     (case exchangeDNS R question qtype (JoinHostPort server port) of
        Inl e \<Rightarrow> askServers R question qtype port (Some e) servers
      | Inr None \<Rightarrow> askServers R question qtype port (Some (Errorf ''nil DNS response'')) servers
      | Inr (Some resp) \<Rightarrow>
          if rcode resp \<noteq> 0 \<and> rcode resp \<noteq> 3
          then askServers R question qtype port (Some (Errorf ''dns rcode'')) servers
          else Inr (authenticatedData resp))"

definition resolverAuthenticatedData :: "resolver \<Rightarrow> string \<Rightarrow> u16 \<Rightarrow> bool lookup" where
  "resolverAuthenticatedData R name qtype =
     (case resolvConf R of
        Inl e \<Rightarrow> Inl e
      | Inr (servers, port) \<Rightarrow> askServers R (fqdn R name) qtype port None servers)"

definition resolveAuthorisedIPs :: "resolver \<Rightarrow> string \<Rightarrow> ip list lookup" where
  "resolveAuthorisedIPs R domain =
     (let fmsgDomain = ''fmsg.'' @ domain
      in case LookupIP R fmsgDomain of
           Inl e \<Rightarrow> Inl (Errorf ''DNS lookup failed'')
         | Inr ips \<Rightarrow>
             if ips = [] then Inl (Errorf ''no A/AAAA records found'')
             else if dnssecRequired R then
               (let a = resolverAuthenticatedData R fmsgDomain TypeA;
                    aaaa = resolverAuthenticatedData R fmsgDomain TypeAAAA
                in if a \<noteq> Inr True \<and> aaaa \<noteq> Inr True
                   then Inl (Errorf (if isl a \<and> isl aaaa then ''dnssec validation failed''
                                     else ''resolver did not set AD bit''))
                   else Inr ips)
             else Inr ips)"

section \<open>The host's own address\<close>

definition ipServices :: "string list" where
  "ipServices = [''https://api.ipify.org'', ''https://checkip.amazonaws.com'', ''https://icanhazip.com'']"

fun askServices :: "golib \<Rightarrow> resolver \<Rightarrow> string list \<Rightarrow> ip lookup" where
  "askServices L R [] = Inl (Errorf ''all external IP services failed'')"
| "askServices L R (svc # svcs) =
     (case httpGet R svc of
        Inl e \<Rightarrow> askServices L R svcs
      | Inr (Inl e, status) \<Rightarrow> askServices L R svcs
      | Inr (Inr body, status) \<Rightarrow>
          if status \<noteq> 200 then askServices L R svcs
          else case ParseIP L (TrimSpace (string_of body)) of
                 None \<Rightarrow> askServices L R svcs
               | Some ip \<Rightarrow> Inr ip)"

definition getExternalIP :: "golib \<Rightarrow> resolver \<Rightarrow> ip lookup" where
  "getExternalIP L R = askServices L R ipServices"

text \<open>\<open>log.Panicf\<close> ends the process.\<close>

definition verifyDomainIP :: "golib \<Rightarrow> resolver \<Rightarrow> string \<Rightarrow> unit res" where
  "verifyDomainIP L R domain =
     (case getExternalIP L R of
        Inl e \<Rightarrow> Panic
      | Inr externalIP \<Rightarrow>
          (case resolveAuthorisedIPs R domain of
             Inl e \<Rightarrow> Panic
           | Inr authorisedIPs \<Rightarrow> if list_ex (ipEqual externalIP) authorisedIPs then Ok () else Panic))"

definition checkDomainIP :: "golib \<Rightarrow> resolver \<Rightarrow> string \<Rightarrow> unit res" where
  "checkDomainIP L R domain =
     (if getenv R ''FMSG_SKIP_DOMAIN_IP_CHECK'' = ''true'' then Ok () else verifyDomainIP L R domain)"

section \<open>Specifications\<close>

text \<open>The answer of a server; the first server that has one decides.\<close>

definition usable :: "resolver \<Rightarrow> string \<Rightarrow> u16 \<Rightarrow> string \<Rightarrow> dnsReply option" where
  "usable R question qtype addr =
     (case exchangeDNS R question qtype addr of
        Inr (Some resp) \<Rightarrow> if rcode resp \<in> {0, 3} then Some resp else None
      | _ \<Rightarrow> None)"

definition vouched :: "resolver \<Rightarrow> string \<Rightarrow> u16 \<Rightarrow> bool" where
  "vouched R name qtype \<longleftrightarrow>
     (\<exists>servers port resp others. resolvConf R = Inr (servers, port) \<and> authenticatedData resp
        \<and> List.map_filter (\<lambda>s. usable R (fqdn R name) qtype (JoinHostPort s port)) servers = resp # others)"

lemma askServers_usable:
  "askServers R q t port e ss = Inr ad \<longleftrightarrow>
     (\<exists>resp others. List.map_filter (\<lambda>s. usable R q t (JoinHostPort s port)) ss = resp # others \<and> authenticatedData resp = ad)"
  by (induction ss arbitrary: e) (auto simp: List.map_filter_simps usable_def split: sum.splits option.splits)

lemma resolver_vouched: "resolverAuthenticatedData R name t = Inr True \<longleftrightarrow> vouched R name t"
  by (auto simp: resolverAuthenticatedData_def vouched_def askServers_usable split: sum.splits)

lemma authorised_ips:
  "resolveAuthorisedIPs R domain = Inr ips \<longleftrightarrow>
     LookupIP R (''fmsg.'' @ domain) = Inr ips \<and> ips \<noteq> []
     \<and> (dnssecRequired R \<longrightarrow> vouched R (''fmsg.'' @ domain) TypeA \<or> vouched R (''fmsg.'' @ domain) TypeAAAA)"
  by (auto simp: resolveAuthorisedIPs_def Let_def resolver_vouched [symmetric] split: sum.splits)

text \<open>The address a service reports.\<close>

definition reported :: "golib \<Rightarrow> resolver \<Rightarrow> string \<Rightarrow> ip option" where
  "reported L R svc =
     (case httpGet R svc of
        Inr (Inr body, status) \<Rightarrow> if status = 200 then ParseIP L (TrimSpace (string_of body)) else None
      | _ \<Rightarrow> None)"

lemma askServices_reported: "askServices L R svcs = Inr ip \<longleftrightarrow> (\<exists>others. List.map_filter (reported L R) svcs = ip # others)"
  by (induction svcs) (auto simp: List.map_filter_simps reported_def split: sum.splits option.splits)

lemma checks_iff:
  "checkDomainIP L R domain =
     (if getenv R ''FMSG_SKIP_DOMAIN_IP_CHECK'' = ''true''
         \<or> (\<exists>ip others ips. List.map_filter (reported L R) ipServices = ip # others
              \<and> resolveAuthorisedIPs R domain = Inr ips \<and> (\<exists>a \<in> set ips. ipEqual ip a))
      then Ok () else Panic)"
proof -
  have "verifyDomainIP L R domain = (if \<exists>ip ips. getExternalIP L R = Inr ip \<and> resolveAuthorisedIPs R domain = Inr ips
      \<and> (\<exists>a \<in> set ips. ipEqual ip a) then Ok () else Panic)"
    by (auto simp: verifyDomainIP_def list_ex_iff split: sum.splits)
  then show ?thesis by (auto simp: checkDomainIP_def getExternalIP_def askServices_reported)
qed

section \<open>Theorems\<close>

text \<open>
  C970. The addresses a domain authorises are those that \<open>fmsg.\<close> in front of it resolves to, at least one;
  where DNSSEC is required, only if the first DNS server with an answer says that its answer for the
  A or the AAAA records is authenticated.
\<close>
theorem authorised_addresses:
  "resolveAuthorisedIPs R domain = Inr ips \<longleftrightarrow>
     LookupIP R (''fmsg.'' @ domain) = Inr ips \<and> ips \<noteq> []
     \<and> (if dnssecRequired R then vouched R (''fmsg.'' @ domain) TypeA \<or> vouched R (''fmsg.'' @ domain) TypeAAAA else True)"
  by (simp add: authorised_ips)

text \<open>
  A host starts exactly when the check is switched off or the address that the first service able
  to tell reports for it is one of those its own domain authorises; otherwise it panics.
\<close>
theorem host_starts_iff:
  "checkDomainIP L R domain =
     (if getenv R ''FMSG_SKIP_DOMAIN_IP_CHECK'' = ''true''
         \<or> (\<exists>ip others ips. List.map_filter (reported L R) ipServices = ip # others
              \<and> resolveAuthorisedIPs R domain = Inr ips \<and> (\<exists>a \<in> set ips. ipEqual ip a))
      then Ok () else Panic)"
  by (rule checks_iff)


section \<open>Witnesses\<close>

definition sampleResolver :: resolver where
  "sampleResolver = \<lparr>resolvConf = Inr ([''9.9.9.9'', ''::1''], ''53''), fqdn = (\<lambda>s. s @ ''.''),
     exchangeDNS = (\<lambda>q t addr. if addr = ''[::1]:53'' then Inr (Some \<lparr>rcode = 0, authenticatedData = (t = TypeA)\<rparr>) else Inl NetErr),
     LookupIP = (\<lambda>s. if s = ''fmsg.a.org'' then Inr [[10, 0, 0, 1]] else Inl NetErr),
     httpGet = (\<lambda>s. if s = ''https://icanhazip.com'' then Inr (Inr (bytes_of (''10.0.0.1'' @ [CHR 0x0A])), 200) else Inl NetErr),
     getenv = (\<lambda>s. if s = ''FMSG_REQUIRE_DNSSEC'' then ''true'' else [])\<rparr>"

lemma sample_vouched: "vouched sampleResolver ''fmsg.a.org'' TypeA"
proof -
  have "JoinHostPort ''9.9.9.9'' ''53'' = ''9.9.9.9:53''" "JoinHostPort ''::1'' ''53'' = ''[::1]:53''"
    by (simp_all add: JoinHostPort_def)
  then show ?thesis by (simp add: vouched_def sampleResolver_def usable_def List.map_filter_simps)
qed

lemma sample_resolves: "resolveAuthorisedIPs sampleResolver ''a.org'' = Inr [[10, 0, 0, 1]]"
  using sample_vouched by (simp add: authorised_ips sampleResolver_def)

theorem authorised_addresses_witness:
  "resolveAuthorisedIPs sampleResolver ''a.org'' = Inr [[10, 0, 0, 1]] \<and> dnssecRequired sampleResolver
   \<and> resolveAuthorisedIPs sampleResolver ''b.org'' \<noteq> Inr [[10, 0, 0, 1]]"
proof -
  have "dnssecRequired sampleResolver" by (simp add: dnssecRequired_def sampleResolver_def)
  then show ?thesis
    using authorised_addresses [of sampleResolver "''a.org''" "[[10, 0, 0, 1]]"] authorised_addresses [of sampleResolver "''b.org''" "[[10, 0, 0, 1]]"]
      sample_resolves by (simp add: sampleResolver_def)
qed

text \<open>The host of the domain \<open>a.org\<close> starts: the third service reports the one address.\<close>

theorem host_starts_iff_witness:
  "checkDomainIP sampleLib sampleResolver ''a.org'' = Ok () \<and> checkDomainIP sampleLib sampleResolver ''b.org'' = Panic"
proof -
  have t: "TrimSpace (''10.0.0.1'' @ [CHR 0x0A]) = ''10.0.0.1''" by code_simp
  have r: "List.map_filter (reported sampleLib sampleResolver) ipServices = [[10, 0, 0, 1]]"
    using t by (simp add: ipServices_def List.map_filter_simps reported_def sampleResolver_def) (simp add: sampleLib_def)
  have b: "resolveAuthorisedIPs sampleResolver ''b.org'' \<noteq> Inr ips" for ips
    by (simp add: authorised_ips sampleResolver_def)
  show ?thesis
    unfolding host_starts_iff r using sample_resolves b by (simp add: ipEqual_def) (simp add: sampleResolver_def)
qed

definition sampleResolving :: host where
  "sampleResolving = sampleHost\<lparr>lookupAuthorisedIPs := resolveAuthorisedIPs sampleResolver\<rparr>"

lemma sampleResolving_reads: "readHeader sampleResolving (sampleConn (Encode sampleHeader))
    = (Ok (Some sampleHeader), consume (length (Encode sampleHeader)) (sampleConn (Encode sampleHeader)))"
proof -
  have "wireOK sampleResolving sampleHeader = wireOK sampleHost sampleHeader"
    by (simp add: sampleResolving_def wireOK_def timeOK_def expandedOK_def attachmentsOK_def cong: if_cong)
  moreover have "determineSenderDomain sampleHeader = ''a.org''" by code_simp
  then have "authorisedPeer sampleResolving (Some ''10.0.0.1'') (determineSenderDomain sampleHeader)"
    using sample_resolves by (simp add: authorisedPeer_def sampleResolving_def sampleHost_def sampleLib_def ipEqual_def)
  then have "accepts sampleResolving (Some ''10.0.0.1'') sampleHeader sampleHeader"
    using sampleHeader_accepts by (simp add: accepts_def localParticipant_def sampleResolving_def sampleHeader_def emptyHeader_def hasFlag_def)
  ultimately show ?thesis unfolding readHeader_Some using sampleHeader_wireOK by (auto simp: sampleConn_def)
qed


end
