(* ===== verification/Startup.thy ===== *)
theory Startup
  imports Dns
begin

text \<open>
  Starting the host (\<open>src/cmd/fmsgd/host.go\<close>, \<open>main\<close> and the configuration it reads): the environment
  variables, the data directory, the domain and the id service, in the order of \<open>main\<close>. \<open>log.Panic\<close> is
  \<open>Panic\<close>, \<open>log.Fatal\<close> an error. Reading a variable as a number (\<open>go-env-default\<close>), \<open>net.LookupHost\<close>,
  \<open>url.Parse\<close>, the key pair, the probe of the database and the sockets are parameters.
\<close>

section \<open>Configuration\<close>

record environment = resolver +
  intDefault :: "string \<Rightarrow> int \<Rightarrow> int"
  floatDefault :: "string \<Rightarrow> f64 \<Rightarrow> f64"
  lookupEnv :: "string \<Rightarrow> string option"
  LookupHost :: "string \<Rightarrow> string list lookup"
  parseHostname :: "string \<Rightarrow> string lookup"
  probeDb :: "err option"
  loadKeyPair :: "string \<Rightarrow> string \<Rightarrow> err option"
  listenTLS :: "string \<Rightarrow> int \<Rightarrow> err option"

record config =
  cPort :: int
  cRemotePort :: int
  cPastTimeDelta :: f64
  cFutureTimeDelta :: f64
  cMinDownloadRate :: f64
  cMinUploadRate :: f64
  cReadBufferSize :: int
  cMaxMessageSize :: u32
  cMaxExpandedSize :: u32
  cSkipAuthorisedIPs :: bool
  cTLSInsecureSkipVerify :: bool
  cChallengeMode :: string

definition loadEnvConfig :: "environment \<Rightarrow> config res" where
  "loadEnvConfig E =
     (let maxMessage = (word_of_int (intDefault E ''FMSG_MAX_MSG_SIZE'' 10240) :: u32)
      in case parseChallengeMode (getenv E ''FMSG_CHALLENGE_MODE'') of
           Ok mode \<Rightarrow>
             Ok \<lparr>cPort = intDefault E ''FMSG_PORT'' 4930, cRemotePort = intDefault E ''FMSG_REMOTE_PORT'' 4930,
                 cPastTimeDelta = floatDefault E ''FMSG_MAX_PAST_TIME_DELTA'' (f64_int 604800),
                 cFutureTimeDelta = floatDefault E ''FMSG_MAX_FUTURE_TIME_DELTA'' (f64_int 300),
                 cMinDownloadRate = floatDefault E ''FMSG_MIN_DOWNLOAD_RATE'' (f64_int 5000),
                 cMinUploadRate = floatDefault E ''FMSG_MIN_UPLOAD_RATE'' (f64_int 5000),
                 cReadBufferSize = intDefault E ''FMSG_READ_BUFFER_SIZE'' 1600,
                 cMaxMessageSize = maxMessage,
                 cMaxExpandedSize = word_of_int (intDefault E ''FMSG_MAX_EXPANDED_SIZE'' (uint maxMessage)),
                 cSkipAuthorisedIPs = (getenv E ''FMSG_SKIP_AUTHORISED_IPS'' = ''true''),
                 cTLSInsecureSkipVerify = (getenv E ''FMSG_TLS_INSECURE_SKIP_VERIFY'' = ''true''),
                 cChallengeMode = mode\<rparr>
         | _ \<Rightarrow> Err (Errorf ''invalid FMSG_CHALLENGE_MODE''))"

definition setDataDir :: "environment \<Rightarrow> fsys \<Rightarrow> string res" where
  "setDataDir E fs =
     (case lookupEnv E ''FMSG_DATA_DIR'' of
        None \<Rightarrow> Panic
      | Some value \<Rightarrow> if fs value = None then Panic else Ok value)"

definition setDomain :: "golib \<Rightarrow> environment \<Rightarrow> string res" where
  "setDomain L E =
     (case lookupEnv E ''FMSG_DOMAIN'' of
        None \<Rightarrow> Panic
      | Some domain \<Rightarrow>
          (case LookupHost E (''fmsg.'' @ domain) of
             Inl e \<Rightarrow> Panic
           | Inr hosts \<Rightarrow> bindR (checkDomainIP L (resolver.truncate E) domain) (\<lambda>_. Ok domain)))"

definition setIDURL :: "environment \<Rightarrow> string res" where
  "setIDURL E =
     (case lookupEnv E ''FMSG_ID_URL'' of
        None \<Rightarrow> Panic
      | Some rawUrl \<Rightarrow>
          (case parseHostname E rawUrl of
             Inl e \<Rightarrow> Panic
           | Inr hostname \<Rightarrow> (case LookupHost E hostname of Inl e \<Rightarrow> Panic | Inr hosts \<Rightarrow> Ok rawUrl)))"

definition buildServerTLSConfig :: "environment \<Rightarrow> unit res" where
  "buildServerTLSConfig E =
     (let certFile = getenv E ''FMSG_TLS_CERT''; keyFile = getenv E ''FMSG_TLS_KEY''
      in if certFile = [] \<or> keyFile = [] then Err (Errorf ''FMSG_TLS_CERT and FMSG_TLS_KEY must be set'')
         else case loadKeyPair E certFile keyFile of Some e \<Rightarrow> Err e | None \<Rightarrow> Ok ())"

section \<open>Starting\<close>

record started =
  stConfig :: config
  stDataDir :: string
  stDomain :: string
  stIDURI :: string
  stListen :: string

text \<open>The last argument is the address to listen on; the result is the host about to accept connections.\<close>

definition startHost :: "golib \<Rightarrow> environment \<Rightarrow> fsys \<Rightarrow> string list \<Rightarrow> started res" where
  "startHost L E fs args =
     bindR (loadEnvConfig E) (\<lambda>c.
     let addr = fold (\<lambda>a _. a) args ''127.0.0.1''
     in case probeDb E of
          Some e \<Rightarrow> Err e
        | None \<Rightarrow>
            bindR (setDataDir E fs) (\<lambda>dir.
            bindR (setDomain L E) (\<lambda>domain.
            bindR (setIDURL E) (\<lambda>url.
            bindR (buildServerTLSConfig E) (\<lambda>_.
              case listenTLS E addr (cPort c) of
                Some e \<Rightarrow> Err e
              | None \<Rightarrow> Ok \<lparr>stConfig = c, stDataDir = dir, stDomain = domain, stIDURI = url, stListen = addr\<rparr>)))))"

section \<open>Theorems\<close>

lemma parseChallengeMode_Ok: "parseChallengeMode s = Ok m \<Longrightarrow> m \<in> {''HAS_NOT_PARTICIPATED'', ''ALWAYS'', ''NEVER''}"
  by (auto simp: parseChallengeMode_def Let_def split: if_splits)

lemma startHost_Ok:
  assumes "startHost L E fs args = Ok st"
  obtains "loadEnvConfig E = Ok (stConfig st)" "setDataDir E fs = Ok (stDataDir st)" "setDomain L E = Ok (stDomain st)"
    "setIDURL E = Ok (stIDURI st)" "buildServerTLSConfig E = Ok ()" "stListen st = (if args = [] then ''127.0.0.1'' else last args)"
proof -
  have "fold (\<lambda>a _. a) xs z = (if xs = [] then z else last xs)" for xs :: "string list" and z
    by (induction xs arbitrary: z) auto
  with assms that show thesis by (auto simp: startHost_def Let_def split: option.splits if_splits)
qed


section \<open>Witnesses\<close>

definition sampleEnvironment :: environment where
  "sampleEnvironment = resolver.extend (sampleResolver\<lparr>getenv := (\<lambda>v. if v \<in> {''FMSG_TLS_CERT'', ''FMSG_TLS_KEY''} then ''/tls'' else [])\<rparr>)
     \<lparr>intDefault = (\<lambda>v d. if v = ''FMSG_MAX_MSG_SIZE'' then 2 ^ 32 + 7 else d), floatDefault = (\<lambda>v d. d),
      lookupEnv = [''FMSG_DATA_DIR'' \<mapsto> ''/data'', ''FMSG_DOMAIN'' \<mapsto> ''a.org'', ''FMSG_ID_URL'' \<mapsto> ''http://id.a.org''],
      LookupHost = (\<lambda>h. if h \<in> {''fmsg.a.org'', ''id.a.org''} then Inr [''10.0.0.1''] else Inl NetErr),
      parseHostname = (\<lambda>u. Inr ''id.a.org''), probeDb = None, loadKeyPair = (\<lambda>c k. None), listenTLS = (\<lambda>a p. None)\<rparr>"

lemma sampleEnvironment_fields:
  "resolver.truncate sampleEnvironment = sampleResolver\<lparr>getenv := (\<lambda>v. if v \<in> {''FMSG_TLS_CERT'', ''FMSG_TLS_KEY''} then ''/tls'' else [])\<rparr>"
  "getenv sampleEnvironment = (\<lambda>v. if v \<in> {''FMSG_TLS_CERT'', ''FMSG_TLS_KEY''} then ''/tls'' else [])"
  "lookupEnv sampleEnvironment = [''FMSG_DATA_DIR'' \<mapsto> ''/data'', ''FMSG_DOMAIN'' \<mapsto> ''a.org'', ''FMSG_ID_URL'' \<mapsto> ''http://id.a.org'']"
  "intDefault sampleEnvironment v d = (if v = ''FMSG_MAX_MSG_SIZE'' then 2 ^ 32 + 7 else d)"
  "LookupHost sampleEnvironment h = (if h \<in> {''fmsg.a.org'', ''id.a.org''} then Inr [''10.0.0.1''] else Inl NetErr)"
  "parseHostname sampleEnvironment u = Inr ''id.a.org''" "probeDb sampleEnvironment = None" "loadKeyPair sampleEnvironment c k = None"
  "listenTLS sampleEnvironment a p = None"
  by (simp_all add: sampleEnvironment_def resolver.defs)

lemma sample_checks: "checkDomainIP sampleLib (resolver.truncate sampleEnvironment) ''a.org'' = Ok ()"
proof -
  let ?R = "sampleResolver\<lparr>getenv := (\<lambda>v. if v \<in> {''FMSG_TLS_CERT'', ''FMSG_TLS_KEY''} then ''/tls'' else [])\<rparr>"
  have t: "TrimSpace (''10.0.0.1'' @ [CHR 0x0A]) = ''10.0.0.1''" by code_simp
  have r: "List.map_filter (reported sampleLib ?R) ipServices = [[10, 0, 0, 1]]"
    using t by (simp add: ipServices_def List.map_filter_simps reported_def sampleResolver_def) (simp add: sampleLib_def)
  have "resolveAuthorisedIPs ?R ''a.org'' = Inr [[10, 0, 0, 1]]"
    by (simp add: authorised_ips dnssecRequired_def) (simp add: sampleResolver_def)
  then show ?thesis
    unfolding checks_iff sampleEnvironment_fields r by (simp add: ipEqual_def)
qed


end
