(* ===== verification/Spec2Isabelle.thy ===== *)
theory Spec2Isabelle
  imports Outgoing IndicatorStore FinalizeRun Schedule Startup
begin

text \<open>
  A verification of fmsgd, a host of the fmsg messaging protocol (\<open>src/\<close>, \<open>src/SPEC.md\<close>).

  The program. A host serves one domain. It accepts connections (\<open>cmd/fmsgd/host.go\<close>): it reads the
  header of a message, checks it and the address of the peer, may challenge the sender's host over a
  second connection, answers with a response code, receives the data, decides for each local
  recipient (\<open>id.go\<close>), stores the message in a PostgreSQL database and on disk (\<open>store.go\<close>, \<open>dd.sql\<close>)
  and sends one code per recipient. Messages written by its own users are drafts in the same database,
  which \<open>pkg/message/store.go\<close> seals. The sender (\<open>sender.go\<close>) polls for recipients that are due,
  delivers each message to each domain, and keeps the messages under way in a map (\<open>outgoing.go\<close>),
  from which challenges are answered. Indicators (\<open>indicators.go\<close>) are small UDP datagrams about
  stored messages. \<open>pkg/fmsg\<close> has the types, the wire format and the payload representation,
  \<open>internal/emoji\<close> the emoji an indicator may carry, \<open>dns.go\<close> the addresses a domain authorises.

  Conventions. A Go string is a list of characters, one per byte, a byte slice a list of 8-bit words;
  fixed-width integers are words and wrap; a \<open>float64\<close> in a message is its 64 bits, which
  \<open>f64_of_bits\<close> reads as an exact dyadic number, an infinity or a NaN. A function that may fail returns a
  \<open>res\<close>: \<open>Ok\<close>, \<open>Err\<close>, \<open>Panic\<close>, or \<open>Diverge\<close> for one that does not return. Effects are state passing,
  \<open>('s, 'a) st = 's \<Rightarrow> 'a res \<times> 's\<close>, on a connection, a disk, a database, or a world of all of these; each
  has a list of faults, the outcomes of its next operations, so every statement, file operation and write
  may fail, and a theorem without a hypothesis on them holds for every pattern of failures.

  Parameters. What is not in the repository is an argument: in \<open>golib\<close> the Unicode tables, SHA-256,
  deflate and \<open>net.ParseIP\<close>; in \<open>json\<close> the JSON codec; in \<open>pgEnv\<close> what PostgreSQL makes of a JSON document;
  the clock, DNS, TLS dialling, the HTTP client, the names of temporary files. Theorems that need a
  law of one of them (a digest has 32 bytes; a document that was encoded decodes to what it was; what the
  database keeps of it decodes to the same) state it as a hypothesis, and a witness meets it.
\<close>

text \<open>
  Language and library. \<open>Prelude\<close>: bytes, little-endian integers, UTF-8, letter case, doubles.
  \<open>Conn\<close>: results, steps, connections. \<open>Paths\<close>: \<open>path/filepath\<close> and the choice of an unused file
  name. \<open>Disk\<close>: the operations of package \<open>os\<close> on a finite map of entries.

  Wire format, \<open>pkg/fmsg\<close>. \<open>Wire\<close>: \<open>Header\<close>, \<open>Encode\<close>, the header and message hashes. \<open>Codec\<close>: which headers
  a host can read; encoding is prefix-free and is inverted by the readers. \<open>Deflate\<close>: the choice to compress.
  \<open>Prepare\<close>: \<open>Prepare\<close>, \<open>Preserve\<close> and the snapshot; the payload and the hash survive them.

  Receiving, \<open>host.go\<close>. \<open>Addresses\<close>: the validators. \<open>Exchange\<close>: every reader and check of \<open>readHeader\<close>, over a
  record \<open>host\<close> of its variables and lookups. \<open>Acceptance\<close>: \<open>accepts\<close>, when the checks pass, stated without
  the connection, and that \<open>readHeader\<close> accepts exactly that. \<open>Responses\<close>: what may be written meanwhile (locale
  \<open>response_discipline\<close>). \<open>Recipients\<close>: the decision for one recipient, with \<open>id.go\<close>. \<open>Delivery\<close>: download,
  verification, placing of files, codes, storing. \<open>DeliveryProps\<close>: codes sent are outcomes stored (locale
  \<open>step_relation\<close>: a relation between the states before and after that composes along a program).
  \<open>TempFiles\<close>: temporary files are removed. \<open>Receive\<close>, \<open>ReceiveProps\<close>: a whole connection, the challenge
  included. \<open>Startup\<close>: \<open>main\<close> up to the accept loop. \<open>Dns\<close>: \<open>dns.go\<close>, with \<open>vouched\<close> as its specification.

  Store, \<open>store.go\<close> and the tables, constraints and triggers of \<open>dd.sql\<close>. \<open>Store\<close>: a table is a list of rows
  in the order of their keys, a statement a function on the tables that the schema may refuse, a transaction
  all or nothing. \<open>StoreInv\<close>: \<open>wfTables\<close>, kept by every operation (locale \<open>table_invariant\<close>). \<open>StoreMsg\<close>: what
  a stored message is, row by row.

  Sealing, \<open>pkg/message/store.go\<close>. \<open>Finalize\<close>: \<open>load\<close>, \<open>Finalize\<close>, \<open>FinalizeBatch\<close>. \<open>Sealed\<close>: nothing sealed ever
  changes, whichever operation runs and whatever fails. \<open>FinalizeProps\<close>: the hash is that of the bytes on
  disk, the result can be committed, the sender finds it. \<open>FinalizeRun\<close>: a draft with a batch, evaluated.

  Sending, \<open>sender.go\<close> and \<open>outgoing.go\<close>. \<open>Outgoing\<close>: the map of messages in flight against its history of
  operations (locale \<open>challenge_registry\<close>). \<open>Sender\<close>: \<open>findPendingTargets\<close>, \<open>deliverMessage\<close>, \<open>deliverUnit\<close>, the rows
  recorded. \<open>SenderProps\<close>, \<open>SenderRetry\<close>, \<open>Due\<close>: what a delivery records and leaves alone (locale \<open>row_change\<close>),
  the retry, the back-off. \<open>Schedule\<close>: the polling loop and the semaphore as a step relation. \<open>EndToEnd\<close>: two
  hosts together. \<open>Run\<close>: whole runs, evaluated.

  Indicators, \<open>indicators.go\<close>, and \<open>internal/emoji\<close>. \<open>Emoji\<close>, \<open>EmojiTables\<close>: the table and the grammar. \<open>Indicator\<close>:
  datagrams, participants, targets. \<open>Limiters\<close>: token buckets, the sliding window, the address cache.
  \<open>IndicatorService\<close>: verifying, publishing, coalescing, sending. \<open>IndicatorStore\<close>: the subjects in the database,
  the loop on the socket.

  \<open>Samples\<close> has the concrete host, headers and library on which theorems with hypotheses are applied.
\<close>

text \<open>
  Bounds and termination. \<open>isMessageRetrievable\<close> follows parents without a bound and the search for an
  unused file name counts without one: both are \<open>partial_function\<close>s, and \<open>None\<close>, a loop that does not end,
  becomes \<open>Diverge\<close> in the operations that use them; the second is shown to end on a finite disk. The walk of a thread has the 256 rows of \<open>maxThreadWalkDepth\<close> as its fuel, as the statement has.
  Every other loop is structural on what it runs over, or has a measure: the bytes left.

  Not modelled. Log lines. The text of errors, and \<open>Header.String\<close>. Deadlines on sockets, but for their
  expiry as an error that ends what a connection delivers. The parameters of TLS, but for the common name dialled.
  The accept loop and the loops that wait for a timer or for a database notification, beyond what
  \<open>Schedule\<close> and \<open>serveOne\<close> have of them. Triggers that only notify. \<open>testDb\<close>, a probe. Rows
  of other programs: another process may change the tables between two transactions, and no theorem
  here speaks of what it writes. Two transactions on one row at the same time are serialised by
  the row locks the code takes; \<open>heldRows\<close> are the rows another transaction holds, which \<open>SKIP LOCKED\<close>
  passes over. The database's \<open>lower\<close> is taken to be Go's \<open>ToLower\<close>, \<open>strings.ToUpper\<close> is that of ASCII text. The
  generator of the emoji tables, which runs when the repository is built, is not modelled; the tables it wrote are.

  Findings. The models show that the total of declared sizes wraps at \<open>2 ^ 32\<close>, that a time that is
  not a number passes every check, that a challenge cut short leaves its connection open, that a second
  delivery of the same message to the same address can lose its registration, that the threshold for
  compression wraps at \<open>2 ^ 29\<close> bytes, and that a delivery recorded for one batch ends the address's
  other batches; each has its theorem.
\<close>

end
